(* ===== verification/Prelude.thy ===== *)
theory Prelude
  imports Main "HOL-Library.AList" "HOL-Library.Sublist"
begin

text \<open>
  Shared vocabulary of the development. The server is written in Python, so this theory fixes how
  the Python constructs the components share are read in HOL:
  \<^item> an exception is a value: a computation that can raise has a result of type \<open>exn + 'a\<close>, with
    \<open>Inl\<close> for the exception and the sequencing of statements written with \<open>bindR\<close>;
  \<^item> a statement that also mutates an object or calls the outside world is a function
    \<open>'s \<Rightarrow> (exn + 'a) \<times> 's\<close> (\<open>io\<close>), sequenced with \<open>bindS\<close>; an exception keeps the
    state reached so far, as in Python, and \<open>catchS\<close>/\<open>finallyS\<close> are \<open>except\<close> and \<open>finally\<close>;
  \<^item> a \<open>dict\<close> is an association list in insertion order with distinct keys: \<open>d[k] = v\<close> is
    \<open>AList.update\<close> (in place, or at the end for a new key), \<open>d.pop(k, None)\<close> is \<open>AList.delete\<close>
    and \<open>d.update(e)\<close> is \<open>dict_update\<close>.
  Human-readable messages of exceptions and log lines are not modelled: an \<open>HTTPException\<close> is its
  status code and its machine-readable error code, an \<open>ApiException\<close> of the Kubernetes client its
  status. A \<open>DockerException\<close> carries its message, which \<open>delete_sandbox\<close> inspects; \<open>ImageNotFound\<close> and
  \<open>DockerNotFound\<close> are its subclasses. A \<open>SandboxException\<close> of the client library is its class, its error
  code, its status and the request identifier; \<open>HTTPStatusError\<close> (status, headers, body), \<open>UnexpectedStatus\<close>
  (status, body) and \<open>NetworkError\<close> are the exceptions of the HTTP client and of the generated calls.
\<close>

section \<open>Exceptions and results\<close>

datatype sandbox_exn =
    SandboxApiException
  | SandboxInternalException
  | SandboxUnhealthyException
  | SandboxReadyTimeoutException
  | InvalidArgumentException

datatype exn =
    HTTPException nat string
  | ApiException nat
  | AttributeError
  | KeyError
  | ValueError
  | TypeError
  | RuntimeError
  | NotImplementedError
  | OSError
  | DockerException string
  | ImageNotFound
  | DockerNotFound
  | SandboxException sandbox_exn string "int option" "string option"
  | HTTPStatusError int "(string \<times> string) list" string
  | UnexpectedStatus int string
  | NetworkError
  | OtherException string

type_synonym 'a res = "exn + 'a"

definition is_docker_exn :: "exn \<Rightarrow> bool" where
  "is_docker_exn e = (case e of DockerException _ \<Rightarrow> True | ImageNotFound \<Rightarrow> True | DockerNotFound \<Rightarrow> True | _ \<Rightarrow> False)"

definition is_http_exn :: "exn \<Rightarrow> bool" where
  "is_http_exn e = (case e of HTTPException _ _ \<Rightarrow> True | _ \<Rightarrow> False)"

lemma is_http_exn_simps [simp]: "is_http_exn (HTTPException c d)" "\<not> is_docker_exn (HTTPException c d)"
  by (simp_all add: is_http_exn_def is_docker_exn_def)

text \<open>Sequencing of results: the first exception ends the computation.\<close>

fun bindR :: "'e + 'a \<Rightarrow> ('a \<Rightarrow> 'e + 'b) \<Rightarrow> 'e + 'b" where
  "bindR (Inl e) f = Inl e"
| "bindR (Inr x) f = f x"

abbreviation ok :: "'e + unit" where
  "ok \<equiv> Inr ()"

text \<open>\<open>if cond: raise e\<close>\<close>

definition raise_if :: "bool \<Rightarrow> 'e \<Rightarrow> 'e + unit" where
  "raise_if b e = (if b then Inl e else ok)"

text \<open>\<open>for x in xs: body(x)\<close>, ended by the first exception.\<close>

fun for_each :: "('a \<Rightarrow> 'e + unit) \<Rightarrow> 'a list \<Rightarrow> 'e + unit" where
  "for_each f [] = ok"
| "for_each f (x # xs) = bindR (f x) (\<lambda>_. for_each f xs)"

text \<open>A list comprehension whose element expression can raise.\<close>

fun collect_each :: "('a \<Rightarrow> 'e + 'b) \<Rightarrow> 'a list \<Rightarrow> 'e + 'b list" where
  "collect_each f [] = Inr []"
| "collect_each f (x # xs) =
     bindR (f x) (\<lambda>y. bindR (collect_each f xs) (\<lambda>ys. Inr (y # ys)))"

section \<open>Statements with state\<close>

type_synonym ('s, 'a) io = "'s \<Rightarrow> (exn + 'a) \<times> 's"

definition retS :: "'a \<Rightarrow> ('s, 'a) io" where
  "retS x = (\<lambda>s. (Inr x, s))"

definition raiseS :: "exn \<Rightarrow> ('s, 'a) io" where
  "raiseS e = (\<lambda>s. (Inl e, s))"

definition liftR :: "'a res \<Rightarrow> ('s, 'a) io" where
  "liftR r = (\<lambda>s. (r, s))"

definition getS :: "('s \<Rightarrow> 'a) \<Rightarrow> ('s, 'a) io" where
  "getS f = (\<lambda>s. (Inr (f s), s))"

definition modifyS :: "('s \<Rightarrow> 's) \<Rightarrow> ('s, unit) io" where
  "modifyS f = (\<lambda>s. (Inr (), f s))"

definition bindS :: "('s, 'a) io \<Rightarrow> ('a \<Rightarrow> ('s, 'b) io) \<Rightarrow> ('s, 'b) io" where
  "bindS m k = (\<lambda>s. case m s of (Inl e, s') \<Rightarrow> (Inl e, s') | (Inr x, s') \<Rightarrow> k x s')"

text \<open>\<open>try: m; except E as e: h(e)\<close>, where \<open>h\<close> re-raises what it does not handle.\<close>

definition catchS :: "('s, 'a) io \<Rightarrow> (exn \<Rightarrow> ('s, 'a) io) \<Rightarrow> ('s, 'a) io" where
  "catchS m h = (\<lambda>s. case m s of (Inl e, s') \<Rightarrow> h e s' | (Inr x, s') \<Rightarrow> (Inr x, s'))"

text \<open>
  \<open>try: m; finally: f\<close>. The finaliser runs on both outcomes; an exception of its own replaces
  the outcome, otherwise the outcome of \<open>m\<close> stands.
\<close>

definition finallyS :: "('s, 'a) io \<Rightarrow> ('s, unit) io \<Rightarrow> ('s, 'a) io" where
  "finallyS m f = (\<lambda>s. case m s of (r, s') \<Rightarrow>
     (case f s' of (Inl e, s'') \<Rightarrow> (Inl e, s'') | (Inr _, s'') \<Rightarrow> (r, s'')))"

definition whenS :: "bool \<Rightarrow> ('s, unit) io \<Rightarrow> ('s, unit) io" where
  "whenS b m = (if b then m else retS ())"

fun for_eachS :: "('a \<Rightarrow> ('s, unit) io) \<Rightarrow> 'a list \<Rightarrow> ('s, unit) io" where
  "for_eachS f [] = retS ()"
| "for_eachS f (x # xs) = bindS (f x) (\<lambda>_. for_eachS f xs)"

section \<open>Collections of rules\<close>

text \<open>
  \<open>io_simps\<close> unfolds the statement combinators; \<open>res_simps\<close> decides the outcome of sequences of
  checks; \<open>keeps_intros\<close> are the rules of the frame calculus below.
\<close>

named_theorems io_simps
named_theorems res_simps
named_theorems keeps_intros

lemmas io_combinators [io_simps] =
  retS_def raiseS_def liftR_def getS_def modifyS_def bindS_def catchS_def finallyS_def whenS_def

section \<open>Results: what a successful sequence of checks means\<close>

lemma bindR_eq_Inr [res_simps]: "bindR r f = Inr y \<longleftrightarrow> (\<exists>x. r = Inr x \<and> f x = Inr y)"
  by (cases r) auto

lemma bindR_eq_Inl: "bindR r f = Inl e \<longleftrightarrow> r = Inl e \<or> (\<exists>x. r = Inr x \<and> f x = Inl e)"
  by (cases r) auto

lemma raise_if_Inr [res_simps]: "raise_if b e = Inr u \<longleftrightarrow> \<not> b"
  by (simp add: raise_if_def)

lemma raise_if_Inl: "raise_if b e = Inl e' \<longleftrightarrow> b \<and> e' = e"
  by (auto simp: raise_if_def)

lemma raise_if_simps [simp]:
  "raise_if False e = Inr ()" "raise_if True e = Inl e"
  by (simp_all add: raise_if_def)

lemma for_each_Inr [res_simps]: "for_each f xs = Inr u \<longleftrightarrow> (\<forall>x \<in> set xs. f x = Inr ())"
  by (induction xs) (auto simp: bindR_eq_Inr)

lemma for_each_Inl_first:
  "for_each f xs = Inl e \<Longrightarrow>
     \<exists>ys x zs. xs = ys @ x # zs \<and> (\<forall>y \<in> set ys. f y = Inr ()) \<and> f x = Inl e"
proof (induction xs)
  case Nil
  then show ?case by simp
next
  case (Cons x xs)
  show ?case
  proof (cases "f x")
    case (Inl e')
    with Cons.prems have "x # xs = [] @ x # xs \<and> (\<forall>y \<in> set []. f y = Inr ()) \<and> f x = Inl e"
      by simp
    then show ?thesis by blast
  next
    case (Inr u)
    with Cons obtain ys z zs where "xs = ys @ z # zs" "\<forall>y \<in> set ys. f y = Inr ()" "f z = Inl e"
      by auto
    with Inr have "x # xs = (x # ys) @ z # zs \<and> (\<forall>y \<in> set (x # ys). f y = Inr ()) \<and> f z = Inl e"
      by simp
    then show ?thesis by blast
  qed
qed

lemma collect_each_Inr_length: "collect_each f xs = Inr ys \<Longrightarrow> length ys = length xs"
  by (induction xs arbitrary: ys) (auto simp: bindR_eq_Inr)

lemma collect_each_Inr_nth:
  "collect_each f xs = Inr ys \<Longrightarrow> i < length xs \<Longrightarrow> f (xs ! i) = Inr (ys ! i)"
proof (induction xs arbitrary: ys i)
  case Nil
  then show ?case by simp
next
  case (Cons x xs)
  then show ?case by (cases i) (auto simp: bindR_eq_Inr)
qed

section \<open>Statements: laws and a frame calculus\<close>

lemma bindS_retS [simp]: "bindS (retS x) k = k x"
  by (simp add: io_simps)

lemma bindS_raiseS [simp]: "bindS (raiseS e) k = raiseS e"
  by (simp add: io_simps)

lemma bindS_InrE:
  assumes "bindS m k s = (Inr y, s')"
  obtains x s1 where "m s = (Inr x, s1)" "k x s1 = (Inr y, s')"
  using assms by (auto simp: bindS_def split: prod.splits sum.splits)

lemma bindS_assoc: "bindS (bindS m k) l = bindS m (\<lambda>x. bindS (k x) l)"
  by (auto simp: bindS_def fun_eq_iff split: prod.splits sum.splits)

lemma catchS_retS [simp]: "catchS (retS x) h = retS x"
  by (simp add: io_simps)

lemma catchS_raiseS [simp]: "catchS (raiseS e) h = h e"
  by (simp add: io_simps)

text \<open>
  \<open>keeps P m\<close>: a run of \<open>m\<close> from a state where \<open>P\<close> holds ends, returning or raising, in a state
  where \<open>P\<close> holds. The rules follow the combinators, so a frame or invariant proof of an operation
  is a walk over its body.
\<close>

definition keeps :: "('s \<Rightarrow> bool) \<Rightarrow> ('s, 'a) io \<Rightarrow> bool" where
  "keeps P m \<longleftrightarrow> (\<forall>s. P s \<longrightarrow> P (snd (m s)))"

lemma keepsD: "keeps P m \<Longrightarrow> P s \<Longrightarrow> P (snd (m s))"
  by (simp add: keeps_def)

lemma keeps_retS [keeps_intros]: "keeps P (retS x)"
  by (simp add: keeps_def retS_def)

lemma keeps_raiseS [keeps_intros]: "keeps P (raiseS e)"
  by (simp add: keeps_def raiseS_def)

lemma keeps_liftR [keeps_intros]: "keeps P (liftR r)"
  by (simp add: keeps_def liftR_def)

lemma keeps_getS [keeps_intros]: "keeps P (getS f)"
  by (simp add: keeps_def getS_def)

lemma keeps_modifyS: "(\<And>s. P s \<Longrightarrow> P (f s)) \<Longrightarrow> keeps P (modifyS f)"
  by (simp add: keeps_def modifyS_def)

lemma keeps_bindS [keeps_intros]:
  "keeps P m \<Longrightarrow> (\<And>x. keeps P (k x)) \<Longrightarrow> keeps P (bindS m k)"
  unfolding keeps_def bindS_def by (fastforce split: prod.splits sum.splits)

lemma keeps_catchS [keeps_intros]:
  "keeps P m \<Longrightarrow> (\<And>e. keeps P (h e)) \<Longrightarrow> keeps P (catchS m h)"
  unfolding keeps_def catchS_def by (fastforce split: prod.splits sum.splits)

lemma keeps_finallyS [keeps_intros]:
  "keeps P m \<Longrightarrow> keeps P f \<Longrightarrow> keeps P (finallyS m f)"
  unfolding keeps_def finallyS_def by (fastforce split: prod.splits sum.splits)

lemma keeps_whenS [keeps_intros]: "keeps P m \<Longrightarrow> keeps P (whenS b m)"
  by (simp add: whenS_def keeps_retS)

lemma keeps_for_eachS [keeps_intros]: "(\<And>x. keeps P (f x)) \<Longrightarrow> keeps P (for_eachS f xs)"
  by (induction xs) (auto intro: keeps_intros)

lemma keeps_if [keeps_intros]: "keeps P a \<Longrightarrow> keeps P b \<Longrightarrow> keeps P (if c then a else b)"
  by simp

lemma keeps_case_option [keeps_intros]:
  "keeps P a \<Longrightarrow> (\<And>x. keeps P (f x)) \<Longrightarrow> keeps P (case v of None \<Rightarrow> a | Some x \<Rightarrow> f x)"
  by (cases v) simp_all

section \<open>Dictionaries\<close>

type_synonym ('k, 'v) dict = "('k \<times> 'v) list"

definition dict_ok :: "('k, 'v) dict \<Rightarrow> bool" where
  "dict_ok d \<longleftrightarrow> distinct (map fst d)"

definition dict_update :: "('k, 'v) dict \<Rightarrow> ('k, 'v) dict \<Rightarrow> ('k, 'v) dict" where
  "dict_update d e = fold (\<lambda>(k, v). AList.update k v) e d"

lemma map_of_update [simp]: "map_of (AList.update k v d) = (map_of d)(k \<mapsto> v)"
  by (simp add: update_conv')

lemma map_of_delete [simp]: "map_of (AList.delete k d) = (map_of d)(k := None)"
  by (simp add: delete_conv')

lemma map_of_dict_update: "map_of (dict_update d e) = map_of d ++ map_of (rev e)"
  unfolding dict_update_def
proof (induction e arbitrary: d)
  case Nil
  then show ?case by simp
next
  case (Cons p e)
  obtain k v where p: "p = (k, v)" by (cases p)
  have "map_of (fold (\<lambda>(k, v). AList.update k v) (p # e) d) = (map_of d)(k \<mapsto> v) ++ map_of (rev e)"
    using Cons.IH [of "AList.update k v d"] by (simp add: p del: fun_upd_apply)
  also have "\<dots> = map_of d ++ map_of (rev (p # e))"
    by (auto simp: p map_add_def fun_eq_iff split: option.splits)
  finally show ?case .
qed

lemma dict_ok_update [simp]: "dict_ok d \<Longrightarrow> dict_ok (AList.update k v d)"
  by (simp add: dict_ok_def distinct_update)

lemma dict_ok_delete [simp]: "dict_ok d \<Longrightarrow> dict_ok (AList.delete k d)"
  by (simp add: dict_ok_def distinct_delete)

lemma dict_update_append:
  "distinct (map fst m) \<Longrightarrow> fst ` set m \<inter> fst ` set d = {} \<Longrightarrow> dict_update d m = d @ m"
  unfolding dict_update_def
proof (induction m arbitrary: d)
  case Nil
  then show ?case by simp
next
  case (Cons p m)
  obtain k v where p: "p = (k, v)" by (cases p)
  have u: "AList.update k v d = d @ [(k, v)]" using Cons.prems p
    by (induction d) auto
  have "fold (\<lambda>(k, v). AList.update k v) m (d @ [(k, v)]) = (d @ [(k, v)]) @ m"
    by (rule Cons.IH) (use Cons.prems p in auto)
  then show ?case by (simp add: p u)
qed

lemma dict_ok_dict_update: "dict_ok d \<Longrightarrow> dict_ok (dict_update d e)"
  unfolding dict_update_def by (induction e arbitrary: d) auto

lemma map_of_rev_dict_ok: "dict_ok e \<Longrightarrow> map_of (rev e) = map_of e"
  by (subst map_of_inject_set) (simp_all add: dict_ok_def rev_map [symmetric])

lemma map_of_dict_update_ok: "dict_ok e \<Longrightarrow> map_of (dict_update d e) = map_of d ++ map_of e"
  by (simp add: map_of_dict_update map_of_rev_dict_ok)

lemma count_list_distinct: "distinct xs \<Longrightarrow> count_list xs x = of_bool (x \<in> set xs)"
  by (induction xs) auto

lemma map_of_filter_key:
  "map_of (filter (\<lambda>(k, v). P k) d) k = (if P k then map_of d k else None)"
  by (induction d) auto

end
