(* ===== verification/Py_Regex.thy ===== *)
theory Py_Regex
  imports Py_String
begin

text \<open>
  The part of Python's \<open>re\<close> module the sources use: character classes, sequence, alternative,
  repetition, and the anchors \<open>^\<close> (implied by \<open>match\<close>) and \<open>$\<close>. A pattern is a value of type
  \<open>re\<close>; \<open>matches\<close> decides by derivatives whether a whole string is in its language, and
  \<open>matches_lang\<close> proves it against the set-theoretic reading \<open>lang\<close>. In Python \<open>$\<close> matches at the
  end of the string and also just before a newline that ends it; \<open>match_dollar\<close> is that reading.
\<close>

section \<open>Patterns and their matcher\<close>

datatype re =
    REmpty
  | REps
  | RCls "char \<Rightarrow> bool"
  | RSeq re re
  | RAlt re re
  | RStar re

fun nullable :: "re \<Rightarrow> bool" where
  "nullable REmpty = False"
| "nullable REps = True"
| "nullable (RCls p) = False"
| "nullable (RSeq r s) = (nullable r \<and> nullable s)"
| "nullable (RAlt r s) = (nullable r \<or> nullable s)"
| "nullable (RStar r) = True"

fun deriv :: "char \<Rightarrow> re \<Rightarrow> re" where
  "deriv c REmpty = REmpty"
| "deriv c REps = REmpty"
| "deriv c (RCls p) = (if p c then REps else REmpty)"
| "deriv c (RSeq r s) =
     (if nullable r then RAlt (RSeq (deriv c r) s) (deriv c s) else RSeq (deriv c r) s)"
| "deriv c (RAlt r s) = RAlt (deriv c r) (deriv c s)"
| "deriv c (RStar r) = RSeq (deriv c r) (RStar r)"

fun matches :: "re \<Rightarrow> string \<Rightarrow> bool" where
  "matches r [] = nullable r"
| "matches r (c # s) = matches (deriv c r) s"

definition match_dollar :: "re \<Rightarrow> string \<Rightarrow> bool" where
  "match_dollar r s \<longleftrightarrow> matches r s \<or> (s \<noteq> [] \<and> last s = newline \<and> matches r (butlast s))"

text \<open>A pattern without \<open>$\<close> matches a prefix of the string.\<close>

fun match_prefix :: "re \<Rightarrow> string \<Rightarrow> bool" where
  "match_prefix r [] = nullable r"
| "match_prefix r (c # s) = (nullable r \<or> match_prefix (deriv c r) s)"

definition ROpt :: "re \<Rightarrow> re" where
  "ROpt r = RAlt r REps"

definition RPlus :: "re \<Rightarrow> re" where
  "RPlus r = RSeq r (RStar r)"

definition RChar :: "char \<Rightarrow> re" where
  "RChar c = RCls (\<lambda>d. d = c)"

fun RLit :: "string \<Rightarrow> re" where
  "RLit [] = REps"
| "RLit (c # s) = RSeq (RChar c) (RLit s)"

fun RRep :: "nat \<Rightarrow> re \<Rightarrow> re" where
  "RRep 0 r = REps"
| "RRep (Suc n) r = RSeq r (RRep n r)"

text \<open>\<open>r{m,n}\<close>: \<open>m\<close> copies, then up to \<open>n - m\<close> more.\<close>

fun RUpTo :: "nat \<Rightarrow> re \<Rightarrow> re" where
  "RUpTo 0 r = REps"
| "RUpTo (Suc n) r = RAlt REps (RSeq r (RUpTo n r))"

definition RRange :: "nat \<Rightarrow> nat \<Rightarrow> re \<Rightarrow> re" where
  "RRange m n r = RSeq (RRep m r) (RUpTo (n - m) r)"

text \<open>\<open>a(b*a)?\<close>, the shape of every label and name pattern of the sources.\<close>

definition RLabel :: "(char \<Rightarrow> bool) \<Rightarrow> (char \<Rightarrow> bool) \<Rightarrow> re" where
  "RLabel a b = RSeq (RCls a) (ROpt (RSeq (RStar (RCls b)) (RCls a)))"

section \<open>The language of a pattern\<close>

inductive_set star_lang :: "string set \<Rightarrow> string set" for A where
  star_Nil: "[] \<in> star_lang A"
| star_append: "u \<in> A \<Longrightarrow> v \<in> star_lang A \<Longrightarrow> u @ v \<in> star_lang A"

fun lang :: "re \<Rightarrow> string set" where
  "lang REmpty = {}"
| "lang REps = {[]}"
| "lang (RCls p) = {[c] | c. p c}"
| "lang (RSeq r s) = {u @ v | u v. u \<in> lang r \<and> v \<in> lang s}"
| "lang (RAlt r s) = lang r \<union> lang s"
| "lang (RStar r) = star_lang (lang r)"

lemma nullable_lang: "nullable r \<longleftrightarrow> [] \<in> lang r"
  by (induction r) (auto intro: star_lang.intros)

lemma star_lang_ConsD:
  "w \<in> star_lang A \<Longrightarrow> w = c # s \<Longrightarrow> \<exists>u v. c # u \<in> A \<and> v \<in> star_lang A \<and> s = u @ v"
proof (induction arbitrary: s rule: star_lang.induct)
  case star_Nil
  then show ?case by simp
next
  case (star_append u v)
  show ?case
  proof (cases u)
    case Nil
    with star_append show ?thesis by simp
  next
    case (Cons d u')
    with star_append show ?thesis by auto
  qed
qed

lemma star_lang_Cons:
  "c # s \<in> star_lang A \<longleftrightarrow> (\<exists>u v. c # u \<in> A \<and> v \<in> star_lang A \<and> s = u @ v)"
proof
  assume "c # s \<in> star_lang A"
  then show "\<exists>u v. c # u \<in> A \<and> v \<in> star_lang A \<and> s = u @ v"
    by (rule star_lang_ConsD) (rule refl)
next
  assume "\<exists>u v. c # u \<in> A \<and> v \<in> star_lang A \<and> s = u @ v"
  then obtain u v where "c # u \<in> A" "v \<in> star_lang A" "s = u @ v" by blast
  then have "(c # u) @ v \<in> star_lang A" by (intro star_lang.star_append)
  with \<open>s = u @ v\<close> show "c # s \<in> star_lang A" by simp
qed

lemma deriv_lang: "s \<in> lang (deriv c r) \<longleftrightarrow> c # s \<in> lang r"
proof (induction r arbitrary: s)
  case (RSeq r1 r2)
  have split: "c # s \<in> lang (RSeq r1 r2) \<longleftrightarrow>
      (\<exists>u v. s = u @ v \<and> c # u \<in> lang r1 \<and> v \<in> lang r2) \<or> ([] \<in> lang r1 \<and> c # s \<in> lang r2)"
    by (auto simp: Cons_eq_append_conv)
  show ?case
    unfolding split using RSeq by (auto simp: nullable_lang)
next
  case (RStar r)
  then show ?case by (auto simp: star_lang_Cons)
qed auto

theorem matches_lang: "matches r s \<longleftrightarrow> s \<in> lang r"
  by (induction s arbitrary: r) (auto simp: nullable_lang deriv_lang)

lemma match_prefix_lang: "match_prefix r s \<longleftrightarrow> (\<exists>u v. s = u @ v \<and> u \<in> lang r)"
proof (induction s arbitrary: r)
  case Nil
  then show ?case by (simp add: nullable_lang)
next
  case (Cons c s)
  then show ?case
    by (auto simp: nullable_lang deriv_lang Cons_eq_append_conv)
qed

section \<open>Derived forms\<close>

lemma lang_ROpt [simp]: "lang (ROpt r) = lang r \<union> {[]}"
  by (simp add: ROpt_def)

lemma lang_RChar [simp]: "lang (RChar c) = {[c]}"
  by (simp add: RChar_def)

lemma lang_RLit [simp]: "lang (RLit s) = {s}"
  by (induction s) auto

lemma star_lang_cls: "s \<in> star_lang {[c] | c. p c} \<longleftrightarrow> list_all p s"
  by (induction s) (auto simp: star_lang_Cons intro: star_lang.intros)

lemma lang_RStar_cls [simp]: "lang (RStar (RCls p)) = {s. list_all p s}"
  by (auto simp: star_lang_cls)

lemma lang_RSeq_cls:
  "s \<in> lang (RSeq (RCls p) r) \<longleftrightarrow> (\<exists>c t. s = c # t \<and> p c \<and> t \<in> lang r)"
proof
  assume "s \<in> lang (RSeq (RCls p) r)"
  then show "\<exists>c t. s = c # t \<and> p c \<and> t \<in> lang r" by auto
next
  assume "\<exists>c t. s = c # t \<and> p c \<and> t \<in> lang r"
  then obtain c t where "s = [c] @ t" "p c" "t \<in> lang r" by auto
  then show "s \<in> lang (RSeq (RCls p) r)" unfolding lang.simps by blast
qed

lemma lang_RPlus_cls [simp]: "lang (RPlus (RCls p)) = {s. s \<noteq> [] \<and> list_all p s}"
proof -
  have "s \<in> lang (RPlus (RCls p)) \<longleftrightarrow> s \<noteq> [] \<and> list_all p s" for s
    unfolding RPlus_def lang_RSeq_cls by (cases s) (auto simp: star_lang_cls)
  then show ?thesis by blast
qed

lemma lang_RRep_cls: "s \<in> lang (RRep n (RCls p)) \<longleftrightarrow> length s = n \<and> list_all p s"
proof (induction n arbitrary: s)
  case 0
  then show ?case by auto
next
  case (Suc n)
  show ?case
    unfolding RRep.simps lang_RSeq_cls Suc.IH by (cases s) auto
qed

lemma lang_RUpTo_cls: "s \<in> lang (RUpTo n (RCls p)) \<longleftrightarrow> length s \<le> n \<and> list_all p s"
proof (induction n arbitrary: s)
  case 0
  then show ?case by auto
next
  case (Suc n)
  show ?case
    unfolding RUpTo.simps lang.simps(5) Un_iff lang_RSeq_cls Suc.IH by (cases s) auto
qed

lemma lang_RRange_cls:
  assumes "m \<le> n"
  shows "s \<in> lang (RRange m n (RCls p)) \<longleftrightarrow> m \<le> length s \<and> length s \<le> n \<and> list_all p s"
proof
  assume "s \<in> lang (RRange m n (RCls p))"
  then show "m \<le> length s \<and> length s \<le> n \<and> list_all p s"
    using assms by (auto simp: RRange_def lang_RRep_cls lang_RUpTo_cls)
next
  assume a: "m \<le> length s \<and> length s \<le> n \<and> list_all p s"
  have "s = take m s @ drop m s" by simp
  moreover have "take m s \<in> lang (RRep m (RCls p))"
    using a by (auto simp: lang_RRep_cls list_all_iff dest: in_set_takeD)
  moreover have "drop m s \<in> lang (RUpTo (n - m) (RCls p))"
    using a by (auto simp: lang_RUpTo_cls list_all_iff dest: in_set_dropD)
  ultimately show "s \<in> lang (RRange m n (RCls p))"
    unfolding RRange_def lang.simps by blast
qed

text \<open>
  The label shape: what \<open>a(b*a)?\<close> says of a string when the outer class is part of the inner one.
\<close>

definition label_like :: "(char \<Rightarrow> bool) \<Rightarrow> (char \<Rightarrow> bool) \<Rightarrow> string \<Rightarrow> bool" where
  "label_like a b s \<longleftrightarrow> s \<noteq> [] \<and> a (hd s) \<and> a (last s) \<and> list_all b s"

lemma lang_RLabel:
  assumes ab: "\<And>c. a c \<Longrightarrow> b c"
  shows "s \<in> lang (RLabel a b) \<longleftrightarrow> label_like a b s"
proof
  assume "s \<in> lang (RLabel a b)"
  then show "label_like a b s"
    unfolding RLabel_def label_like_def by (auto simp: star_lang_cls ab)
next
  assume l: "label_like a b s"
  then obtain c t where s: "s = c # t" by (cases s) (auto simp: label_like_def)
  show "s \<in> lang (RLabel a b)"
  proof (cases t rule: rev_cases)
    case Nil
    with l s show ?thesis by (auto simp: RLabel_def label_like_def)
  next
    case (snoc m d)
    with l s have "a c" "m \<in> lang (RStar (RCls b))" "[d] \<in> lang (RCls a)"
      by (auto simp: label_like_def star_lang_cls)
    moreover from this have "m @ [d] \<in> lang (RSeq (RStar (RCls b)) (RCls a))"
      unfolding lang.simps(4) by blast
    ultimately show ?thesis unfolding RLabel_def lang_RSeq_cls s snoc by simp
  qed
qed

lemma matches_RLabel:
  "(\<And>c. a c \<Longrightarrow> b c) \<Longrightarrow> matches (RLabel a b) s \<longleftrightarrow> label_like a b s"
  by (simp add: matches_lang lang_RLabel)

text \<open>What \<open>$\<close> accepts: a string of the language, or one with a single newline after it.\<close>

lemma match_dollar_iff:
  "match_dollar r s \<longleftrightarrow> matches r s \<or> (\<exists>t. s = t @ [newline] \<and> matches r t)"
  by (cases s rule: rev_cases) (auto simp: match_dollar_def)

lemma match_dollar_no_newline:
  "newline \<notin> set s \<Longrightarrow> match_dollar r s \<longleftrightarrow> matches r s"
  by (auto simp: match_dollar_iff)

end
