(* ===== verification/Json.thy ===== *)
theory Json
  imports Py_String
begin

text \<open>
  JSON-like values as the sources handle them: request payloads before validation, Kubernetes
  manifests and YAML templates. A JSON object is an insertion-ordered dictionary. Truthiness is
  Python's.
\<close>

datatype json =
    JNull
  | JBool bool
  | JInt int
  | JFloat string
  | JStr string
  | JList "json list"
  | JObj "(string \<times> json) list"

text \<open>\<open>bool(v)\<close>; a float is carried as its \<open>repr\<close>.\<close>

fun truthy :: "json \<Rightarrow> bool" where
  "truthy JNull = False"
| "truthy (JBool b) = b"
| "truthy (JInt n) = (n \<noteq> 0)"
| "truthy (JFloat r) = (r \<noteq> ''0.0'' \<and> r \<noteq> ''-0.0'')"
| "truthy (JStr s) = (s \<noteq> [])"
| "truthy (JList xs) = (xs \<noteq> [])"
| "truthy (JObj d) = (d \<noteq> [])"

text \<open>\<open>str(v)\<close>; \<open>render\<close> stands for \<open>repr\<close> of a container.\<close>

fun str_json :: "(json \<Rightarrow> string) \<Rightarrow> json \<Rightarrow> string" where
  "str_json render JNull = ''None''"
| "str_json render (JBool b) = (if b then ''True'' else ''False'')"
| "str_json render (JInt n) = str_int n"
| "str_json render (JFloat r) = r"
| "str_json render (JStr s) = s"
| "str_json render v = render v"

text \<open>\<open>d.get(k)\<close>: a missing key and a null value are both \<open>None\<close> in Python.\<close>

definition jget :: "(string, json) dict \<Rightarrow> string \<Rightarrow> json" where
  "jget d k = (case map_of d k of None \<Rightarrow> JNull | Some v \<Rightarrow> v)"

text \<open>\<open>d.get(k, {})\<close> where the result is used as a dictionary.\<close>

definition jget_obj :: "(string, json) dict \<Rightarrow> string \<Rightarrow> (string, json) dict" where
  "jget_obj d k = (case map_of d k of Some (JObj e) \<Rightarrow> e | _ \<Rightarrow> [])"

text \<open>\<open>d.get(k) or []\<close> where the result is used as a list.\<close>

definition jget_list :: "(string, json) dict \<Rightarrow> string \<Rightarrow> json list" where
  "jget_list d k = (case map_of d k of Some (JList xs) \<Rightarrow> xs | _ \<Rightarrow> [])"

text \<open>
  The same with Python's failure: \<open>d.get(k, {})\<close> followed by a dictionary operation raises
  \<open>AttributeError\<close> when the value is there and is no dictionary.
\<close>

definition get_obj :: "(string, json) dict \<Rightarrow> string \<Rightarrow> (string, json) dict res" where
  "get_obj d k = (case map_of d k of None \<Rightarrow> Inr [] | Some (JObj e) \<Rightarrow> Inr e | Some _ \<Rightarrow> Inl AttributeError)"

text \<open>\<open>d.get(k)\<close> where the values are strings, as a truth test sees it: missing, null and empty agree.\<close>

definition get_str :: "(string, json) dict \<Rightarrow> string \<Rightarrow> string" where
  "get_str d k = (case map_of d k of Some (JStr s) \<Rightarrow> s | _ \<Rightarrow> [])"

fun as_obj :: "json \<Rightarrow> (string, json) dict option" where
  "as_obj (JObj d) = Some d"
| "as_obj _ = None"

fun as_str :: "json \<Rightarrow> string option" where
  "as_str (JStr s) = Some s"
| "as_str _ = None"

lemma jget_update [simp]: "jget (AList.update k v d) k' = (if k = k' then v else jget d k')"
  by (auto simp: jget_def)

lemma jget_obj_update [simp]:
  "jget_obj (AList.update k (JObj e) d) k' = (if k = k' then e else jget_obj d k')"
  by (auto simp: jget_obj_def)

lemma jget_list_update [simp]:
  "jget_list (AList.update k (JList e) d) k' = (if k = k' then e else jget_list d k')"
  by (auto simp: jget_list_def)

lemma jget_list_update_other [simp]:
  "k \<noteq> k' \<Longrightarrow> jget_list (AList.update k v d) k' = jget_list d k'"
  by (auto simp: jget_list_def)

lemma jget_obj_update_other [simp]:
  "k \<noteq> k' \<Longrightarrow> jget_obj (AList.update k v d) k' = jget_obj d k'"
  by (auto simp: jget_obj_def)

end
