(* ===== verification/Sandbox_Schema.thy ===== *)
theory Sandbox_Schema
  imports Py_Regex Json
begin

text \<open>
  The data of the lifecycle API (\<open>server/src/api/schema.py\<close>) and the constants shared by the
  services (\<open>server/src/services/constants.py\<close>): one record per model class, its field constraints
  as a predicate \<open>*_fields_ok\<close>, and its validators as functions. Timestamps are integers counting
  microseconds from the Unix epoch in UTC.
\<close>

section \<open>Constants\<close>

definition RESERVED_LABEL_PREFIX :: string where
  "RESERVED_LABEL_PREFIX = ''opensandbox.io/''"
definition SANDBOX_ID_LABEL :: string where
  "SANDBOX_ID_LABEL = ''opensandbox.io/id''"
definition SANDBOX_EXPIRES_AT_LABEL :: string where
  "SANDBOX_EXPIRES_AT_LABEL = ''opensandbox.io/expires-at''"
definition SANDBOX_MANUAL_CLEANUP_LABEL :: string where
  "SANDBOX_MANUAL_CLEANUP_LABEL = ''opensandbox.io/manual-cleanup''"
definition SANDBOX_LAST_ACTIVITY_AT_LABEL :: string where
  "SANDBOX_LAST_ACTIVITY_AT_LABEL = ''opensandbox.io/last-activity-at''"
definition SANDBOX_EMBEDDING_PROXY_PORT_LABEL :: string where
  "SANDBOX_EMBEDDING_PROXY_PORT_LABEL = ''opensandbox.io/embedding-proxy-port''"
definition SANDBOX_HTTP_PORT_LABEL :: string where
  "SANDBOX_HTTP_PORT_LABEL = ''opensandbox.io/http-port''"
definition SANDBOX_OSSFS_MOUNTS_LABEL :: string where
  "SANDBOX_OSSFS_MOUNTS_LABEL = ''opensandbox.io/ossfs-mounts''"
definition OPEN_SANDBOX_INGRESS_HEADER :: string where
  "OPEN_SANDBOX_INGRESS_HEADER = ''OpenSandbox-Ingress-To''"
definition OPEN_SANDBOX_EGRESS_AUTH_HEADER :: string where
  "OPEN_SANDBOX_EGRESS_AUTH_HEADER = ''OPENSANDBOX-EGRESS-AUTH''"
definition SANDBOX_EGRESS_AUTH_TOKEN_METADATA_KEY :: string where
  "SANDBOX_EGRESS_AUTH_TOKEN_METADATA_KEY = ''opensandbox.io/egress-auth-token''"

named_theorems label_defs

lemmas label_constants [label_defs] =
  SANDBOX_ID_LABEL_def SANDBOX_EXPIRES_AT_LABEL_def SANDBOX_MANUAL_CLEANUP_LABEL_def
  SANDBOX_LAST_ACTIVITY_AT_LABEL_def SANDBOX_EMBEDDING_PROXY_PORT_LABEL_def
  SANDBOX_HTTP_PORT_LABEL_def SANDBOX_OSSFS_MOUNTS_LABEL_def
  SANDBOX_EGRESS_AUTH_TOKEN_METADATA_KEY_def

text \<open>\<open>SandboxErrorCodes\<close>, as far as the modelled operations raise them.\<close>

abbreviation CONTAINER_QUERY_FAILED :: string where "CONTAINER_QUERY_FAILED \<equiv> ''DOCKER::SANDBOX_QUERY_FAILED''"
abbreviation SANDBOX_NOT_FOUND :: string where "SANDBOX_NOT_FOUND \<equiv> ''DOCKER::SANDBOX_NOT_FOUND''"
abbreviation IMAGE_PULL_FAILED :: string where "IMAGE_PULL_FAILED \<equiv> ''DOCKER::SANDBOX_IMAGE_PULL_FAILED''"
abbreviation CONTAINER_START_FAILED :: string where "CONTAINER_START_FAILED \<equiv> ''DOCKER::SANDBOX_START_FAILED''"
abbreviation SANDBOX_DELETE_FAILED :: string where "SANDBOX_DELETE_FAILED \<equiv> ''DOCKER::SANDBOX_DELETE_FAILED''"
abbreviation SANDBOX_NOT_RUNNING :: string where "SANDBOX_NOT_RUNNING \<equiv> ''DOCKER::SANDBOX_NOT_RUNNING''"
abbreviation SANDBOX_PAUSE_FAILED :: string where "SANDBOX_PAUSE_FAILED \<equiv> ''DOCKER::SANDBOX_PAUSE_FAILED''"
abbreviation SANDBOX_NOT_PAUSED :: string where "SANDBOX_NOT_PAUSED \<equiv> ''DOCKER::SANDBOX_NOT_PAUSED''"
abbreviation SANDBOX_RESUME_FAILED :: string where "SANDBOX_RESUME_FAILED \<equiv> ''DOCKER::SANDBOX_RESUME_FAILED''"
abbreviation INVALID_EXPIRATION :: string where "INVALID_EXPIRATION \<equiv> ''DOCKER::INVALID_EXPIRATION''"
abbreviation EXECD_START_FAILED :: string where "EXECD_START_FAILED \<equiv> ''DOCKER::SANDBOX_EXECD_START_FAILED''"
abbreviation EXECD_DISTRIBUTION_FAILED :: string where "EXECD_DISTRIBUTION_FAILED \<equiv> ''DOCKER::SANDBOX_EXECD_DISTRIBUTION_FAILED''"
abbreviation BOOTSTRAP_INSTALL_FAILED :: string where "BOOTSTRAP_INSTALL_FAILED \<equiv> ''DOCKER::SANDBOX_BOOTSTRAP_INSTALL_FAILED''"
abbreviation INVALID_ENTRYPOINT :: string where "INVALID_ENTRYPOINT \<equiv> ''DOCKER::INVALID_ENTRYPOINT''"
abbreviation INVALID_PORT :: string where "INVALID_PORT \<equiv> ''DOCKER::INVALID_PORT''"
abbreviation NETWORK_MODE_ENDPOINT_UNAVAILABLE :: string where "NETWORK_MODE_ENDPOINT_UNAVAILABLE \<equiv> ''DOCKER::NETWORK_MODE_ENDPOINT_UNAVAILABLE''"
abbreviation K8S_SANDBOX_NOT_FOUND :: string where "K8S_SANDBOX_NOT_FOUND \<equiv> ''KUBERNETES::SANDBOX_NOT_FOUND''"
abbreviation K8S_POD_READY_TIMEOUT :: string where "K8S_POD_READY_TIMEOUT \<equiv> ''KUBERNETES::POD_READY_TIMEOUT''"
abbreviation K8S_API_ERROR :: string where "K8S_API_ERROR \<equiv> ''KUBERNETES::API_ERROR''"
abbreviation K8S_POD_IP_NOT_AVAILABLE :: string where "K8S_POD_IP_NOT_AVAILABLE \<equiv> ''KUBERNETES::POD_IP_NOT_AVAILABLE''"
abbreviation K8S_INVALID_STATE :: string where "K8S_INVALID_STATE \<equiv> ''KUBERNETES::INVALID_STATE''"
abbreviation K8S_PVC_EXPAND_FAILED :: string where "K8S_PVC_EXPAND_FAILED \<equiv> ''KUBERNETES::PVC_EXPAND_FAILED''"
abbreviation K8S_PVC_SHRINK_NOT_SUPPORTED :: string where "K8S_PVC_SHRINK_NOT_SUPPORTED \<equiv> ''KUBERNETES::PVC_SHRINK_NOT_SUPPORTED''"
abbreviation K8S_VOLUME_EXPANSION_NOT_SUPPORTED :: string where "K8S_VOLUME_EXPANSION_NOT_SUPPORTED \<equiv> ''KUBERNETES::VOLUME_EXPANSION_NOT_SUPPORTED''"
abbreviation K8S_RESOURCE_UPDATE_FAILED :: string where "K8S_RESOURCE_UPDATE_FAILED \<equiv> ''KUBERNETES::RESOURCE_UPDATE_FAILED''"
abbreviation API_NOT_SUPPORTED :: string where "API_NOT_SUPPORTED \<equiv> ''SANDBOX::API_NOT_SUPPORTED''"
abbreviation INVALID_METADATA_LABEL :: string where "INVALID_METADATA_LABEL \<equiv> ''SANDBOX::INVALID_METADATA_LABEL''"
abbreviation INVALID_PARAMETER :: string where "INVALID_PARAMETER \<equiv> ''SANDBOX::INVALID_PARAMETER''"
abbreviation INVALID_VOLUME_NAME :: string where "INVALID_VOLUME_NAME \<equiv> ''VOLUME::INVALID_NAME''"
abbreviation DUPLICATE_VOLUME_NAME :: string where "DUPLICATE_VOLUME_NAME \<equiv> ''VOLUME::DUPLICATE_NAME''"
abbreviation INVALID_VOLUME_BACKEND :: string where "INVALID_VOLUME_BACKEND \<equiv> ''VOLUME::INVALID_BACKEND''"
abbreviation INVALID_MOUNT_PATH :: string where "INVALID_MOUNT_PATH \<equiv> ''VOLUME::INVALID_MOUNT_PATH''"
abbreviation INVALID_SUB_PATH :: string where "INVALID_SUB_PATH \<equiv> ''VOLUME::INVALID_SUB_PATH''"
abbreviation INVALID_HOST_PATH :: string where "INVALID_HOST_PATH \<equiv> ''VOLUME::INVALID_HOST_PATH''"
abbreviation HOST_PATH_NOT_ALLOWED :: string where "HOST_PATH_NOT_ALLOWED \<equiv> ''VOLUME::HOST_PATH_NOT_ALLOWED''"
abbreviation INVALID_PVC_NAME :: string where "INVALID_PVC_NAME \<equiv> ''VOLUME::INVALID_PVC_NAME''"
abbreviation HOST_PATH_CREATE_FAILED :: string where "HOST_PATH_CREATE_FAILED \<equiv> ''VOLUME::HOST_PATH_CREATE_FAILED''"
abbreviation PVC_VOLUME_NOT_FOUND :: string where "PVC_VOLUME_NOT_FOUND \<equiv> ''VOLUME::PVC_NOT_FOUND''"
abbreviation PVC_VOLUME_INSPECT_FAILED :: string where "PVC_VOLUME_INSPECT_FAILED \<equiv> ''VOLUME::PVC_INSPECT_FAILED''"
abbreviation PVC_SUBPATH_UNSUPPORTED_DRIVER :: string where "PVC_SUBPATH_UNSUPPORTED_DRIVER \<equiv> ''VOLUME::PVC_SUBPATH_UNSUPPORTED_DRIVER''"
abbreviation INVALID_OSSFS_VERSION :: string where "INVALID_OSSFS_VERSION \<equiv> ''VOLUME::INVALID_OSSFS_VERSION''"
abbreviation INVALID_OSSFS_ENDPOINT :: string where "INVALID_OSSFS_ENDPOINT \<equiv> ''VOLUME::INVALID_OSSFS_ENDPOINT''"
abbreviation INVALID_OSSFS_BUCKET :: string where "INVALID_OSSFS_BUCKET \<equiv> ''VOLUME::INVALID_OSSFS_BUCKET''"
abbreviation INVALID_OSSFS_OPTION :: string where "INVALID_OSSFS_OPTION \<equiv> ''VOLUME::INVALID_OSSFS_OPTION''"
abbreviation INVALID_OSSFS_CREDENTIALS :: string where "INVALID_OSSFS_CREDENTIALS \<equiv> ''VOLUME::INVALID_OSSFS_CREDENTIALS''"
abbreviation INVALID_OSSFS_MOUNT_ROOT :: string where "INVALID_OSSFS_MOUNT_ROOT \<equiv> ''VOLUME::INVALID_OSSFS_MOUNT_ROOT''"
abbreviation OSSFS_MOUNT_FAILED :: string where "OSSFS_MOUNT_FAILED \<equiv> ''VOLUME::OSSFS_MOUNT_FAILED''"
abbreviation OSSFS_UNMOUNT_FAILED :: string where "OSSFS_UNMOUNT_FAILED \<equiv> ''VOLUME::OSSFS_UNMOUNT_FAILED''"

section \<open>Images, network policy, volumes\<close>

record image_auth =
  auth_username :: string
  auth_password :: string

record image_spec =
  image_uri :: string
  image_auth_of :: "image_auth option"

record network_rule =
  rule_action :: string
  rule_target :: string

record network_policy =
  default_action :: "string option"
  egress_rules :: "network_rule list"

record ossfs =
  bucket :: string
  endpoint :: string
  version :: string
  ossfs_options :: "string list option"
  access_key_id :: "string option"
  access_key_secret :: "string option"

record volume =
  vol_name :: string
  host_path :: "string option"
  pvc_claim :: "string option"
  ossfs_of :: "ossfs option"
  mount_path :: string
  read_only :: bool
  sub_path :: "string option"

text \<open>A Python truth test on an optional string: neither \<open>None\<close> nor empty.\<close>

definition given :: "string option \<Rightarrow> bool" where
  "given v \<longleftrightarrow> v \<noteq> None \<and> v \<noteq> Some []"

text \<open>\<open>v or default\<close> on an optional string.\<close>

definition str_or :: "string option \<Rightarrow> string \<Rightarrow> string" where
  "str_or v d = (case v of None \<Rightarrow> d | Some s \<Rightarrow> if s = [] then d else s)"

text \<open>The model validators of \<open>OSSFS\<close> and \<open>Volume\<close>.\<close>

definition validate_inline_credentials :: "ossfs \<Rightarrow> ossfs res" where
  "validate_inline_credentials o1 =
     (if \<not> given (access_key_id o1) \<or> \<not> given (access_key_secret o1) then Inl ValueError
      else Inr o1)"

definition backends_specified :: "volume \<Rightarrow> nat" where
  "backends_specified v =
     of_bool (host_path v \<noteq> None) + of_bool (pvc_claim v \<noteq> None) + of_bool (ossfs_of v \<noteq> None)"

definition validate_exactly_one_backend :: "volume \<Rightarrow> volume res" where
  "validate_exactly_one_backend v =
     (if backends_specified v = 0 then Inl ValueError
      else if backends_specified v > 1 then Inl ValueError
      else Inr v)"

text \<open>Declared field constraints. The schema library anchors a pattern at the very end of the text.\<close>

definition lower_digit :: "char \<Rightarrow> bool" where
  "lower_digit c \<longleftrightarrow> is_lower c \<or> is_digit c"

definition lower_digit_hyphen :: "char \<Rightarrow> bool" where
  "lower_digit_hyphen c \<longleftrightarrow> lower_digit c \<or> c = CHR ''-''"

definition NAME_PATTERN :: re where
  "NAME_PATTERN = RLabel lower_digit lower_digit_hyphen"

definition host_path_pattern :: "string \<Rightarrow> bool" where
  "host_path_pattern p \<longleftrightarrow> starts_with p ''/'' \<or>
     (case p of c # d # e # _ \<Rightarrow> (is_lower c \<or> is_upper c) \<and> d = CHR '':'' \<and>
        (e = CHR 0x5C \<or> e = CHR ''/'') | _ \<Rightarrow> False)"

definition pvc_fields_ok :: "string \<Rightarrow> bool" where
  "pvc_fields_ok n \<longleftrightarrow> matches NAME_PATTERN n \<and> length n \<le> 253"

definition ossfs_fields_ok :: "ossfs \<Rightarrow> bool" where
  "ossfs_fields_ok o1 \<longleftrightarrow> 3 \<le> length (bucket o1) \<and> length (bucket o1) \<le> 63
     \<and> endpoint o1 \<noteq> [] \<and> version o1 \<in> {''1.0'', ''2.0''}
     \<and> access_key_id o1 \<noteq> Some [] \<and> access_key_secret o1 \<noteq> Some []"

definition volume_fields_ok :: "volume \<Rightarrow> bool" where
  "volume_fields_ok v \<longleftrightarrow> matches NAME_PATTERN (vol_name v) \<and> length (vol_name v) \<le> 63
     \<and> starts_with (mount_path v) ''/''
     \<and> (case host_path v of None \<Rightarrow> True | Some p \<Rightarrow> host_path_pattern p)
     \<and> (case pvc_claim v of None \<Rightarrow> True | Some n \<Rightarrow> pvc_fields_ok n)
     \<and> (case ossfs_of v of None \<Rightarrow> True
        | Some o1 \<Rightarrow> ossfs_fields_ok o1 \<and> validate_inline_credentials o1 = Inr o1)
     \<and> validate_exactly_one_backend v = Inr v"

section \<open>Sandboxes\<close>

type_synonym timestamp = int

record sandbox_status =
  state :: string
  reason :: "string option"
  last_transition_at :: "timestamp option"

record create_request =
  req_image :: image_spec
  req_timeout :: "int option"
  req_resource_limits :: "(string, string) dict"
  req_env :: "(string, string option) dict option"
  req_metadata :: "(string, string) dict option"
  req_entrypoint :: "string list"
  req_network_policy :: "network_policy option"
  req_volumes :: "volume list option"
  req_extensions :: "(string, string) dict option"

record create_response =
  resp_id :: string
  resp_status :: sandbox_status
  resp_metadata :: "(string, string) dict option"
  resp_expires_at :: "timestamp option"
  resp_created_at :: timestamp
  resp_entrypoint :: "string list"

record sandbox =
  sbx_id :: string
  sbx_image :: string
  sbx_status :: sandbox_status
  sbx_metadata :: "(string, string) dict option"
  sbx_entrypoint :: "string list"
  sbx_expires_at :: "timestamp option"
  sbx_created_at :: timestamp
  sbx_last_activity_at :: "timestamp option"

definition create_request_fields_ok :: "create_request \<Rightarrow> bool" where
  "create_request_fields_ok r \<longleftrightarrow>
     (case req_timeout r of None \<Rightarrow> True | Some t \<Rightarrow> 60 \<le> t)
     \<and> req_entrypoint r \<noteq> []
     \<and> (case req_volumes r of None \<Rightarrow> True | Some vs \<Rightarrow> list_all volume_fields_ok vs)
     \<and> (case req_network_policy r of None \<Rightarrow> True
        | Some np \<Rightarrow> list_all (\<lambda>x. rule_target x \<noteq> []) (egress_rules np))"

text \<open>
  \<open>normalize_frontend_payload\<close>: the loop over \<open>[{key, value}]\<close> pairs, and the three mappings. The
  function is total on JSON values; a payload that is no object is returned as it is.
\<close>

fun pairs_to_dict :: "(json \<Rightarrow> string) \<Rightarrow> json list \<Rightarrow> (string, json) dict \<Rightarrow> (string, json) dict" where
  "pairs_to_dict render [] acc = acc"
| "pairs_to_dict render (p # ps) acc =
     (case p of
        JObj d \<Rightarrow>
          (if truthy (jget d ''key'')
           then pairs_to_dict render ps
             (AList.update (str_json render (jget d ''key''))
               (JStr (case map_of d ''value'' of None \<Rightarrow> [] | Some v \<Rightarrow> str_json render v)) acc)
           else pairs_to_dict render ps acc)
      | _ \<Rightarrow> pairs_to_dict render ps acc)"

definition map_pairs :: "(json \<Rightarrow> string) \<Rightarrow> string \<Rightarrow> string \<Rightarrow> (string, json) dict \<Rightarrow> (string, json) dict" where
  "map_pairs render source target d =
     (if jget d target = JNull
      then (case map_of d source of
              Some (JList ps) \<Rightarrow>
                (case pairs_to_dict render ps [] of [] \<Rightarrow> d | e \<Rightarrow> AList.update target (JObj e) d)
            | _ \<Rightarrow> d)
      else d)"

definition block_network :: "(string, json) dict \<Rightarrow> (string, json) dict" where
  "block_network d =
     (if jget d ''networkPolicy'' = JNull \<and> jget d ''blockAllNetwork'' = JBool True
      then AList.update ''networkPolicy''
             (JObj [(''defaultAction'', JStr ''deny''), (''egress'', JList [])]) d
      else d)"

definition normalize_frontend_payload :: "(json \<Rightarrow> string) \<Rightarrow> json \<Rightarrow> json" where
  "normalize_frontend_payload render data =
     (case data of
        JObj d \<Rightarrow> JObj (block_network (map_pairs render ''labels'' ''metadata''
                     (map_pairs render ''envVariables'' ''env'' d)))
      | _ \<Rightarrow> data)"

section \<open>Listing\<close>

record sandbox_filter =
  filter_state :: "string list option"
  filter_metadata :: "(string, string) dict option"

record pagination_request =
  page :: int
  page_size :: int

definition pagination_fields_ok :: "pagination_request \<Rightarrow> bool" where
  "pagination_fields_ok p \<longleftrightarrow> 1 \<le> page p \<and> 1 \<le> page_size p \<and> page_size p \<le> 200"

record list_request =
  list_filter :: sandbox_filter
  list_pagination :: "pagination_request option"

record pagination_info =
  info_page :: int
  info_page_size :: int
  info_total_items :: int
  info_total_pages :: int
  info_has_next_page :: bool

record list_response =
  list_items :: "sandbox list"
  list_info :: pagination_info

section \<open>Resource updates, endpoints\<close>

definition CPU_PATTERN :: re where
  "CPU_PATTERN = RSeq (RPlus (RCls is_digit)) (ROpt (RChar (CHR ''m'')))"

definition QUANTITY_SUFFIX :: re where
  "QUANTITY_SUFFIX = foldr (\<lambda>s r. RAlt (RLit s) r)
     [''E'', ''P'', ''T'', ''G'', ''M'', ''K'', ''Ei'', ''Pi'', ''Ti'', ''Gi'', ''Mi'', ''Ki''] REmpty"

definition K8S_RESOURCE_PATTERN :: re where
  "K8S_RESOURCE_PATTERN = RSeq (RPlus (RCls is_digit))
     (RSeq (ROpt (RSeq (RChar (CHR ''.'')) (RPlus (RCls is_digit)))) (ROpt QUANTITY_SUFFIX))"

record resource_update =
  upd_cpu :: "string option"
  upd_memory :: "string option"
  upd_storage :: "string option"

definition validate_cpu :: "string option \<Rightarrow> string option res" where
  "validate_cpu v = (case v of None \<Rightarrow> Inr v
     | Some s \<Rightarrow> if match_dollar CPU_PATTERN s then Inr v else Inl ValueError)"

definition validate_quantity :: "string option \<Rightarrow> string option res" where
  "validate_quantity v = (case v of None \<Rightarrow> Inr v
     | Some s \<Rightarrow> if match_dollar K8S_RESOURCE_PATTERN s then Inr v else Inl ValueError)"

definition validate_resource_update :: "resource_update \<Rightarrow> resource_update res" where
  "validate_resource_update u =
     bindR (validate_cpu (upd_cpu u)) (\<lambda>_.
     bindR (validate_quantity (upd_memory u)) (\<lambda>_.
     bindR (validate_quantity (upd_storage u)) (\<lambda>_.
       if upd_cpu u = None \<and> upd_memory u = None \<and> upd_storage u = None then Inl ValueError
       else Inr u)))"

record sandbox_endpoint =
  ep_endpoint :: string
  ep_headers :: "(string, string) dict option"

section \<open>Lemmas\<close>

lemma exactly_one_backend:
  "validate_exactly_one_backend v = Inr v \<longleftrightarrow> backends_specified v = 1"
  by (auto simp: validate_exactly_one_backend_def)

lemma backends_specified_one:
  "backends_specified v = 1 \<longleftrightarrow>
     (host_path v \<noteq> None \<and> pvc_claim v = None \<and> ossfs_of v = None) \<or>
     (host_path v = None \<and> pvc_claim v \<noteq> None \<and> ossfs_of v = None) \<or>
     (host_path v = None \<and> pvc_claim v = None \<and> ossfs_of v \<noteq> None)"
  by (auto simp: backends_specified_def)

lemma pairs_to_dict_strings:
  "\<forall>k v. map_of acc k = Some v \<longrightarrow> (\<exists>s. v = JStr s) \<Longrightarrow>
   map_of (pairs_to_dict render ps acc) k = Some v \<Longrightarrow> \<exists>s. v = JStr s"
proof (induction ps arbitrary: acc)
  case Nil
  then show ?case by simp
next
  case (Cons p ps)
  show ?case
  proof (cases "as_obj p")
    case None
    with Cons show ?thesis by (cases p) auto
  next
    case (Some d)
    then have p: "p = JObj d" by (cases p) auto
    show ?thesis
    proof (cases "truthy (jget d ''key'')")
      case True
      let ?acc = "AList.update (str_json render (jget d ''key''))
        (JStr (case map_of d ''value'' of None \<Rightarrow> [] | Some x \<Rightarrow> str_json render x)) acc"
      have "map_of (pairs_to_dict render ps ?acc) k = Some v"
        using Cons.prems(2) p True by simp
      moreover have "\<forall>k v. map_of ?acc k = Some v \<longrightarrow> (\<exists>s. v = JStr s)"
        using Cons.prems(1) by simp
      ultimately show ?thesis by (rule Cons.IH [rotated])
    next
      case False
      with Cons p show ?thesis by simp
    qed
  qed
qed

end
