(* ===== verification/Py_Path.thy ===== *)
theory Py_Path
  imports Py_String
begin

text \<open>
  \<open>posixpath\<close>, which is \<open>os.path\<close> on the POSIX hosts the server is modelled on: \<open>join\<close>,
  \<open>normpath\<close>, \<open>isabs\<close>. The lemmas of the second half say when joining a relative path and
  normalising stays below the base directory, which is what the volume checks rely on.
\<close>

section \<open>Definitions\<close>

definition path_isabs :: "string \<Rightarrow> bool" where
  "path_isabs p \<longleftrightarrow> starts_with p ''/''"

definition path_join :: "string \<Rightarrow> string \<Rightarrow> string" where
  "path_join a b =
     (if starts_with b ''/'' then b
      else if a = [] \<or> ends_with a ''/'' then a @ b
      else a @ ''/'' @ b)"

text \<open>
  The loop of \<open>normpath\<close> over the components; the accumulator holds the kept components in reverse
  order, \<open>absolute\<close> says whether the path starts with a slash.
\<close>

fun norm_comps :: "bool \<Rightarrow> string list \<Rightarrow> string list \<Rightarrow> string list" where
  "norm_comps absolute acc [] = rev acc"
| "norm_comps absolute acc (c # cs) =
     (if c = [] \<or> c = ''.'' then norm_comps absolute acc cs
      else if c \<noteq> ''..'' \<or> (\<not> absolute \<and> acc = []) \<or> (acc \<noteq> [] \<and> hd acc = ''..'')
        then norm_comps absolute (c # acc) cs
      else norm_comps absolute (drop 1 acc) cs)"

text \<open>One leading slash, or exactly two when the path starts with two and not with three.\<close>

definition initial_slashes :: "string \<Rightarrow> nat" where
  "initial_slashes p =
     (if \<not> starts_with p ''/'' then 0
      else if starts_with p ''//'' \<and> \<not> starts_with p ''///'' then 2 else 1)"

definition path_norm :: "string \<Rightarrow> string" where
  "path_norm p =
     (if p = [] then ''.''
      else let comps = norm_comps (0 < initial_slashes p) [] (split_on slash p);
               q = replicate (initial_slashes p) slash @ join_with slash comps
           in if q = [] then ''.'' else q)"

text \<open>\<open>p\<close> is \<open>base\<close> or below it, compared on component boundaries.\<close>

definition path_below :: "string \<Rightarrow> string \<Rightarrow> bool" where
  "path_below base p \<longleftrightarrow>
     p = base \<or> starts_with p (if ends_with base ''/'' then base else base @ ''/'')"

section \<open>Normalisation of components\<close>

definition plain_comp :: "string \<Rightarrow> bool" where
  "plain_comp c \<longleftrightarrow> c \<noteq> [] \<and> c \<noteq> ''.'' \<and> c \<noteq> ''..'' \<and> slash \<notin> set c"

definition real_comp :: "string \<Rightarrow> bool" where
  "real_comp c \<longleftrightarrow> c \<noteq> [] \<and> c \<noteq> ''.''"

lemma norm_comps_no_dotdot:
  "''..'' \<notin> set cs \<Longrightarrow> norm_comps a acc cs = rev acc @ filter real_comp cs"
  by (induction cs arbitrary: acc) (auto simp: real_comp_def)

lemma norm_comps_append_acc:
  "norm_comps a acc (cs @ ds) = norm_comps a (rev (norm_comps a acc cs)) ds"
  by (induction a acc cs rule: norm_comps.induct) auto

lemma norm_comps_plain:
  assumes "list_all plain_comp acc" and "\<And>c. c \<in> set cs \<Longrightarrow> slash \<notin> set c"
  shows "list_all plain_comp (norm_comps True acc cs)"
  using assms
proof (induction cs arbitrary: acc)
  case Nil
  then show ?case by (simp add: list_all_iff)
next
  case (Cons c cs)
  have "list_all plain_comp (drop 1 acc)"
    using Cons.prems(1) by (cases acc) auto
  moreover have "acc \<noteq> [] \<Longrightarrow> hd acc \<noteq> ''..''"
    using Cons.prems(1) by (cases acc) (auto simp: plain_comp_def)
  moreover have "c \<noteq> [] \<Longrightarrow> c \<noteq> ''.'' \<Longrightarrow> c \<noteq> ''..'' \<Longrightarrow> plain_comp c"
    using Cons.prems(2) by (simp add: plain_comp_def)
  ultimately show ?case
    using Cons by auto
qed

text \<open>A normalised absolute path: no component is empty, \<open>.\<close> or \<open>..\<close>.\<close>

definition norm_abs :: "string \<Rightarrow> bool" where
  "norm_abs p \<longleftrightarrow> (\<exists>cs. list_all plain_comp cs \<and> p = slash # join_with slash cs)"

definition comps_of :: "string \<Rightarrow> string list" where
  "comps_of p = norm_comps True [] (split_on slash p)"

lemma comps_of_plain: "list_all plain_comp (comps_of p)"
  unfolding comps_of_def by (rule norm_comps_plain) (auto dest: split_on_no_sep)

lemma path_norm_abs:
  assumes "starts_with p ''/''" and "\<not> starts_with p ''//''"
  shows "path_norm p = slash # join_with slash (comps_of p)"
  using assms by (auto simp: path_norm_def initial_slashes_def comps_of_def starts_with_def)

lemma norm_abs_path_norm:
  assumes "starts_with p ''/''" and "\<not> starts_with p ''//''"
  shows "norm_abs (path_norm p)"
  using path_norm_abs [OF assms] comps_of_plain by (auto simp: norm_abs_def)

lemma join_plain_no_slash_start:
  "list_all plain_comp cs \<Longrightarrow> \<not> starts_with (join_with slash cs) ''/''"
  by (induction slash cs rule: join_with.induct)
     (auto simp: plain_comp_def starts_with_def neq_Nil_conv)

lemma norm_abs_start:
  assumes "norm_abs p"
  shows "starts_with p ''/'' \<and> \<not> starts_with p ''//''"
proof -
  from assms obtain cs where cs: "list_all plain_comp cs" "p = slash # join_with slash cs"
    by (auto simp: norm_abs_def)
  from join_plain_no_slash_start [OF cs(1)] cs(2) show ?thesis
    by (cases "join_with slash cs") (auto simp: starts_with_def)
qed

text \<open>The components of a slash followed by plain components are those components.\<close>

lemma comps_of_join:
  assumes "list_all plain_comp cs"
  shows "comps_of (slash # join_with slash cs) = cs"
proof -
  have nd: "''..'' \<notin> set cs" and sl: "\<And>c. c \<in> set cs \<Longrightarrow> slash \<notin> set c"
    and rc: "filter real_comp cs = cs"
    using assms by (auto simp: plain_comp_def list_all_iff real_comp_def intro: filter_True)
  have "split_on slash (slash # join_with slash cs) = [] # split_on slash (join_with slash cs)"
    by simp
  moreover have "filter real_comp (split_on slash (join_with slash cs)) = cs
      \<and> ''..'' \<notin> set (split_on slash (join_with slash cs))"
  proof (cases "cs = []")
    case True
    then show ?thesis by (simp add: real_comp_def)
  next
    case False
    then have "split_on slash (join_with slash cs) = cs"
      by (rule split_join) (rule sl)
    with nd rc show ?thesis by simp
  qed
  ultimately show ?thesis
    by (simp add: comps_of_def norm_comps_no_dotdot)
qed

lemma path_norm_idem: "norm_abs p \<Longrightarrow> path_norm p = p"
proof -
  assume n: "norm_abs p"
  then obtain cs where cs: "list_all plain_comp cs" "p = slash # join_with slash cs"
    by (auto simp: norm_abs_def)
  from norm_abs_start [OF n] have "path_norm p = slash # join_with slash (comps_of p)"
    by (intro path_norm_abs) auto
  also have "\<dots> = p" using comps_of_join [OF cs(1)] cs(2) by simp
  finally show ?thesis .
qed

section \<open>Joining a relative path below a base\<close>

lemma ends_with_slash: "ends_with s ''/'' \<longleftrightarrow> s \<noteq> [] \<and> last s = slash"
  by (cases s rule: rev_cases) (auto simp: ends_with_def)

lemma starts_with_slash: "starts_with s ''/'' \<longleftrightarrow> s \<noteq> [] \<and> hd s = slash"
  by (cases s) (auto simp: starts_with_def)

lemma split_on_path_join:
  assumes "\<not> starts_with b ''/''"
  shows "filter real_comp (split_on slash (path_join a b)) =
         filter real_comp (split_on slash a) @ filter real_comp (split_on slash b)"
proof (cases "a = []")
  case True
  with assms show ?thesis by (simp add: path_join_def real_comp_def)
next
  case False
  show ?thesis
  proof (cases "ends_with a ''/''")
    case True
    with False obtain a' where a: "a = a' @ [slash]"
      by (cases a rule: rev_cases) (auto simp: ends_with_slash)
    have "path_join a b = a' @ slash # b"
      using assms True False a by (simp add: path_join_def)
    moreover have "split_on slash a = split_on slash a' @ [[]]"
      by (simp add: a split_on_append_sep)
    ultimately show ?thesis by (simp add: split_on_append_sep real_comp_def)
  next
    case False2: False
    have "path_join a b = a @ slash # b"
      using assms False2 False by (simp add: path_join_def)
    then show ?thesis by (simp add: split_on_append_sep)
  qed
qed

lemma split_on_path_join_dotdot:
  assumes "\<not> starts_with b ''/''"
  shows "''..'' \<in> set (split_on slash (path_join a b)) \<longleftrightarrow>
         ''..'' \<in> set (split_on slash a) \<or> ''..'' \<in> set (split_on slash b)"
proof -
  have f: "''..'' \<in> set ps \<longleftrightarrow> ''..'' \<in> set (filter real_comp ps)" for ps
    by (simp add: real_comp_def)
  show ?thesis
    using split_on_path_join [OF assms, of a] f by (metis Un_iff set_append)
qed

lemma comps_of_join_rel:
  assumes b: "\<not> starts_with b ''/''" and nb: "''..'' \<notin> set (split_on slash b)"
    and na: "''..'' \<notin> set (split_on slash a)"
  shows "comps_of (path_join a b) = comps_of a @ filter real_comp (split_on slash b)"
  using split_on_path_join_dotdot [OF b, of a] split_on_path_join [OF b, of a] na nb
  by (simp add: comps_of_def norm_comps_no_dotdot)

lemma norm_abs_no_dotdot:
  assumes "norm_abs p"
  shows "''..'' \<notin> set (split_on slash p)"
proof -
  from assms obtain cs where cs: "list_all plain_comp cs" "p = slash # join_with slash cs"
    by (auto simp: norm_abs_def)
  show ?thesis
  proof (cases "cs = []")
    case True
    then show ?thesis by (simp add: cs)
  next
    case False
    then have "split_on slash (join_with slash cs) = cs"
      by (rule split_join) (use cs in \<open>auto simp: plain_comp_def list_all_iff\<close>)
    with cs show ?thesis by (auto simp: plain_comp_def list_all_iff)
  qed
qed

lemma path_below_comps:
  assumes "list_all plain_comp cs" and "list_all plain_comp ds"
  shows "path_below (slash # join_with slash cs) (slash # join_with slash (cs @ ds))"
proof (cases "cs = [] \<or> ds = []")
  case True
  then show ?thesis
    by (auto simp: path_below_def starts_with_def ends_with_def)
next
  case False
  then have "join_with slash (cs @ ds) = join_with slash cs @ slash # join_with slash ds"
    by (simp add: join_with_append)
  then have "slash # join_with slash (cs @ ds) =
      ((slash # join_with slash cs) @ [slash]) @ join_with slash ds" by simp
  moreover have "\<not> ends_with (slash # join_with slash cs) ''/''"
  proof -
    obtain xs x where "cs = xs @ [x]" using False by (cases cs rule: rev_cases) auto
    with assms(1) have x: "x \<noteq> []" "slash \<notin> set x" and xs: "cs = xs @ [x]"
      by (auto simp: plain_comp_def)
    have "join_with slash cs = (if xs = [] then x else join_with slash xs @ slash # x)"
      using xs by (simp add: join_with_append)
    with x show ?thesis by (auto simp: ends_with_slash dest: last_in_set)
  qed
  ultimately show ?thesis
    unfolding path_below_def starts_with_prefix prefix_def by auto
qed

lemma path_join_norm:
  assumes base: "list_all plain_comp cs" and b: "\<not> starts_with b ''/''"
    and nb: "''..'' \<notin> set (split_on slash b)"
  shows "path_norm (path_join (slash # join_with slash cs) b) =
           slash # join_with slash (cs @ filter real_comp (split_on slash b))"
    and "norm_abs (path_norm (path_join (slash # join_with slash cs) b))"
proof -
  let ?base = "slash # join_with slash cs"
  let ?p = "path_join ?base b"
  have n: "norm_abs ?base" using base by (auto simp: norm_abs_def)
  have st: "starts_with ?p ''/'' \<and> \<not> starts_with ?p ''//''"
    using norm_abs_start [OF n] b
    by (cases "join_with slash cs") (auto simp: path_join_def starts_with_def ends_with_def)
  have "comps_of ?p = cs @ filter real_comp (split_on slash b)"
    using comps_of_join_rel [OF b nb norm_abs_no_dotdot [OF n]] comps_of_join [OF base] by simp
  then show "path_norm ?p = slash # join_with slash (cs @ filter real_comp (split_on slash b))"
    using path_norm_abs [of ?p] st by simp
  show "norm_abs (path_norm ?p)"
    by (rule norm_abs_path_norm) (use st in auto)
qed

text \<open>Normalising loses no character of the joined parts but slashes and dots.\<close>

lemma path_join_norm_chars:
  assumes "norm_abs base" and "\<not> starts_with b ''/''" and "''..'' \<notin> set (split_on slash b)"
    and "c \<in> set base \<union> set b" and "c \<noteq> slash" and "c \<noteq> CHR ''.''"
  shows "c \<in> set (path_norm (path_join base b))"
proof -
  obtain cs where cs: "list_all plain_comp cs" "base = slash # join_with slash cs"
    using assms(1) by (auto simp: norm_abs_def)
  have "c \<in> set base \<longleftrightarrow> (\<exists>q \<in> set cs. c \<in> set q)"
    using assms(5) by (simp add: cs(2) set_join_with)
  moreover have "\<exists>q \<in> set (split_on slash b). real_comp q \<and> c \<in> set q" if cb: "c \<in> set b"
  proof -
    obtain q where q: "q \<in> set (split_on slash b)" "c \<in> set q"
      using cb set_join_with [of slash c "split_on slash b"] assms(5) by auto
    then have "real_comp q" using assms(6) by (auto simp: real_comp_def)
    with q show ?thesis by blast
  qed
  ultimately show ?thesis
    using assms(4,5) path_join_norm(1) [OF cs(1) assms(2,3)] unfolding cs(2)
    by (auto simp: set_join_with)
qed

text \<open>
  The containment theorem: from a normalised absolute base, a relative path without \<open>..\<close>
  components leads to a normalised path at or below the base.
\<close>

theorem path_join_below:
  assumes base: "norm_abs base" and b: "\<not> starts_with b ''/''"
    and nb: "''..'' \<notin> set (split_on slash b)"
  shows "path_below base (path_norm (path_join base b)) \<and> norm_abs (path_norm (path_join base b))"
proof -
  from base obtain cs where cs: "list_all plain_comp cs" "base = slash # join_with slash cs"
    by (auto simp: norm_abs_def)
  have ds: "list_all plain_comp (filter real_comp (split_on slash b))"
    using nb by (auto simp: list_all_iff plain_comp_def real_comp_def dest: split_on_no_sep)
  show ?thesis
    using path_below_comps [OF cs(1) ds] path_join_norm [OF cs(1) b nb] by (simp add: cs(2))
qed

end
