(* ===== verification/Validators.thy ===== *)
theory Validators
  imports Sandbox_Schema Py_Path
begin

text \<open>
  \<open>server/src/services/validators.py\<close>: the request checks shared by the Docker and the Kubernetes
  runtime, one definition per function in the order of the file. A check returns \<open>Inr ()\<close> or the
  \<open>HTTPException\<close> it raises. The clock (\<open>datetime.now(timezone.utc)\<close>) is the argument \<open>now\<close>.
  The second half states what an accepted request is: a declarative description of valid volumes,
  labels and paths, proved equivalent to the checks.
\<close>

section \<open>Entry point and metadata labels\<close>

definition ensure_entrypoint :: "string list \<Rightarrow> unit res" where
  "ensure_entrypoint entrypoint =
     raise_if (entrypoint = []) (HTTPException 400 INVALID_ENTRYPOINT)"

text \<open>\<open>DNS_LABEL_PATTERN\<close>, \<open>DNS_SUBDOMAIN_RE\<close>, \<open>LABEL_NAME_RE\<close>, \<open>LABEL_VALUE_RE\<close>\<close>

definition DNS_LABEL_PATTERN :: re where
  "DNS_LABEL_PATTERN = RLabel lower_digit lower_digit_hyphen"

definition DNS_SUBDOMAIN_RE :: re where
  "DNS_SUBDOMAIN_RE =
     RSeq (RStar (RSeq DNS_LABEL_PATTERN (RChar (CHR ''.'')))) DNS_LABEL_PATTERN"

definition label_char :: "char \<Rightarrow> bool" where
  "label_char c \<longleftrightarrow> is_alnum c \<or> c = CHR ''-'' \<or> c = CHR ''_'' \<or> c = CHR ''.''"

definition LABEL_NAME_RE :: re where
  "LABEL_NAME_RE = RLabel is_alnum label_char"

definition LABEL_VALUE_RE :: re where
  "LABEL_VALUE_RE = ROpt LABEL_NAME_RE"

definition is_valid_label_name :: "string \<Rightarrow> bool" where
  "is_valid_label_name name \<longleftrightarrow> \<not> (length name > 63 \<or> \<not> match_dollar LABEL_NAME_RE name)"

definition is_valid_label_key :: "string \<Rightarrow> bool" where
  "is_valid_label_key key =
     (if contains key ''/''
      then (let (prefix, name) = split_first slash key
            in if prefix = [] \<or> name = [] then False
               else if length prefix > 253 then False
               else if \<not> match_dollar DNS_SUBDOMAIN_RE prefix then False
               else is_valid_label_name name)
      else is_valid_label_name key)"

definition is_valid_label_value :: "string \<Rightarrow> bool" where
  "is_valid_label_value v = (if length v > 63 then False else match_dollar LABEL_VALUE_RE v)"

definition ensure_metadata_label :: "string \<times> string \<Rightarrow> unit res" where
  "ensure_metadata_label kv =
     (case kv of (key, v) \<Rightarrow>
        bindR (raise_if (starts_with key RESERVED_LABEL_PREFIX)
                 (HTTPException 400 INVALID_METADATA_LABEL)) (\<lambda>_.
        bindR (raise_if (\<not> is_valid_label_key key)
                 (HTTPException 400 INVALID_METADATA_LABEL)) (\<lambda>_.
        raise_if (\<not> is_valid_label_value v) (HTTPException 400 INVALID_METADATA_LABEL))))"

definition ensure_metadata_labels :: "(string, string) dict option \<Rightarrow> unit res" where
  "ensure_metadata_labels metadata =
     (case metadata of None \<Rightarrow> ok | Some m \<Rightarrow> for_each ensure_metadata_label m)"

section \<open>Expiration times and ports\<close>

text \<open>
  A \<open>datetime\<close> without a zone, or with one: local microseconds and the offset from UTC. Python's
  range is year 1 to year 9999.
\<close>

datatype datetime = Naive int | Aware int int

text \<open>The instant a \<open>datetime\<close> denotes; one without a zone is read as UTC.\<close>

fun instant :: "datetime \<Rightarrow> timestamp" where
  "instant (Naive t) = t"
| "instant (Aware t offset) = t - offset"

definition MIN_DATETIME :: int where
  "MIN_DATETIME = -62135596800 * 1000000"

definition MAX_DATETIME :: int where
  "MAX_DATETIME = 253402300800 * 1000000 - 1"

definition in_range :: "int \<Rightarrow> bool" where
  "in_range t \<longleftrightarrow> MIN_DATETIME \<le> t \<and> t \<le> MAX_DATETIME"

fun to_utc :: "datetime \<Rightarrow> timestamp res" where
  "to_utc (Naive t) = Inr t"
| "to_utc (Aware t offset) =
     (if in_range (t - offset) then Inr (t - offset) else Inl (OtherException ''OverflowError''))"

definition ensure_future_expiration :: "timestamp \<Rightarrow> datetime \<Rightarrow> timestamp res" where
  "ensure_future_expiration now expires_at =
     bindR (to_utc expires_at) (\<lambda>normalized.
     bindR (raise_if (normalized \<le> now) (HTTPException 400 INVALID_EXPIRATION)) (\<lambda>_.
     Inr normalized))"

definition ensure_valid_port :: "int \<Rightarrow> unit res" where
  "ensure_valid_port port = raise_if (port < 1 \<or> port > 65535) (HTTPException 400 INVALID_PORT)"

definition calculate_expiration_or_raise :: "timestamp \<Rightarrow> int \<Rightarrow> timestamp res" where
  "calculate_expiration_or_raise created_at timeout_seconds =
     (let t = created_at + timeout_seconds * 1000000
      in if in_range t then Inr t else Inl (HTTPException 400 INVALID_PARAMETER))"

definition ensure_timeout_within_limit :: "timestamp \<Rightarrow> int option \<Rightarrow> int option \<Rightarrow> unit res" where
  "ensure_timeout_within_limit now timeout_seconds max_timeout_seconds =
     (case timeout_seconds of
        None \<Rightarrow> ok
      | Some t \<Rightarrow>
          bindR (calculate_expiration_or_raise now t) (\<lambda>_.
          (case max_timeout_seconds of
             None \<Rightarrow> ok
           | Some m \<Rightarrow> raise_if (t > m) (HTTPException 400 INVALID_PARAMETER))))"

section \<open>Volume fields\<close>

definition VOLUME_NAME_RE :: re where
  "VOLUME_NAME_RE = RLabel lower_digit lower_digit_hyphen"

definition K8S_RESOURCE_NAME_RE :: re where
  "K8S_RESOURCE_NAME_RE = RLabel lower_digit lower_digit_hyphen"

definition ensure_valid_volume_name :: "string \<Rightarrow> unit res" where
  "ensure_valid_volume_name name =
     bindR (raise_if (name = []) (HTTPException 400 INVALID_VOLUME_NAME)) (\<lambda>_.
     bindR (raise_if (length name > 63) (HTTPException 400 INVALID_VOLUME_NAME)) (\<lambda>_.
     raise_if (\<not> match_dollar VOLUME_NAME_RE name) (HTTPException 400 INVALID_VOLUME_NAME)))"

definition ensure_valid_mount_path :: "string \<Rightarrow> unit res" where
  "ensure_valid_mount_path p =
     bindR (raise_if (p = []) (HTTPException 400 INVALID_MOUNT_PATH)) (\<lambda>_.
     raise_if (\<not> starts_with p ''/'') (HTTPException 400 INVALID_MOUNT_PATH))"

definition ensure_valid_sub_path :: "string option \<Rightarrow> unit res" where
  "ensure_valid_sub_path sub =
     (case sub of
        None \<Rightarrow> ok
      | Some p \<Rightarrow>
          if p = [] then ok
          else bindR (raise_if (starts_with p ''/'') (HTTPException 400 INVALID_SUB_PATH)) (\<lambda>_.
               for_each (\<lambda>part. raise_if (part = ''..'') (HTTPException 400 INVALID_SUB_PATH))
                 (split_on slash p)))"

text \<open>On a POSIX host \<open>os.path.splitdrive\<close> gives an empty drive and the whole path as tail.\<close>

definition backslash_to_slash :: "string \<Rightarrow> string" where
  "backslash_to_slash s = map (\<lambda>c. if c = CHR 0x5C then slash else c) s"

definition host_prefix_allows :: "string \<Rightarrow> string \<Rightarrow> bool" where
  "host_prefix_allows path pre \<longleftrightarrow>
     path_norm path = path_norm pre \<or> starts_with (path_norm path) (path_norm pre @ ''/'')"

definition ensure_valid_host_path :: "string \<Rightarrow> string list option \<Rightarrow> unit res" where
  "ensure_valid_host_path path allowed_prefixes =
     bindR (raise_if (path = []) (HTTPException 400 INVALID_HOST_PATH)) (\<lambda>_.
     bindR (raise_if (\<not> path_isabs path) (HTTPException 400 INVALID_HOST_PATH)) (\<lambda>_.
     (let tail = backslash_to_slash path
      in bindR (raise_if (contains tail ''/..'' \<or> tail = ''/..'')
                  (HTTPException 400 INVALID_HOST_PATH)) (\<lambda>_.
         bindR (raise_if (contains tail ''//'' \<or> (length tail > 1 \<and> ends_with tail ''/''))
                  (HTTPException 400 INVALID_HOST_PATH)) (\<lambda>_.
         (case allowed_prefixes of
            None \<Rightarrow> ok
          | Some allowed \<Rightarrow>
              raise_if (\<not> list_ex (host_prefix_allows path) allowed)
                (HTTPException 400 HOST_PATH_NOT_ALLOWED)))))))"

definition ensure_valid_pvc_name :: "string \<Rightarrow> unit res" where
  "ensure_valid_pvc_name claim =
     bindR (raise_if (claim = []) (HTTPException 400 INVALID_PVC_NAME)) (\<lambda>_.
     bindR (raise_if (length claim > 253) (HTTPException 400 INVALID_PVC_NAME)) (\<lambda>_.
     raise_if (\<not> match_dollar K8S_RESOURCE_NAME_RE claim) (HTTPException 400 INVALID_PVC_NAME)))"

definition ensure_valid_ossfs_option :: "string \<Rightarrow> unit res" where
  "ensure_valid_ossfs_option opt =
     bindR (raise_if (strip opt = []) (HTTPException 400 INVALID_OSSFS_OPTION)) (\<lambda>_.
     raise_if (starts_with (strip opt) ''-'') (HTTPException 400 INVALID_OSSFS_OPTION))"

definition ensure_valid_ossfs_volume :: "ossfs \<Rightarrow> unit res" where
  "ensure_valid_ossfs_volume o1 =
     bindR (raise_if (strip (bucket o1) = []) (HTTPException 400 INVALID_OSSFS_BUCKET)) (\<lambda>_.
     bindR (raise_if (strip (endpoint o1) = []) (HTTPException 400 INVALID_OSSFS_ENDPOINT)) (\<lambda>_.
     bindR (case ossfs_options o1 of None \<Rightarrow> ok
            | Some opts \<Rightarrow> for_each ensure_valid_ossfs_option opts) (\<lambda>_.
     raise_if (\<not> given (access_key_id o1) \<or> \<not> given (access_key_secret o1))
       (HTTPException 400 INVALID_OSSFS_CREDENTIALS))))"

text \<open>The configured egress image: \<open>egress_config.image if egress_config else None\<close>.\<close>

definition ensure_egress_configured :: "network_policy option \<Rightarrow> string option option \<Rightarrow> unit res" where
  "ensure_egress_configured np egress_config =
     (case np of
        None \<Rightarrow> ok
      | Some _ \<Rightarrow>
          raise_if (\<not> given (case egress_config of None \<Rightarrow> None | Some img \<Rightarrow> img))
            (HTTPException 400 INVALID_PARAMETER))"

section \<open>The whole volume list\<close>

text \<open>The body of the loop after the duplicate check.\<close>

definition ensure_volume_valid :: "string list option \<Rightarrow> volume \<Rightarrow> unit res" where
  "ensure_volume_valid allowed v =
     bindR (ensure_valid_volume_name (vol_name v)) (\<lambda>_.
     bindR (ensure_valid_mount_path (mount_path v)) (\<lambda>_.
     bindR (ensure_valid_sub_path (sub_path v)) (\<lambda>_.
     bindR (raise_if (backends_specified v = 0) (HTTPException 400 INVALID_VOLUME_BACKEND)) (\<lambda>_.
     bindR (raise_if (backends_specified v > 1) (HTTPException 400 INVALID_VOLUME_BACKEND)) (\<lambda>_.
     bindR (case host_path v of None \<Rightarrow> ok | Some p \<Rightarrow> ensure_valid_host_path p allowed) (\<lambda>_.
     bindR (case pvc_claim v of None \<Rightarrow> ok | Some n \<Rightarrow> ensure_valid_pvc_name n) (\<lambda>_.
     (case ossfs_of v of None \<Rightarrow> ok | Some o1 \<Rightarrow> ensure_valid_ossfs_volume o1))))))))"

fun ensure_volumes_loop :: "string list option \<Rightarrow> string set \<Rightarrow> volume list \<Rightarrow> unit res" where
  "ensure_volumes_loop allowed seen [] = ok"
| "ensure_volumes_loop allowed seen (v # vs) =
     (if vol_name v \<in> seen then Inl (HTTPException 400 DUPLICATE_VOLUME_NAME)
      else bindR (ensure_volume_valid allowed v) (\<lambda>_.
             ensure_volumes_loop allowed (insert (vol_name v) seen) vs))"

definition ensure_volumes_valid :: "volume list option \<Rightarrow> string list option \<Rightarrow> unit res" where
  "ensure_volumes_valid volumes allowed =
     (case volumes of None \<Rightarrow> ok
      | Some vs \<Rightarrow> if vs = [] then ok else ensure_volumes_loop allowed {} vs)"

lemmas check_defs [res_simps] =
  ensure_entrypoint_def ensure_valid_port_def ensure_valid_volume_name_def
  ensure_valid_mount_path_def ensure_valid_pvc_name_def ensure_egress_configured_def

section \<open>What the name patterns accept\<close>

text \<open>\<open>dollar P\<close>: the strings of \<open>P\<close>, or one of them followed by a single newline.\<close>

definition dollar :: "(string \<Rightarrow> bool) \<Rightarrow> string \<Rightarrow> bool" where
  "dollar P s \<longleftrightarrow> P s \<or> (\<exists>t. s = t @ [newline] \<and> P t)"

lemma match_dollar_dollar: "match_dollar r s \<longleftrightarrow> dollar (matches r) s"
  by (simp add: match_dollar_iff dollar_def)

definition dns_label :: "string \<Rightarrow> bool" where
  "dns_label s \<longleftrightarrow> label_like lower_digit lower_digit_hyphen s"

definition label_name :: "string \<Rightarrow> bool" where
  "label_name s \<longleftrightarrow> label_like is_alnum label_char s"

lemma matches_dns_label:
  "matches VOLUME_NAME_RE s \<longleftrightarrow> dns_label s"
  "matches K8S_RESOURCE_NAME_RE s \<longleftrightarrow> dns_label s"
  "matches DNS_LABEL_PATTERN s \<longleftrightarrow> dns_label s"
  "matches NAME_PATTERN s \<longleftrightarrow> dns_label s"
  unfolding VOLUME_NAME_RE_def K8S_RESOURCE_NAME_RE_def DNS_LABEL_PATTERN_def NAME_PATTERN_def
    dns_label_def
  by (simp_all add: matches_RLabel lower_digit_hyphen_def)

lemma matches_label_name: "matches LABEL_NAME_RE s \<longleftrightarrow> label_name s"
  unfolding LABEL_NAME_RE_def label_name_def
  by (simp add: matches_RLabel label_char_def)

lemma matches_label_value: "matches LABEL_VALUE_RE s \<longleftrightarrow> s = [] \<or> label_name s"
  using matches_label_name [of s] by (auto simp: LABEL_VALUE_RE_def matches_lang)

lemma lang_dns_label: "s \<in> lang DNS_LABEL_PATTERN \<longleftrightarrow> dns_label s"
  using matches_dns_label(3) by (simp add: matches_lang)

lemma dns_label_no_dot: "dns_label s \<Longrightarrow> CHR ''.'' \<notin> set s"
  by (auto simp: dns_label_def label_like_def list_all_iff lower_digit_hyphen_def lower_digit_def
      is_lower_def is_digit_def code_def)

lemma star_dotted:
  "s \<in> star_lang (lang (RSeq DNS_LABEL_PATTERN (RChar (CHR ''.'')))) \<Longrightarrow>
   \<exists>ls. s = concat (map (\<lambda>l. l @ ''.'') ls) \<and> list_all dns_label ls"
proof (induction rule: star_lang.induct)
  case star_Nil
  have "[] = concat (map (\<lambda>l. l @ ''.'') []) \<and> list_all dns_label []" by simp
  then show ?case by blast
next
  case (star_append u v)
  then obtain ls where ls: "v = concat (map (\<lambda>l. l @ ''.'') ls)" "list_all dns_label ls" by blast
  from star_append(1) obtain l where "u = l @ ''.''" "dns_label l" by (auto simp: lang_dns_label)
  with ls have "u @ v = concat (map (\<lambda>l. l @ ''.'') (l # ls)) \<and> list_all dns_label (l # ls)"
    by simp
  then show ?case by blast
qed

lemma concat_dotted_join:
  "concat (map (\<lambda>l. l @ ''.'') ls) @ m = join_with (CHR ''.'') (ls @ [m])"
proof (induction ls)
  case Nil
  then show ?case by simp
next
  case (Cons l ls)
  then show ?case by (cases "ls @ [m]") auto
qed

lemma star_dottedI:
  "list_all dns_label ls \<Longrightarrow> concat (map (\<lambda>l. l @ ''.'') ls)
     \<in> star_lang (lang (RSeq DNS_LABEL_PATTERN (RChar (CHR ''.''))))"
proof (induction ls)
  case Nil
  then show ?case by (simp add: star_lang.star_Nil)
next
  case (Cons l ls)
  then have "l @ ''.'' \<in> lang (RSeq DNS_LABEL_PATTERN (RChar (CHR ''.'')))"
    by (auto simp: lang_dns_label)
  from star_lang.star_append [OF this] Cons show ?case by simp
qed

text \<open>A DNS subdomain: the dot-separated parts are all DNS labels.\<close>

lemma matches_dns_subdomain:
  "matches DNS_SUBDOMAIN_RE s \<longleftrightarrow> list_all dns_label (split_on (CHR ''.'') s)"
proof
  assume "matches DNS_SUBDOMAIN_RE s"
  then have "s \<in> lang (RSeq (RStar (RSeq DNS_LABEL_PATTERN (RChar (CHR ''.'')))) DNS_LABEL_PATTERN)"
    by (simp only: matches_lang DNS_SUBDOMAIN_RE_def)
  then obtain u m where um: "s = u @ m" "m \<in> lang DNS_LABEL_PATTERN"
      "u \<in> star_lang (lang (RSeq DNS_LABEL_PATTERN (RChar (CHR ''.''))))"
    by (simp only: lang.simps mem_Collect_eq) blast
  with star_dotted obtain ls where ls: "u = concat (map (\<lambda>l. l @ ''.'') ls)" "list_all dns_label ls"
    by blast
  have all: "list_all dns_label (ls @ [m])" using ls(2) um(2) by (simp add: lang_dns_label)
  have "s = join_with (CHR ''.'') (ls @ [m])" using um(1) ls(1) concat_dotted_join by simp
  then have "split_on (CHR ''.'') s = ls @ [m]"
    using all by (auto intro!: split_join simp: dns_label_no_dot list_all_iff)
  with all show "list_all dns_label (split_on (CHR ''.'') s)" by simp
next
  assume a: "list_all dns_label (split_on (CHR ''.'') s)"
  obtain ls m where lm: "split_on (CHR ''.'') s = ls @ [m]"
    by (cases "split_on (CHR ''.'') s" rule: rev_cases) auto
  have "s = concat (map (\<lambda>l. l @ ''.'') ls) @ m"
    using join_split [of "CHR ''.''" s] lm concat_dotted_join by metis
  moreover have "concat (map (\<lambda>l. l @ ''.'') ls)
      \<in> lang (RStar (RSeq DNS_LABEL_PATTERN (RChar (CHR ''.''))))"
    using star_dottedI a lm by simp
  moreover have "m \<in> lang DNS_LABEL_PATTERN" using a lm by (simp add: lang_dns_label)
  ultimately show "matches DNS_SUBDOMAIN_RE s"
    unfolding matches_lang DNS_SUBDOMAIN_RE_def lang.simps(4) by blast
qed

section \<open>Sub-paths and host paths\<close>

definition safe_sub_path :: "string \<Rightarrow> bool" where
  "safe_sub_path p \<longleftrightarrow> \<not> starts_with p ''/'' \<and> ''..'' \<notin> set (split_on slash p)"

lemma ensure_valid_sub_path_iff [res_simps]:
  "ensure_valid_sub_path sub = Inr u \<longleftrightarrow> (case sub of None \<Rightarrow> True | Some p \<Rightarrow> safe_sub_path p)"
proof (cases sub)
  case None
  then show ?thesis by (simp add: ensure_valid_sub_path_def)
next
  case (Some p)
  have "(\<forall>x \<in> set (split_on slash p). x \<noteq> ''..'') \<longleftrightarrow> ''..'' \<notin> set (split_on slash p)" by blast
  with Some show ?thesis
    by (auto simp: ensure_valid_sub_path_def safe_sub_path_def res_simps starts_with_def)
qed

text \<open>A component \<open>..\<close> of an absolute path is preceded by a slash.\<close>

lemma split_dotdot_contains:
  "''..'' \<in> set (split_on slash p) \<Longrightarrow> contains (slash # p) ''/..''"
proof (induction p rule: length_induct)
  case (1 p)
  obtain q qs where sp: "split_on slash p = q # qs" by (cases "split_on slash p") auto
  show ?case
  proof (cases "qs = []")
    case True
    with sp have "p = q" using join_split [of slash p] by simp
    with 1 sp True have "p = ''..''" by simp
    then show ?thesis by (simp add: starts_with_def)
  next
    case False
    then have p: "p = q @ slash # join_with slash qs"
      using join_split [of slash p] sp by (cases qs) auto
    have "\<And>r. r \<in> set qs \<Longrightarrow> slash \<notin> set r"
      using split_on_no_sep [of _ slash p] sp by simp
    with False have "split_on slash (join_with slash qs) = qs" by (rule split_join)
    show ?thesis
    proof (cases "q = ''..''")
      case True
      then show ?thesis using p by (simp add: starts_with_def)
    next
      case q: False
      with 1 sp have "''..'' \<in> set (split_on slash (join_with slash qs))"
        using \<open>split_on slash (join_with slash qs) = qs\<close> by auto
      with 1 have "contains (slash # join_with slash qs) ''/..''"
        using p by simp
      then show ?thesis
        unfolding p by (auto simp: contains_sublist sublist_Cons_right sublist_append)
    qed
  qed
qed

lemma abs_no_dotdot:
  assumes "starts_with p ''/''" and "\<not> contains p ''/..''"
  shows "''..'' \<notin> set (split_on slash p)"
proof -
  from assms(1) obtain q where "p = slash # q" by (cases p) (auto simp: starts_with_def)
  with assms(2) split_dotdot_contains [of q] show ?thesis by auto
qed

lemma contains_backslash_to_slash:
  assumes "CHR 0x5C \<notin> set q" and "contains p q"
  shows "contains (backslash_to_slash p) q"
proof -
  have "map (\<lambda>c. if c = CHR 0x5C then slash else c) q = q"
    using assms(1) by (intro map_idI) auto
  moreover obtain ps ss where "p = ps @ q @ ss"
    using assms(2) by (auto simp: contains_sublist sublist_def)
  ultimately have "backslash_to_slash p = backslash_to_slash ps @ q @ backslash_to_slash ss"
    by (simp add: backslash_to_slash_def)
  then show ?thesis by (simp add: contains_sublist)
qed

text \<open>An accepted host path: absolute, without \<open>..\<close>, and under an allowed prefix if there are any.\<close>

lemma ensure_valid_host_path_Inr:
  assumes "ensure_valid_host_path p allowed = Inr u"
  shows "starts_with p ''/''" and "\<not> starts_with p ''//''" and "''..'' \<notin> set (split_on slash p)"
    and "\<And>pres. allowed = Some pres \<Longrightarrow> \<exists>pre \<in> set pres. host_prefix_allows p pre"
proof -
  have c: "starts_with p ''/''" "\<not> contains (backslash_to_slash p) ''/..''"
      "\<not> contains (backslash_to_slash p) ''//''"
    using assms by (auto simp: ensure_valid_host_path_def path_isabs_def Let_def res_simps)
  show "starts_with p ''/''" by fact
  have "\<not> contains p ''/..''" using c(2) contains_backslash_to_slash [of "''/..''" p] by auto
  with c(1) show "''..'' \<notin> set (split_on slash p)" by (rule abs_no_dotdot)
  have "\<not> contains p ''//''" using c(3) contains_backslash_to_slash [of "''//''" p] by auto
  then show "\<not> starts_with p ''//''"
    unfolding contains_sublist starts_with_prefix by (auto dest: prefix_imp_sublist)
  show "\<exists>pre \<in> set pres. host_prefix_allows p pre" if "allowed = Some pres" for pres
    using assms that
    by (auto simp: ensure_valid_host_path_def Let_def res_simps list_ex_iff)
qed

lemma ensure_valid_host_path_norm:
  "ensure_valid_host_path p allowed = Inr u \<Longrightarrow> norm_abs (path_norm p)"
  by (rule norm_abs_path_norm) (auto dest: ensure_valid_host_path_Inr)

section \<open>Accepted volume lists\<close>

definition volume_valid :: "string list option \<Rightarrow> volume \<Rightarrow> bool" where
  "volume_valid allowed v \<longleftrightarrow>
     dollar dns_label (vol_name v) \<and> length (vol_name v) \<le> 63
     \<and> starts_with (mount_path v) ''/''
     \<and> (case sub_path v of None \<Rightarrow> True | Some p \<Rightarrow> safe_sub_path p)
     \<and> backends_specified v = 1
     \<and> (case host_path v of None \<Rightarrow> True | Some p \<Rightarrow> ensure_valid_host_path p allowed = ok)
     \<and> (case pvc_claim v of None \<Rightarrow> True
        | Some n \<Rightarrow> dollar dns_label n \<and> length n \<le> 253)
     \<and> (case ossfs_of v of None \<Rightarrow> True | Some o1 \<Rightarrow> ensure_valid_ossfs_volume o1 = ok)"

lemma dollar_dns_label_not_Nil: "dollar dns_label s \<Longrightarrow> s \<noteq> []"
  by (auto simp: dollar_def dns_label_def label_like_def)

lemma match_dollar_names:
  "match_dollar VOLUME_NAME_RE s \<longleftrightarrow> dollar dns_label s"
  "match_dollar K8S_RESOURCE_NAME_RE s \<longleftrightarrow> dollar dns_label s"
  by (simp_all add: match_dollar_dollar matches_dns_label dollar_def)

lemma ensure_volume_valid_iff: "ensure_volume_valid allowed v = Inr u \<longleftrightarrow> volume_valid allowed v"
proof -
  have n: "ensure_valid_volume_name s = Inr () \<longleftrightarrow> dollar dns_label s \<and> length s \<le> 63" for s
    using dollar_dns_label_not_Nil [of s] by (auto simp: res_simps match_dollar_names)
  have q: "ensure_valid_pvc_name s = Inr () \<longleftrightarrow> dollar dns_label s \<and> length s \<le> 253" for s
    using dollar_dns_label_not_Nil [of s] by (auto simp: res_simps match_dollar_names)
  have m: "ensure_valid_mount_path s = Inr () \<longleftrightarrow> starts_with s ''/''" for s
    by (auto simp: res_simps starts_with_def)
  show ?thesis
    unfolding ensure_volume_valid_def volume_valid_def bindR_eq_Inr raise_if_Inr
      ensure_valid_sub_path_iff
    by (auto simp: n q m split: option.splits)
qed

lemma ensure_volumes_loop_iff:
  "ensure_volumes_loop allowed seen vs = Inr u \<longleftrightarrow>
     distinct (map vol_name vs) \<and> vol_name ` set vs \<inter> seen = {} \<and> list_all (volume_valid allowed) vs"
  by (induction allowed seen vs rule: ensure_volumes_loop.induct)
     (auto simp: bindR_eq_Inr ensure_volume_valid_iff)

text \<open>
  \<open>ensure_volumes_valid\<close> accepts a list of volumes exactly when the names are pairwise distinct
  and every volume is valid on its own: a DNS-label name of at most 63 characters (up to a trailing
  newline), an absolute mount path, a relative sub-path without \<open>..\<close> components, exactly one backend,
  and that backend's own conditions.
\<close>

theorem ensure_volumes_valid_iff:
  "ensure_volumes_valid (Some vs) allowed = ok \<longleftrightarrow>
     distinct (map vol_name vs) \<and> list_all (volume_valid allowed) vs"
  by (auto simp: ensure_volumes_valid_def ensure_volumes_loop_iff)

end
