(* ===== verification/Config.thy ===== *)
theory Config
  imports Validators Complex_Main
begin

text \<open>
  \<open>server/src/config.py\<close> (the configuration models, their field constraints and their
  validators) and \<open>server/src/services/runtime_resolver.py\<close> (which container runtime a configuration asks
  for, and the check at startup). A validator returns the configuration it accepts, with the
  defaults it fills in, or the \<open>ValueError\<close> it raises.
\<close>

section \<open>Host names and addresses\<close>

definition chop_newline :: "string \<Rightarrow> string" where
  "chop_newline s = (if s \<noteq> [] \<and> last s = newline then butlast s else s)"

definition host_char :: "char \<Rightarrow> bool" where
  "host_char c \<longleftrightarrow> is_alnum c \<or> c = CHR ''-''"

definition DOTTED_HOST :: re where
  "DOTTED_HOST = RSeq (RRange 1 63 (RCls host_char))
     (RPlus (RSeq (RChar (CHR ''.'')) (RRange 1 63 (RCls host_char))))"

text \<open>
  \<open>_DOMAIN_RE\<close>: the first look-ahead bounds the length of what precedes the end (or a final newline),
  the second forbids a leading hyphen.
\<close>

definition is_valid_domain :: "string \<Rightarrow> bool" where
  "is_valid_domain h \<longleftrightarrow>
     1 \<le> length (chop_newline h) \<and> length (chop_newline h) \<le> 253
     \<and> \<not> starts_with h ''-'' \<and> match_dollar DOTTED_HOST h"

definition is_wildcard_domain :: "string \<Rightarrow> bool" where
  "is_wildcard_domain h \<longleftrightarrow>
     starts_with h ''*.'' \<and> \<not> starts_with (drop 2 h) ''-'' \<and> match_dollar DOTTED_HOST (drop 2 h)"

text \<open>\<open>ipaddress.ip_address\<close> on four groups of one to three digits: no leading zeros, at most 255.\<close>

definition octet_shape :: "string \<Rightarrow> bool" where
  "octet_shape s \<longleftrightarrow> 1 \<le> length s \<and> length s \<le> 3 \<and> list_all is_digit s"

definition octet_ok :: "string \<Rightarrow> bool" where
  "octet_ok s \<longleftrightarrow> octet_shape s \<and> (length s = 1 \<or> \<not> starts_with s ''0'') \<and> digits_val s \<le> 255"

definition ipv4_shape :: "string \<Rightarrow> bool" where
  "ipv4_shape s \<longleftrightarrow> length (split_on (CHR ''.'') s) = 4 \<and> list_all octet_shape (split_on (CHR ''.'') s)"

definition is_valid_ip :: "string \<Rightarrow> bool" where
  "is_valid_ip s \<longleftrightarrow> length (split_on (CHR ''.'') s) = 4 \<and> list_all octet_ok (split_on (CHR ''.'') s)"

definition is_valid_ip_or_ip_port :: "string \<Rightarrow> bool" where
  "is_valid_ip_or_ip_port address =
     (let t = chop_newline address;
          (ip, port) = split_first (CHR '':'') t;
          has_port = CHR '':'' \<in> set t
      in if \<not> (ipv4_shape ip \<and>
               (has_port \<longrightarrow> 1 \<le> length port \<and> length port \<le> 5 \<and> list_all is_digit port)) then False
         else if \<not> is_valid_ip ip then False
         else if \<not> has_port then True
         else 1 \<le> digits_val port \<and> digits_val port \<le> 65535)"

section \<open>Ingress\<close>

abbreviation INGRESS_MODE_DIRECT :: string where "INGRESS_MODE_DIRECT \<equiv> ''direct''"
abbreviation INGRESS_MODE_GATEWAY :: string where "INGRESS_MODE_GATEWAY \<equiv> ''gateway''"
abbreviation GATEWAY_ROUTE_MODE_WILDCARD :: string where "GATEWAY_ROUTE_MODE_WILDCARD \<equiv> ''wildcard''"
abbreviation GATEWAY_ROUTE_MODE_HEADER :: string where "GATEWAY_ROUTE_MODE_HEADER \<equiv> ''header''"
abbreviation GATEWAY_ROUTE_MODE_URI :: string where "GATEWAY_ROUTE_MODE_URI \<equiv> ''uri''"

record gateway_config =
  gw_address :: string
  gw_route_mode :: string

definition gateway_fields_ok :: "gateway_config \<Rightarrow> bool" where
  "gateway_fields_ok g \<longleftrightarrow> gw_address g \<noteq> [] \<and>
     gw_route_mode g \<in> {GATEWAY_ROUTE_MODE_WILDCARD, GATEWAY_ROUTE_MODE_HEADER, GATEWAY_ROUTE_MODE_URI}"

record ingress_config =
  ing_mode :: string
  ing_gateway :: "gateway_config option"

definition ingress_fields_ok :: "ingress_config \<Rightarrow> bool" where
  "ingress_fields_ok i \<longleftrightarrow> ing_mode i \<in> {INGRESS_MODE_DIRECT, INGRESS_MODE_GATEWAY} \<and>
     (case ing_gateway i of None \<Rightarrow> True | Some g \<Rightarrow> gateway_fields_ok g)"

definition validate_ingress_mode :: "ingress_config \<Rightarrow> ingress_config res" where
  "validate_ingress_mode i =
     (if ing_mode i = INGRESS_MODE_GATEWAY \<and> ing_gateway i = None then Inl ValueError
      else if ing_mode i = INGRESS_MODE_DIRECT \<and> ing_gateway i \<noteq> None then Inl ValueError
      else if ing_mode i = INGRESS_MODE_GATEWAY
      then (case ing_gateway i of
              None \<Rightarrow> Inr i
            | Some g \<Rightarrow>
                if contains (gw_address g) ''://'' then Inl ValueError
                else if gw_route_mode g = GATEWAY_ROUTE_MODE_WILDCARD
                then (if \<not> is_wildcard_domain (gw_address g) then Inl ValueError else Inr i)
                else if contains (gw_address g) ''*'' then Inl ValueError
                else if \<not> (is_valid_domain (gw_address g) \<or> is_valid_ip_or_ip_port (gw_address g))
                then Inl ValueError
                else Inr i)
      else Inr i)"

section \<open>Runtime blocks\<close>

record secure_runtime_config =
  sec_type :: string
  sec_docker_runtime :: "string option"
  sec_k8s_runtime_class :: "string option"

definition secure_fields_ok :: "secure_runtime_config \<Rightarrow> bool" where
  "secure_fields_ok c \<longleftrightarrow> sec_type c \<in> {'''', ''gvisor'', ''kata'', ''firecracker''}"

definition validate_secure_runtime :: "secure_runtime_config \<Rightarrow> secure_runtime_config res" where
  "validate_secure_runtime c =
     (if sec_type c = ''''
      then (if sec_docker_runtime c \<noteq> None \<or> sec_k8s_runtime_class c \<noteq> None then Inl ValueError
            else Inr c)
      else if sec_type c = ''firecracker'' \<and> sec_k8s_runtime_class c = None then Inl ValueError
      else if sec_type c \<in> {''gvisor'', ''kata''} \<and> sec_docker_runtime c = None
              \<and> sec_k8s_runtime_class c = None then Inl ValueError
      else Inr c)"

record server_config =
  srv_host :: string
  srv_port :: int
  srv_log_level :: string
  srv_api_key :: "string option"
  srv_eip :: "string option"
  srv_max_timeout :: "int option"
  srv_terminal_secret :: "string option"
  srv_terminal_ttl :: int

text \<open>Optional fields with a bound: the bound applies to a value that is present.\<close>

definition opt_ok :: "('a \<Rightarrow> bool) \<Rightarrow> 'a option \<Rightarrow> bool" where
  "opt_ok P v \<longleftrightarrow> (case v of None \<Rightarrow> True | Some x \<Rightarrow> P x)"

definition server_fields_ok :: "server_config \<Rightarrow> bool" where
  "server_fields_ok c \<longleftrightarrow> srv_host c \<noteq> [] \<and> 1 \<le> srv_port c \<and> srv_port c \<le> 65535 \<and> 3 \<le> length (srv_log_level c)
     \<and> opt_ok (\<lambda>t. 60 \<le> t) (srv_max_timeout c) \<and> opt_ok (\<lambda>k. 16 \<le> length k) (srv_terminal_secret c)
     \<and> 30 \<le> srv_terminal_ttl c"

record execd_init_resources =
  init_limits :: "(string, string) dict option"
  init_requests :: "(string, string) dict option"

record kubernetes_config =
  k8s_kubeconfig_path :: "string option"
  k8s_informer_enabled :: bool
  k8s_informer_resync_seconds :: int
  k8s_informer_watch_timeout_seconds :: int
  k8s_read_qps :: rat
  k8s_read_burst :: int
  k8s_write_qps :: rat
  k8s_write_burst :: int
  k8s_namespace :: "string option"
  k8s_service_account :: "string option"
  k8s_workload_provider :: "string option"
  k8s_batchsandbox_template_file :: "string option"
  k8s_create_timeout_seconds :: int
  k8s_create_poll_interval_seconds :: rat
  k8s_execd_init_resources :: "execd_init_resources option"

definition default_kubernetes_config :: kubernetes_config where
  "default_kubernetes_config =
     \<lparr>k8s_kubeconfig_path = None, k8s_informer_enabled = True, k8s_informer_resync_seconds = 300,
      k8s_informer_watch_timeout_seconds = 60, k8s_read_qps = 0, k8s_read_burst = 0, k8s_write_qps = 0,
      k8s_write_burst = 0, k8s_namespace = None, k8s_service_account = None, k8s_workload_provider = None,
      k8s_batchsandbox_template_file = None, k8s_create_timeout_seconds = 60,
      k8s_create_poll_interval_seconds = 1, k8s_execd_init_resources = None\<rparr>"

definition kubernetes_fields_ok :: "kubernetes_config \<Rightarrow> bool" where
  "kubernetes_fields_ok k \<longleftrightarrow> 1 \<le> k8s_informer_resync_seconds k \<and> 1 \<le> k8s_informer_watch_timeout_seconds k
     \<and> 0 \<le> k8s_read_qps k \<and> 0 \<le> k8s_read_burst k \<and> 0 \<le> k8s_write_qps k \<and> 0 \<le> k8s_write_burst k
     \<and> 1 \<le> k8s_create_timeout_seconds k \<and> 0 < k8s_create_poll_interval_seconds k"

record agent_sandbox_config =
  agent_template_file :: "string option"
  agent_shutdown_policy :: string
  agent_ingress_enabled :: bool

definition agent_sandbox_fields_ok :: "agent_sandbox_config \<Rightarrow> bool" where
  "agent_sandbox_fields_ok a \<longleftrightarrow> agent_shutdown_policy a \<in> {''Delete'', ''Retain''}"

definition default_agent_sandbox_config :: agent_sandbox_config where
  "default_agent_sandbox_config =
     \<lparr>agent_template_file = None, agent_shutdown_policy = ''Delete'', agent_ingress_enabled = True\<rparr>"

record storage_config =
  allowed_host_paths :: "string list"
  ossfs_mount_root :: string
  default_workspace_volume_size :: string

record docker_config =
  dck_network_mode :: string
  dck_api_timeout :: "int option"
  dck_host_ip :: "string option"
  dck_drop_capabilities :: "string list"
  dck_apparmor_profile :: "string option"
  dck_no_new_privileges :: bool
  dck_seccomp_profile :: "string option"
  dck_pids_limit :: "int option"

definition docker_fields_ok :: "docker_config \<Rightarrow> bool" where
  "docker_fields_ok d \<longleftrightarrow> opt_ok (\<lambda>t. 1 \<le> t) (dck_api_timeout d) \<and> opt_ok (\<lambda>n. 1 \<le> n) (dck_pids_limit d)"

record app_config =
  cfg_server :: server_config
  cfg_runtime_type :: string
  cfg_execd_image :: string
  cfg_kubernetes :: "kubernetes_config option"
  cfg_agent_sandbox :: "agent_sandbox_config option"
  cfg_ingress :: "ingress_config option"
  cfg_docker :: docker_config
  cfg_storage :: storage_config
  cfg_egress :: "string option option"
  cfg_secure_runtime :: "secure_runtime_config option"

definition validate_docker_blocks :: "app_config \<Rightarrow> app_config res" where
  "validate_docker_blocks c =
     (if cfg_kubernetes c \<noteq> None then Inl ValueError
      else if cfg_agent_sandbox c \<noteq> None then Inl ValueError
      else if (case cfg_ingress c of None \<Rightarrow> False | Some i \<Rightarrow> ing_mode i \<noteq> INGRESS_MODE_DIRECT)
      then Inl ValueError
      else if (case cfg_secure_runtime c of None \<Rightarrow> False | Some s \<Rightarrow> sec_type s = ''firecracker'')
      then Inl ValueError
      else Inr c)"

definition validate_kubernetes_blocks :: "app_config \<Rightarrow> app_config res" where
  "validate_kubernetes_blocks c =
     (let k = (case cfg_kubernetes c of None \<Rightarrow> default_kubernetes_config | Some k \<Rightarrow> k);
          c1 = c\<lparr>cfg_kubernetes := Some k\<rparr>;
          provider_type = lower (str_or (k8s_workload_provider k) '''')
      in if provider_type = ''agent-sandbox''
         then Inr (case cfg_agent_sandbox c1 of
                     None \<Rightarrow> c1\<lparr>cfg_agent_sandbox := Some default_agent_sandbox_config\<rparr>
                   | Some _ \<Rightarrow> c1)
         else if cfg_agent_sandbox c1 \<noteq> None then Inl ValueError
         else Inr c1)"

definition validate_runtime_blocks :: "app_config \<Rightarrow> app_config res" where
  "validate_runtime_blocks c =
     (if cfg_runtime_type c = ''docker'' then validate_docker_blocks c
      else if cfg_runtime_type c = ''kubernetes'' then validate_kubernetes_blocks c
      else Inl ValueError)"

text \<open>
  Validation of the whole model: the fields of the nested models, their validators, then the root
  validator. \<open>cfg_egress\<close> is the image of the egress block, where there is one.
\<close>

definition config_fields_ok :: "app_config \<Rightarrow> bool" where
  "config_fields_ok c \<longleftrightarrow> server_fields_ok (cfg_server c) \<and> cfg_execd_image c \<noteq> []
     \<and> opt_ok kubernetes_fields_ok (cfg_kubernetes c) \<and> opt_ok agent_sandbox_fields_ok (cfg_agent_sandbox c)
     \<and> docker_fields_ok (cfg_docker c) \<and> opt_ok (opt_ok (\<lambda>img. img \<noteq> [])) (cfg_egress c)"

definition validate_app_config :: "app_config \<Rightarrow> app_config res" where
  "validate_app_config c =
     bindR (raise_if (\<not> config_fields_ok c) ValueError) (\<lambda>_.
     bindR (case cfg_ingress c of None \<Rightarrow> ok
            | Some i \<Rightarrow> bindR (raise_if (\<not> ingress_fields_ok i) ValueError) (\<lambda>_.
                         bindR (validate_ingress_mode i) (\<lambda>_. ok))) (\<lambda>_.
     bindR (case cfg_secure_runtime c of None \<Rightarrow> ok
            | Some s \<Rightarrow> bindR (raise_if (\<not> secure_fields_ok s) ValueError) (\<lambda>_.
                         bindR (validate_secure_runtime s) (\<lambda>_. ok))) (\<lambda>_.
     validate_runtime_blocks c)))"

text \<open>\<open>self.app_config.storage.allowed_host_paths or None\<close>\<close>

definition allowed_prefixes_of :: "app_config \<Rightarrow> string list option" where
  "allowed_prefixes_of c =
     (case allowed_host_paths (cfg_storage c) of [] \<Rightarrow> None | ps \<Rightarrow> Some ps)"

section \<open>Secure runtime resolver\<close>

definition DEFAULT_DOCKER_RUNTIMES :: "(string, string) dict" where
  "DEFAULT_DOCKER_RUNTIMES = [(''gvisor'', ''runsc''), (''kata'', ''kata-runtime'')]"

definition DEFAULT_K8S_RUNTIME_CLASSES :: "(string, string) dict" where
  "DEFAULT_K8S_RUNTIME_CLASSES =
     [(''gvisor'', ''gvisor''), (''kata'', ''kata-qemu''), (''firecracker'', ''kata-fc'')]"

definition secure_enabled :: "app_config \<Rightarrow> bool" where
  "secure_enabled c \<longleftrightarrow>
     (case cfg_secure_runtime c of None \<Rightarrow> False | Some s \<Rightarrow> sec_type s \<noteq> '''')"

definition get_docker_runtime :: "app_config \<Rightarrow> string option" where
  "get_docker_runtime c =
     (if \<not> secure_enabled c then None
      else (case cfg_secure_runtime c of
              None \<Rightarrow> None
            | Some s \<Rightarrow>
                if given (sec_docker_runtime s) then sec_docker_runtime s
                else map_of DEFAULT_DOCKER_RUNTIMES (sec_type s)))"

definition get_k8s_runtime_class :: "app_config \<Rightarrow> string option" where
  "get_k8s_runtime_class c =
     (if \<not> secure_enabled c then None
      else (case cfg_secure_runtime c of
              None \<Rightarrow> None
            | Some s \<Rightarrow>
                if given (sec_k8s_runtime_class s) then sec_k8s_runtime_class s
                else map_of DEFAULT_K8S_RUNTIME_CLASSES (sec_type s)))"

text \<open>
  The startup check. The daemon's list of runtimes and the cluster's answer to
  \<open>read_runtime_class\<close> are arguments; \<open>None\<close> stands for a client that is not available.
\<close>

definition validate_docker_runtime :: "app_config \<Rightarrow> (exn + string list) option \<Rightarrow> unit res" where
  "validate_docker_runtime c docker_runtimes =
     (if \<not> given (get_docker_runtime c) then ok
      else (case docker_runtimes of
              None \<Rightarrow> ok
            | Some answer \<Rightarrow> bindR answer (\<lambda>names.
                raise_if (the (get_docker_runtime c) \<notin> set names) ValueError)))"

definition validate_k8s_runtime_class :: "app_config \<Rightarrow> (string \<Rightarrow> unit res) option \<Rightarrow> unit res" where
  "validate_k8s_runtime_class c read_runtime_class =
     (if \<not> given (get_k8s_runtime_class c) then ok
      else (case read_runtime_class of
              None \<Rightarrow> ok
            | Some rd \<Rightarrow>
                (case rd (the (get_k8s_runtime_class c)) of
                   Inr _ \<Rightarrow> ok
                 | Inl (ApiException s) \<Rightarrow> (if s = 404 then Inl ValueError else Inl (ApiException s))
                 | Inl e \<Rightarrow> Inl e)))"

definition validate_secure_runtime_on_startup ::
    "app_config \<Rightarrow> (exn + string list) option \<Rightarrow> (string \<Rightarrow> unit res) option \<Rightarrow> unit res" where
  "validate_secure_runtime_on_startup c docker_runtimes read_runtime_class =
     (if \<not> secure_enabled c then ok
      else if cfg_runtime_type c = ''docker'' then validate_docker_runtime c docker_runtimes
      else if cfg_runtime_type c = ''kubernetes'' then validate_k8s_runtime_class c read_runtime_class
      else ok)"

section \<open>Lemmas\<close>

lemma validate_app_config_parts:
  assumes "validate_app_config c = Inr c'"
  shows "validate_runtime_blocks c = Inr c'"
    and "\<And>i. cfg_ingress c = Some i \<Longrightarrow> ingress_fields_ok i \<and> validate_ingress_mode i = Inr i"
    and "\<And>s. cfg_secure_runtime c = Some s \<Longrightarrow> secure_fields_ok s \<and> validate_secure_runtime s = Inr s"
proof -
  have i: "validate_ingress_mode x = Inr y \<Longrightarrow> y = x" for x y
    by (auto simp: validate_ingress_mode_def split: if_splits option.splits)
  have s: "validate_secure_runtime x = Inr y \<Longrightarrow> y = x" for x y
    by (auto simp: validate_secure_runtime_def split: if_splits)
  show "validate_runtime_blocks c = Inr c'"
    using assms by (auto simp: validate_app_config_def res_simps)
  show "ingress_fields_ok j \<and> validate_ingress_mode j = Inr j" if "cfg_ingress c = Some j" for j
    using assms that by (auto simp: validate_app_config_def res_simps dest: i)
  show "secure_fields_ok r \<and> validate_secure_runtime r = Inr r" if "cfg_secure_runtime c = Some r" for r
    using assms that by (auto simp: validate_app_config_def res_simps dest: s)
qed

lemma validate_runtime_blocks_keeps:
  assumes "validate_runtime_blocks c = Inr c'"
  shows "cfg_secure_runtime c' = cfg_secure_runtime c" and "cfg_ingress c' = cfg_ingress c"
    and "cfg_runtime_type c' = cfg_runtime_type c"
  using assms
  by (auto simp: validate_runtime_blocks_def validate_docker_blocks_def
      validate_kubernetes_blocks_def Let_def split: if_splits option.splits)

lemma secure_runtime_never_dropped_aux:
  assumes "validate_app_config c = Inr c'" and "secure_enabled c'"
  shows "(cfg_runtime_type c' = ''docker'' \<and> given (get_docker_runtime c')) \<or>
         (cfg_runtime_type c' = ''kubernetes'' \<and> given (get_k8s_runtime_class c'))"
proof -
  note p = validate_app_config_parts [OF assms(1)]
  note k = validate_runtime_blocks_keeps [OF p(1)]
  obtain s where s: "cfg_secure_runtime c' = Some s" "sec_type s \<noteq> ''''"
    using assms(2) by (auto simp: secure_enabled_def split: option.splits)
  with p(3) k have f: "secure_fields_ok s" by simp
  have rt: "cfg_runtime_type c = ''docker'' \<or> cfg_runtime_type c = ''kubernetes''"
    using p(1) by (auto simp: validate_runtime_blocks_def split: if_splits)
  have fc: "cfg_runtime_type c = ''docker'' \<Longrightarrow> sec_type s \<noteq> ''firecracker''"
    using p(1) s(1) k(1)
    by (auto simp: validate_runtime_blocks_def validate_docker_blocks_def split: if_splits)
  have "cfg_runtime_type c = ''docker'' \<Longrightarrow> given (get_docker_runtime c')"
    using f fc s assms(2)
    by (auto simp: get_docker_runtime_def secure_fields_ok_def DEFAULT_DOCKER_RUNTIMES_def given_def)
  moreover have "given (get_k8s_runtime_class c')"
    using f s assms(2)
    by (auto simp: get_k8s_runtime_class_def secure_fields_ok_def DEFAULT_K8S_RUNTIME_CLASSES_def given_def)
  ultimately show ?thesis using rt k(3) by auto
qed

section \<open>Sample configurations\<close>

text \<open>Concrete configurations at which the theorems with hypotheses are instantiated.\<close>

definition sample_config :: app_config where
  "sample_config =
     \<lparr>cfg_server = \<lparr>srv_host = ''0.0.0.0'', srv_port = 8080, srv_log_level = ''INFO'', srv_api_key = Some ''secret'',
                    srv_eip = None, srv_max_timeout = Some 86400, srv_terminal_secret = None,
                    srv_terminal_ttl = 300\<rparr>,
      cfg_runtime_type = ''docker'', cfg_execd_image = ''execd:1'',
      cfg_kubernetes = None, cfg_agent_sandbox = None, cfg_ingress = None,
      cfg_docker = \<lparr>dck_network_mode = ''bridge'', dck_api_timeout = None, dck_host_ip = None,
                    dck_drop_capabilities = [''AUDIT_WRITE'', ''MKNOD''], dck_apparmor_profile = None,
                    dck_no_new_privileges = True, dck_seccomp_profile = None, dck_pids_limit = Some 512\<rparr>,
      cfg_storage = \<lparr>allowed_host_paths = [''/data''], ossfs_mount_root = ''/mnt/ossfs'',
                     default_workspace_volume_size = ''1Gi''\<rparr>,
      cfg_egress = Some (Some ''egress:1''),
      cfg_secure_runtime = Some \<lparr>sec_type = ''gvisor'', sec_docker_runtime = Some ''runsc'',
                                 sec_k8s_runtime_class = None\<rparr>\<rparr>"

definition sample_gateway :: ingress_config where
  "sample_gateway = \<lparr>ing_mode = INGRESS_MODE_GATEWAY,
     ing_gateway = Some \<lparr>gw_address = ''*.sandbox.io'', gw_route_mode = GATEWAY_ROUTE_MODE_WILDCARD\<rparr>\<rparr>"

definition sample_k8s_config :: app_config where
  "sample_k8s_config = sample_config\<lparr>cfg_runtime_type := ''kubernetes'',
     cfg_kubernetes := Some default_kubernetes_config, cfg_ingress := Some sample_gateway\<rparr>"

lemmas field_bounds = config_fields_ok_def server_fields_ok_def docker_fields_ok_def
  kubernetes_fields_ok_def opt_ok_def default_kubernetes_config_def

lemma sample_config_valid: "validate_app_config sample_config = Inr sample_config"
  by (simp add: sample_config_def validate_app_config_def secure_fields_ok_def field_bounds
      validate_secure_runtime_def validate_runtime_blocks_def validate_docker_blocks_def)

lemma sample_k8s_config_valid: "validate_app_config sample_k8s_config = Inr sample_k8s_config"
proof -
  have w: "is_wildcard_domain ''*.sandbox.io''" by code_simp
  show ?thesis
    by (simp add: sample_k8s_config_def sample_config_def sample_gateway_def validate_app_config_def
        ingress_fields_ok_def gateway_fields_ok_def validate_ingress_mode_def starts_with_def w
        secure_fields_ok_def validate_secure_runtime_def validate_runtime_blocks_def
        validate_kubernetes_blocks_def field_bounds str_or_def lower_def)
qed

lemma sample_config_secure: "secure_enabled sample_config"
  by (simp add: sample_config_def secure_enabled_def)

text \<open>
  A validated configuration that asks for a secure runtime never runs containers on the default
  one: in Docker mode the resolver returns a non-empty OCI runtime name, in Kubernetes mode a
  non-empty RuntimeClass.
\<close>

theorem secure_runtime_never_dropped:
  assumes "validate_app_config c = Inr c'" and "secure_enabled c'"
  shows "(cfg_runtime_type c' = ''docker'' \<and> given (get_docker_runtime c')) \<or>
         (cfg_runtime_type c' = ''kubernetes'' \<and> given (get_k8s_runtime_class c'))"
  by (rule secure_runtime_never_dropped_aux [OF assms])

theorem secure_runtime_never_dropped_witness:
  "(cfg_runtime_type sample_config = ''docker'' \<and> given (get_docker_runtime sample_config)) \<or>
   (cfg_runtime_type sample_config = ''kubernetes'' \<and> given (get_k8s_runtime_class sample_config))"
  by (rule secure_runtime_never_dropped [OF sample_config_valid sample_config_secure])

text \<open>
  If the startup check passes for a Docker configuration with a secure runtime and a reachable
  daemon, the runtime the service will pass to every container is one the daemon offers.
\<close>

theorem startup_check_docker_runtime:
  assumes "validate_app_config c = Inr c'" and "secure_enabled c'" and "cfg_runtime_type c' = ''docker''"
    and "validate_secure_runtime_on_startup c' (Some (Inr names)) rd = ok"
  shows "\<exists>r. get_docker_runtime c' = Some r \<and> r \<noteq> [] \<and> r \<in> set names"
proof -
  have "given (get_docker_runtime c')"
    using secure_runtime_never_dropped_aux [OF assms(1,2)] assms(3) by simp
  then obtain r where "get_docker_runtime c' = Some r" "r \<noteq> []"
    by (auto simp: given_def)
  with assms(2-4) show ?thesis
    by (auto simp: validate_secure_runtime_on_startup_def validate_docker_runtime_def given_def res_simps)
qed

theorem startup_check_docker_runtime_witness:
  "\<exists>r. get_docker_runtime sample_config = Some r \<and> r \<noteq> [] \<and> r \<in> set [''runc'', ''runsc'']"
proof (rule startup_check_docker_runtime [OF sample_config_valid sample_config_secure, where rd = None])
  show "cfg_runtime_type sample_config = ''docker''" by (simp add: sample_config_def)
  show "validate_secure_runtime_on_startup sample_config (Some (Inr [''runc'', ''runsc''])) None = ok"
    by (simp add: validate_secure_runtime_on_startup_def validate_docker_runtime_def sample_config_def
        secure_enabled_def get_docker_runtime_def given_def)
qed

end
