(* ===== verification/Helpers.thy ===== *)
theory Helpers
  imports Config
begin

text \<open>
  \<open>server/src/services/helpers.py\<close>: memory quantities, Docker timestamps, external URLs, the list
  filter and the endpoints of a gateway ingress. \<open>datetime.fromisoformat\<close> is the argument \<open>from_iso\<close>
  (\<open>None\<close> is its \<open>ValueError\<close>) and the clock is the argument \<open>now\<close>. \<open>parse_nano_cpus\<close> computes in
  floating point and is not modelled.
\<close>

section \<open>Quantities\<close>

definition MEMORY_MULTIPLIERS :: "(string, int) dict" where
  "MEMORY_MULTIPLIERS =
     [('''', 1), (''b'', 1), (''k'', 1000), (''kb'', 1000), (''ki'', 1024),
      (''m'', 1000000), (''mb'', 1000000), (''mi'', 1024 ^ 2),
      (''g'', 1000000000), (''gb'', 1000000000), (''gi'', 1024 ^ 3),
      (''t'', 1000000000000), (''tb'', 1000000000000), (''ti'', 1024 ^ 4)]"

text \<open>The unit group \<open>([kmgti]i?|[kmgti]?b)\<close> of \<open>MEMORY_PATTERN\<close>, on the lower-cased text.\<close>

definition unit_letter :: "char \<Rightarrow> bool" where
  "unit_letter c \<longleftrightarrow> c \<in> set ''kmgti''"

definition MEMORY_UNIT :: re where
  "MEMORY_UNIT = RAlt (RSeq (RCls unit_letter) (ROpt (RChar (CHR ''i''))))
                      (RSeq (ROpt (RCls unit_letter)) (RChar (CHR ''b'')))"

text \<open>
  \<open>MEMORY_PATTERN.match\<close>: white space, the longest run of digits (what follows them is never a
  digit, so the match cannot stop earlier), the optional unit, white space. The result is the two
  groups.
\<close>

definition memory_match :: "string \<Rightarrow> (string \<times> string) option" where
  "memory_match v =
     (let s = lstrip_by is_space v;
          ds = takeWhile is_digit s;
          u = lower (rstrip_by is_space (dropWhile is_digit s))
      in if ds \<noteq> [] \<and> (u = [] \<or> matches MEMORY_UNIT u) then Some (ds, u) else None)"

definition parse_memory_limit :: "string option \<Rightarrow> int option" where
  "parse_memory_limit v =
     (if \<not> given v then None
      else (case memory_match (the v) of
              None \<Rightarrow> None
            | Some (amount, u) \<Rightarrow>
                (case map_of MEMORY_MULTIPLIERS u of
                   None \<Rightarrow> None
                 | Some multiplier \<Rightarrow>
                     if multiplier = 0 then None else Some (int (digits_val amount) * multiplier))))"

section \<open>Timestamps\<close>

text \<open>The separator search \<open>for sep in ("+", "-")\<close>: a plus anywhere wins over a minus.\<close>

definition split_zone :: "string \<Rightarrow> string \<times> string" where
  "split_zone rest =
     (if CHR ''+'' \<in> set rest
      then (takeWhile (\<lambda>c. c \<noteq> CHR ''+'') rest, dropWhile (\<lambda>c. c \<noteq> CHR ''+'') rest)
      else if CHR ''-'' \<in> set rest
      then (takeWhile (\<lambda>c. c \<noteq> CHR ''-'') rest, dropWhile (\<lambda>c. c \<noteq> CHR ''-'') rest)
      else (rest, []))"

definition normalize_timestamp :: "string \<Rightarrow> string" where
  "normalize_timestamp ts =
     (let n = (if ends_with ts ''Z'' then butlast ts @ ''+00:00'' else ts)
      in if contains n ''.''
         then (let (main, rest) = split_first (CHR ''.'') n;
                   (fraction, tz) = split_zone rest
               in if take 6 fraction \<noteq> [] then main @ ''.'' @ take 6 fraction @ tz else main @ tz)
         else n)"

definition parse_timestamp ::
    "(string \<Rightarrow> datetime option) \<Rightarrow> timestamp \<Rightarrow> string option \<Rightarrow> datetime" where
  "parse_timestamp from_iso now ts =
     (if \<not> given ts \<or> ts = Some ''0001-01-01T00:00:00Z'' then Aware now 0
      else (case from_iso (normalize_timestamp (the ts)) of None \<Rightarrow> Aware now 0 | Some d \<Rightarrow> d))"

section \<open>URLs, filters, ingress endpoints\<close>

definition normalize_external_endpoint_url :: "string \<Rightarrow> string \<Rightarrow> string" where
  "normalize_external_endpoint_url ep default_scheme =
     (let e = strip ep
      in if starts_with e ''http://'' \<or> starts_with e ''https://'' then e
         else default_scheme @ ''://'' @ e)"

definition matches_filter :: "sandbox \<Rightarrow> sandbox_filter option \<Rightarrow> bool" where
  "matches_filter sb f =
     (case f of
        None \<Rightarrow> True
      | Some flt \<Rightarrow>
          (case filter_state flt of
             None \<Rightarrow> True
           | Some desired \<Rightarrow>
               desired = [] \<or> lower (state (sbx_status sb)) \<in> set (map lower desired))
          \<and> (case filter_metadata flt of
               None \<Rightarrow> True
             | Some wanted \<Rightarrow>
                 list_all (\<lambda>(k, v). map_of (case sbx_metadata sb of None \<Rightarrow> [] | Some m \<Rightarrow> m) k = Some v)
                   wanted))"

definition format_ingress_endpoint ::
    "ingress_config option \<Rightarrow> string \<Rightarrow> int \<Rightarrow> sandbox_endpoint option res" where
  "format_ingress_endpoint ingress sandbox_id port =
     (case ingress of
        None \<Rightarrow> Inr None
      | Some i \<Rightarrow>
          if ing_mode i \<noteq> INGRESS_MODE_GATEWAY then Inr None
          else (case ing_gateway i of
                  None \<Rightarrow> Inr None
                | Some g \<Rightarrow>
                    (let address = gw_address g; route_mode = gw_route_mode g
                     in if route_mode = GATEWAY_ROUTE_MODE_WILDCARD
                        then (let base = (if starts_with address ''*.'' then drop 2 address else address)
                              in Inr (Some \<lparr>ep_endpoint = sandbox_id @ ''-'' @ str_int port @ ''.'' @ base,
                                            ep_headers = None\<rparr>))
                        else if route_mode = GATEWAY_ROUTE_MODE_URI
                        then Inr (Some \<lparr>ep_endpoint = address @ ''/'' @ sandbox_id @ ''/'' @ str_int port,
                                        ep_headers = None\<rparr>)
                        else if route_mode = GATEWAY_ROUTE_MODE_HEADER
                        then Inr (Some \<lparr>ep_endpoint = address,
                                        ep_headers = Some [(OPEN_SANDBOX_INGRESS_HEADER,
                                          sandbox_id @ ''-'' @ str_int port)]\<rparr>)
                        else Inl RuntimeError)))"

text \<open>The headers of \<open>server/src/services/endpoint_auth.py\<close>.\<close>

definition build_egress_auth_headers :: "string \<Rightarrow> (string, string) dict" where
  "build_egress_auth_headers token = [(OPEN_SANDBOX_EGRESS_AUTH_HEADER, token)]"

definition merge_endpoint_headers ::
    "(string, string) dict option \<Rightarrow> (string, string) dict \<Rightarrow> (string, string) dict" where
  "merge_endpoint_headers existing extra =
     dict_update (case existing of None \<Rightarrow> [] | Some h \<Rightarrow> h) extra"

section \<open>Memory quantities\<close>

lemma takeWhile_digits_append:
  "list_all is_digit ds \<Longrightarrow> u = [] \<or> \<not> is_digit (hd u) \<Longrightarrow>
     takeWhile is_digit (ds @ u) = ds \<and> dropWhile is_digit (ds @ u) = u"
  by (cases u) (auto simp: list_all_iff takeWhile_append dropWhile_append)

lemma str_nat_list_all: "list_all is_digit (str_nat n)"
  using str_nat_digits [of n] by (simp add: list_all_iff)

lemma rstrip_by_id: "u = [] \<or> \<not> p (last u) \<Longrightarrow> rstrip_by p u = u"
  by (cases u rule: rev_cases) (auto simp: rstrip_by_def)

lemma lstrip_by_id: "\<not> p (hd u) \<Longrightarrow> lstrip_by p u = u"
  by (cases u) (auto simp: lstrip_by_def)

text \<open>A number followed directly by a unit, with no white space, is matched as these two groups.\<close>

lemma memory_match_number:
  assumes "u = [] \<or> \<not> is_digit (hd u) \<and> \<not> is_space (last u)"
  shows "memory_match (str_nat n @ u) =
           (if u = [] \<or> matches MEMORY_UNIT (lower u) then Some (str_nat n, lower u) else None)"
proof -
  have hd: "\<not> is_space (hd (str_nat n @ u))"
    using str_nat_digits [of n] by (cases "str_nat n") (auto dest: not_space_digit)
  have "takeWhile is_digit (str_nat n @ u) = str_nat n \<and> dropWhile is_digit (str_nat n @ u) = u"
    using assms by (intro takeWhile_digits_append str_nat_list_all) auto
  moreover have "rstrip_by is_space u = u" using assms by (intro rstrip_by_id) auto
  ultimately show ?thesis
    using lstrip_by_id [of is_space, OF hd] by (simp add: memory_match_def Let_def lower_def)
qed

section \<open>Ingress endpoints\<close>

lemma split_at_last_sep:
  assumes "xs @ c # us = ys @ c # vs" and "c \<notin> set us" and "c \<notin> set vs"
  shows "xs = ys \<and> us = vs"
proof -
  have r: "takeWhile (\<lambda>x. x \<noteq> c) (rev (zs @ c # ws)) = rev ws" if "c \<notin> set ws" for zs ws
    using that by (auto simp: takeWhile_append takeWhile_eq_all_conv)
  have "rev us = rev vs" using r [OF assms(2), of xs] r [OF assms(3), of ys] assms(1) by simp
  then show ?thesis using assms(1) by auto
qed

lemma not_digit_str_int: "\<not> is_digit c \<Longrightarrow> 0 \<le> n \<Longrightarrow> c \<notin> set (str_int n)"
  using str_nat_digits [of "nat n"] by (auto simp: str_int_def)

lemma str_int_inject: "0 \<le> m \<Longrightarrow> 0 \<le> n \<Longrightarrow> str_int m = str_int n \<longleftrightarrow> m = n"
  by (auto simp: str_int_def str_nat_inject)

lemma id_port_inject:
  assumes "a @ c # str_int m = b @ c # str_int n" and "\<not> is_digit c" "0 \<le> m" "0 \<le> n"
  shows "a = b \<and> m = n"
  using split_at_last_sep [OF assms(1)] assms not_digit_str_int str_int_inject by blast

text \<open>
  Gateway routing is unambiguous: in every route mode the endpoint handed out for a sandbox and a
  port determines both, whatever characters the sandbox id has.
\<close>

theorem format_ingress_endpoint_inject:
  assumes "format_ingress_endpoint i id1 p1 = Inr (Some e)"
    and "format_ingress_endpoint i id2 p2 = Inr (Some e)" and "0 \<le> p1" and "0 \<le> p2"
  shows "id1 = id2 \<and> p1 = p2"
proof -
  have d: "\<not> is_digit (CHR ''-'')" "\<not> is_digit slash" by (simp_all add: is_digit_def code_def)
  have "id1 @ CHR ''-'' # str_int p1 = id2 @ CHR ''-'' # str_int p2 \<or>
        id1 @ slash # str_int p1 = id2 @ slash # str_int p2"
    using assms(1,2) by (auto simp: format_ingress_endpoint_def Let_def split: option.splits if_splits)
  then show ?thesis using id_port_inject d assms(3,4) by blast
qed

lemma sample_gateway_endpoint:
  "format_ingress_endpoint (Some sample_gateway) ''a-1'' 80 =
     Inr (Some \<lparr>ep_endpoint = ''a-1'' @ ''-'' @ str_int 80 @ ''.sandbox.io'', ep_headers = None\<rparr>)"
  by (simp add: format_ingress_endpoint_def sample_gateway_def starts_with_def)

theorem format_ingress_endpoint_inject_witness:
  "format_ingress_endpoint (Some sample_gateway) ''a-1'' 80 =
     Inr (Some \<lparr>ep_endpoint = ''a-1'' @ ''-'' @ str_int 80 @ ''.sandbox.io'', ep_headers = None\<rparr>) \<and>
   ''a-1'' = ''a-1'' \<and> (80::int) = 80"
  using format_ingress_endpoint_inject [OF sample_gateway_endpoint sample_gateway_endpoint]
    sample_gateway_endpoint by simp

text \<open>
  For a validated configuration in gateway mode the endpoint is always produced: the branch that
  raises on an unknown route mode is dead, and the wildcard pattern is replaced by a concrete host
  under the configured domain.
\<close>

theorem format_ingress_endpoint_validated:
  assumes "validate_app_config c = Inr c'" and "cfg_ingress c' = Some i"
    and "ing_mode i = INGRESS_MODE_GATEWAY"
  shows "\<exists>g e. ing_gateway i = Some g \<and> format_ingress_endpoint (Some i) sid port = Inr (Some e) \<and>
     (gw_route_mode g = GATEWAY_ROUTE_MODE_WILDCARD \<longrightarrow>
        (\<exists>base. gw_address g = ''*.'' @ base \<and>
           ep_endpoint e = sid @ ''-'' @ str_int port @ ''.'' @ base))"
proof -
  note p = validate_app_config_parts [OF assms(1)]
  have v: "ingress_fields_ok i" "validate_ingress_mode i = Inr i"
    using p(2) validate_runtime_blocks_keeps(2) [OF p(1)] assms(2) by simp_all
  then obtain g where g: "ing_gateway i = Some g" "gateway_fields_ok g"
    using assms(3) by (auto simp: validate_ingress_mode_def ingress_fields_ok_def split: option.splits if_splits)
  have w: "is_wildcard_domain (gw_address g)" if "gw_route_mode g = GATEWAY_ROUTE_MODE_WILDCARD"
    using v(2) g(1) assms(3) that by (auto simp: validate_ingress_mode_def split: if_splits)
  have b: "gw_address g = ''*.'' @ drop 2 (gw_address g)" if "starts_with (gw_address g) ''*.''"
    using that append_take_drop_id [of 2 "gw_address g"] by (simp add: starts_with_def numeral_2_eq_2)
  show ?thesis
    using g w b assms(3)
    by (auto simp: format_ingress_endpoint_def gateway_fields_ok_def is_wildcard_domain_def Let_def)
qed

theorem format_ingress_endpoint_validated_witness:
  "\<exists>g e. ing_gateway sample_gateway = Some g \<and>
     format_ingress_endpoint (Some sample_gateway) ''sb'' 80 = Inr (Some e) \<and>
     (gw_route_mode g = GATEWAY_ROUTE_MODE_WILDCARD \<longrightarrow>
        (\<exists>base. gw_address g = ''*.'' @ base \<and> ep_endpoint e = ''sb'' @ ''-'' @ str_int 80 @ ''.'' @ base))"
  by (rule format_ingress_endpoint_validated [OF sample_k8s_config_valid])
     (simp_all add: sample_k8s_config_def sample_gateway_def)

lemma memory_units_match:
  "map_of MEMORY_MULTIPLIERS w = Some m \<Longrightarrow>
     m \<noteq> 0 \<and> (w = [] \<or> matches MEMORY_UNIT w) \<and> list_all (\<lambda>c. c \<in> set ''kmgtib'') w"
  by (auto simp: MEMORY_MULTIPLIERS_def MEMORY_UNIT_def ROpt_def RChar_def unit_letter_def
      split: if_splits)

lemma lower_char_id: "is_digit c \<or> is_space c \<Longrightarrow> lower_char c = c"
  by (auto simp: lower_char_def is_upper_def is_digit_def is_space_def)

lemma lower_char_letter:
  assumes "lower_char c \<in> set ''kmgtib''"
  shows "\<not> is_digit c \<and> \<not> is_space c"
proof
  have "\<not> (is_digit d \<or> is_space d)" if "d \<in> set ''kmgtib''" for d
    using that by (auto simp: is_digit_def is_space_def code_def)
  with assms lower_char_id [of c] show "\<not> is_digit c" "\<not> is_space c" by metis+
qed

text \<open>
  A memory quantity written as a decimal number followed by a unit of the table, in any case,
  is converted to exactly the number times the unit's multiplier.
\<close>

theorem parse_memory_limit_units:
  assumes "map_of MEMORY_MULTIPLIERS (lower u) = Some m"
  shows "parse_memory_limit (Some (str_nat n @ u)) = Some (int n * m)"
proof -
  note w = memory_units_match [OF assms]
  have l: "\<forall>c \<in> set u. \<not> is_digit c \<and> \<not> is_space c"
    using w lower_char_letter by (auto simp: lower_def list_all_iff)
  then have "u = [] \<or> \<not> is_digit (hd u) \<and> \<not> is_space (last u)" by (cases "u = []") simp_all
  from memory_match_number [OF this, of n] have "memory_match (str_nat n @ u) = Some (str_nat n, lower u)"
    using w by (auto simp: lower_def)
  then show ?thesis
    using assms w by (simp add: parse_memory_limit_def given_def digits_val_str_nat)
qed

theorem parse_memory_limit_units_witness:
  "parse_memory_limit (Some (str_nat 512 @ ''Mi'')) = Some (int 512 * 1048576)"
  by (rule parse_memory_limit_units) code_simp

text \<open>
  Docker's nanosecond timestamps are never rejected for their precision: the text handed to
  \<open>datetime.fromisoformat\<close> keeps the date and the zone and cuts the fraction to its first six
  digits, with \<open>Z\<close> written as a zero offset.
\<close>

theorem normalize_timestamp_nano:
  assumes "CHR ''.'' \<notin> set main" and "list_all is_digit fraction" and "fraction \<noteq> []"
  shows "normalize_timestamp (main @ ''.'' @ fraction @ ''Z'') = main @ ''.'' @ take 6 fraction @ ''+00:00''"
proof -
  let ?n = "main @ CHR ''.'' # fraction @ ''+00:00''"
  have nd: "CHR ''+'' \<notin> set fraction"
    using assms(2) by (auto simp: list_all_iff is_digit_def code_def)
  have "contains ?n ''.''"
    by (simp add: contains_sublist sublist_append sublist_Cons_right)
  moreover have "split_first (CHR ''.'') ?n = (main, fraction @ ''+00:00'')"
    using assms(1) by (simp add: split_first_def takeWhile_append dropWhile_append takeWhile_eq_all_conv dropWhile_eq_Nil_conv)
  moreover have "split_zone (fraction @ ''+00:00'') = (fraction, ''+00:00'')"
    using nd by (auto simp: split_zone_def takeWhile_append dropWhile_append)
  moreover have "ends_with (main @ ''.'' @ fraction @ ''Z'') ''Z''" by (simp add: ends_with_def)
  ultimately show ?thesis
    using assms(3) by (simp add: normalize_timestamp_def butlast_append Let_def)
qed

theorem normalize_timestamp_nano_witness:
  "normalize_timestamp (''2025-01-02T03:04:05'' @ ''.'' @ ''123456789'' @ ''Z'') =
     ''2025-01-02T03:04:05'' @ ''.'' @ take 6 ''123456789'' @ ''+00:00''"
  by (rule normalize_timestamp_nano) (simp_all add: is_digit_def code_def)

end
