(* ===== verification/Ossfs.thy ===== *)
theory Ossfs
  imports Helpers
begin

text \<open>
  \<open>server/src/services/ossfs_mixin.py\<close>: OSS buckets mounted on the Docker host and shared between
  sandboxes by reference counting. The operating system (mount table, files, subprocesses, random
  names) is a record of functions over an arbitrary world \<open>'w\<close>; the service's own state is the
  dictionary of reference counts. Each operation is one definition, in the order of the file. The
  contract of the counts is the locale \<open>ref_registry\<close>, interpreted on the operations for every
  operating system.
\<close>

section \<open>The host\<close>

record 'w os_api =
  os_ismount :: "string \<Rightarrow> 'w \<Rightarrow> bool"
  os_makedirs :: "string \<Rightarrow> ('w, unit) io"
  os_open_write :: "string \<Rightarrow> string \<Rightarrow> ('w, unit) io"
  os_chmod :: "string \<Rightarrow> nat \<Rightarrow> ('w, unit) io"
  os_remove :: "string \<Rightarrow> ('w, unit) io"
  os_run :: "string list \<Rightarrow> ('w, int) io"
  os_uuid_hex :: "('w, string) io"
  os_tempdir :: string

record 'w host_state =
  ref_counts :: "(string, nat) dict"
  world :: 'w

text \<open>A call of the outside world from the service.\<close>

definition inW :: "('w, 'a) io \<Rightarrow> (('w, 'm) host_state_scheme, 'a) io" where
  "inW m = (\<lambda>s. case m (world s) of (r, w) \<Rightarrow> (r, s\<lparr>world := w\<rparr>))"

section \<open>Validation\<close>

definition BUCKET_RE :: re where
  "BUCKET_RE = RSeq (RCls lower_digit)
     (ROpt (RSeq (RRange 1 61 (RCls lower_digit_hyphen)) (RCls lower_digit)))"

definition validate_bucket_name :: "string \<Rightarrow> unit res" where
  "validate_bucket_name b =
     bindR (raise_if (b = []) (HTTPException 400 INVALID_PARAMETER)) (\<lambda>_.
     raise_if (\<not> match_dollar BUCKET_RE b) (HTTPException 400 INVALID_PARAMETER))"

definition dangerous_chars :: string where
  "dangerous_chars = '';&|'' @ [CHR 0x60] @ ''$()<>'' @ [CHR 0x0A, CHR 0x0D]"

definition reject_chars :: "string \<Rightarrow> string \<Rightarrow> unit res" where
  "reject_chars cs s = for_each (\<lambda>c. raise_if (c \<in> set s) (HTTPException 400 INVALID_PARAMETER)) cs"

definition validate_ossfs_option :: "string \<Rightarrow> unit res" where
  "validate_ossfs_option opt = reject_chars dangerous_chars opt"

definition validate_mount_path :: "string \<Rightarrow> unit res" where
  "validate_mount_path p =
     bindR (raise_if (p = []) (HTTPException 400 INVALID_PARAMETER)) (\<lambda>_.
     bindR (raise_if (\<not> starts_with p ''/'') (HTTPException 400 INVALID_PARAMETER)) (\<lambda>_.
     reject_chars dangerous_chars p))"

definition validate_endpoint_url :: "string \<Rightarrow> unit res" where
  "validate_endpoint_url u =
     bindR (raise_if (u = []) (HTTPException 400 INVALID_PARAMETER)) (\<lambda>_.
     reject_chars (dangerous_chars @ '' '') u)"

section \<open>Paths and commands\<close>

definition is_slash :: "char \<Rightarrow> bool" where
  "is_slash c \<longleftrightarrow> c = slash"

definition the_ossfs :: "volume \<Rightarrow> ossfs" where
  "the_ossfs v = the (ossfs_of v)"

definition resolve_ossfs_paths :: "string \<Rightarrow> volume \<Rightarrow> (string \<times> string) res" where
  "resolve_ossfs_paths configured_root v =
     (let root0 = strip configured_root
      in bindR (raise_if (\<not> starts_with root0 ''/'') (HTTPException 500 INVALID_OSSFS_MOUNT_ROOT)) (\<lambda>_.
         let mount_root = path_norm root0;
             bucket_root = path_norm (path_join mount_root (bucket (the_ossfs v)));
             sub = lstrip_by is_slash (str_or (sub_path v) '''');
             backend_path = path_norm (path_join bucket_root sub);
             bucket_prefix = (if ends_with bucket_root ''/'' then bucket_root else bucket_root @ ''/'')
         in bindR (raise_if (backend_path \<noteq> bucket_root \<and> \<not> starts_with backend_path bucket_prefix)
                     (HTTPException 400 INVALID_SUB_PATH)) (\<lambda>_.
            Inr (backend_path, backend_path))))"

definition option_list :: "volume \<Rightarrow> string list" where
  "option_list v = (case ossfs_options (the_ossfs v) of None \<Rightarrow> [] | Some opts \<Rightarrow> opts)"

text \<open>The loop over the options: each non-empty one, stripped, is checked and rendered by \<open>f\<close>.\<close>

fun build_options :: "(string \<Rightarrow> string list) \<Rightarrow> string list \<Rightarrow> string list res" where
  "build_options f [] = Inr []"
| "build_options f (raw # rest) =
     (let opt = strip raw
      in if opt = [] then build_options f rest
         else bindR (validate_ossfs_option opt) (\<lambda>_.
              bindR (build_options f rest) (\<lambda>more. Inr (f opt @ more))))"

definition build_ossfs_v1_command :: "volume \<Rightarrow> string \<Rightarrow> string \<Rightarrow> string \<Rightarrow> string \<Rightarrow> string list res" where
  "build_ossfs_v1_command v src backend_path endpoint_url passwd_file =
     bindR (validate_bucket_name (bucket (the_ossfs v))) (\<lambda>_.
     bindR (validate_endpoint_url endpoint_url) (\<lambda>_.
     bindR (validate_mount_path backend_path) (\<lambda>_.
     bindR (build_options (\<lambda>opt. [''-o'', opt]) (option_list v)) (\<lambda>opts.
     Inr ([''ossfs'', src, backend_path, ''-o'', ''url='' @ endpoint_url,
           ''-o'', ''passwd_file='' @ passwd_file] @ opts)))))"

definition py_str :: "string option \<Rightarrow> string" where
  "py_str v = (case v of None \<Rightarrow> ''None'' | Some s \<Rightarrow> s)"

definition build_ossfs_v2_config_lines :: "volume \<Rightarrow> string \<Rightarrow> string \<Rightarrow> string list res" where
  "build_ossfs_v2_config_lines v endpoint_url pfx =
     bindR (validate_bucket_name (bucket (the_ossfs v))) (\<lambda>_.
     bindR (validate_endpoint_url endpoint_url) (\<lambda>_.
     bindR (build_options (\<lambda>opt. [''--'' @ opt]) (option_list v)) (\<lambda>opts.
     Inr ([''--oss_endpoint='' @ endpoint_url,
           ''--oss_bucket='' @ bucket (the_ossfs v),
           ''--oss_access_key_id='' @ py_str (access_key_id (the_ossfs v)),
           ''--oss_access_key_secret='' @ py_str (access_key_secret (the_ossfs v))]
          @ (if pfx = [] then []
             else [''--oss_bucket_prefix='' @ (if ends_with pfx ''/'' then pfx else pfx @ ''/'')])
          @ opts))))"

definition build_ossfs_v2_mount_command :: "string \<Rightarrow> string \<Rightarrow> string list res" where
  "build_ossfs_v2_mount_command backend_path conf_file =
     bindR (validate_mount_path backend_path) (\<lambda>_.
     Inr [''ossfs2'', ''mount'', backend_path, ''-c'', conf_file])"

section \<open>Mounting\<close>

definition run_ossfs_mount_command :: "('w, 'x) os_api_scheme \<Rightarrow> string list \<Rightarrow> ('w, unit) io" where
  "run_ossfs_mount_command os cmd =
     bindS (os_run os cmd) (\<lambda>rc.
       if rc \<noteq> 0 then raiseS (HTTPException 500 OSSFS_MOUNT_FAILED) else retS ())"

text \<open>The \<open>except OSError\<close> of \<open>_mount_ossfs_backend_path\<close>, and the guarded removal of its \<open>finally\<close>.\<close>

definition os_error_to_http :: "('w, 'a) io \<Rightarrow> ('w, 'a) io" where
  "os_error_to_http m =
     catchS m (\<lambda>e. if e = OSError then raiseS (HTTPException 500 OSSFS_MOUNT_FAILED) else raiseS e)"

definition remove_quietly :: "('w, 'x) os_api_scheme \<Rightarrow> string \<Rightarrow> ('w, unit) io" where
  "remove_quietly os path =
     catchS (os_remove os path) (\<lambda>e. if e = OSError then retS () else raiseS e)"

definition write_secret :: "('w, 'x) os_api_scheme \<Rightarrow> string \<Rightarrow> string \<Rightarrow> ('w, unit) io" where
  "write_secret os path content =
     bindS (os_open_write os path content) (\<lambda>_. os_chmod os path 384)"

text \<open>The key prefix in the bucket, and the source argument of \<open>ossfs\<close>.\<close>

definition ossfs_prefix :: "volume \<Rightarrow> string" where
  "ossfs_prefix v = rstrip_by is_slash (lstrip_by is_slash (str_or (sub_path v) []))"

definition ossfs_source :: "volume \<Rightarrow> string" where
  "ossfs_source v =
     (if ossfs_prefix v \<noteq> [] then bucket (the_ossfs v) @ '':/'' @ ossfs_prefix v else bucket (the_ossfs v))"

definition mount_ossfs_backend_path ::
    "('w, 'x) os_api_scheme \<Rightarrow> volume \<Rightarrow> string \<Rightarrow> ('w, unit) io" where
  "mount_ossfs_backend_path os v backend_path =
     (let o1 = the_ossfs v;
          endpoint_url = normalize_external_endpoint_url (endpoint o1) ''https'';
          ver = (if version o1 = [] then ''2.0'' else version o1)
      in bindS (liftR (raise_if (\<not> given (access_key_id o1) \<or> \<not> given (access_key_secret o1))
                  (HTTPException 400 INVALID_OSSFS_CREDENTIALS))) (\<lambda>_.
         bindS (os_makedirs os backend_path) (\<lambda>_.
         if ver = ''1.0''
         then bindS (os_uuid_hex os) (\<lambda>u.
              let passwd_file = path_join (os_tempdir os) (''opensandbox-ossfs-inline-'' @ u)
              in finallyS (os_error_to_http
                   (bindS (write_secret os passwd_file (bucket o1 @ '':'' @ py_str (access_key_id o1)
                             @ '':'' @ py_str (access_key_secret o1))) (\<lambda>_.
                    bindS (liftR (build_ossfs_v1_command v (ossfs_source v) backend_path endpoint_url passwd_file))
                      (run_ossfs_mount_command os))))
                   (remove_quietly os passwd_file))
         else if ver = ''2.0''
         then bindS (liftR (build_ossfs_v2_config_lines v endpoint_url (ossfs_prefix v))) (\<lambda>conf_lines.
              bindS (os_uuid_hex os) (\<lambda>u.
              let conf_file = path_join (os_tempdir os) (''opensandbox-ossfs2-'' @ u @ ''.conf'')
              in finallyS (os_error_to_http
                   (bindS (write_secret os conf_file (join_with newline conf_lines @ [newline])) (\<lambda>_.
                    bindS (liftR (build_ossfs_v2_mount_command backend_path conf_file))
                      (run_ossfs_mount_command os))))
                   (remove_quietly os conf_file)))
         else raiseS (HTTPException 400 INVALID_OSSFS_VERSION))))"

section \<open>Reference counts\<close>

definition ref_count :: "('w, 'm) host_state_scheme \<Rightarrow> string \<Rightarrow> nat" where
  "ref_count s k = (case map_of (ref_counts s) k of None \<Rightarrow> 0 | Some n \<Rightarrow> n)"

text \<open>
  \<open>_ensure_ossfs_mounted\<close>: the argument is a volume (\<open>Inr\<close>) or a bare mount key (\<open>Inl\<close>). The lock is
  held from the lookup to the update of the count, the mount included.
\<close>

definition ensure_ossfs_mounted ::
    "('w, 'x) os_api_scheme \<Rightarrow> string \<Rightarrow> string + volume \<Rightarrow> (('w, 'm) host_state_scheme, string) io" where
  "ensure_ossfs_mounted os configured_root arg =
     bindS (liftR (case arg of Inl k \<Rightarrow> Inr k
                   | Inr v \<Rightarrow> bindR (resolve_ossfs_paths configured_root v) (\<lambda>p. Inr (fst p)))) (\<lambda>mount_key s.
       let current = ref_count s mount_key
       in if current > 0
          then (Inr mount_key, s\<lparr>ref_counts := AList.update mount_key (current + 1) (ref_counts s)\<rparr>)
          else bindS
            (if \<not> os_ismount os mount_key (world s)
             then (case arg of
                     Inl _ \<Rightarrow> raiseS (HTTPException 500 OSSFS_MOUNT_FAILED)
                   | Inr v \<Rightarrow> inW (mount_ossfs_backend_path os v mount_key))
             else retS ()) (\<lambda>_.
            bindS (modifyS (\<lambda>s. s\<lparr>ref_counts := AList.update mount_key 1 (ref_counts s)\<rparr>)) (\<lambda>_.
            retS mount_key)) s)"

text \<open>
  \<open>_release_ossfs_mount\<close> in its two parts: the update of the count under the lock, which says whether
  to unmount, and the unmount after the lock has been given back.
\<close>

definition release_ref :: "string \<Rightarrow> (('w, 'm) host_state_scheme, bool) io" where
  "release_ref mount_key = (\<lambda>s.
     let current = ref_count s mount_key
     in if current = 0 then (Inr False, s)
        else if current = 1
        then (Inr True, s\<lparr>ref_counts := AList.delete mount_key (ref_counts s)\<rparr>)
        else (Inr False, s\<lparr>ref_counts := AList.update mount_key (current - 1) (ref_counts s)\<rparr>))"

fun try_unmount :: "('w, 'x) os_api_scheme \<Rightarrow> string list list \<Rightarrow> ('w, unit) io" where
  "try_unmount os [] = raiseS (HTTPException 500 OSSFS_UNMOUNT_FAILED)"
| "try_unmount os (cmd # cmds) =
     bindS (os_run os cmd) (\<lambda>rc. if rc = 0 then retS () else try_unmount os cmds)"

definition unmount_path :: "('w, 'x) os_api_scheme \<Rightarrow> string \<Rightarrow> ('w, unit) io" where
  "unmount_path os mount_key =
     bindS (getS (os_ismount os mount_key)) (\<lambda>mounted.
       if mounted
       then try_unmount os [[''fusermount'', ''-u'', mount_key], [''umount'', mount_key]]
       else retS ())"

definition release_ossfs_mount ::
    "('w, 'x) os_api_scheme \<Rightarrow> string \<Rightarrow> (('w, 'm) host_state_scheme, unit) io" where
  "release_ossfs_mount os mount_key =
     bindS (liftR (validate_mount_path mount_key)) (\<lambda>_.
     bindS (release_ref mount_key) (\<lambda>should_unmount.
     whenS should_unmount (inW (unmount_path os mount_key))))"

definition release_ossfs_mounts ::
    "('w, 'x) os_api_scheme \<Rightarrow> string list \<Rightarrow> (('w, 'm) host_state_scheme, unit) io" where
  "release_ossfs_mounts os mount_keys =
     for_eachS (\<lambda>key. catchS (release_ossfs_mount os key)
                  (\<lambda>e. if is_http_exn e then retS () else raiseS e)) mount_keys"

text \<open>The first loop of \<open>_prepare_ossfs_mounts\<close>: one volume per mount key, in order of first use.\<close>

fun collect_keys :: "string \<Rightarrow> volume list \<Rightarrow> (string, volume) dict \<Rightarrow> (string, volume) dict res" where
  "collect_keys configured_root [] d = Inr d"
| "collect_keys configured_root (v # vs) d =
     (if ossfs_of v = None then collect_keys configured_root vs d
      else bindR (resolve_ossfs_paths configured_root v) (\<lambda>p.
             collect_keys configured_root vs
               (if map_of d (fst p) = None then d @ [(fst p, v)] else d)))"

text \<open>The second loop, with its \<open>except\<close>: on any exception release what this batch prepared.\<close>

fun mount_batch ::
    "('w, 'x) os_api_scheme \<Rightarrow> string \<Rightarrow> (string, volume) dict \<Rightarrow> string list
       \<Rightarrow> (('w, 'm) host_state_scheme, unit) io" where
  "mount_batch os configured_root [] prepared = retS ()"
| "mount_batch os configured_root ((k, v) # rest) prepared =
     bindS (catchS (bindS (ensure_ossfs_mounted os configured_root (Inr v)) (\<lambda>_. retS ()))
              (\<lambda>e. bindS (release_ossfs_mounts os prepared) (\<lambda>_. raiseS e)))
       (\<lambda>_. mount_batch os configured_root rest (prepared @ [k]))"

definition prepare_ossfs_mounts ::
    "('w, 'x) os_api_scheme \<Rightarrow> string \<Rightarrow> volume list option \<Rightarrow> (('w, 'm) host_state_scheme, string list) io" where
  "prepare_ossfs_mounts os configured_root volumes =
     (case volumes of
        None \<Rightarrow> retS []
      | Some vs \<Rightarrow>
          if vs = [] then retS []
          else bindS (liftR (collect_keys configured_root vs [])) (\<lambda>key_to_volume.
               bindS (mount_batch os configured_root key_to_volume []) (\<lambda>_.
               retS (map fst key_to_volume))))"

text \<open>On a POSIX host (\<open>os.name\<close> is not \<open>nt\<close>).\<close>

definition validate_ossfs_volume :: "string \<Rightarrow> volume \<Rightarrow> unit res" where
  "validate_ossfs_volume configured_root v =
     bindR (raise_if (\<not> given (access_key_id (the_ossfs v)) \<or> \<not> given (access_key_secret (the_ossfs v)))
              (HTTPException 400 INVALID_OSSFS_CREDENTIALS)) (\<lambda>_.
     bindR (resolve_ossfs_paths configured_root v) (\<lambda>_. ok))"

section \<open>The contract of the counts\<close>

text \<open>
  What a reference-counting registry promises: a successful acquisition adds one to the count of the
  key it returns and a failed one changes no count; a release takes one off, and none off zero.
\<close>

locale ref_registry =
  fixes cnt :: "'s \<Rightarrow> 'k \<Rightarrow> nat"
    and acquire :: "'v \<Rightarrow> 's \<Rightarrow> (exn + 'k) \<times> 's"
    and release :: "'k \<Rightarrow> 's \<Rightarrow> 's"
    and key_ok :: "'k \<Rightarrow> bool"
  assumes acquire_Inr: "acquire v s = (Inr k, s') \<Longrightarrow> cnt s' = (cnt s)(k := cnt s k + 1)"
    and acquire_Inl: "acquire v s = (Inl e, s') \<Longrightarrow> cnt s' = cnt s"
    and release_cnt: "key_ok k \<Longrightarrow> cnt (release k s) = (cnt s)(k := cnt s k - 1)"
begin

lemma release_all:
  "\<forall>k \<in> set ks. key_ok k \<Longrightarrow> cnt (fold release ks s) k = cnt s k - count_list ks k"
  by (induction ks arbitrary: s) (auto simp: release_cnt)

lemma acquire_release:
  assumes "acquire v s = (Inr k, s')" and "key_ok k"
  shows "cnt (release k s') = cnt s"
  using acquire_Inr [OF assms(1)] release_cnt [OF assms(2)] by simp

text \<open>A batch: the items are acquired in order, each under its own key.\<close>

lemma acquire_all:
  "(\<And>v t. v \<in> set vs \<Longrightarrow> fst (acquire v t) = Inr (key v)) \<Longrightarrow>
     cnt (fold (\<lambda>v t. snd (acquire v t)) vs s) k = cnt s k + count_list (map key vs) k"
proof (induction vs arbitrary: s)
  case Nil
  then show ?case by simp
next
  case (Cons v vs)
  obtain s' where s': "acquire v s = (Inr (key v), s')"
    using Cons.prems [of v s] by (cases "acquire v s") simp
  then show ?case
    using Cons.IH [of s'] Cons.prems acquire_Inr [OF s'] by simp
qed

text \<open>Acquiring a batch and releasing all its keys leaves every count as it was.\<close>

lemma acquire_release_all:
  assumes "\<And>v t. v \<in> set vs \<Longrightarrow> fst (acquire v t) = Inr (key v)" and "\<forall>v \<in> set vs. key_ok (key v)"
  shows "cnt (fold release (map key vs) (fold (\<lambda>v t. snd (acquire v t)) vs s)) = cnt s"
  using acquire_all [OF assms(1)] release_all [of "map key vs"] assms(2) by (auto simp: fun_eq_iff)

end

section \<open>The operations keep the contract\<close>

lemma ref_count_inW [simp]: "ref_count (snd (inW m s)) = ref_count s"
  by (auto simp: ref_count_def inW_def fun_eq_iff split: prod.splits)

lemma inW_world: "inW m s = (r, s') \<Longrightarrow> \<exists>w'. m (world s) = (r, w') \<and> s' = s\<lparr>world := w'\<rparr>"
  by (auto simp: inW_def split: prod.splits)

lemma ref_count_update [simp]:
  "ref_count (s\<lparr>ref_counts := AList.update k n (ref_counts s)\<rparr>) = (ref_count s)(k := n)"
  by (auto simp: ref_count_def fun_eq_iff)

lemma ref_count_world_update [simp]:
  "ref_count (s\<lparr>world := w, ref_counts := AList.update k n (ref_counts s)\<rparr>) = (ref_count s)(k := n)"
  by (auto simp: ref_count_def fun_eq_iff)

lemma ref_count_delete [simp]:
  "ref_count (s\<lparr>ref_counts := AList.delete k (ref_counts s)\<rparr>) = (ref_count s)(k := 0)"
  by (auto simp: ref_count_def fun_eq_iff)

lemma ref_count_world [simp]: "ref_count (s\<lparr>world := w\<rparr>) = ref_count s"
  by (simp add: ref_count_def fun_eq_iff)

lemma release_ref_count: "ref_count (snd (release_ref k s)) = (ref_count s)(k := ref_count s k - 1)"
  by (auto simp: release_ref_def Let_def)

lemma release_ref_Inr: "\<exists>b. fst (release_ref k s) = Inr b"
  by (auto simp: release_ref_def Let_def)

lemma release_ossfs_mount_count:
  assumes "validate_mount_path k = ok"
  shows "ref_count (snd (release_ossfs_mount os k s)) = (ref_count s)(k := ref_count s k - 1)"
proof -
  obtain b s' where b: "release_ref k s = (Inr b, s')"
    using release_ref_Inr [of k s] by (cases "release_ref k s") auto
  then show ?thesis
    using assms release_ref_count [of k s]
    by (simp add: release_ossfs_mount_def bindS_def liftR_def whenS_def retS_def)
qed

lemma ensure_ossfs_mounted_Inr:
  assumes "ensure_ossfs_mounted os mroot arg s = (Inr k, s')"
  shows "ref_count s' = (ref_count s)(k := ref_count s k + 1)"
    and "(case arg of Inl k' \<Rightarrow> k = k' | Inr v \<Rightarrow> \<exists>p. resolve_ossfs_paths mroot v = Inr p \<and> fst p = k)"
  using assms
  by (auto simp: ensure_ossfs_mounted_def bindS_def liftR_def retS_def raiseS_def modifyS_def Let_def
      bindR_eq_Inr split: sum.splits if_splits prod.splits dest!: inW_world)

lemma ensure_ossfs_mounted_Inl:
  "ensure_ossfs_mounted os mroot arg s = (Inl e, s') \<Longrightarrow> ref_count s' = ref_count s"
  by (auto simp: ensure_ossfs_mounted_def bindS_def liftR_def retS_def raiseS_def modifyS_def Let_def
      split: sum.splits if_splits prod.splits dest!: inW_world)

interpretation mounts: ref_registry ref_count "ensure_ossfs_mounted os mroot"
    "\<lambda>k s. snd (release_ossfs_mount os k s)" "\<lambda>k. validate_mount_path k = ok" for os mroot
  by unfold_locales
     (auto dest: ensure_ossfs_mounted_Inr ensure_ossfs_mounted_Inl simp: release_ossfs_mount_count)

section \<open>Batches and their roll-back\<close>

text \<open>
  Named hypothesis on the host: running a command ends with an exit status. (A missing
  \<open>fusermount\<close> or a timeout raises instead.)
\<close>

definition commands_end :: "('w, 'x) os_api_scheme \<Rightarrow> bool" where
  "commands_end os \<longleftrightarrow> (\<forall>cmd w. \<exists>rc w'. os_run os cmd w = (Inr rc, w'))"

lemma try_unmount_http:
  assumes "commands_end os" and "try_unmount os cmds w = (Inl e, w')"
  shows "is_http_exn e"
  using assms(2)
proof (induction cmds arbitrary: w)
  case Nil
  then show ?case by (auto simp: raiseS_def)
next
  case (Cons cmd cmds)
  obtain rc w1 where "os_run os cmd w = (Inr rc, w1)"
    using assms(1) unfolding commands_end_def by blast
  with Cons show ?case by (auto simp: bindS_def retS_def split: if_splits)
qed

lemma validate_mount_path_http: "validate_mount_path k = Inl e \<Longrightarrow> is_http_exn e"
  by (auto simp: validate_mount_path_def reject_chars_def bindR_eq_Inl raise_if_Inl
      dest!: for_each_Inl_first)

lemma release_ossfs_mount_http:
  assumes "commands_end os" and "release_ossfs_mount os k s = (Inl e, s')"
  shows "is_http_exn e"
proof (cases "validate_mount_path k")
  case (Inl e')
  then have "e = e'" using assms(2) by (simp add: release_ossfs_mount_def bindS_def liftR_def)
  moreover have "is_http_exn e'" using Inl by (rule validate_mount_path_http)
  ultimately show ?thesis by simp
next
  case (Inr u)
  obtain b s1 where b: "release_ref k s = (Inr b, s1)"
    using release_ref_Inr [of k s] by (cases "release_ref k s") auto
  with Inr assms(2) have "b" "inW (unmount_path os k) s1 = (Inl e, s')"
    by (auto simp: release_ossfs_mount_def bindS_def liftR_def whenS_def retS_def split: if_splits)
  then show ?thesis
    using try_unmount_http [OF assms(1)]
    by (auto simp: unmount_path_def bindS_def getS_def retS_def simp del: try_unmount.simps
        dest!: inW_world split: if_splits)
qed

text \<open>On such a host releasing a list of keys never fails and releases each of them.\<close>

lemma release_ossfs_mounts_fold:
  assumes "commands_end os"
  shows "release_ossfs_mounts os ks s = (ok, fold (\<lambda>k s. snd (release_ossfs_mount os k s)) ks s)"
proof (induction ks arbitrary: s)
  case Nil
  then show ?case by (simp add: release_ossfs_mounts_def retS_def)
next
  case (Cons k ks)
  obtain r s' where r: "release_ossfs_mount os k s = (r, s')" by (cases "release_ossfs_mount os k s")
  have "catchS (release_ossfs_mount os k) (\<lambda>e. if is_http_exn e then retS () else raiseS e) s = (ok, s')"
    using release_ossfs_mount_http [OF assms] r by (cases r) (auto simp: catchS_def retS_def)
  with Cons r show ?case by (simp add: release_ossfs_mounts_def bindS_def)
qed

lemma release_ossfs_mounts_count:
  assumes "commands_end os" and "\<forall>k \<in> set ks. validate_mount_path k = ok"
  shows "ref_count (snd (release_ossfs_mounts os ks s)) k = ref_count s k - count_list ks k"
  by (simp add: release_ossfs_mounts_fold [OF assms(1)] mounts.release_all [OF assms(2)])

lemma collect_keys_resolve:
  "collect_keys mroot vs d = Inr d' \<Longrightarrow>
   \<forall>(k, v) \<in> set d. \<exists>p. resolve_ossfs_paths mroot v = Inr p \<and> fst p = k \<Longrightarrow> distinct (map fst d) \<Longrightarrow>
   (\<forall>(k, v) \<in> set d'. \<exists>p. resolve_ossfs_paths mroot v = Inr p \<and> fst p = k) \<and> distinct (map fst d')"
proof (induction vs arbitrary: d)
  case Nil
  then show ?case by simp
next
  case (Cons v vs)
  show ?case
  proof (cases "ossfs_of v = None")
    case True
    with Cons show ?thesis by simp
  next
    case False
    with Cons.prems(1) obtain p where p: "resolve_ossfs_paths mroot v = Inr p"
        "collect_keys mroot vs (if map_of d (fst p) = None then d @ [(fst p, v)] else d) = Inr d'"
      by (auto simp: bindR_eq_Inr)
    show ?thesis
      by (rule Cons.IH [OF p(2)]) (use Cons.prems(2,3) p(1) in \<open>auto simp: map_of_eq_None_iff prod_eq_iff\<close>)
  qed
qed

lemma collect_keys_values:
  "collect_keys mroot vs d = Inr d' \<Longrightarrow> \<forall>(k, v) \<in> set d'. v \<in> set vs \<or> (k, v) \<in> set d"
proof (induction vs arbitrary: d)
  case Nil
  then show ?case by simp
next
  case (Cons v vs)
  then show ?case
    by (fastforce simp: bindR_eq_Inr split: if_splits dest!: Cons.IH)
qed

lemma mount_batch_Inr:
  "mount_batch os mroot d prepared s = (Inr u, s') \<Longrightarrow>
   \<forall>(k, v) \<in> set d. \<exists>p. resolve_ossfs_paths mroot v = Inr p \<and> fst p = k \<Longrightarrow>
   ref_count s' k = ref_count s k + count_list (map fst d) k"
proof (induction d arbitrary: prepared s)
  case Nil
  then show ?case by (simp add: retS_def)
next
  case (Cons kv d)
  obtain k0 v0 where kv: "kv = (k0, v0)" by (cases kv)
  obtain r s1 where r: "ensure_ossfs_mounted os mroot (Inr v0) s = (r, s1)"
    by (cases "ensure_ossfs_mounted os mroot (Inr v0) s")
  have "\<exists>k1. r = Inr k1"
  proof (cases r)
    case (Inl e0)
    obtain r2 s2 where "release_ossfs_mounts os prepared s1 = (r2, s2)"
      by (cases "release_ossfs_mounts os prepared s1")
    with Cons.prems(1) r Inl show ?thesis
      by (cases r2) (simp_all add: kv bindS_def catchS_def raiseS_def)
  qed simp
  then obtain k1 where e: "ensure_ossfs_mounted os mroot (Inr v0) s = (Inr k1, s1)" using r by auto
  then have m: "mount_batch os mroot d (prepared @ [k0]) s1 = (Inr u, s')"
    using Cons.prems(1) by (simp add: kv bindS_def catchS_def retS_def)
  from ensure_ossfs_mounted_Inr [OF e] Cons.prems(2) kv have "k1 = k0"
      "ref_count s1 = (ref_count s)(k0 := ref_count s k0 + 1)" by auto
  with Cons.IH [OF m] Cons.prems(2) kv show ?case by simp
qed

lemma mount_batch_Inl:
  "mount_batch os mroot d prepared s = (Inl e, s') \<Longrightarrow> commands_end os \<Longrightarrow>
   \<forall>(k, v) \<in> set d. (\<exists>p. resolve_ossfs_paths mroot v = Inr p \<and> fst p = k) \<and> validate_mount_path k = ok \<Longrightarrow>
   \<forall>k \<in> set prepared. validate_mount_path k = ok \<Longrightarrow>
   (\<And>k. ref_count s k = base k + count_list prepared k) \<Longrightarrow> ref_count s' = base"
proof (induction d arbitrary: prepared s)
  case Nil
  then show ?case by (simp add: retS_def)
next
  case (Cons kv d)
  obtain k0 v0 where kv: "kv = (k0, v0)" by (cases kv)
  obtain r s1 where r: "ensure_ossfs_mounted os mroot (Inr v0) s = (r, s1)"
    by (cases "ensure_ossfs_mounted os mroot (Inr v0) s")
  show ?case
  proof (cases r)
    case (Inl e0)
    with r have c: "ref_count s1 = ref_count s" by (simp add: ensure_ossfs_mounted_Inl)
    have "s' = snd (release_ossfs_mounts os prepared s1)"
      using Cons.prems(1,2) r Inl release_ossfs_mounts_fold [of os prepared s1]
      by (simp add: kv bindS_def catchS_def raiseS_def)
    with c Cons.prems(5) show ?thesis
      by (simp add: fun_eq_iff release_ossfs_mounts_count [OF Cons.prems(2,4)])
  next
    case (Inr k1)
    from ensure_ossfs_mounted_Inr [OF r [unfolded Inr]] Cons.prems(3) kv have k1: "k1 = k0"
        "ref_count s1 = (ref_count s)(k0 := ref_count s k0 + 1)" by auto
    have m: "mount_batch os mroot d (prepared @ [k0]) s1 = (Inl e, s')"
      using Cons.prems(1) r Inr by (simp add: kv bindS_def catchS_def retS_def)
    show ?thesis
      by (rule Cons.IH [OF m Cons.prems(2)]) (use Cons.prems kv k1(2) in auto)
  qed
qed

lemma prepare_ossfs_mounts_Inr:
  assumes "prepare_ossfs_mounts os mroot vols s = (Inr ks, s')"
  shows "ref_count s' k = ref_count s k + of_bool (k \<in> set ks)" and "distinct ks"
proof -
  have "distinct ks \<and> ref_count s' k = ref_count s k + count_list ks k"
    using assms
    by (auto simp: prepare_ossfs_mounts_def bindS_def liftR_def retS_def
        split: option.splits if_splits sum.splits prod.splits
        dest!: collect_keys_resolve mount_batch_Inr [where k = k])
  then show "ref_count s' k = ref_count s k + of_bool (k \<in> set ks)" and "distinct ks"
    by (simp_all add: count_list_distinct)
qed

section \<open>A concrete host\<close>

text \<open>
  A host whose world is the list of mounted paths: the mount commands add their path, the unmount
  commands remove theirs, files always can be written. Witnesses are evaluated on it.
\<close>

fun table_run :: "string list \<Rightarrow> (string list, int) io" where
  "table_run cmd w =
     (case cmd of
        c # rest \<Rightarrow>
          (if c = ''fusermount'' \<and> length rest = 2 then (Inr 0, removeAll (rest ! 1) w)
           else if c = ''ossfs'' \<and> length rest \<ge> 2 then (Inr 0, (rest ! 1) # w)
           else if c = ''ossfs2'' \<and> length rest \<ge> 2 then (Inr 0, (rest ! 1) # w)
           else (Inr 1, w))
      | [] \<Rightarrow> (Inr 1, w))"

definition table_os :: "string list os_api" where
  "table_os = \<lparr>os_ismount = (\<lambda>p w. p \<in> set w), os_makedirs = (\<lambda>p. retS ()),
     os_open_write = (\<lambda>p c. retS ()), os_chmod = (\<lambda>p m. retS ()), os_remove = (\<lambda>p. retS ()),
     os_run = table_run, os_uuid_hex = retS ''0123'', os_tempdir = ''/tmp''\<rparr>"

definition sample_bucket :: "string \<Rightarrow> string option \<Rightarrow> volume" where
  "sample_bucket b sub = \<lparr>vol_name = ''data'', host_path = None, pvc_claim = None,
     ossfs_of = Some \<lparr>bucket = b, endpoint = ''oss.example.com'', version = ''2.0'', ossfs_options = None,
                      access_key_id = Some ''id'', access_key_secret = Some ''secret''\<rparr>,
     mount_path = ''/data'', read_only = False, sub_path = sub\<rparr>"

lemma table_os_commands_end: "commands_end table_os"
  by (auto simp: commands_end_def table_os_def split: list.splits)

section \<open>Reference counts: the properties\<close>

lemma prepare_ossfs_mounts_outcome:
  assumes "commands_end os"
    and "\<And>v p. v \<in> set vs \<Longrightarrow> resolve_ossfs_paths mroot v = Inr p \<Longrightarrow> validate_mount_path (fst p) = ok"
  shows "case prepare_ossfs_mounts os mroot (Some vs) s of
           (Inl e, s') \<Rightarrow> ref_count s' = ref_count s
         | (Inr ks, s') \<Rightarrow> distinct ks \<and> (\<forall>k. ref_count s' k = ref_count s k + of_bool (k \<in> set ks))"
proof (cases "prepare_ossfs_mounts os mroot (Some vs) s")
  case (Pair r s')
  show ?thesis
  proof (cases r)
    case (Inr ks)
    with Pair prepare_ossfs_mounts_Inr [of os mroot "Some vs" s ks s'] show ?thesis by simp
  next
    case (Inl e)
    show ?thesis
    proof (cases "vs = [] \<or> (\<exists>e. collect_keys mroot vs [] = Inl e)")
      case True
      with Pair Inl show ?thesis
        by (auto simp: prepare_ossfs_mounts_def retS_def bindS_def liftR_def split: if_splits)
    next
      case False
      then obtain d where d: "collect_keys mroot vs [] = Inr d" by (cases "collect_keys mroot vs []") auto
      have m: "mount_batch os mroot d [] s = (Inl e, s')"
        using Pair Inl False d
        by (auto simp: prepare_ossfs_mounts_def retS_def bindS_def liftR_def split: sum.splits prod.splits)
      have "\<forall>(k, v) \<in> set d. v \<in> set vs" using collect_keys_values [OF d] by simp
      moreover have "\<forall>(k, v) \<in> set d. \<exists>p. resolve_ossfs_paths mroot v = Inr p \<and> fst p = k"
        using collect_keys_resolve [OF d] by simp
      ultimately have "\<forall>(k, v) \<in> set d. (\<exists>p. resolve_ossfs_paths mroot v = Inr p \<and> fst p = k)
          \<and> validate_mount_path k = ok" using assms(2) by fastforce
      from mount_batch_Inl [OF m assms(1) this, of "ref_count s"] Pair Inl show ?thesis by simp
    qed
  qed
qed

text \<open>
  Preparing the OSSFS mounts of a sandbox is all or nothing for the reference counts: on success
  the counts of exactly the returned keys, which are distinct, have grown by one; on any failure the
  references taken so far have been given back and every count is what it was.
\<close>

theorem prepare_ossfs_mounts_counts:
  assumes "commands_end os"
    and "\<And>v p. v \<in> set vs \<Longrightarrow> resolve_ossfs_paths mroot v = Inr p \<Longrightarrow> validate_mount_path (fst p) = ok"
  shows "case prepare_ossfs_mounts os mroot (Some vs) s of
           (Inl e, s') \<Rightarrow> ref_count s' = ref_count s
         | (Inr ks, s') \<Rightarrow> distinct ks \<and> (\<forall>k. ref_count s' k = ref_count s k + of_bool (k \<in> set ks))"
  by (rule prepare_ossfs_mounts_outcome [OF assms])

lemma sample_resolve:
  "resolve_ossfs_paths ''/mnt/ossfs'' (sample_bucket ''bkt'' None) = Inr (''/mnt/ossfs/bkt'', ''/mnt/ossfs/bkt'')"
  by code_simp

lemma sample_key_ok: "validate_mount_path ''/mnt/ossfs/bkt'' = ok"
  by code_simp

theorem prepare_ossfs_mounts_counts_witness:
  "case prepare_ossfs_mounts table_os ''/mnt/ossfs'' (Some [sample_bucket ''bkt'' None])
       \<lparr>ref_counts = [(''/mnt/ossfs/bkt'', 2)], world = [''/mnt/ossfs/bkt'']\<rparr> of
     (Inl e, s') \<Rightarrow> ref_count s' = ref_count \<lparr>ref_counts = [(''/mnt/ossfs/bkt'', 2)], world = [''/mnt/ossfs/bkt'']\<rparr>
   | (Inr ks, s') \<Rightarrow> distinct ks \<and> (\<forall>k. ref_count s' k =
       ref_count \<lparr>ref_counts = [(''/mnt/ossfs/bkt'', 2)], world = [''/mnt/ossfs/bkt'']\<rparr> k + of_bool (k \<in> set ks))"
  by (rule prepare_ossfs_mounts_counts [OF table_os_commands_end])
     (auto simp: sample_resolve sample_key_ok)

text \<open>
  Preparing the mounts of a sandbox and later releasing the keys that were recorded for it leaves
  every reference count as it was before, whatever else holds references.
\<close>

theorem prepare_release_roundtrip:
  assumes "commands_end os" and "prepare_ossfs_mounts os mroot vols s = (Inr ks, s1)"
    and "\<forall>k \<in> set ks. validate_mount_path k = ok"
  shows "ref_count (snd (release_ossfs_mounts os ks s1)) = ref_count s"
  using prepare_ossfs_mounts_Inr [OF assms(2)]
  by (simp add: fun_eq_iff release_ossfs_mounts_count [OF assms(1,3)] count_list_distinct)

theorem prepare_release_roundtrip_witness:
  "ref_count (snd (release_ossfs_mounts table_os [''/mnt/ossfs/bkt'']
     \<lparr>ref_counts = [(''/mnt/ossfs/bkt'', 3)], world = [''/mnt/ossfs/bkt'']\<rparr>)) =
   ref_count \<lparr>ref_counts = [(''/mnt/ossfs/bkt'', 2)], world = [''/mnt/ossfs/bkt'']\<rparr>"
proof (rule prepare_release_roundtrip [OF table_os_commands_end, where mroot = "''/mnt/ossfs''"
      and vols = "Some [sample_bucket ''bkt'' None]"])
  show "prepare_ossfs_mounts table_os ''/mnt/ossfs'' (Some [sample_bucket ''bkt'' None])
      \<lparr>ref_counts = [(''/mnt/ossfs/bkt'', 2)], world = [''/mnt/ossfs/bkt'']\<rparr> =
    (Inr [''/mnt/ossfs/bkt''], \<lparr>ref_counts = [(''/mnt/ossfs/bkt'', 3)], world = [''/mnt/ossfs/bkt'']\<rparr>)"
    by code_simp
qed (simp add: sample_key_ok)

section \<open>Where a bucket is mounted\<close>

lemma bucket_plain:
  assumes "validate_bucket_name b = ok"
  shows "plain_comp b" and "\<not> starts_with b ''/''" and "''..'' \<notin> set (split_on slash b)"
    and "list_all (\<lambda>c. lower_digit_hyphen c \<or> c = newline) b"
proof -
  have "dollar (matches BUCKET_RE) b"
    using assms by (auto simp: validate_bucket_name_def res_simps match_dollar_dollar)
  moreover have "list_all lower_digit_hyphen m \<and> m \<noteq> []" if "matches BUCKET_RE m" for m
    using that unfolding matches_lang BUCKET_RE_def
    by (fastforce simp: lang_RRange_cls lower_digit_hyphen_def)
  ultimately have all: "list_all (\<lambda>c. lower_digit_hyphen c \<or> c = newline) b"
    by (fastforce simp: dollar_def list_all_iff)
  have ne: "b \<noteq> []" using assms by (auto simp: validate_bucket_name_def res_simps)
  from all show "list_all (\<lambda>c. lower_digit_hyphen c \<or> c = newline) b" .
  have n: "\<not> lower_digit_hyphen slash" "\<not> lower_digit_hyphen (CHR ''.'')"
    by (simp_all add: lower_digit_hyphen_def lower_digit_def is_lower_def is_digit_def code_def)
  have ns: "slash \<notin> set b" "CHR ''.'' \<notin> set b" using all n by (auto simp: list_all_iff)
  then show "plain_comp b" using ne by (auto simp: plain_comp_def)
  show "\<not> starts_with b ''/''" using ns(1) ne by (cases b) (auto simp: starts_with_def)
  show "''..'' \<notin> set (split_on slash b)" using split_on_single [OF ns(1)] ns(2) by auto
qed

lemma lstrip_slash_safe:
  assumes "safe_sub_path p"
  shows "lstrip_by is_slash p = p"
  using assms by (cases p) (auto simp: safe_sub_path_def lstrip_by_def is_slash_def starts_with_def)

text \<open>What \<open>resolve_ossfs_paths\<close> computes when it is given a clean root, bucket and sub-path.\<close>

lemma resolve_ossfs_facts:
  assumes "starts_with (strip mroot) ''/''" and "\<not> starts_with (strip mroot) ''//''"
    and "validate_bucket_name (bucket (the_ossfs v)) = ok"
    and "ensure_valid_sub_path (sub_path v) = ok"
  obtains mr br p where "mr = path_norm (strip mroot)" "norm_abs mr"
    and "br = path_norm (path_join mr (bucket (the_ossfs v)))" "norm_abs br" "path_below mr br"
    and "p = path_norm (path_join br (str_or (sub_path v) []))" "norm_abs p" "path_below br p"
    and "\<not> starts_with (str_or (sub_path v) []) ''/''" "''..'' \<notin> set (split_on slash (str_or (sub_path v) []))"
    and "resolve_ossfs_paths mroot v = Inr (p, p)"
proof -
  define mr where "mr = path_norm (strip mroot)"
  define br where "br = path_norm (path_join mr (bucket (the_ossfs v)))"
  define sub where "sub = str_or (sub_path v) []"
  define p where "p = path_norm (path_join br sub)"
  note b = bucket_plain [OF assms(3)]
  have mr: "norm_abs mr" unfolding mr_def by (rule norm_abs_path_norm [OF assms(1,2)])
  from path_join_below [OF mr b(2,3)] have br: "path_below mr br" "norm_abs br" by (simp_all add: br_def)
  have safe: "safe_sub_path sub"
    using assms(4)
    by (auto simp: res_simps sub_def str_or_def safe_sub_path_def starts_with_def split: option.splits)
  then have sub: "\<not> starts_with sub ''/''" "''..'' \<notin> set (split_on slash sub)"
    by (simp_all add: safe_sub_path_def)
  from path_join_below [OF br(2) this] have p: "path_below br p" "norm_abs p" by (simp_all add: p_def)
  have "resolve_ossfs_paths mroot v = Inr (p, p)"
    using assms(1) p(1) lstrip_slash_safe [OF safe]
    by (auto simp: resolve_ossfs_paths_def Let_def mr_def [symmetric] br_def [symmetric]
        sub_def [symmetric] p_def [symmetric] path_below_def)
  with mr br p sub show ?thesis by (intro that [of mr br p]) (auto simp: mr_def br_def p_def sub_def)
qed

text \<open>
  With a bucket name the OSS rules allow and a sub-path the volume check accepts, the path that is
  mounted and bound into the container is always found, lies below the directory of the bucket, and
  that directory lies below the configured mount root.
\<close>

theorem resolve_ossfs_contained:
  assumes "starts_with (strip mroot) ''/''" and "\<not> starts_with (strip mroot) ''//''"
    and "validate_bucket_name (bucket (the_ossfs v)) = ok"
    and "ensure_valid_sub_path (sub_path v) = ok"
  shows "\<exists>p bucket_root. resolve_ossfs_paths mroot v = Inr (p, p) \<and> norm_abs p
     \<and> path_below bucket_root p \<and> path_below (path_norm (strip mroot)) bucket_root"
  by (rule resolve_ossfs_facts [OF assms]) blast

theorem resolve_ossfs_contained_witness:
  "\<exists>p bucket_root. resolve_ossfs_paths ''/mnt/ossfs'' (sample_bucket ''a'' (Some ''x/y'')) = Inr (p, p)
     \<and> norm_abs p \<and> path_below bucket_root p \<and> path_below (path_norm (strip ''/mnt/ossfs'')) bucket_root"
  by (rule resolve_ossfs_contained; code_simp)

text \<open>
  The bucket name is not checked before the path is resolved: a name that the request schema and
  the volume check accept can climb out of the mount root, here from \<open>/mnt/ossfs\<close> to \<open>/proc\<close>; since
  that is a mount point already, no mount command (and so no bucket check) is run and the host
  directory is handed out.
\<close>

theorem ossfs_bucket_escapes_root:
  "volume_fields_ok (sample_bucket ''../../proc'' None) \<and>
   ensure_volumes_valid (Some [sample_bucket ''../../proc'' None]) (Some [''/data'']) = ok \<and>
   validate_ossfs_volume ''/mnt/ossfs'' (sample_bucket ''../../proc'' None) = ok \<and>
   prepare_ossfs_mounts table_os ''/mnt/ossfs'' (Some [sample_bucket ''../../proc'' None])
     \<lparr>ref_counts = [], world = [''/proc'']\<rparr> =
     (Inr [''/proc''], \<lparr>ref_counts = [(''/proc'', 1)], world = [''/proc'']\<rparr>)"
  by (intro conjI; code_simp)

section \<open>Sharing and races\<close>

text \<open>
  A bucket that is mounted for one sandbox is handed to every later one without looking at its
  credentials: with a positive count the volume gets the mount and one more reference, and the host
  is not touched.
\<close>

theorem ensure_shares_existing_mount:
  assumes "resolve_ossfs_paths mroot v = Inr (k, k)" and "0 < ref_count s k"
  shows "ensure_ossfs_mounted os mroot (Inr v) s =
           (Inr k, s\<lparr>ref_counts := AList.update k (ref_count s k + 1) (ref_counts s)\<rparr>)"
  using assms by (simp add: ensure_ossfs_mounted_def bindS_def liftR_def)

theorem ensure_shares_existing_mount_witness:
  "ensure_ossfs_mounted table_os ''/mnt/ossfs'' (Inr (sample_bucket ''bkt'' None))
     \<lparr>ref_counts = [(''/mnt/ossfs/bkt'', 1)], world = [''/mnt/ossfs/bkt'']\<rparr> =
   (Inr ''/mnt/ossfs/bkt'', \<lparr>ref_counts = [(''/mnt/ossfs/bkt'', 2)], world = [''/mnt/ossfs/bkt'']\<rparr>)"
  using ensure_shares_existing_mount [OF sample_resolve,
      of "\<lparr>ref_counts = [(''/mnt/ossfs/bkt'', 1)], world = [''/mnt/ossfs/bkt'']\<rparr>" table_os]
  by (simp add: ref_count_def)

text \<open>
  The unmount runs after the lock has been given back, so a sandbox that asks for the mount
  between the last release and the unmount is told it has it: in this interleaving of two threads the
  count ends at one although the path is not mounted any more.
\<close>

theorem release_ensure_race:
  assumes "ref_count s k = 1" and "os_ismount os k (world s)" and "resolve_ossfs_paths mroot v = Inr (k, k)"
    and "unmount_path os k (world s) = (ok, w')" and "\<not> os_ismount os k w'"
  shows "\<exists>s1 s2 s3. release_ref k s = (Inr True, s1) \<and>
           ensure_ossfs_mounted os mroot (Inr v) s1 = (Inr k, s2) \<and>
           inW (unmount_path os k) s2 = (ok, s3) \<and>
           ref_count s3 k = 1 \<and> \<not> os_ismount os k (world s3)"
proof -
  define s1 where "s1 = s\<lparr>ref_counts := AList.delete k (ref_counts s)\<rparr>"
  define s2 where "s2 = s1\<lparr>ref_counts := AList.update k 1 (ref_counts s1)\<rparr>"
  have "release_ref k s = (Inr True, s1)" using assms(1) by (simp add: release_ref_def s1_def)
  moreover have "ensure_ossfs_mounted os mroot (Inr v) s1 = (Inr k, s2)"
    using assms(2,3) by (simp add: ensure_ossfs_mounted_def bindS_def liftR_def retS_def modifyS_def
        s1_def s2_def ref_count_def)
  moreover have "inW (unmount_path os k) s2 = (ok, s2\<lparr>world := w'\<rparr>)"
    using assms(4) by (simp add: inW_def s1_def s2_def)
  moreover have "ref_count (s2\<lparr>world := w'\<rparr>) k = 1" by (simp add: s2_def)
  ultimately show ?thesis using assms(5) by force
qed

theorem release_ensure_race_witness:
  "\<exists>s1 s2 s3. release_ref ''/mnt/ossfs/bkt''
       \<lparr>ref_counts = [(''/mnt/ossfs/bkt'', 1)], world = [''/mnt/ossfs/bkt'']\<rparr> = (Inr True, s1) \<and>
     ensure_ossfs_mounted table_os ''/mnt/ossfs'' (Inr (sample_bucket ''bkt'' None)) s1 =
       (Inr ''/mnt/ossfs/bkt'', s2) \<and>
     inW (unmount_path table_os ''/mnt/ossfs/bkt'') s2 = (ok, s3) \<and>
     ref_count s3 ''/mnt/ossfs/bkt'' = 1 \<and> \<not> os_ismount table_os ''/mnt/ossfs/bkt'' (world s3)"
proof (rule release_ensure_race [where w' = "[]"])
  show "unmount_path table_os ''/mnt/ossfs/bkt''
      (world \<lparr>ref_counts = [(''/mnt/ossfs/bkt'', 1)], world = [''/mnt/ossfs/bkt'']\<rparr>) = (ok, [])"
    by (simp add: unmount_path_def bindS_def getS_def retS_def table_os_def)
qed (simp_all add: ref_count_def table_os_def sample_resolve)

text \<open>
  Only \<open>HTTPException\<close> is caught while keys are released: when the unmount program itself cannot be
  run (\<open>OSError\<close>), the exception leaves the loop after the first key that needs an unmount and the
  references of the remaining keys are kept for ever.
\<close>

theorem release_stops_on_os_error:
  assumes "validate_mount_path k = ok" and "ref_count s k = 1" and "os_ismount os k (world s)"
    and "os_run os [''fusermount'', ''-u'', k] (world s) = (Inl OSError, w')"
  shows "\<exists>s'. release_ossfs_mounts os (k # ks) s = (Inl OSError, s') \<and>
           ref_count s' = (ref_count s)(k := 0)"
proof -
  define s1 where "s1 = s\<lparr>ref_counts := AList.delete k (ref_counts s)\<rparr>"
  have "release_ossfs_mount os k s = (Inl OSError, s1\<lparr>world := w'\<rparr>)"
    using assms
    by (simp add: release_ossfs_mount_def release_ref_def bindS_def liftR_def whenS_def inW_def
        unmount_path_def getS_def s1_def)
  then show ?thesis
    by (simp add: release_ossfs_mounts_def bindS_def catchS_def raiseS_def is_http_exn_def s1_def)
qed

theorem release_stops_on_os_error_witness:
  "\<exists>s'. release_ossfs_mounts (table_os\<lparr>os_run := \<lambda>cmd w. (Inl OSError, w)\<rparr>) [''/mnt/ossfs/bkt'', ''/mnt/ossfs/b2'']
          \<lparr>ref_counts = [(''/mnt/ossfs/bkt'', 1), (''/mnt/ossfs/b2'', 1)], world = [''/mnt/ossfs/bkt'']\<rparr>
        = (Inl OSError, s') \<and>
     ref_count s' = (ref_count \<lparr>ref_counts = [(''/mnt/ossfs/bkt'', 1), (''/mnt/ossfs/b2'', 1)],
        world = [''/mnt/ossfs/bkt'']\<rparr>)(''/mnt/ossfs/bkt'' := 0)"
  by (rule release_stops_on_os_error [where w' = "[''/mnt/ossfs/bkt'']"])
     (simp_all add: sample_key_ok ref_count_def table_os_def)

section \<open>Command arguments\<close>

definition clean :: "string \<Rightarrow> bool" where
  "clean s \<longleftrightarrow> (\<forall>c \<in> set s. c \<notin> set dangerous_chars)"

lemma reject_chars_clean: "reject_chars dangerous_chars s = ok \<longleftrightarrow> clean s"
  by (auto simp: reject_chars_def clean_def res_simps)

lemma clean_simps [simp]: "clean []" "clean (c # s) \<longleftrightarrow> c \<notin> set dangerous_chars \<and> clean s"
  "clean (s @ t) \<longleftrightarrow> clean s \<and> clean t"
  by (auto simp: clean_def)

lemma build_options_clean:
  "build_options (\<lambda>opt. [''-o'', opt]) opts = Inr args \<Longrightarrow> list_all clean args"
proof (induction opts arbitrary: args)
  case Nil
  then show ?case by simp
next
  case (Cons raw rest)
  have "clean ''-o''" by code_simp
  with Cons show ?case
    by (auto simp: Let_def bindR_eq_Inr validate_ossfs_option_def reject_chars_clean split: if_splits)
qed

lemma validate_parts_clean:
  "validate_mount_path p = ok \<Longrightarrow> clean p"
  "validate_endpoint_url u = ok \<Longrightarrow> clean u"
  by (auto simp: validate_mount_path_def validate_endpoint_url_def res_simps reject_chars_clean
      reject_chars_def clean_def)

text \<open>
  No argument of the \<open>ossfs\<close> mount command contains a shell metacharacter, although the source
  argument, built from the bucket and the requested prefix, is never checked itself: every character
  of it also occurs in the mount path, which is.
\<close>

theorem v1_command_clean:
  assumes "starts_with (strip mroot) ''/''" and "\<not> starts_with (strip mroot) ''//''"
    and "ensure_valid_sub_path (sub_path v) = ok" and "resolve_ossfs_paths mroot v = Inr (p, p)"
    and "build_ossfs_v1_command v (ossfs_source v) p url passwd_file = Inr cmd" and "clean passwd_file"
  shows "list_all clean cmd"
proof -
  have c: "validate_bucket_name (bucket (the_ossfs v)) = ok" "clean url" "clean p"
    and cmd: "\<exists>opts. list_all clean opts \<and> cmd = [''ossfs'', ossfs_source v, p, ''-o'', ''url='' @ url,
      ''-o'', ''passwd_file='' @ passwd_file] @ opts"
    using assms(5)
    by (auto simp: build_ossfs_v1_command_def bindR_eq_Inr intro: validate_parts_clean build_options_clean)
  obtain mr br where f: "norm_abs mr" "br = path_norm (path_join mr (bucket (the_ossfs v)))" "norm_abs br"
      "p = path_norm (path_join br (str_or (sub_path v) []))"
      "\<not> starts_with (str_or (sub_path v) []) ''/''" "''..'' \<notin> set (split_on slash (str_or (sub_path v) []))"
    using assms(4) by (auto intro: resolve_ossfs_facts [OF assms(1,2) c(1) assms(3)])
  have special: "slash \<notin> set dangerous_chars" "CHR ''.'' \<notin> set dangerous_chars"
      "CHR '':'' \<notin> set dangerous_chars" by (simp_all add: dangerous_chars_def)
  have sub: "clean (str_or (sub_path v) [])"
    using c(3) path_join_norm_chars [OF f(3,5,6)] special unfolding f(4) clean_def by blast
  have "clean br"
    using c(3) path_join_norm_chars [OF f(3,5,6)] special unfolding f(4) clean_def by blast
  then have bk: "clean (bucket (the_ossfs v))"
    using path_join_norm_chars [OF f(1) bucket_plain(2,3) [OF c(1)]] special
    unfolding f(2) clean_def by blast
  have "set (ossfs_prefix v) \<subseteq> set (str_or (sub_path v) [])"
  proof
    fix x assume "x \<in> set (ossfs_prefix v)"
    then have "x \<in> set (rev (lstrip_by is_slash (str_or (sub_path v) [])))"
      unfolding ossfs_prefix_def rstrip_by_def by (simp only: set_rev) (drule set_dropWhileD, simp)
    then show "x \<in> set (str_or (sub_path v) [])"
      unfolding lstrip_by_def by (simp only: set_rev) (drule set_dropWhileD, simp)
  qed
  then have "clean (ossfs_prefix v)" using sub by (auto simp: clean_def)
  then have "clean (ossfs_source v)" using bk special by (simp add: ossfs_source_def)
  moreover have "clean ''ossfs''" "clean ''-o''" "clean ''url=''" "clean ''passwd_file=''" by code_simp+
  ultimately show ?thesis using cmd c(2,3) assms(6) by auto
qed

theorem v1_command_clean_witness:
  "list_all clean [''ossfs'', ''a:/x'', ''/mnt/a/x'', ''-o'', ''url=https://e'', ''-o'', ''passwd_file=/tmp/p'']"
proof (rule v1_command_clean [where v = "sample_bucket ''a'' (Some ''x'')" and mroot = "''/mnt''"
      and p = "''/mnt/a/x''" and url = "''https://e''" and passwd_file = "''/tmp/p''"])
  show "build_ossfs_v1_command (sample_bucket ''a'' (Some ''x'')) (ossfs_source (sample_bucket ''a'' (Some ''x'')))
      ''/mnt/a/x'' ''https://e'' ''/tmp/p'' =
    Inr [''ossfs'', ''a:/x'', ''/mnt/a/x'', ''-o'', ''url=https://e'', ''-o'', ''passwd_file=/tmp/p'']"
    by code_simp
qed code_simp+

end
