(* ===== verification/Json_Text.thy ===== *)
theory Json_Text
  imports Json
begin

text \<open>
  The text form of JSON, as the services use Python's \<open>json\<close> module: \<open>json.loads\<close> on container labels
  and annotations, and \<open>json.dumps(keys, separators=(",", ":"))\<close> on lists of strings. Text has code
  points below 256, so an escape for a larger one is read as an error. A number with a fraction or
  an exponent is kept as its text.
\<close>

section \<open>Reading\<close>

abbreviation quote :: char where "quote \<equiv> CHR 0x22"
abbreviation backslash :: char where "backslash \<equiv> CHR 0x5C"

definition json_ws :: "char \<Rightarrow> bool" where
  "json_ws c \<longleftrightarrow> code c \<in> {9, 10, 13, 32}"

definition hex_val :: "char \<Rightarrow> nat option" where
  "hex_val c = (if is_digit c then Some (code c - 48)
     else if 97 \<le> code c \<and> code c \<le> 102 then Some (code c - 87)
     else if 65 \<le> code c \<and> code c \<le> 70 then Some (code c - 55) else None)"

definition hex4 :: "char \<Rightarrow> char \<Rightarrow> char \<Rightarrow> char \<Rightarrow> nat option" where
  "hex4 a b c d = (case (hex_val a, hex_val b, hex_val c, hex_val d) of
     (Some w, Some x, Some y, Some z) \<Rightarrow> Some (((w * 16 + x) * 16 + y) * 16 + z) | _ \<Rightarrow> None)"

definition simple_escape :: "char \<Rightarrow> char option" where
  "simple_escape c = map_of [(quote, quote), (backslash, backslash), (slash, slash),
     (CHR ''b'', CHR 0x08), (CHR ''f'', CHR 0x0C), (CHR ''n'', CHR 0x0A), (CHR ''r'', CHR 0x0D),
     (CHR ''t'', CHR 0x09)] c"

text \<open>What follows the opening quote: the text up to the closing quote, and the rest.\<close>

fun read_string :: "string \<Rightarrow> (string \<times> string) option" where
  "read_string [] = None"
| "read_string (c # r) =
     (if c = quote then Some ([], r)
      else if c = backslash
      then (case r of
              [] \<Rightarrow> None
            | e # r1 \<Rightarrow>
                if e = CHR ''u''
                then (case r1 of
                        h1 # h2 # h3 # h4 # r2 \<Rightarrow>
                          (case hex4 h1 h2 h3 h4 of
                             None \<Rightarrow> None
                           | Some n \<Rightarrow> if n < 256
                               then map_option (\<lambda>(s, t). (char_of n # s, t)) (read_string r2) else None)
                      | _ \<Rightarrow> None)
                else (case simple_escape e of
                        None \<Rightarrow> None
                      | Some x \<Rightarrow> map_option (\<lambda>(s, t). (x # s, t)) (read_string r1)))
      else if code c < 32 then None
      else map_option (\<lambda>(s, t). (c # s, t)) (read_string r))"

text \<open>A number: sign, digits without a leading zero, and an optional fraction and exponent.\<close>

definition read_number :: "string \<Rightarrow> (json \<times> string) option" where
  "read_number s =
     (let neg = starts_with s ''-'';
          t = (if neg then drop 1 s else s);
          ds = takeWhile is_digit t;
          r = dropWhile is_digit t;
          fr = (if starts_with r ''.'' \<and> takeWhile is_digit (drop 1 r) \<noteq> []
                then ''.'' @ takeWhile is_digit (drop 1 r) else []);
          r1 = drop (length fr) r;
          sg = (if starts_with (drop 1 r1) ''+'' \<or> starts_with (drop 1 r1) ''-'' then take 1 (drop 1 r1) else []);
          ed = takeWhile is_digit (drop (1 + length sg) r1);
          ex = (if (starts_with r1 ''e'' \<or> starts_with r1 ''E'') \<and> ed \<noteq> [] then take 1 r1 @ sg @ ed else []);
          ds' = (if starts_with ds ''0'' then ''0'' else ds)
      in if ds = [] then None
         else if ds' \<noteq> ds then Some (JInt 0, drop 1 t)
         else if fr = [] \<and> ex = [] then Some (JInt ((if neg then - 1 else 1) * int (digits_val ds)), r)
         else Some (JFloat ((if neg then ''-'' else []) @ ds @ fr @ ex), drop (length ex) r1))"

definition read_word :: "string \<Rightarrow> (json \<times> string) option" where
  "read_word s =
     (case List.find (\<lambda>(w, v). starts_with s w)
        [(''null'', JNull), (''true'', JBool True), (''false'', JBool False), (''NaN'', JFloat ''nan''),
         (''Infinity'', JFloat ''inf''), (''-Infinity'', JFloat ''-inf'')] of
        None \<Rightarrow> read_number s
      | Some (w, v) \<Rightarrow> Some (v, drop (length w) s))"

definition skip_ws :: "string \<Rightarrow> string" where
  "skip_ws s = dropWhile json_ws s"

text \<open>
  Values, with a bound on the nesting and the length of containers; the length of the text is always
  enough because each call consumes a character.
\<close>

fun read_value :: "nat \<Rightarrow> string \<Rightarrow> (json \<times> string) option"
and read_elems :: "nat \<Rightarrow> string \<Rightarrow> (json list \<times> string) option"
and read_members :: "nat \<Rightarrow> string \<Rightarrow> ((string, json) dict \<times> string) option" where
  "read_value 0 s = None"
| "read_value (Suc n) s =
     (case s of
        [] \<Rightarrow> None
      | c # r \<Rightarrow>
          if c = quote then map_option (\<lambda>(x, t). (JStr x, t)) (read_string r)
          else if c = CHR ''[''
          then (case skip_ws r of
                  [] \<Rightarrow> None
                | d # t \<Rightarrow> if d = CHR '']'' then Some (JList [], t)
                          else map_option (\<lambda>(xs, u). (JList xs, u)) (read_elems n (d # t)))
          else if c = CHR ''{''
          then (case skip_ws r of
                  [] \<Rightarrow> None
                | d # t \<Rightarrow> if d = CHR ''}'' then Some (JObj [], t)
                          else map_option (\<lambda>(xs, u). (JObj (dict_update [] xs), u)) (read_members n (d # t)))
          else read_word s)"
| "read_elems 0 s = None"
| "read_elems (Suc n) s =
     (case read_value n (skip_ws s) of
        None \<Rightarrow> None
      | Some (x, r) \<Rightarrow>
          (case skip_ws r of
             [] \<Rightarrow> None
           | c # t \<Rightarrow> if c = CHR '']'' then Some ([x], t)
                     else if c = CHR '','' then map_option (\<lambda>(xs, u). (x # xs, u)) (read_elems n t)
                     else None))"
| "read_members 0 s = None"
| "read_members (Suc n) s =
     (case skip_ws s of
        [] \<Rightarrow> None
      | q # r \<Rightarrow>
          if q \<noteq> quote then None
          else (case read_string r of
                  None \<Rightarrow> None
                | Some (k, r1) \<Rightarrow>
                    (case skip_ws r1 of
                       [] \<Rightarrow> None
                     | d # r2 \<Rightarrow>
                         if d \<noteq> CHR '':'' then None
                         else (case read_value n (skip_ws r2) of
                                 None \<Rightarrow> None
                               | Some (x, r3) \<Rightarrow>
                                   (case skip_ws r3 of
                                      [] \<Rightarrow> None
                                    | c # t \<Rightarrow>
                                        if c = CHR ''}'' then Some ([(k, x)], t)
                                        else if c = CHR '',''
                                        then map_option (\<lambda>(xs, u). ((k, x) # xs, u)) (read_members n t)
                                        else None)))))"

text \<open>\<open>json.loads\<close>; \<open>None\<close> is the \<open>JSONDecodeError\<close>.\<close>

definition json_loads :: "string \<Rightarrow> json option" where
  "json_loads s =
     (case read_value (2 * length s + 2) (skip_ws s) of
        None \<Rightarrow> None
      | Some (v, r) \<Rightarrow> if skip_ws r = [] then Some v else None)"

section \<open>Writing lists of strings\<close>

definition hex_digit :: "nat \<Rightarrow> char" where
  "hex_digit n = (if n < 10 then char_of (48 + n) else char_of (87 + n))"

definition escape_char :: "char \<Rightarrow> string" where
  "escape_char c =
     (if c = quote then [backslash, quote]
      else if c = backslash then [backslash, backslash]
      else if c = CHR 0x0A then [backslash, CHR ''n'']
      else if c = CHR 0x0D then [backslash, CHR ''r'']
      else if c = CHR 0x09 then [backslash, CHR ''t'']
      else if c = CHR 0x0C then [backslash, CHR ''f'']
      else if c = CHR 0x08 then [backslash, CHR ''b'']
      else if code c < 32 \<or> 126 < code c
      then [backslash, CHR ''u'', CHR ''0'', CHR ''0'', hex_digit (code c div 16), hex_digit (code c mod 16)]
      else [c])"

definition dumps_string :: "string \<Rightarrow> string" where
  "dumps_string s = quote # concat (map escape_char s) @ [quote]"

definition json_dumps_list :: "string list \<Rightarrow> string" where
  "json_dumps_list ks = ''['' @ join_with (CHR '','') (map dumps_string ks) @ '']''"

section \<open>Round trip\<close>

lemma hex_val_digit: "n < 16 \<Longrightarrow> hex_val (hex_digit n) = Some n"
  by (auto simp: hex_val_def hex_digit_def is_digit_def code_def)

lemma hex4_escape:
  assumes "n < 256"
  shows "hex4 (CHR ''0'') (CHR ''0'') (hex_digit (n div 16)) (hex_digit (n mod 16)) = Some n"
proof -
  have "hex_val (CHR ''0'') = Some 0" by code_simp
  moreover have "n div 16 < 16" using assms by simp
  ultimately show ?thesis using hex_val_digit [of "n div 16"] hex_val_digit [of "n mod 16"] by (simp add: hex4_def)
qed

lemma read_escape_char:
  "read_string (escape_char c @ r) = map_option (\<lambda>(s, t). (c # s, t)) (read_string r)"
proof -
  have "char_of (code c) = c" by (simp add: code_def)
  moreover have "code c < 256" by simp
  moreover have "c \<noteq> quote" "c \<noteq> backslash" if "\<not> (code c < 32 \<or> 126 < code c)" "escape_char c = [c]"
    using that by (auto simp: escape_char_def split: if_splits)
  ultimately show ?thesis
    using hex4_escape [of "code c"]
    by (auto simp: escape_char_def simple_escape_def)
qed

lemma read_dumps_string: "read_string (concat (map escape_char s) @ quote # r) = Some (s, r)"
  by (induction s) (simp_all add: read_escape_char del: read_string.simps(2), simp)

lemma skip_ws_simps:
  "skip_ws (quote # r) = quote # r" "skip_ws (CHR '','' # r) = CHR '','' # r"
  "skip_ws (CHR '']'' # r) = CHR '']'' # r" "skip_ws [] = []"
  by (simp_all add: skip_ws_def json_ws_def code_def)

lemma read_value_dumps_string:
  "read_value (Suc n) (dumps_string s @ r) = Some (JStr s, r)"
  by (simp add: dumps_string_def read_dumps_string)

lemma read_elems_last:
  "read_elems (Suc (Suc m)) (dumps_string k @ CHR '']'' # r) = Some ([JStr k], r)"
proof -
  have "skip_ws (dumps_string k @ CHR '']'' # r) = dumps_string k @ CHR '']'' # r"
    by (simp add: dumps_string_def skip_ws_simps)
  then show ?thesis
    by (simp add: read_value_dumps_string skip_ws_simps read_elems.simps(2) [of "Suc m"]
        del: read_value.simps read_elems.simps)
qed

lemma read_elems_more:
  "read_elems (Suc (Suc m)) (dumps_string k @ CHR '','' # t) =
     map_option (\<lambda>(xs, u). (JStr k # xs, u)) (read_elems (Suc m) t)"
proof -
  have "skip_ws (dumps_string k @ CHR '','' # t) = dumps_string k @ CHR '','' # t"
    by (simp add: dumps_string_def skip_ws_simps)
  then show ?thesis
    by (simp add: read_value_dumps_string skip_ws_simps read_elems.simps(2) [of "Suc m"]
        del: read_value.simps read_elems.simps)
qed

lemma read_elems_dumps:
  assumes "ks \<noteq> []" and "2 * length ks \<le> n"
  shows "read_elems n (join_with (CHR '','') (map dumps_string ks) @ CHR '']'' # r) =
           Some (map JStr ks, r)"
  using assms
proof (induction ks arbitrary: n rule: induct_list012)
  case 1
  then show ?case by simp
next
  case (2 k)
  then obtain m where "n = Suc (Suc m)" by (cases n; cases "n - 1") auto
  then show ?case using read_elems_last by simp
next
  case (3 k k2 ks)
  then obtain m where m: "n = Suc (Suc m)" by (cases n; cases "n - 1") auto
  have "read_elems (Suc m) (join_with (CHR '','') (map dumps_string (k2 # ks)) @ CHR '']'' # r) =
      Some (map JStr (k2 # ks), r)"
    by (rule 3(2)) (use 3(4) m in auto)
  then show ?case
    unfolding m list.map join_with.simps append_assoc append_Cons read_elems_more by simp
qed

text \<open>What a label written by the service reads back as.\<close>

lemma length_join_dumps: "2 * length ks \<le> length (join_with (CHR '','') (map dumps_string ks))"
proof (induction ks rule: induct_list012)
  case (3 x y zs)
  then show ?case by (simp add: dumps_string_def)
qed (simp_all add: dumps_string_def)

theorem json_loads_dumps_list: "json_loads (json_dumps_list ks) = Some (JList (map JStr ks))"
proof -
  have s: "skip_ws (json_dumps_list ks) = json_dumps_list ks"
    by (simp add: json_dumps_list_def skip_ws_def json_ws_def code_def)
  show ?thesis
  proof (cases "ks = []")
    case True
    then show ?thesis by (simp only:) code_simp
  next
    case False
    let ?body = "join_with (CHR '','') (map dumps_string ks)"
    obtain c t where ct: "?body @ '']'' = c # t" "c = quote"
      using False by (cases ks; cases "tl ks") (auto simp: dumps_string_def)
    have "read_elems (2 * length (json_dumps_list ks) + 1) (?body @ '']'') = Some (map JStr ks, [])"
      by (rule read_elems_dumps [OF False]) (use length_join_dumps [of ks] in \<open>simp add: json_dumps_list_def\<close>)
    then have "read_value (2 * length (json_dumps_list ks) + 2) (json_dumps_list ks) = Some (JList (map JStr ks), [])"
      using ct by (simp add: json_dumps_list_def skip_ws_simps)
    then show ?thesis by (simp add: json_loads_def s skip_ws_simps del: read_value.simps)
  qed
qed

end
