(* ===== verification/Docker_Model.thy ===== *)
theory Docker_Model
  imports Ossfs Json_Text
begin

text \<open>
  The state and the interfaces of \<open>DockerSandboxService\<close> (\<open>server/src/services/docker.py\<close>), and the parts
  of it that only compute: labels, host configuration, the state shown for a container, endpoints,
  bind mounts. The Docker daemon, the clock, random identifiers and the operating system are the
  record \<open>docker_api\<close>, an extension of the host of \<open>Ossfs\<close>, over an arbitrary world \<open>'w\<close>. A container
  object is the snapshot of its attributes that docker-py holds.
\<close>

section \<open>Containers and the daemon\<close>

record container =
  ct_id :: string
  ct_labels :: "(string, string) dict"
  ct_state_status :: "string option"
  ct_status :: string
  ct_running :: bool
  ct_paused :: bool
  ct_restarting :: bool
  ct_exit_code :: "int option"
  ct_finished_at :: "string option"
  ct_created :: "string option"
  ct_cmd :: "string list"
  ct_image_tags :: "string list"
  ct_image_short_id :: string
  ct_ip_address :: "string option"
  ct_networks :: "(string, string option) dict"

record host_config =
  hc_network_mode :: string
  hc_security_opt :: "string list"
  hc_cap_add :: "string list"
  hc_cap_drop :: "string list"
  hc_pids_limit :: "int option"
  hc_mem_limit :: "int option"
  hc_nano_cpus :: "int option"
  hc_runtime :: "string option"
  hc_port_bindings :: "(string, int) dict"
  hc_binds :: "string list"
  hc_sysctls :: "(string, int) dict"

record container_spec =
  cs_image :: string
  cs_entrypoint :: "string list"
  cs_command :: "string list"
  cs_ports :: "string list option"
  cs_name :: string
  cs_environment :: "string list"
  cs_labels :: "(string, string) dict"
  cs_host_config :: host_config

record vol_info =
  vi_driver :: string
  vi_mountpoint :: string

datatype label_filter = Any_Container | Has_Label string | Label_Is string string

datatype archive = Tar_Dir string | Tar_File string string | Execd_Archive string

record 'w docker_api = "'w os_api" +
  dk_list :: "label_filter \<Rightarrow> ('w, container list) io"
  dk_get :: "string \<Rightarrow> ('w, container) io"
  dk_kill :: "string \<Rightarrow> ('w, unit) io"
  dk_remove :: "string \<Rightarrow> ('w, unit) io"
  dk_start :: "string \<Rightarrow> ('w, unit) io"
  dk_pause :: "string \<Rightarrow> ('w, unit) io"
  dk_unpause :: "string \<Rightarrow> ('w, unit) io"
  dk_update_labels :: "string \<Rightarrow> (string, string) dict \<Rightarrow> ('w, unit) io"
  dk_post_labels :: "string \<Rightarrow> (string, string) dict \<Rightarrow> ('w, unit) io"
  dk_reload :: "string \<Rightarrow> ('w, unit) io"
  dk_create :: "container_spec \<Rightarrow> ('w, string option) io"
  dk_create_execd :: "string \<Rightarrow> ('w, string) io"
  dk_put_archive :: "string \<Rightarrow> string \<Rightarrow> archive \<Rightarrow> ('w, unit) io"
  dk_get_archive :: "string \<Rightarrow> string \<Rightarrow> ('w, string) io"
  dk_image_get :: "string \<Rightarrow> ('w, unit) io"
  dk_image_pull :: "string \<Rightarrow> image_auth option \<Rightarrow> ('w, unit) io"
  dk_network_get :: "string \<Rightarrow> ('w, unit) io"
  dk_inspect_volume :: "string \<Rightarrow> ('w, vol_info) io"
  dk_realpath_strict :: "string \<Rightarrow> ('w, string) io"
  dk_now :: "('w, timestamp) io"
  dk_new_id :: "('w, string) io"
  dk_token :: "('w, string) io"
  dk_random_port :: "int \<Rightarrow> int \<Rightarrow> ('w, int) io"
  dk_can_bind :: "int \<Rightarrow> ('w, bool) io"
  dk_in_container :: "'w \<Rightarrow> bool"
  dk_bind_ip :: "('w, string) io"
  dk_isoformat :: "timestamp \<Rightarrow> string"
  dk_fromiso :: "string \<Rightarrow> datetime option"
  dk_nano_cpus :: "string option \<Rightarrow> int option"
  dk_shlex_split :: "string \<Rightarrow> string list res"
  dk_policy_json :: "network_policy \<Rightarrow> string"

section \<open>The state of the service\<close>

text \<open>
  A timer of \<open>_expiration_timers\<close>: its delay in microseconds and the \<open>fallback_mount_keys\<close> it hands to
  \<open>_expire_sandbox\<close>. A cancelled timer is one that is not in the dictionary any more.
\<close>

record exp_timer =
  timer_delay :: int
  timer_fallback :: "string list option"

record pending_sandbox =
  pend_request :: create_request
  pend_created_at :: timestamp
  pend_expires_at :: "timestamp option"
  pend_status :: sandbox_status

record 'w service = "'w host_state" +
  sandbox_expirations :: "(string, timestamp) dict"
  expiration_timers :: "(string, exp_timer) dict"
  pending_sandboxes :: "(string, pending_sandbox) dict"
  pending_cleanup_timers :: "(string, int) dict"
  execd_archive_cache :: "string option"

section \<open>Constants\<close>

definition HOST_NETWORK_MODE :: string where "HOST_NETWORK_MODE = ''host''"
definition BRIDGE_NETWORK_MODE :: string where "BRIDGE_NETWORK_MODE = ''bridge''"
definition EGRESS_SIDECAR_LABEL :: string where "EGRESS_SIDECAR_LABEL = ''opensandbox.io/egress-sidecar-for''"
definition PENDING_FAILURE_TTL_SECONDS :: int where "PENDING_FAILURE_TTL_SECONDS = 3600"
definition BOOTSTRAP_PATH :: string where "BOOTSTRAP_PATH = ''/opt/opensandbox/bootstrap.sh''"
definition EXECED_INSTALL_PATH :: string where "EXECED_INSTALL_PATH = ''/opt/opensandbox/execd''"

text \<open>\<open>self.network_mode\<close>\<close>

definition network_mode :: "app_config \<Rightarrow> string" where
  "network_mode c = lower (str_or (Some (dck_network_mode (cfg_docker c))) HOST_NETWORK_MODE)"

definition resolve_api_timeout :: "app_config \<Rightarrow> int" where
  "resolve_api_timeout c =
     (case dck_api_timeout (cfg_docker c) of None \<Rightarrow> 180 | Some t \<Rightarrow> if t \<ge> 1 then t else 180)"

definition is_user_defined_network :: "app_config \<Rightarrow> bool" where
  "is_user_defined_network c \<longleftrightarrow>
     network_mode c \<notin> {HOST_NETWORK_MODE, BRIDGE_NETWORK_MODE, ''none''}
     \<and> \<not> starts_with (network_mode c) ''container:''"

definition ensure_network_policy_support :: "app_config \<Rightarrow> create_request \<Rightarrow> unit res" where
  "ensure_network_policy_support c r =
     (case req_network_policy r of
        None \<Rightarrow> ok
      | Some np \<Rightarrow>
          bindR (raise_if (network_mode c = HOST_NETWORK_MODE) (HTTPException 400 INVALID_PARAMETER)) (\<lambda>_.
          bindR (raise_if (is_user_defined_network c) (HTTPException 400 INVALID_PARAMETER)) (\<lambda>_.
          ensure_egress_configured (Some np) (cfg_egress c))))"

section \<open>Labels\<close>

definition has_manual_cleanup :: "(string, string) dict \<Rightarrow> bool" where
  "has_manual_cleanup labels \<longleftrightarrow>
     lower (case map_of labels SANDBOX_MANUAL_CLEANUP_LABEL of None \<Rightarrow> [] | Some v \<Rightarrow> v) = ''true''"

definition build_labels :: "(timestamp \<Rightarrow> string) \<Rightarrow> string \<Rightarrow> create_request \<Rightarrow> timestamp option \<Rightarrow> timestamp
     \<Rightarrow> (string, string) dict" where
  "build_labels isof sandbox_id r expires_at now =
     (let l0 = dict_update [] (case req_metadata r of None \<Rightarrow> [] | Some m \<Rightarrow> m);
          l1 = AList.update SANDBOX_ID_LABEL sandbox_id l0;
          l2 = AList.update SANDBOX_LAST_ACTIVITY_AT_LABEL (isof now) l1
      in (case expires_at of
            None \<Rightarrow> AList.update SANDBOX_MANUAL_CLEANUP_LABEL ''true'' l2
          | Some t \<Rightarrow> AList.update SANDBOX_EXPIRES_AT_LABEL (isof t) l2))"

definition build_env :: "create_request \<Rightarrow> string list" where
  "build_env r = concat (map (\<lambda>(k, v). case v of None \<Rightarrow> [] | Some x \<Rightarrow> [k @ ''='' @ x])
     (case req_env r of None \<Rightarrow> [] | Some e \<Rightarrow> e))"

text \<open>
  The mount keys recorded on a container. \<open>_expire_sandbox\<close> and \<open>_restore_existing_sandboxes\<close> keep the
  non-empty strings of a list; \<open>delete_sandbox\<close> and \<open>_cleanup_failed_containers\<close> iterate over whatever was
  parsed: a non-string element (here the empty string) is rejected by \<open>_validate_mount_path\<close>, and a value
  that cannot be iterated is a \<open>TypeError\<close> at the loop.
\<close>

definition mounts_label :: "(string, string) dict \<Rightarrow> string" where
  "mounts_label labels = (case map_of labels SANDBOX_OSSFS_MOUNTS_LABEL of None \<Rightarrow> ''[]'' | Some v \<Rightarrow> v)"

definition parse_mount_keys :: "(string, string) dict \<Rightarrow> string list" where
  "parse_mount_keys labels =
     (case json_loads (mounts_label labels) of
        Some (JList xs) \<Rightarrow> filter (\<lambda>k. k \<noteq> []) (map (\<lambda>x. case x of JStr k \<Rightarrow> k | _ \<Rightarrow> []) xs)
      | _ \<Rightarrow> [])"

definition iterate_mount_keys :: "(string, string) dict \<Rightarrow> string list res" where
  "iterate_mount_keys labels =
     (case json_loads (mounts_label labels) of
        None \<Rightarrow> Inr []
      | Some (JList xs) \<Rightarrow> Inr (map (\<lambda>x. case x of JStr k \<Rightarrow> k | _ \<Rightarrow> []) xs)
      | Some (JObj d) \<Rightarrow> Inr (map fst d)
      | Some (JStr s) \<Rightarrow> Inr (map (\<lambda>c. [c]) s)
      | Some _ \<Rightarrow> Inl TypeError)"

section \<open>Host configuration\<close>

definition base_host_config :: "app_config \<Rightarrow> int option \<Rightarrow> int option \<Rightarrow> string \<Rightarrow> host_config" where
  "base_host_config c mem_limit nano_cpus net_mode =
     (let d = cfg_docker c
      in \<lparr>hc_network_mode = net_mode,
          hc_security_opt =
            (if dck_no_new_privileges d then [''no-new-privileges:true''] else [])
            @ (if given (dck_apparmor_profile d) then [''apparmor='' @ the (dck_apparmor_profile d)] else [])
            @ (if given (dck_seccomp_profile d) then [''seccomp='' @ the (dck_seccomp_profile d)] else []),
          hc_cap_add = [],
          hc_cap_drop = dck_drop_capabilities d,
          hc_pids_limit = dck_pids_limit d,
          hc_mem_limit = (if mem_limit = Some 0 then None else mem_limit),
          hc_nano_cpus = (if nano_cpus = Some 0 then None else nano_cpus),
          hc_runtime = (if given (get_docker_runtime c) then get_docker_runtime c else None),
          hc_port_bindings = [], hc_binds = [], hc_sysctls = []\<rparr>)"

text \<open>\<open>cap_drop\<close> with \<open>NET_ADMIN\<close> added; the code goes through a \<open>set\<close>, whose order is unspecified.\<close>

definition drop_net_admin :: "host_config \<Rightarrow> host_config" where
  "drop_net_admin h = h\<lparr>hc_cap_drop := remdups (hc_cap_drop h @ [''NET_ADMIN''])\<rparr>"

definition sandbox_port_bindings :: "int \<Rightarrow> int \<Rightarrow> (string, int) dict" where
  "sandbox_port_bindings execd_port http_port = [(''44772'', execd_port), (''8080'', http_port)]"

definition sidecar_host_config :: "int \<Rightarrow> int \<Rightarrow> host_config" where
  "sidecar_host_config execd_port http_port =
     \<lparr>hc_network_mode = BRIDGE_NETWORK_MODE, hc_security_opt = [], hc_cap_add = [''NET_ADMIN''],
      hc_cap_drop = [], hc_pids_limit = None, hc_mem_limit = None, hc_nano_cpus = None, hc_runtime = None,
      hc_port_bindings = sandbox_port_bindings execd_port http_port, hc_binds = [],
      hc_sysctls = [(''net.ipv6.conf.all.disable_ipv6'', 1), (''net.ipv6.conf.default.disable_ipv6'', 1),
                    (''net.ipv6.conf.lo.disable_ipv6'', 1)]\<rparr>"

section \<open>Bind mounts\<close>

definition bind_spec :: "string \<Rightarrow> volume \<Rightarrow> string" where
  "bind_spec src v = src @ '':'' @ mount_path v @ '':'' @ (if read_only v then ''ro'' else ''rw'')"

definition host_bind_path :: "string \<Rightarrow> volume \<Rightarrow> string" where
  "host_bind_path p v = (if given (sub_path v) then path_norm (path_join p (the (sub_path v))) else p)"

definition volume_bind :: "string \<Rightarrow> (string, vol_info) dict \<Rightarrow> volume \<Rightarrow> string list res" where
  "volume_bind ossfs_root cache v =
     (case host_path v of
        Some p \<Rightarrow> Inr [bind_spec (host_bind_path p v) v]
      | None \<Rightarrow>
          (case pvc_claim v of
             Some claim \<Rightarrow>
               if given (sub_path v)
               then (let mountpoint = (case map_of cache claim of None \<Rightarrow> [] | Some i \<Rightarrow> vi_mountpoint i)
                     in Inr [bind_spec (path_norm (path_join mountpoint (the (sub_path v)))) v])
               else Inr [bind_spec claim v]
           | None \<Rightarrow>
               (case ossfs_of v of
                  Some _ \<Rightarrow> bindR (resolve_ossfs_paths ossfs_root v) (\<lambda>p. Inr [bind_spec (snd p) v])
                | None \<Rightarrow> Inr [])))"

definition build_volume_binds ::
    "string \<Rightarrow> volume list option \<Rightarrow> (string, vol_info) dict \<Rightarrow> string list res" where
  "build_volume_binds ossfs_root volumes cache =
     (case volumes of
        None \<Rightarrow> Inr []
      | Some vs \<Rightarrow> bindR (collect_each (volume_bind ossfs_root cache) vs) (\<lambda>bs. Inr (concat bs)))"

section \<open>The state of a container\<close>

definition container_state :: "container \<Rightarrow> string \<times> string" where
  "container_state ct =
     (let status_value = lower (str_or (ct_state_status ct) (ct_status ct))
      in if ct_running ct \<and> \<not> ct_paused ct then (''Running'', ''CONTAINER_RUNNING'')
         else if ct_paused ct then (''Paused'', ''CONTAINER_PAUSED'')
         else if ct_restarting ct then (''Running'', ''CONTAINER_RESTARTING'')
         else if status_value \<in> {''created'', ''starting''} then (''Pending'', ''CONTAINER_STARTING'')
         else if status_value \<in> {''exited'', ''dead''}
         then (if ct_exit_code ct = Some 0 then (''Terminated'', ''CONTAINER_EXITED'')
               else (''Failed'', ''CONTAINER_EXITED_ERROR''))
         else (''Unknown'', ''CONTAINER_STATE_UNKNOWN''))"

definition visible_metadata :: "(string, string) dict \<Rightarrow> (string, string) dict option" where
  "visible_metadata labels =
     (case filter (\<lambda>(k, v). k \<notin> {SANDBOX_ID_LABEL, SANDBOX_EXPIRES_AT_LABEL,
              SANDBOX_MANUAL_CLEANUP_LABEL, SANDBOX_LAST_ACTIVITY_AT_LABEL}) labels of
        [] \<Rightarrow> None | m \<Rightarrow> Some m)"

definition image_name :: "container \<Rightarrow> string" where
  "image_name ct = (case ct_image_tags ct of [] \<Rightarrow> ct_image_short_id ct | t # _ \<Rightarrow> t)"

section \<open>Endpoints\<close>

definition parse_host_port_label :: "string option \<Rightarrow> int option" where
  "parse_host_port_label v =
     (if \<not> given v then None
      else (case py_int (the v) of
              None \<Rightarrow> None
            | Some port \<Rightarrow> if port \<le> 0 \<or> port > 65535 then None else Some port))"

definition attach_egress_auth_headers :: "sandbox_endpoint \<Rightarrow> (string, string) dict \<Rightarrow> sandbox_endpoint" where
  "attach_egress_auth_headers ep labels =
     (case map_of labels SANDBOX_EGRESS_AUTH_TOKEN_METADATA_KEY of
        None \<Rightarrow> ep
      | Some token \<Rightarrow>
          if token = [] then ep
          else ep\<lparr>ep_headers := Some (merge_endpoint_headers (ep_headers ep) (build_egress_auth_headers token))\<rparr>)"

definition plain_endpoint :: "string \<Rightarrow> sandbox_endpoint" where
  "plain_endpoint e = \<lparr>ep_endpoint = e, ep_headers = None\<rparr>"

definition resolve_host_mapped_endpoint ::
    "string \<Rightarrow> (string, string) dict \<Rightarrow> int \<Rightarrow> sandbox_endpoint res" where
  "resolve_host_mapped_endpoint public_host labels port =
     (let execd_host_port = parse_host_port_label (map_of labels SANDBOX_EMBEDDING_PROXY_PORT_LABEL);
          http_host_port = parse_host_port_label (map_of labels SANDBOX_HTTP_PORT_LABEL)
      in if port = 8080
         then (case http_host_port of
                 None \<Rightarrow> Inl (HTTPException 500 NETWORK_MODE_ENDPOINT_UNAVAILABLE)
               | Some p \<Rightarrow> Inr (plain_endpoint (public_host @ '':'' @ str_int p)))
         else (case execd_host_port of
                 None \<Rightarrow> Inl (HTTPException 500 NETWORK_MODE_ENDPOINT_UNAVAILABLE)
               | Some p \<Rightarrow> Inr (attach_egress_auth_headers
                   (plain_endpoint (public_host @ '':'' @ str_int p @ ''/proxy/'' @ str_int port)) labels)))"

fun first_ip :: "(string \<times> string option) list \<Rightarrow> string option" where
  "first_ip [] = None"
| "first_ip ((n, ip) # rest) = (if given ip then ip else first_ip rest)"

definition extract_bridge_ip :: "app_config \<Rightarrow> container \<Rightarrow> string res" where
  "extract_bridge_ip c ct =
     (let named = (if is_user_defined_network c
                   then (case map_of (ct_networks ct) (network_mode c) of None \<Rightarrow> None | Some ip \<Rightarrow> ip) else None);
          top = (if given named then named else ct_ip_address ct);
          ip = (if given top then top else first_ip (ct_networks ct))
      in if given ip then Inr (the ip) else Inl (HTTPException 500 NETWORK_MODE_ENDPOINT_UNAVAILABLE))"

definition resolve_internal_endpoint :: "app_config \<Rightarrow> container \<Rightarrow> int \<Rightarrow> sandbox_endpoint res" where
  "resolve_internal_endpoint c ct port =
     (if network_mode c = HOST_NETWORK_MODE
      then Inr (plain_endpoint (''127.0.0.1:'' @ str_int port))
      else bindR (extract_bridge_ip c ct) (\<lambda>ip. Inr (plain_endpoint (ip @ '':'' @ str_int port))))"

end
