(* ===== verification/Docker_Service.thy ===== *)
theory Docker_Service
  imports Docker_Model
begin

text \<open>
  The lifecycle operations of \<open>DockerSandboxService\<close> on existing sandboxes: expiration timers, the
  restart recovery, queries, delete, pause, resume, renew, endpoints. One definition per method, in
  the state-and-exception style of the prelude; a block that holds a lock is one update of the state.
  Timestamps read from Docker and from labels carry a zone, so they are instants.
\<close>

section \<open>Helpers\<close>

text \<open>\<open>except DockerException as exc: raise e' from exc\<close>, and the variant that only logs.\<close>

definition docker_to :: "exn \<Rightarrow> ('s, 'a) io \<Rightarrow> ('s, 'a) io" where
  "docker_to e' m = catchS m (\<lambda>e. if is_docker_exn e then raiseS e' else raiseS e)"

definition log_docker :: "('s, unit) io \<Rightarrow> ('s, unit) io" where
  "log_docker m = catchS m (\<lambda>e. if is_docker_exn e then retS () else raiseS e)"

text \<open>\<open>parse_timestamp\<close> in the service: the clock is read only for its fall-back.\<close>

definition parse_ts :: "'w docker_api \<Rightarrow> string option \<Rightarrow> ('w service, timestamp) io" where
  "parse_ts dk ts =
     (case (if \<not> given ts \<or> ts = Some ''0001-01-01T00:00:00Z'' then None
            else dk_fromiso dk (normalize_timestamp (the ts))) of
        Some d \<Rightarrow> retS (instant d)
      | None \<Rightarrow> inW (dk_now dk))"

definition get_container_by_sandbox_id :: "'w docker_api \<Rightarrow> string \<Rightarrow> ('w service, container) io" where
  "get_container_by_sandbox_id dk sandbox_id =
     bindS (docker_to (HTTPException 500 CONTAINER_QUERY_FAILED)
              (inW (dk_list dk (Label_Is SANDBOX_ID_LABEL sandbox_id)))) (\<lambda>containers.
     (case containers of
        [] \<Rightarrow> raiseS (HTTPException 404 SANDBOX_NOT_FOUND)
      | ct # _ \<Rightarrow> retS ct))"

section \<open>Expiration\<close>

definition schedule_expiration ::
    "'w docker_api \<Rightarrow> string \<Rightarrow> timestamp \<Rightarrow> bool \<Rightarrow> string list option \<Rightarrow> ('w service, unit) io" where
  "schedule_expiration dk sandbox_id expires_at update_expiration fallback =
     bindS (inW (dk_now dk)) (\<lambda>now.
     modifyS (\<lambda>s. s\<lparr>
       sandbox_expirations := (if update_expiration then AList.update sandbox_id expires_at (sandbox_expirations s)
                               else sandbox_expirations s),
       expiration_timers := AList.update sandbox_id
         \<lparr>timer_delay = max 0 (expires_at - now), timer_fallback = fallback\<rparr>
         (AList.delete sandbox_id (expiration_timers s))\<rparr>))"

definition remove_expiration_tracking :: "string \<Rightarrow> ('w service, unit) io" where
  "remove_expiration_tracking sandbox_id =
     modifyS (\<lambda>s. s\<lparr>expiration_timers := AList.delete sandbox_id (expiration_timers s),
                     sandbox_expirations := AList.delete sandbox_id (sandbox_expirations s)\<rparr>)"

definition get_tracked_expiration ::
    "'w docker_api \<Rightarrow> string \<Rightarrow> (string, string) dict \<Rightarrow> ('w service, timestamp option) io" where
  "get_tracked_expiration dk sandbox_id labels =
     bindS (getS (\<lambda>s. map_of (sandbox_expirations s) sandbox_id)) (\<lambda>tracked.
     (case tracked of
        Some t \<Rightarrow> retS (Some t)
      | None \<Rightarrow>
          (let label = map_of labels SANDBOX_EXPIRES_AT_LABEL
           in if given label then bindS (parse_ts dk label) (\<lambda>t. retS (Some t)) else retS None)))"

definition cleanup_egress_sidecar :: "'w docker_api \<Rightarrow> string \<Rightarrow> ('w service, unit) io" where
  "cleanup_egress_sidecar dk sandbox_id =
     bindS (catchS (bindS (inW (dk_list dk (Label_Is EGRESS_SIDECAR_LABEL sandbox_id))) (\<lambda>cs. retS (Some cs)))
              (\<lambda>e. if is_docker_exn e then retS None else raiseS e)) (\<lambda>found.
     (case found of
        None \<Rightarrow> retS ()
      | Some cs \<Rightarrow> for_eachS (\<lambda>ct. log_docker (inW (dk_remove dk (ct_id ct)))) cs))"

text \<open>The last part of \<open>_expire_sandbox\<close>: the sandbox is terminated and its resources are given back.\<close>

definition terminate_expired :: "'w docker_api \<Rightarrow> string \<Rightarrow> container \<Rightarrow> ('w service, unit) io" where
  "terminate_expired dk sandbox_id ct =
     bindS (log_docker (whenS (ct_running ct) (inW (dk_kill dk (ct_id ct))))) (\<lambda>_.
     bindS (log_docker (inW (dk_remove dk (ct_id ct)))) (\<lambda>_.
     bindS (remove_expiration_tracking sandbox_id) (\<lambda>_.
     bindS (cleanup_egress_sidecar dk sandbox_id) (\<lambda>_.
     release_ossfs_mounts dk (parse_mount_keys (ct_labels ct))))))"

text \<open>\<open>current_expires and current_expires > datetime.now(timezone.utc)\<close>, the first operand read under the lock.\<close>

definition still_valid :: "'w docker_api \<Rightarrow> string \<Rightarrow> ('w service, bool) io" where
  "still_valid dk sandbox_id =
     bindS (getS (\<lambda>s. map_of (sandbox_expirations s) sandbox_id)) (\<lambda>current.
     (case current of
        None \<Rightarrow> retS False
      | Some t \<Rightarrow> bindS (inW (dk_now dk)) (\<lambda>now. retS (t > now))))"

text \<open>
  The branch of \<open>_expire_sandbox\<close> for a query that failed with another status than 404: unless the sandbox
  was renewed, try again in 30 seconds.
\<close>

definition retry_expiration :: "'w docker_api \<Rightarrow> string \<Rightarrow> string list option \<Rightarrow> ('w service, unit) io" where
  "retry_expiration dk sandbox_id fallback =
     bindS (getS (\<lambda>s. map_of (sandbox_expirations s) sandbox_id)) (\<lambda>current.
     bindS (inW (dk_now dk)) (\<lambda>now.
     if (case current of None \<Rightarrow> False | Some t \<Rightarrow> t > now) then retS ()
     else schedule_expiration dk sandbox_id (now + 30000000) False fallback))"

definition expire_sandbox :: "'w docker_api \<Rightarrow> string \<Rightarrow> string list option \<Rightarrow> ('w service, unit) io" where
  "expire_sandbox dk sandbox_id fallback =
     bindS (catchS (bindS (get_container_by_sandbox_id dk sandbox_id) (\<lambda>ct. retS (Some ct)))
       (\<lambda>e. (case e of
          HTTPException st d \<Rightarrow>
            bindS (if st = 404
                   then bindS (remove_expiration_tracking sandbox_id) (\<lambda>_.
                        whenS (fallback \<noteq> None \<and> fallback \<noteq> Some []) (release_ossfs_mounts dk (the fallback)))
                   else retry_expiration dk sandbox_id fallback) (\<lambda>_. retS None)
        | _ \<Rightarrow> raiseS e))) (\<lambda>found.
     (case found of
        None \<Rightarrow> retS ()
      | Some ct \<Rightarrow>
          bindS (still_valid dk sandbox_id) (\<lambda>valid.
          if valid then retS () else terminate_expired dk sandbox_id ct)))"

section \<open>Restart\<close>

text \<open>The count \<open>restored_mount_refs[key] = restored_mount_refs.get(key, 0) + 1\<close> over a list of keys.\<close>

fun add_refs :: "string list \<Rightarrow> (string, nat) dict \<Rightarrow> (string, nat) dict" where
  "add_refs [] d = d"
| "add_refs (k # ks) d =
     add_refs ks (AList.update k ((case map_of d k of None \<Rightarrow> 0 | Some n \<Rightarrow> n) + 1) d)"

text \<open>
  Pass 1 over the containers: the sidecars seen, the reference counts of all sandboxes and the expired
  ones; a live one gets its timer. A sandbox id label that is empty is skipped like a missing one.
\<close>

fun restore_pass1 ::
    "'w docker_api \<Rightarrow> timestamp \<Rightarrow> container list \<Rightarrow> string list \<Rightarrow> (string, nat) dict
       \<Rightarrow> (string \<times> string list) list
       \<Rightarrow> ('w service, string list \<times> (string, nat) dict \<times> (string \<times> string list) list) io" where
  "restore_pass1 dk now [] sidecars refs expired = retS (sidecars, refs, expired)"
| "restore_pass1 dk now (ct # cts) sidecars refs expired =
     (let labels = ct_labels ct
      in if given (map_of labels EGRESS_SIDECAR_LABEL)
         then restore_pass1 dk now cts (List.insert (the (map_of labels EGRESS_SIDECAR_LABEL)) sidecars) refs expired
         else if \<not> given (map_of labels SANDBOX_ID_LABEL)
         then restore_pass1 dk now cts sidecars refs expired
         else (let sandbox_id = the (map_of labels SANDBOX_ID_LABEL);
                   keys = parse_mount_keys labels;
                   refs' = add_refs keys refs
               in if given (map_of labels SANDBOX_EXPIRES_AT_LABEL)
                  then bindS (parse_ts dk (map_of labels SANDBOX_EXPIRES_AT_LABEL)) (\<lambda>expires_at.
                       if expires_at \<le> now
                       then restore_pass1 dk now cts sidecars refs' (expired @ [(sandbox_id, keys)])
                       else bindS (schedule_expiration dk sandbox_id expires_at True None) (\<lambda>_.
                            restore_pass1 dk now cts sidecars refs' expired))
                  else restore_pass1 dk now cts sidecars refs' expired))"

definition cleanup_orphan :: "'w docker_api \<Rightarrow> string \<Rightarrow> ('w service, unit) io" where
  "cleanup_orphan dk orphan_id =
     catchS (bindS (get_container_by_sandbox_id dk orphan_id) (\<lambda>_. retS ()))
       (\<lambda>e. case e of
          HTTPException st d \<Rightarrow> (if st = 404 then cleanup_egress_sidecar dk orphan_id else retS ())
        | _ \<Rightarrow> raiseS e)"

definition restore_existing_sandboxes :: "'w docker_api \<Rightarrow> ('w service, unit) io" where
  "restore_existing_sandboxes dk =
     bindS (catchS (bindS (inW (dk_list dk Any_Container)) (\<lambda>cs. retS (Some cs)))
              (\<lambda>e. if is_docker_exn e then retS None else raiseS e)) (\<lambda>found.
     (case found of
        None \<Rightarrow> retS ()
      | Some cts \<Rightarrow>
          bindS (inW (dk_now dk)) (\<lambda>now.
          bindS (restore_pass1 dk now cts [] [] []) (\<lambda>r.
          (case r of (sidecars, refs, expired) \<Rightarrow>
             bindS (modifyS (\<lambda>s. s\<lparr>ref_counts := refs\<rparr>)) (\<lambda>_.
             bindS (for_eachS (\<lambda>(sid, keys). expire_sandbox dk sid (Some keys)) expired) (\<lambda>_.
             for_eachS (cleanup_orphan dk) sidecars)))))))"

section \<open>Queries\<close>

definition container_to_sandbox :: "'w docker_api \<Rightarrow> container \<Rightarrow> string option \<Rightarrow> ('w service, sandbox) io" where
  "container_to_sandbox dk ct sandbox_id =
     (let labels = ct_labels ct;
          resolved_id = (if given sandbox_id then sandbox_id else map_of labels SANDBOX_ID_LABEL)
      in if \<not> given resolved_id then raiseS (HTTPException 500 SANDBOX_NOT_FOUND)
         else bindS (parse_ts dk (ct_created ct)) (\<lambda>created_at.
              bindS (if given (ct_finished_at ct) \<and> ct_finished_at ct \<noteq> Some ''0001-01-01T00:00:00Z''
                     then parse_ts dk (ct_finished_at ct) else retS created_at) (\<lambda>transition_at.
              bindS (get_tracked_expiration dk (the resolved_id) labels) (\<lambda>expires_at.
              bindS (if given (map_of labels SANDBOX_LAST_ACTIVITY_AT_LABEL)
                     then bindS (parse_ts dk (map_of labels SANDBOX_LAST_ACTIVITY_AT_LABEL)) (\<lambda>t. retS (Some t))
                     else retS None) (\<lambda>last_activity_at.
              retS \<lparr>sbx_id = the resolved_id, sbx_image = image_name ct,
                    sbx_status = \<lparr>state = fst (container_state ct), reason = Some (snd (container_state ct)),
                                  last_transition_at = Some transition_at\<rparr>,
                    sbx_metadata = visible_metadata labels, sbx_entrypoint = ct_cmd ct,
                    sbx_expires_at = expires_at, sbx_created_at = created_at,
                    sbx_last_activity_at = last_activity_at\<rparr>)))))"

definition pending_to_sandbox :: "string \<Rightarrow> pending_sandbox \<Rightarrow> sandbox" where
  "pending_to_sandbox sandbox_id p =
     \<lparr>sbx_id = sandbox_id, sbx_image = image_uri (req_image (pend_request p)), sbx_status = pend_status p,
      sbx_metadata = req_metadata (pend_request p), sbx_entrypoint = req_entrypoint (pend_request p),
      sbx_expires_at = pend_expires_at p, sbx_created_at = pend_created_at p,
      sbx_last_activity_at = Some (pend_created_at p)\<rparr>"

text \<open>The loop over the containers: the sandboxes that match, by id, and all ids seen.\<close>

fun list_containers ::
    "'w docker_api \<Rightarrow> sandbox_filter \<Rightarrow> container list \<Rightarrow> (string, sandbox) dict \<Rightarrow> string list
       \<Rightarrow> ('w service, (string, sandbox) dict \<times> string list) io" where
  "list_containers dk flt [] by_id seen = retS (by_id, seen)"
| "list_containers dk flt (ct # cts) by_id seen =
     (let sid = map_of (ct_labels ct) SANDBOX_ID_LABEL
      in if \<not> given sid then list_containers dk flt cts by_id seen
         else bindS (container_to_sandbox dk ct sid) (\<lambda>sb.
              list_containers dk flt cts
                (if matches_filter sb (Some flt) then AList.update (the sid) sb by_id else by_id)
                (List.insert (the sid) seen)))"

fun list_pending ::
    "sandbox_filter \<Rightarrow> (string \<times> pending_sandbox) list \<Rightarrow> string list \<Rightarrow> (string, sandbox) dict
       \<Rightarrow> (string, sandbox) dict" where
  "list_pending flt [] seen by_id = by_id"
| "list_pending flt ((sid, p) # ps) seen by_id =
     list_pending flt ps seen
       (if sid \<in> set seen then by_id
        else if matches_filter (pending_to_sandbox sid p) (Some flt)
        then AList.update sid (pending_to_sandbox sid p) by_id else by_id)"

text \<open>
  Sorting and slicing. The sort is stable and newest first; the page and its size are at least one
  by the request schema. \<open>math.ceil(total / page_size)\<close> is exact for the sizes that can occur.
\<close>

definition paginate :: "pagination_request option \<Rightarrow> sandbox list \<Rightarrow> list_response" where
  "paginate req sandboxes =
     (let (pg, size) = (case req of None \<Rightarrow> (1, 20) | Some r \<Rightarrow> (page r, page_size r));
          sorted_sandboxes = sort_key (\<lambda>s. - sbx_created_at s) sandboxes;
          total_items = int (length sorted_sandboxes);
          total_pages = (if total_items \<noteq> 0 then (total_items + size - 1) div size else 0);
          start_index = (pg - 1) * size
      in \<lparr>list_items = take (nat size) (drop (nat start_index) sorted_sandboxes),
          list_info = \<lparr>info_page = pg, info_page_size = size, info_total_items = total_items,
                       info_total_pages = total_pages, info_has_next_page = pg < total_pages\<rparr>\<rparr>)"

definition list_sandboxes :: "'w docker_api \<Rightarrow> list_request \<Rightarrow> ('w service, list_response) io" where
  "list_sandboxes dk req =
     bindS (docker_to (HTTPException 500 CONTAINER_QUERY_FAILED) (inW (dk_list dk (Has_Label SANDBOX_ID_LABEL)))) (\<lambda>cts.
     bindS (list_containers dk (list_filter req) cts [] []) (\<lambda>r.
     bindS (getS pending_sandboxes) (\<lambda>pend.
     retS (paginate (list_pagination req)
             (map snd (list_pending (list_filter req) pend (snd r) (fst r)))))))"

definition get_sandbox :: "'w docker_api \<Rightarrow> string \<Rightarrow> ('w service, sandbox) io" where
  "get_sandbox dk sandbox_id =
     bindS (catchS (bindS (get_container_by_sandbox_id dk sandbox_id) (\<lambda>ct. retS (Inl ct)))
       (\<lambda>e. (case e of
          HTTPException st d \<Rightarrow>
            (if st \<noteq> 404 then raiseS e
             else bindS (getS (\<lambda>s. map_of (pending_sandboxes s) sandbox_id)) (\<lambda>p.
                  (case p of Some pend \<Rightarrow> retS (Inr pend) | None \<Rightarrow> raiseS e)))
        | _ \<Rightarrow> raiseS e))) (\<lambda>found.
     (case found of
        Inl ct \<Rightarrow> container_to_sandbox dk ct (Some sandbox_id)
      | Inr pend \<Rightarrow> retS (pending_to_sandbox sandbox_id pend)))"

section \<open>Changes to one sandbox\<close>

definition not_running_error :: "exn \<Rightarrow> bool" where
  "not_running_error e = (case e of DockerException m \<Rightarrow> contains (lower m) ''is not running'' | _ \<Rightarrow> False)"

definition kill_and_remove :: "'w docker_api \<Rightarrow> container \<Rightarrow> ('w service, unit) io" where
  "kill_and_remove dk ct =
     bindS (catchS (inW (dk_kill dk (ct_id ct)))
              (\<lambda>e. if not_running_error e then retS () else raiseS e)) (\<lambda>_.
     inW (dk_remove dk (ct_id ct)))"

definition delete_sandbox :: "'w docker_api \<Rightarrow> string \<Rightarrow> ('w service, unit) io" where
  "delete_sandbox dk sandbox_id =
     bindS (get_container_by_sandbox_id dk sandbox_id) (\<lambda>ct.
     finallyS (docker_to (HTTPException 500 SANDBOX_DELETE_FAILED) (kill_and_remove dk ct))
       (bindS (remove_expiration_tracking sandbox_id) (\<lambda>_.
        bindS (cleanup_egress_sidecar dk sandbox_id) (\<lambda>_.
        bindS (liftR (iterate_mount_keys (ct_labels ct))) (release_ossfs_mounts dk)))))"

definition pause_sandbox :: "'w docker_api \<Rightarrow> string \<Rightarrow> ('w service, unit) io" where
  "pause_sandbox dk sandbox_id =
     bindS (get_container_by_sandbox_id dk sandbox_id) (\<lambda>ct.
     if \<not> ct_running ct then raiseS (HTTPException 409 SANDBOX_NOT_RUNNING)
     else docker_to (HTTPException 500 SANDBOX_PAUSE_FAILED) (inW (dk_pause dk (ct_id ct))))"

definition resume_sandbox :: "'w docker_api \<Rightarrow> string \<Rightarrow> ('w service, unit) io" where
  "resume_sandbox dk sandbox_id =
     bindS (get_container_by_sandbox_id dk sandbox_id) (\<lambda>ct.
     if \<not> ct_paused ct then raiseS (HTTPException 409 SANDBOX_NOT_PAUSED)
     else docker_to (HTTPException 500 SANDBOX_RESUME_FAILED) (inW (dk_unpause dk (ct_id ct))))"

definition update_container_labels ::
    "'w docker_api \<Rightarrow> container \<Rightarrow> (string, string) dict \<Rightarrow> ('w service, unit) io" where
  "update_container_labels dk ct labels =
     bindS (catchS (inW (dk_update_labels dk (ct_id ct) labels))
              (\<lambda>e. if e = TypeError then inW (dk_post_labels dk (ct_id ct) labels) else raiseS e)) (\<lambda>_.
     inW (dk_reload dk (ct_id ct)))"

text \<open>The end of \<open>renew_expiration\<close>: reschedule, then refresh the label, best effort.\<close>

definition apply_renewal :: "'w docker_api \<Rightarrow> string \<Rightarrow> container \<Rightarrow> timestamp \<Rightarrow> ('w service, timestamp) io" where
  "apply_renewal dk sandbox_id ct new_expiration =
     bindS (schedule_expiration dk sandbox_id new_expiration True None) (\<lambda>_.
     bindS (catchS (update_container_labels dk ct
              (AList.update SANDBOX_EXPIRES_AT_LABEL (dk_isoformat dk new_expiration) (ct_labels ct)))
              (\<lambda>e. if is_docker_exn e \<or> e = TypeError then retS () else raiseS e)) (\<lambda>_.
     retS new_expiration))"

definition renew_expiration :: "'w docker_api \<Rightarrow> string \<Rightarrow> datetime \<Rightarrow> ('w service, timestamp) io" where
  "renew_expiration dk sandbox_id requested =
     bindS (get_container_by_sandbox_id dk sandbox_id) (\<lambda>ct.
     bindS (inW (dk_now dk)) (\<lambda>now.
     bindS (liftR (ensure_future_expiration now requested)) (\<lambda>new_expiration.
     if has_manual_cleanup (ct_labels ct) then raiseS (HTTPException 409 INVALID_EXPIRATION)
     else bindS (get_tracked_expiration dk sandbox_id (ct_labels ct)) (\<lambda>tracked.
       if tracked = None then raiseS (HTTPException 409 INVALID_EXPIRATION)
       else apply_renewal dk sandbox_id ct new_expiration))))"

definition touch_last_activity :: "'w docker_api \<Rightarrow> string \<Rightarrow> ('w service, unit) io" where
  "touch_last_activity dk sandbox_id =
     catchS (bindS (get_container_by_sandbox_id dk sandbox_id) (\<lambda>ct.
             bindS (inW (dk_now dk)) (\<lambda>now.
             update_container_labels dk ct
               (AList.update SANDBOX_LAST_ACTIVITY_AT_LABEL (dk_isoformat dk now) (ct_labels ct)))))
       (\<lambda>e. retS ())"

section \<open>Endpoints\<close>

definition get_docker_host_ip :: "app_config \<Rightarrow> string option" where
  "get_docker_host_ip c =
     (let ip = strip (str_or (dck_host_ip (cfg_docker c)) []) in if ip = [] then None else Some ip)"

definition wildcard_host :: "string \<Rightarrow> bool" where
  "wildcard_host h \<longleftrightarrow> lower h \<in> {[], ''0.0.0.0'', ''::''}"

definition resolve_public_host :: "app_config \<Rightarrow> 'w docker_api \<Rightarrow> ('w service, string) io" where
  "resolve_public_host c dk =
     (let eip = strip (str_or (srv_eip (cfg_server c)) []);
          host = strip (srv_host (cfg_server c))
      in if eip \<noteq> [] then retS eip
         else if wildcard_host host
         then bindS (getS (\<lambda>s. dk_in_container dk (world s))) (\<lambda>inside.
              (case (inside, get_docker_host_ip c) of
                 (True, Some ip) \<Rightarrow> retS ip
               | _ \<Rightarrow> inW (dk_bind_ip dk)))
         else retS host)"

definition resolve_proxy_host :: "app_config \<Rightarrow> 'w docker_api \<Rightarrow> ('w service, string) io" where
  "resolve_proxy_host c dk =
     (let host = strip (srv_host (cfg_server c))
      in if wildcard_host host
         then bindS (getS (\<lambda>s. dk_in_container dk (world s))) (\<lambda>inside.
              (case (inside, get_docker_host_ip c) of
                 (True, Some ip) \<Rightarrow> retS ip
               | _ \<Rightarrow> retS ''127.0.0.1''))
         else retS host)"

definition get_endpoint ::
    "app_config \<Rightarrow> 'w docker_api \<Rightarrow> string \<Rightarrow> int \<Rightarrow> bool \<Rightarrow> ('w service, sandbox_endpoint) io" where
  "get_endpoint c dk sandbox_id port resolve_internal =
     bindS (liftR (ensure_valid_port port)) (\<lambda>_.
     if resolve_internal
     then bindS (get_container_by_sandbox_id dk sandbox_id) (\<lambda>ct.
          if given (map_of (ct_labels ct) SANDBOX_EGRESS_AUTH_TOKEN_METADATA_KEY)
          then bindS (resolve_proxy_host c dk) (\<lambda>host.
               liftR (resolve_host_mapped_endpoint host (ct_labels ct) port))
          else liftR (resolve_internal_endpoint c ct port))
     else bindS (resolve_public_host c dk) (\<lambda>public_host.
          if network_mode c = HOST_NETWORK_MODE
          then bindS (get_container_by_sandbox_id dk sandbox_id) (\<lambda>ct.
               retS (attach_egress_auth_headers (plain_endpoint (public_host @ '':'' @ str_int port)) (ct_labels ct)))
          else bindS (get_container_by_sandbox_id dk sandbox_id) (\<lambda>ct.
               liftR (resolve_host_mapped_endpoint public_host (ct_labels ct) port))))"

end
