(* ===== verification/Docker_Provision.thy ===== *)
theory Docker_Provision
  imports Docker_Service
begin

text \<open>
  Creating sandboxes: the second half of \<open>server/src/services/docker.py\<close>. Request validation against the
  daemon and the file system, host ports, the egress sidecar, the container with the \<open>execd\<close> daemon
  copied into it, the synchronous and the background path, and the bookkeeping of pending sandboxes.
\<close>

section \<open>Validation against the host\<close>

definition validate_network_exists :: "app_config \<Rightarrow> 'w docker_api \<Rightarrow> ('w service, unit) io" where
  "validate_network_exists c dk =
     (if \<not> is_user_defined_network c then retS ()
      else catchS (inW (dk_network_get dk (network_mode c)))
             (\<lambda>e. if e = DockerNotFound then raiseS (HTTPException 400 INVALID_PARAMETER)
                  else if is_docker_exn e then raiseS (HTTPException 500 CONTAINER_START_FAILED)
                  else raiseS e))"

definition validate_host_volume ::
    "'w docker_api \<Rightarrow> volume \<Rightarrow> string list option \<Rightarrow> ('w service, unit) io" where
  "validate_host_volume dk v allowed_prefixes =
     (let p = the (host_path v);
          resolved_path = host_bind_path p v
      in bindS (liftR (if allowed_prefixes \<noteq> None \<and> resolved_path \<noteq> p
                       then ensure_valid_host_path resolved_path allowed_prefixes else ok)) (\<lambda>_.
         catchS (inW (os_makedirs dk resolved_path))
           (\<lambda>e. if e = OSError then raiseS (HTTPException 500 HOST_PATH_CREATE_FAILED) else raiseS e)))"

text \<open>The symlink-aware check: best effort, skipped when a path cannot be resolved.\<close>

definition symlink_check :: "'w docker_api \<Rightarrow> string \<Rightarrow> string \<Rightarrow> ('w service, unit) io" where
  "symlink_check dk mountpoint resolved_path =
     catchS
       (bindS (inW (dk_realpath_strict dk mountpoint)) (\<lambda>canonical_mountpoint.
        bindS (inW (dk_realpath_strict dk resolved_path)) (\<lambda>canonical_resolved.
        liftR (raise_if (\<not> path_below canonical_mountpoint canonical_resolved)
                 (HTTPException 400 INVALID_SUB_PATH)))))
       (\<lambda>e. if e = OSError then retS () else raiseS e)"

definition validate_pvc_volume :: "'w docker_api \<Rightarrow> volume \<Rightarrow> ('w service, vol_info) io" where
  "validate_pvc_volume dk v =
     bindS (catchS (inW (dk_inspect_volume dk (the (pvc_claim v))))
              (\<lambda>e. if e = DockerNotFound then raiseS (HTTPException 400 PVC_VOLUME_NOT_FOUND)
                   else if is_docker_exn e then raiseS (HTTPException 500 PVC_VOLUME_INSPECT_FAILED)
                   else raiseS e)) (\<lambda>info.
     if given (sub_path v)
     then bindS (liftR (raise_if (vi_driver info \<noteq> ''local'')
                   (HTTPException 400 PVC_SUBPATH_UNSUPPORTED_DRIVER))) (\<lambda>_.
          bindS (liftR (raise_if (vi_mountpoint info = [])
                   (HTTPException 400 PVC_SUBPATH_UNSUPPORTED_DRIVER))) (\<lambda>_.
          let resolved_path = path_norm (path_join (vi_mountpoint info) (the (sub_path v)))
          in bindS (liftR (raise_if (\<not> path_below (vi_mountpoint info) resolved_path)
                      (HTTPException 400 INVALID_SUB_PATH))) (\<lambda>_.
             bindS (symlink_check dk (vi_mountpoint info) resolved_path) (\<lambda>_.
             retS info))))
     else retS info)"

fun validate_backends ::
    "app_config \<Rightarrow> 'w docker_api \<Rightarrow> string list option \<Rightarrow> volume list \<Rightarrow> (string, vol_info) dict
       \<Rightarrow> ('w service, (string, vol_info) dict) io" where
  "validate_backends c dk allowed [] cache = retS cache"
| "validate_backends c dk allowed (v # vs) cache =
     (if host_path v \<noteq> None
      then bindS (validate_host_volume dk v allowed) (\<lambda>_. validate_backends c dk allowed vs cache)
      else if pvc_claim v \<noteq> None
      then bindS (validate_pvc_volume dk v) (\<lambda>info.
             validate_backends c dk allowed vs (AList.update (the (pvc_claim v)) info cache))
      else if ossfs_of v \<noteq> None
      then bindS (liftR (validate_ossfs_volume (ossfs_mount_root (cfg_storage c)) v)) (\<lambda>_.
             validate_backends c dk allowed vs cache)
      else validate_backends c dk allowed vs cache)"

definition validate_volumes ::
    "app_config \<Rightarrow> 'w docker_api \<Rightarrow> create_request \<Rightarrow> ('w service, (string, vol_info) dict) io" where
  "validate_volumes c dk r =
     (case req_volumes r of
        None \<Rightarrow> retS []
      | Some vs \<Rightarrow>
          if vs = [] then retS []
          else bindS (liftR (ensure_volumes_valid (Some vs) (allowed_prefixes_of c))) (\<lambda>_.
               validate_backends c dk (allowed_prefixes_of c) vs []))"

section \<open>Images, ports\<close>

definition pull_image :: "'w docker_api \<Rightarrow> string \<Rightarrow> image_auth option \<Rightarrow> ('w service, unit) io" where
  "pull_image dk uri auth =
     docker_to (HTTPException 500 IMAGE_PULL_FAILED) (inW (dk_image_pull dk uri auth))"

definition ensure_image_available :: "'w docker_api \<Rightarrow> string \<Rightarrow> image_auth option \<Rightarrow> ('w service, unit) io" where
  "ensure_image_available dk uri auth =
     catchS (inW (dk_image_get dk uri))
       (\<lambda>e. if e = ImageNotFound then pull_image dk uri auth
            else if is_docker_exn e then raiseS (HTTPException 500 IMAGE_PULL_FAILED)
            else raiseS e)"

definition resolve_image_auth ::
    "'w docker_api \<Rightarrow> create_request \<Rightarrow> ('w service, string \<times> image_auth option) io" where
  "resolve_image_auth dk r =
     bindS (ensure_image_available dk (image_uri (req_image r)) (image_auth_of (req_image r))) (\<lambda>_.
     retS (image_uri (req_image r), image_auth_of (req_image r)))"

definition resolve_resource_limits :: "'w docker_api \<Rightarrow> create_request \<Rightarrow> int option \<times> int option" where
  "resolve_resource_limits dk r =
     (parse_memory_limit (map_of (req_resource_limits r) ''memory''),
      dk_nano_cpus dk (map_of (req_resource_limits r) ''cpu''))"

fun allocate_host_port :: "nat \<Rightarrow> 'w docker_api \<Rightarrow> ('w service, int option) io" where
  "allocate_host_port 0 dk = retS None"
| "allocate_host_port (Suc n) dk =
     bindS (inW (dk_random_port dk 40000 60000)) (\<lambda>port.
     bindS (inW (dk_can_bind dk port)) (\<lambda>free.
     if free then retS (Some port) else allocate_host_port n dk))"

abbreviation host_port_attempts :: nat where "host_port_attempts \<equiv> 50"

text \<open>
  The \<open>while host_http_port == host_execd_port\<close> loop draws ports until they differ, so it may not end;
  \<open>fuel\<close> bounds the number of draws and running out of it is the exception \<open>OtherException\<close> below.
\<close>

definition Out_Of_Fuel :: exn where
  "Out_Of_Fuel = OtherException ''out of fuel''"

fun distinct_port :: "nat \<Rightarrow> 'w docker_api \<Rightarrow> int \<Rightarrow> int \<Rightarrow> ('w service, int) io" where
  "distinct_port fuel dk execd_port http_port =
     (if http_port \<noteq> execd_port then retS http_port
      else (case fuel of
              0 \<Rightarrow> raiseS Out_Of_Fuel
            | Suc n \<Rightarrow>
                bindS (allocate_host_port host_port_attempts dk) (\<lambda>p.
                (case p of
                   None \<Rightarrow> raiseS (HTTPException 500 CONTAINER_START_FAILED)
                 | Some q \<Rightarrow> distinct_port n dk execd_port q))))"

declare distinct_port.simps [simp del]

definition allocate_distinct_host_ports :: "nat \<Rightarrow> 'w docker_api \<Rightarrow> ('w service, int \<times> int) io" where
  "allocate_distinct_host_ports fuel dk =
     bindS (allocate_host_port host_port_attempts dk) (\<lambda>execd.
     bindS (allocate_host_port host_port_attempts dk) (\<lambda>http.
     (case (execd, http) of
        (Some e, Some h) \<Rightarrow> bindS (distinct_port fuel dk e h) (\<lambda>h'. retS (e, h'))
      | _ \<Rightarrow> raiseS (HTTPException 500 CONTAINER_START_FAILED))))"

section \<open>The execd daemon\<close>

text \<open>\<open>_fetch_execd_archive\<close>: the archive is read once from a temporary container, which is always removed.\<close>

definition fetch_execd_archive :: "app_config \<Rightarrow> 'w docker_api \<Rightarrow> ('w service, string) io" where
  "fetch_execd_archive c dk =
     bindS (getS execd_archive_cache) (\<lambda>cached.
     (case cached of
        Some data \<Rightarrow> retS data
      | None \<Rightarrow>
          bindS (docker_to (HTTPException 503 EXECD_START_FAILED)
            (bindS (catchS (inW (dk_image_get dk (cfg_execd_image c)))
                      (\<lambda>e. if e = ImageNotFound then inW (dk_image_pull dk (cfg_execd_image c) None)
                           else raiseS e)) (\<lambda>_.
             bindS (inW (dk_create_execd dk (cfg_execd_image c))) (\<lambda>cid.
             bindS (inW (dk_start dk cid)) (\<lambda>_.
             bindS (inW (dk_reload dk cid)) (\<lambda>_. retS cid)))))) (\<lambda>cid.
          bindS (finallyS (docker_to (HTTPException 500 EXECD_DISTRIBUTION_FAILED)
                   (inW (dk_get_archive dk cid ''/execd'')))
                   (log_docker (inW (dk_remove dk cid)))) (\<lambda>data.
          bindS (modifyS (\<lambda>s. s\<lparr>execd_archive_cache := Some data\<rparr>)) (\<lambda>_. retS data)))))"

definition ensure_directory :: "'w docker_api \<Rightarrow> string \<Rightarrow> string \<Rightarrow> ('w service, unit) io" where
  "ensure_directory dk cid path =
     (let normalized = rstrip_by is_slash path
      in if path = [] \<or> path = ''/'' \<or> normalized = [] then retS ()
         else docker_to (HTTPException 500 EXECD_DISTRIBUTION_FAILED)
                (inW (dk_put_archive dk cid ''/'' (Tar_Dir (lstrip_by is_slash normalized)))))"

definition bootstrap_script :: string where
  "bootstrap_script = join_with newline
     [''#!/bin/sh'', ''set -e'', EXECED_INSTALL_PATH @ '' >/tmp/execd.log 2>&1 &'',
      ''exec '' @ [CHR 0x22] @ ''$@'' @ [CHR 0x22], '''']"

definition prepare_sandbox_runtime :: "app_config \<Rightarrow> 'w docker_api \<Rightarrow> string \<Rightarrow> ('w service, unit) io" where
  "prepare_sandbox_runtime c dk cid =
     bindS (fetch_execd_archive c dk) (\<lambda>data.
     bindS (ensure_directory dk cid ''/opt/opensandbox'') (\<lambda>_.
     bindS (docker_to (HTTPException 500 EXECD_DISTRIBUTION_FAILED)
              (inW (dk_put_archive dk cid ''/opt/opensandbox'' (Execd_Archive data)))) (\<lambda>_.
     bindS (ensure_directory dk cid ''/opt/opensandbox'') (\<lambda>_.
     docker_to (HTTPException 500 BOOTSTRAP_INSTALL_FAILED)
       (inW (dk_put_archive dk cid ''/'' (Tar_File (lstrip_by is_slash BOOTSTRAP_PATH) bootstrap_script)))))))"

section \<open>Containers\<close>

text \<open>The last lines of both \<open>except Exception\<close> blocks: an \<open>HTTPException\<close> is kept, anything else is a 500.\<close>

definition start_failure :: "exn \<Rightarrow> exn" where
  "start_failure e = (if is_http_exn e then e else HTTPException 500 CONTAINER_START_FAILED)"

text \<open>
  Create a container and run \<open>body\<close> on it; any exception of \<open>body\<close> removes it again, best effort. This is
  the common shape of \<open>_start_egress_sidecar\<close> and \<open>_create_and_start_container\<close>.
\<close>

definition create_with_cleanup ::
    "'w docker_api \<Rightarrow> container_spec \<Rightarrow> (container \<Rightarrow> ('w service, unit) io) \<Rightarrow> ('w service, container) io" where
  "create_with_cleanup dk spec body =
     bindS (catchS (inW (dk_create dk spec)) (\<lambda>e. raiseS (start_failure e))) (\<lambda>cid.
     if \<not> given cid then raiseS (HTTPException 500 CONTAINER_START_FAILED)
     else catchS
       (bindS (inW (dk_get dk (the cid))) (\<lambda>ct. bindS (body ct) (\<lambda>_. retS ct)))
       (\<lambda>e. bindS (log_docker (inW (dk_remove dk (the cid)))) (\<lambda>_. raiseS (start_failure e))))"

definition start_egress_sidecar ::
    "app_config \<Rightarrow> 'w docker_api \<Rightarrow> string \<Rightarrow> network_policy \<Rightarrow> string \<Rightarrow> int \<Rightarrow> int \<Rightarrow> ('w service, container) io" where
  "start_egress_sidecar c dk sandbox_id np token execd_port http_port =
     (let egress_image = (case cfg_egress c of None \<Rightarrow> None | Some img \<Rightarrow> img)
      in if \<not> given egress_image then raiseS ValueError
         else bindS (ensure_image_available dk (the egress_image) None) (\<lambda>_.
              create_with_cleanup dk
                \<lparr>cs_image = the egress_image, cs_entrypoint = [], cs_command = [],
                 cs_ports = Some [''44772'', ''8080''], cs_name = ''sandbox-egress-'' @ sandbox_id,
                 cs_environment = [''OPENSANDBOX_EGRESS_RULES='' @ dk_policy_json dk np,
                                   ''OPENSANDBOX_EGRESS_TOKEN='' @ token],
                 cs_labels = [(EGRESS_SIDECAR_LABEL, sandbox_id)],
                 cs_host_config = sidecar_host_config execd_port http_port\<rparr>
                (\<lambda>ct. inW (dk_start dk (ct_id ct)))))"

definition create_and_start_container ::
    "app_config \<Rightarrow> 'w docker_api \<Rightarrow> string \<Rightarrow> string \<Rightarrow> string list \<Rightarrow> (string, string) dict \<Rightarrow> string list
       \<Rightarrow> host_config \<Rightarrow> string list option \<Rightarrow> ('w service, container) io" where
  "create_and_start_container c dk sandbox_id uri cmd labels env hc ports =
     bindS (liftR (if length cmd = 1 \<and> contains (hd cmd) '' '' then dk_shlex_split dk (hd cmd) else Inr cmd)) (\<lambda>cmd'.
     create_with_cleanup dk
       \<lparr>cs_image = uri, cs_entrypoint = [BOOTSTRAP_PATH], cs_command = cmd', cs_ports = ports,
        cs_name = ''sandbox-'' @ sandbox_id, cs_environment = env, cs_labels = labels, cs_host_config = hc\<rparr>
       (\<lambda>ct. bindS (prepare_sandbox_runtime c dk (ct_id ct)) (\<lambda>_. inW (dk_start dk (ct_id ct)))))"

section \<open>Provisioning\<close>

definition port_labels :: "int \<Rightarrow> int \<Rightarrow> (string, string) dict \<Rightarrow> (string, string) dict" where
  "port_labels execd_port http_port labels =
     AList.update SANDBOX_HTTP_PORT_LABEL (str_int http_port)
       (AList.update SANDBOX_EMBEDDING_PROXY_PORT_LABEL (str_int execd_port) labels)"

text \<open>The \<open>except\<close> block of \<open>_provision_sandbox\<close>: remove the sidecar if there is one, give the mounts back.\<close>

definition undo_provision ::
    "'w docker_api \<Rightarrow> string list \<Rightarrow> container option \<Rightarrow> exn \<Rightarrow> ('w service, 'a) io" where
  "undo_provision dk keys sidecar e =
     bindS (case sidecar of None \<Rightarrow> retS () | Some sc \<Rightarrow> log_docker (inW (dk_remove dk (ct_id sc)))) (\<lambda>_.
     bindS (release_ossfs_mounts dk keys) (\<lambda>_. raiseS e))"

text \<open>
  The body of the \<open>try\<close>. It falls into the part before and the part after the sidecar is known to the
  \<open>except\<close> block, each with that block as its handler.
\<close>

definition provision_with_policy ::
    "nat \<Rightarrow> app_config \<Rightarrow> 'w docker_api \<Rightarrow> string \<Rightarrow> create_request \<Rightarrow> network_policy
       \<Rightarrow> (string, string) dict \<Rightarrow> string list \<Rightarrow> string \<Rightarrow> string list \<Rightarrow> string list \<Rightarrow> ('w service, unit) io" where
  "provision_with_policy fuel c dk sandbox_id r np labels env uri binds keys =
     bindS (catchS
       (bindS (inW (dk_token dk)) (\<lambda>token.
        bindS (allocate_distinct_host_ports fuel dk) (\<lambda>ports.
        bindS (start_egress_sidecar c dk sandbox_id np token (fst ports) (snd ports)) (\<lambda>sidecar.
        retS (token, ports, sidecar)))))
       (undo_provision dk keys None)) (\<lambda>(token, ports, sidecar).
     let limits = resolve_resource_limits dk r;
         labels' = port_labels (fst ports) (snd ports)
                     (AList.update SANDBOX_EGRESS_AUTH_TOKEN_METADATA_KEY token labels);
         hc = drop_net_admin (base_host_config c (fst limits) (snd limits) (''container:'' @ ct_id sidecar))
     in catchS
          (bindS (create_and_start_container c dk sandbox_id uri (req_entrypoint r) labels' env
                    (hc\<lparr>hc_binds := binds\<rparr>) None) (\<lambda>_. retS ()))
          (undo_provision dk keys (Some sidecar)))"

definition provision_plain ::
    "nat \<Rightarrow> app_config \<Rightarrow> 'w docker_api \<Rightarrow> string \<Rightarrow> create_request
       \<Rightarrow> (string, string) dict \<Rightarrow> string list \<Rightarrow> string \<Rightarrow> string list \<Rightarrow> string list \<Rightarrow> ('w service, unit) io" where
  "provision_plain fuel c dk sandbox_id r labels env uri binds keys =
     (let limits = resolve_resource_limits dk r;
          hc = base_host_config c (fst limits) (snd limits) (network_mode c)
      in catchS
           (if network_mode c \<noteq> HOST_NETWORK_MODE
            then bindS (allocate_distinct_host_ports fuel dk) (\<lambda>ports.
                 bindS (create_and_start_container c dk sandbox_id uri (req_entrypoint r)
                          (port_labels (fst ports) (snd ports) labels) env
                          (hc\<lparr>hc_port_bindings := sandbox_port_bindings (fst ports) (snd ports), hc_binds := binds\<rparr>)
                          (Some [''44772'', ''8080''])) (\<lambda>_. retS ()))
            else bindS (create_and_start_container c dk sandbox_id uri (req_entrypoint r) labels env
                          (hc\<lparr>hc_binds := binds\<rparr>) None) (\<lambda>_. retS ()))
           (undo_provision dk keys None))"

text \<open>The whole \<open>try\<close> statement of \<open>_provision_sandbox\<close>.\<close>

definition launch_sandbox ::
    "nat \<Rightarrow> app_config \<Rightarrow> 'w docker_api \<Rightarrow> string \<Rightarrow> create_request \<Rightarrow> (string, string) dict \<Rightarrow> string
       \<Rightarrow> (string, vol_info) dict \<Rightarrow> string list \<Rightarrow> ('w service, unit) io" where
  "launch_sandbox fuel c dk sandbox_id r labels uri cache keys =
     bindS (catchS (liftR (build_volume_binds (ossfs_mount_root (cfg_storage c)) (req_volumes r) cache))
              (undo_provision dk keys None)) (\<lambda>binds.
     (case req_network_policy r of
        Some np \<Rightarrow> provision_with_policy fuel c dk sandbox_id r np labels (build_env r) uri binds keys
      | None \<Rightarrow> provision_plain fuel c dk sandbox_id r labels (build_env r) uri binds keys))"

definition create_response_for ::
    "string \<Rightarrow> create_request \<Rightarrow> timestamp \<Rightarrow> timestamp option \<Rightarrow> string \<Rightarrow> string \<Rightarrow> create_response" where
  "create_response_for sandbox_id r created_at expires_at st why =
     \<lparr>resp_id = sandbox_id,
      resp_status = \<lparr>state = st, reason = Some why, last_transition_at = Some created_at\<rparr>,
      resp_metadata = req_metadata r, resp_expires_at = expires_at, resp_created_at = created_at,
      resp_entrypoint = req_entrypoint r\<rparr>"

definition provision_sandbox ::
    "nat \<Rightarrow> app_config \<Rightarrow> 'w docker_api \<Rightarrow> string \<Rightarrow> create_request \<Rightarrow> timestamp \<Rightarrow> timestamp option
       \<Rightarrow> (string, vol_info) dict \<Rightarrow> ('w service, create_response) io" where
  "provision_sandbox fuel c dk sandbox_id r created_at expires_at cache =
     bindS (inW (dk_now dk)) (\<lambda>now.
     let labels0 = build_labels (dk_isoformat dk) sandbox_id r expires_at now;
         mroot = ossfs_mount_root (cfg_storage c)
     in bindS (resolve_image_auth dk r) (\<lambda>img.
        bindS (prepare_ossfs_mounts dk mroot (req_volumes r)) (\<lambda>keys.
        let labels = (if keys \<noteq> [] then AList.update SANDBOX_OSSFS_MOUNTS_LABEL (json_dumps_list keys) labels0
                      else labels0)
        in bindS (launch_sandbox fuel c dk sandbox_id r labels (fst img) cache keys) (\<lambda>_.
           bindS (case expires_at of
                    None \<Rightarrow> retS ()
                  | Some t \<Rightarrow> schedule_expiration dk sandbox_id t True None) (\<lambda>_.
           retS (create_response_for sandbox_id r created_at expires_at ''Running'' ''CONTAINER_RUNNING''))))))"

definition prepare_creation_context ::
    "'w docker_api \<Rightarrow> create_request \<Rightarrow> ('w service, string \<times> timestamp \<times> timestamp option) io" where
  "prepare_creation_context dk r =
     bindS (inW (dk_new_id dk)) (\<lambda>sandbox_id.
     bindS (inW (dk_now dk)) (\<lambda>created_at.
     (case req_timeout r of
        None \<Rightarrow> retS (sandbox_id, created_at, None)
      | Some t \<Rightarrow> bindS (liftR (calculate_expiration_or_raise created_at t)) (\<lambda>e.
                  retS (sandbox_id, created_at, Some e)))))"

text \<open>The checks both ways of creating a sandbox make before they commit to anything.\<close>

definition check_create_request ::
    "app_config \<Rightarrow> 'w docker_api \<Rightarrow> create_request
       \<Rightarrow> ('w service, (string, vol_info) dict \<times> string \<times> timestamp \<times> timestamp option) io" where
  "check_create_request c dk r =
     bindS (liftR (ensure_entrypoint (req_entrypoint r))) (\<lambda>_.
     bindS (liftR (ensure_metadata_labels (req_metadata r))) (\<lambda>_.
     bindS (inW (dk_now dk)) (\<lambda>now.
     bindS (liftR (ensure_timeout_within_limit now (req_timeout r) (srv_max_timeout (cfg_server c)))) (\<lambda>_.
     bindS (liftR (ensure_network_policy_support c r)) (\<lambda>_.
     bindS (validate_network_exists c dk) (\<lambda>_.
     bindS (validate_volumes c dk r) (\<lambda>cache.
     bindS (prepare_creation_context dk r) (\<lambda>ctx. retS (cache, ctx)))))))))"

definition create_sandbox :: "nat \<Rightarrow> app_config \<Rightarrow> 'w docker_api \<Rightarrow> create_request \<Rightarrow> ('w service, create_response) io" where
  "create_sandbox fuel c dk r =
     bindS (check_create_request c dk r) (\<lambda>(cache, sandbox_id, created_at, expires_at).
     provision_sandbox fuel c dk sandbox_id r created_at expires_at cache)"

section \<open>Background creation\<close>

definition pending_status :: "timestamp \<Rightarrow> sandbox_status" where
  "pending_status created_at =
     \<lparr>state = ''Pending'', reason = Some ''PROVISIONING'', last_transition_at = Some created_at\<rparr>"

text \<open>
  \<open>create_sandbox_async\<close> registers the sandbox and starts the worker thread; the result also carries the
  arguments of the worker.
\<close>

definition create_sandbox_async ::
    "app_config \<Rightarrow> 'w docker_api \<Rightarrow> create_request
       \<Rightarrow> ('w service, create_response \<times> (string, vol_info) dict) io" where
  "create_sandbox_async c dk r =
     bindS (check_create_request c dk r) (\<lambda>(cache, sandbox_id, created_at, expires_at).
     bindS (modifyS (\<lambda>s. s\<lparr>pending_sandboxes := AList.update sandbox_id
               \<lparr>pend_request = r, pend_created_at = created_at, pend_expires_at = expires_at,
                pend_status = pending_status created_at\<rparr> (pending_sandboxes s)\<rparr>)) (\<lambda>_.
     retS (create_response_for sandbox_id r created_at expires_at ''Pending'' ''PROVISIONING'', cache)))"

definition mark_pending_failed :: "'w docker_api \<Rightarrow> string \<Rightarrow> ('w service, unit) io" where
  "mark_pending_failed dk sandbox_id =
     bindS (getS (\<lambda>s. map_of (pending_sandboxes s) sandbox_id)) (\<lambda>p.
     (case p of
        None \<Rightarrow> retS ()
      | Some pend \<Rightarrow>
          bindS (inW (dk_now dk)) (\<lambda>now.
          modifyS (\<lambda>s. s\<lparr>pending_sandboxes := AList.update sandbox_id
            (pend\<lparr>pend_status := \<lparr>state = ''Failed'', reason = Some ''PROVISIONING_ERROR'',
                                   last_transition_at = Some now\<rparr>\<rparr>) (pending_sandboxes s)\<rparr>))))"

definition cleanup_failed_container :: "'w docker_api \<Rightarrow> container \<Rightarrow> ('w service, unit) io" where
  "cleanup_failed_container dk ct =
     finallyS (log_docker (inW (dk_remove dk (ct_id ct))))
       (bindS (liftR (iterate_mount_keys (ct_labels ct))) (release_ossfs_mounts dk))"

definition cleanup_failed_containers :: "'w docker_api \<Rightarrow> string \<Rightarrow> ('w service, unit) io" where
  "cleanup_failed_containers dk sandbox_id =
     bindS (catchS (bindS (inW (dk_list dk (Label_Is SANDBOX_ID_LABEL sandbox_id))) (\<lambda>cs. retS cs))
              (\<lambda>e. if is_docker_exn e then retS [] else raiseS e)) (\<lambda>cts.
     bindS (for_eachS (cleanup_failed_container dk) cts) (\<lambda>_.
     cleanup_egress_sidecar dk sandbox_id))"

definition remove_pending_sandbox :: "string \<Rightarrow> ('w service, unit) io" where
  "remove_pending_sandbox sandbox_id =
     modifyS (\<lambda>s. s\<lparr>pending_cleanup_timers := AList.delete sandbox_id (pending_cleanup_timers s),
                     pending_sandboxes := AList.delete sandbox_id (pending_sandboxes s)\<rparr>)"

definition schedule_pending_cleanup :: "string \<Rightarrow> ('w service, unit) io" where
  "schedule_pending_cleanup sandbox_id =
     modifyS (\<lambda>s. s\<lparr>pending_cleanup_timers :=
       AList.update sandbox_id PENDING_FAILURE_TTL_SECONDS (AList.delete sandbox_id (pending_cleanup_timers s))\<rparr>)"

definition async_provision_worker ::
    "nat \<Rightarrow> app_config \<Rightarrow> 'w docker_api \<Rightarrow> string \<Rightarrow> create_request \<Rightarrow> timestamp \<Rightarrow> timestamp option
       \<Rightarrow> (string, vol_info) dict \<Rightarrow> ('w service, unit) io" where
  "async_provision_worker fuel c dk sandbox_id r created_at expires_at cache =
     bindS (catchS (bindS (provision_sandbox fuel c dk sandbox_id r created_at expires_at cache) (\<lambda>_. retS True))
       (\<lambda>e. bindS (mark_pending_failed dk sandbox_id) (\<lambda>_.
            bindS (cleanup_failed_containers dk sandbox_id) (\<lambda>_.
            bindS (schedule_pending_cleanup sandbox_id) (\<lambda>_. retS False))))) (\<lambda>done1.
     if done1 then remove_pending_sandbox sandbox_id else retS ())"

end
