(* ===== verification/Docker_Sim.thy ===== *)
theory Docker_Sim
  imports Docker_Provision
begin

text \<open>
  A concrete Docker host: a list of containers, a mount table and a clock, with the documented behaviour
  of the calls the service makes. It shows that the hypotheses the properties put on the host can hold,
  and is what their witnesses are evaluated on.
\<close>

record sim =
  sim_containers :: "container list"
  sim_mounts :: "string list"
  sim_clock :: int

definition sim_matches :: "label_filter \<Rightarrow> container \<Rightarrow> bool" where
  "sim_matches f ct = (case f of
     Any_Container \<Rightarrow> True
   | Has_Label k \<Rightarrow> map_of (ct_labels ct) k \<noteq> None
   | Label_Is k v \<Rightarrow> map_of (ct_labels ct) k = Some v)"

definition sim_list :: "label_filter \<Rightarrow> (sim, container list) io" where
  "sim_list f w = (Inr (filter (sim_matches f) (sim_containers w)), w)"

definition sim_update :: "string \<Rightarrow> (container \<Rightarrow> container) \<Rightarrow> sim \<Rightarrow> sim" where
  "sim_update cid f w = w\<lparr>sim_containers := map (\<lambda>ct. if ct_id ct = cid then f ct else ct) (sim_containers w)\<rparr>"

definition sim_on :: "string \<Rightarrow> (container \<Rightarrow> bool) \<Rightarrow> (container \<Rightarrow> container) \<Rightarrow> (sim, unit) io" where
  "sim_on cid ready f w =
     (case find (\<lambda>ct. ct_id ct = cid) (sim_containers w) of
        None \<Rightarrow> (Inl DockerNotFound, w)
      | Some ct \<Rightarrow> if ready ct then (ok, sim_update cid f w)
                  else (Inl (DockerException ''Container is not running''), w))"

definition sim_remove :: "string \<Rightarrow> (sim, unit) io" where
  "sim_remove cid w =
     (if list_ex (\<lambda>ct. ct_id ct = cid) (sim_containers w)
      then (ok, w\<lparr>sim_containers := filter (\<lambda>ct. ct_id ct \<noteq> cid) (sim_containers w)\<rparr>)
      else (Inl DockerNotFound, w))"

definition blank_container :: "string \<Rightarrow> (string, string) dict \<Rightarrow> container" where
  "blank_container cid labels =
     \<lparr>ct_id = cid, ct_labels = labels, ct_state_status = Some ''running'', ct_status = ''running'',
      ct_running = True, ct_paused = False, ct_restarting = False, ct_exit_code = None,
      ct_finished_at = None, ct_created = None, ct_cmd = [''sleep''], ct_image_tags = [''img:1''],
      ct_image_short_id = ''sha256:0'', ct_ip_address = Some ''172.17.0.2'', ct_networks = []\<rparr>"

definition sim_create :: "container_spec \<Rightarrow> (sim, string option) io" where
  "sim_create spec w =
     (Inr (Some (cs_name spec)),
      w\<lparr>sim_containers := sim_containers w @ [blank_container (cs_name spec) (cs_labels spec)]\<rparr>)"

definition sim_get :: "string \<Rightarrow> (sim, container) io" where
  "sim_get cid w = (case find (\<lambda>ct. ct_id ct = cid) (sim_containers w) of
     None \<Rightarrow> (Inl DockerNotFound, w) | Some ct \<Rightarrow> (Inr ct, w))"

definition sim_run :: "string list \<Rightarrow> (sim, int) io" where
  "sim_run cmd w = (case table_run cmd (sim_mounts w) of (r, m) \<Rightarrow> (r, w\<lparr>sim_mounts := m\<rparr>))"

definition sim_docker :: "sim docker_api" where
  "sim_docker =
     \<lparr>os_ismount = (\<lambda>p w. p \<in> set (sim_mounts w)), os_makedirs = (\<lambda>p. retS ()),
      os_open_write = (\<lambda>p t. retS ()), os_chmod = (\<lambda>p m. retS ()), os_remove = (\<lambda>p. retS ()),
      os_run = sim_run, os_uuid_hex = retS ''0123'', os_tempdir = ''/tmp'',
      dk_list = sim_list, dk_get = sim_get,
      dk_kill = (\<lambda>cid. sim_on cid ct_running (\<lambda>ct. ct\<lparr>ct_running := False\<rparr>)),
      dk_remove = sim_remove,
      dk_start = (\<lambda>cid. sim_on cid (\<lambda>ct. True) (\<lambda>ct. ct\<lparr>ct_running := True\<rparr>)),
      dk_pause = (\<lambda>cid. sim_on cid ct_running (\<lambda>ct. ct\<lparr>ct_paused := True\<rparr>)),
      dk_unpause = (\<lambda>cid. sim_on cid ct_paused (\<lambda>ct. ct\<lparr>ct_paused := False\<rparr>)),
      dk_update_labels = (\<lambda>cid l. raiseS TypeError),
      dk_post_labels = (\<lambda>cid l. retS ()),
      dk_reload = (\<lambda>cid. retS ()),
      dk_create = sim_create, dk_create_execd = (\<lambda>img. retS ''execd''),
      dk_put_archive = (\<lambda>cid p a. retS ()), dk_get_archive = (\<lambda>cid p. retS ''tar''),
      dk_image_get = (\<lambda>i. retS ()), dk_image_pull = (\<lambda>i a. retS ()), dk_network_get = (\<lambda>n. retS ()),
      dk_inspect_volume = (\<lambda>n. retS \<lparr>vi_driver = ''local'', vi_mountpoint = ''/var/lib/docker/volumes/'' @ n @ ''/_data''\<rparr>),
      dk_realpath_strict = (\<lambda>p. raiseS OSError),
      dk_now = getS sim_clock, dk_new_id = retS ''sb-new'', dk_token = retS ''token'',
      dk_random_port = (\<lambda>lo hi w. (Inr (lo + sim_clock w mod (hi - lo)), w\<lparr>sim_clock := sim_clock w + 1\<rparr>)),
      dk_can_bind = (\<lambda>p. retS True), dk_in_container = (\<lambda>w. False), dk_bind_ip = retS ''10.0.0.1'',
      dk_isoformat = str_int, dk_fromiso = (\<lambda>t. map_option (\<lambda>z. Aware z 0) (py_int t)),
      dk_nano_cpus = (\<lambda>v. None), dk_shlex_split = (\<lambda>t. Inr (split_on (CHR '' '') t)),
      dk_policy_json = (\<lambda>p. ''{}'')\<rparr>"

text \<open>A host with one container per sandbox, and a service that tracks nothing yet.\<close>

definition sim_service :: "container list \<Rightarrow> string list \<Rightarrow> int \<Rightarrow> sim service" where
  "sim_service cts mounts clock =
     \<lparr>ref_counts = [], world = \<lparr>sim_containers = cts, sim_mounts = mounts, sim_clock = clock\<rparr>,
      sandbox_expirations = [], expiration_timers = [], pending_sandboxes = [],
      pending_cleanup_timers = [], execd_archive_cache = None\<rparr>"

definition sample_request :: create_request where
  "sample_request =
     \<lparr>req_image = \<lparr>image_uri = ''img:1'', image_auth_of = None\<rparr>, req_timeout = Some 600,
      req_resource_limits = [], req_env = None, req_metadata = Some [(''team'', ''a'')],
      req_entrypoint = [''sleep''], req_network_policy = None, req_volumes = None, req_extensions = None\<rparr>"

lemma sim_commands_end: "commands_end sim_docker"
  unfolding commands_end_def
proof (intro allI)
  fix cmd and w :: sim
  obtain rc m where "table_run cmd (sim_mounts w) = (Inr rc, m)"
    by (cases "table_run cmd (sim_mounts w)") (auto split: list.splits if_splits)
  then show "\<exists>rc w'. os_run sim_docker cmd w = (Inr rc, w')"
    by (simp add: sim_docker_def sim_run_def)
qed

end
