(* ===== verification/Docker_Safety.thy ===== *)
theory Docker_Safety
  imports Docker_Provision Docker_Sim
begin

text \<open>
  What the Docker service guarantees: properties of labels and pages, the frame of the operations,
  expiration tracking, reference counts across restarts, containment of bind mounts, hardening of the
  containers that are created.
\<close>

section \<open>Frames\<close>

text \<open>
  \<open>worldly P\<close>: the predicate does not look at the outside world, so every call of the world keeps it.
  \<open>outer P\<close>: it does not look at the mount reference counts either, so the OSSFS operations keep it too.
\<close>

definition worldly :: "(('w, 'm) host_state_scheme \<Rightarrow> bool) \<Rightarrow> bool" where
  "worldly P \<longleftrightarrow> (\<forall>s w. P (s\<lparr>world := w\<rparr>) = P s)"

definition outer :: "(('w, 'm) host_state_scheme \<Rightarrow> bool) \<Rightarrow> bool" where
  "outer P \<longleftrightarrow> worldly P \<and> (\<forall>s r. P (s\<lparr>ref_counts := r\<rparr>) = P s)"

lemma outerD: "outer P \<Longrightarrow> P (s\<lparr>world := w\<rparr>) = P s" "outer P \<Longrightarrow> P (s\<lparr>ref_counts := r\<rparr>) = P s"
  "outer P \<Longrightarrow> worldly P"
  by (simp_all add: outer_def worldly_def)

lemma keeps_inW [keeps_intros]: "worldly P \<Longrightarrow> keeps P (inW m)"
  by (auto simp: keeps_def inW_def worldly_def split: prod.splits)

lemma keeps_release_ref [keeps_intros]: "outer P \<Longrightarrow> keeps P (release_ref k)"
  by (auto simp: keeps_def release_ref_def outerD Let_def)

lemma keeps_release_ossfs_mount [keeps_intros]: "outer P \<Longrightarrow> keeps P (release_ossfs_mount os k)"
  unfolding release_ossfs_mount_def by (intro keeps_intros) (auto dest: outerD)

lemma keeps_release_ossfs_mounts [keeps_intros]: "outer P \<Longrightarrow> keeps P (release_ossfs_mounts os ks)"
  unfolding release_ossfs_mounts_def by (intro keeps_intros)

lemma keeps_docker_to [keeps_intros]: "keeps P m \<Longrightarrow> keeps P (docker_to e m)"
  unfolding docker_to_def by (intro keeps_intros)

lemma keeps_log_docker [keeps_intros]: "keeps P m \<Longrightarrow> keeps P (log_docker m)"
  unfolding log_docker_def by (intro keeps_intros)

lemma keeps_case_sum [keeps_intros]:
  "(\<And>a. keeps P (f a)) \<Longrightarrow> (\<And>b. keeps P (g b)) \<Longrightarrow> keeps P (case v of Inl a \<Rightarrow> f a | Inr b \<Rightarrow> g b)"
  by (cases v) simp_all

lemma keeps_case_prod [keeps_intros]: "(\<And>a b. keeps P (f a b)) \<Longrightarrow> keeps P (case v of (a, b) \<Rightarrow> f a b)"
  by (cases v) simp

lemma keeps_case_list [keeps_intros]:
  "keeps P a \<Longrightarrow> (\<And>x xs. keeps P (f x xs)) \<Longrightarrow> keeps P (case v of [] \<Rightarrow> a | x # xs \<Rightarrow> f x xs)"
  by (cases v) simp_all

lemma keeps_Let [keeps_intros]: "(\<And>x. keeps P (f x)) \<Longrightarrow> keeps P (let x = v in f x)"
  by simp

lemma keeps_get_container [keeps_intros]: "worldly P \<Longrightarrow> keeps P (get_container_by_sandbox_id dk sid)"
  unfolding get_container_by_sandbox_id_def by (intro keeps_intros)

lemma keeps_parse_ts [keeps_intros]: "worldly P \<Longrightarrow> keeps P (parse_ts dk ts)"
  unfolding parse_ts_def by (intro keeps_intros)

lemma keeps_cleanup_egress_sidecar [keeps_intros]: "worldly P \<Longrightarrow> keeps P (cleanup_egress_sidecar dk sid)"
  unfolding cleanup_egress_sidecar_def by (intro keeps_intros)

lemma keeps_get_tracked [keeps_intros]: "worldly P \<Longrightarrow> keeps P (get_tracked_expiration dk sid labels)"
  unfolding get_tracked_expiration_def by (intro keeps_intros)

lemma keeps_still_valid [keeps_intros]: "worldly P \<Longrightarrow> keeps P (still_valid dk sid)"
  unfolding still_valid_def by (intro keeps_intros)

lemma keeps_update_container_labels [keeps_intros]: "worldly P \<Longrightarrow> keeps P (update_container_labels dk ct labels)"
  unfolding update_container_labels_def by (intro keeps_intros)

lemma keeps_container_to_sandbox [keeps_intros]: "worldly P \<Longrightarrow> keeps P (container_to_sandbox dk ct sid)"
  unfolding container_to_sandbox_def by (intro keeps_intros)

lemma keeps_case_http [keeps_intros]:
  "(\<And>a b. keeps P (f a b)) \<Longrightarrow> keeps P g \<Longrightarrow> keeps P (case e of HTTPException a b \<Rightarrow> f a b | _ \<Rightarrow> g)"
  by (cases e) simp_all

section \<open>Labels\<close>

lemma update_new: "k \<notin> fst ` set d \<Longrightarrow> AList.update k v d = d @ [(k, v)]"
  by (induction d) auto

lemma ensure_metadata_labels_keys:
  assumes "ensure_metadata_labels (Some m) = ok" and "(k, v) \<in> set m"
  shows "\<not> starts_with k RESERVED_LABEL_PREFIX" and "is_valid_label_key k" and "is_valid_label_value v"
  using assms by (auto simp: ensure_metadata_labels_def ensure_metadata_label_def res_simps)

lemma system_labels_reserved:
  "starts_with SANDBOX_ID_LABEL RESERVED_LABEL_PREFIX"
  "starts_with SANDBOX_EXPIRES_AT_LABEL RESERVED_LABEL_PREFIX"
  "starts_with SANDBOX_MANUAL_CLEANUP_LABEL RESERVED_LABEL_PREFIX"
  "starts_with SANDBOX_LAST_ACTIVITY_AT_LABEL RESERVED_LABEL_PREFIX"
  "starts_with SANDBOX_OSSFS_MOUNTS_LABEL RESERVED_LABEL_PREFIX"
  by (simp_all add: label_defs RESERVED_LABEL_PREFIX_def starts_with_def)

lemma system_labels_distinct:
  "SANDBOX_ID_LABEL \<noteq> SANDBOX_LAST_ACTIVITY_AT_LABEL" "SANDBOX_ID_LABEL \<noteq> SANDBOX_EXPIRES_AT_LABEL"
  "SANDBOX_ID_LABEL \<noteq> SANDBOX_MANUAL_CLEANUP_LABEL"
  "SANDBOX_LAST_ACTIVITY_AT_LABEL \<noteq> SANDBOX_EXPIRES_AT_LABEL"
  "SANDBOX_LAST_ACTIVITY_AT_LABEL \<noteq> SANDBOX_MANUAL_CLEANUP_LABEL"
  "SANDBOX_EXPIRES_AT_LABEL \<noteq> SANDBOX_MANUAL_CLEANUP_LABEL"
  by (simp_all add: label_defs)

lemma build_labels_append:
  assumes "req_metadata r = Some m" and "ensure_metadata_labels (Some m) = ok" and "dict_ok m"
  shows "build_labels isof sid r expires now =
    m @ [(SANDBOX_ID_LABEL, sid), (SANDBOX_LAST_ACTIVITY_AT_LABEL, isof now),
         (case expires of None \<Rightarrow> (SANDBOX_MANUAL_CLEANUP_LABEL, ''true'')
          | Some t \<Rightarrow> (SANDBOX_EXPIRES_AT_LABEL, isof t))]"
proof -
  have n: "k \<notin> fst ` set m" if "starts_with k RESERVED_LABEL_PREFIX" for k
    using ensure_metadata_labels_keys(1) [OF assms(2)] that by auto
  have "dict_update [] m = m" using dict_update_append [of m "[]"] assms(3) by (simp add: dict_ok_def)
  then show ?thesis
    using assms(1) n system_labels_reserved system_labels_distinct
    by (auto simp: build_labels_def update_new Let_def split: option.splits)
qed

text \<open>
  The labels built for a sandbox identify it and say how it ends, whatever metadata the user sent:
  the identifier label is the sandbox's, exactly one of expiry and manual clean-up is set, and what
  remains of these labels once the four system labels are taken out is the submitted metadata, unchanged.
\<close>

theorem build_labels_metadata_roundtrip:
  assumes "req_metadata r = Some m" and "ensure_metadata_labels (Some m) = ok" and "dict_ok m"
  shows "map_of (build_labels isof sid r expires now) SANDBOX_ID_LABEL = Some sid \<and>
    (has_manual_cleanup (build_labels isof sid r expires now) \<longleftrightarrow> expires = None) \<and>
    map_of (build_labels isof sid r expires now) SANDBOX_EXPIRES_AT_LABEL = map_option isof expires \<and>
    visible_metadata (build_labels isof sid r expires now) = (if m = [] then None else Some m)"
proof (intro conjI)
  have n: "map_of m k = None" if "starts_with k RESERVED_LABEL_PREFIX" for k
    using ensure_metadata_labels_keys(1) [OF assms(2)] that by (auto simp: map_of_eq_None_iff)
  note b = build_labels_append [OF assms, of isof sid expires now]
  note s = system_labels_reserved system_labels_distinct
  show "map_of (build_labels isof sid r expires now) SANDBOX_ID_LABEL = Some sid"
    using n s by (simp add: b map_add_Some_iff)
  show "has_manual_cleanup (build_labels isof sid r expires now) \<longleftrightarrow> expires = None"
    using n s by (auto simp: b has_manual_cleanup_def map_add_def lower_def lower_char_def is_upper_def code_def split: option.splits)
  show "map_of (build_labels isof sid r expires now) SANDBOX_EXPIRES_AT_LABEL = map_option isof expires"
    using n s by (auto simp: b map_add_def split: option.splits)
  have "filter (\<lambda>(k, v). k \<notin> {SANDBOX_ID_LABEL, SANDBOX_EXPIRES_AT_LABEL, SANDBOX_MANUAL_CLEANUP_LABEL,
      SANDBOX_LAST_ACTIVITY_AT_LABEL}) m = m"
    using ensure_metadata_labels_keys(1) [OF assms(2)] s by (intro filter_True) fastforce
  then show "visible_metadata (build_labels isof sid r expires now) = (if m = [] then None else Some m)"
    by (auto simp: b visible_metadata_def split: option.splits list.splits)
qed

theorem build_labels_metadata_roundtrip_witness:
  "map_of (build_labels str_int ''s1'' sample_request (Some 9) 3) SANDBOX_ID_LABEL = Some ''s1'' \<and>
    (has_manual_cleanup (build_labels str_int ''s1'' sample_request (Some 9) 3) \<longleftrightarrow> Some (9 :: int) = None) \<and>
    map_of (build_labels str_int ''s1'' sample_request (Some 9) 3) SANDBOX_EXPIRES_AT_LABEL =
      map_option str_int (Some 9) \<and>
    visible_metadata (build_labels str_int ''s1'' sample_request (Some 9) 3) =
      (if [(''team'', ''a'')] = [] then None else Some [(''team'', ''a'')])"
  by (rule build_labels_metadata_roundtrip) code_simp+

text \<open>
  The bearer token of the egress sidecar is kept in a label, and that label is shown to every
  caller as sandbox metadata: whenever a container with a token is turned into a sandbox for an
  answer, the token is part of the metadata, because only four system labels are filtered out.
\<close>

theorem egress_token_visible:
  assumes "map_of (ct_labels ct) SANDBOX_EGRESS_AUTH_TOKEN_METADATA_KEY = Some token"
    and "container_to_sandbox dk ct sid s = (Inr sb, s')"
  shows "\<exists>m. sbx_metadata sb = Some m \<and> map_of m SANDBOX_EGRESS_AUTH_TOKEN_METADATA_KEY = Some token"
proof -
  let ?P = "\<lambda>k. k \<notin> {SANDBOX_ID_LABEL, SANDBOX_EXPIRES_AT_LABEL, SANDBOX_MANUAL_CLEANUP_LABEL,
      SANDBOX_LAST_ACTIVITY_AT_LABEL}"
  have "map_of (filter (\<lambda>(k, v). ?P k) (ct_labels ct)) SANDBOX_EGRESS_AUTH_TOKEN_METADATA_KEY = Some token"
    using assms(1) map_of_filter_key [of ?P "ct_labels ct" SANDBOX_EGRESS_AUTH_TOKEN_METADATA_KEY]
    by (simp add: label_defs)
  then have "\<exists>m. visible_metadata (ct_labels ct) = Some m
      \<and> map_of m SANDBOX_EGRESS_AUTH_TOKEN_METADATA_KEY = Some token"
    by (cases "filter (\<lambda>(k, v). ?P k) (ct_labels ct)") (auto simp: visible_metadata_def)
  moreover have "sbx_metadata sb = visible_metadata (ct_labels ct)"
    using assms(2)
    by (auto simp: container_to_sandbox_def Let_def retS_def raiseS_def split: if_splits elim!: bindS_InrE)
  ultimately show ?thesis by simp
qed

definition guarded_container :: container where
  "guarded_container = blank_container ''c1''
     [(SANDBOX_ID_LABEL, ''s1''), (SANDBOX_EGRESS_AUTH_TOKEN_METADATA_KEY, ''t0ken'')]"

theorem egress_token_visible_witness:
  "\<exists>m. sbx_metadata (case fst (container_to_sandbox sim_docker guarded_container None (sim_service [] [] 7)) of
       Inr sb \<Rightarrow> sb) = Some m \<and> map_of m SANDBOX_EGRESS_AUTH_TOKEN_METADATA_KEY = Some ''t0ken''"
  by (rule egress_token_visible [where ct = guarded_container and dk = sim_docker and sid = None and s = "sim_service [] [] 7"
        and s' = "sim_service [] [] 7"]) code_simp+

section \<open>Pages\<close>

lemma concat_slices: "concat (map (\<lambda>i. take n (drop (i * n) xs)) [0..<k]) = take (k * n) xs"
proof (induction k)
  case 0
  then show ?case by simp
next
  case (Suc k)
  then show ?case by (simp add: take_add add.commute [of n])
qed

lemma sort_key_Nil [simp]: "sort_key f xs = [] \<longleftrightarrow> xs = []"
  by (metis length_0_conv length_sort)

lemma paginate_items:
  "1 \<le> psize \<Longrightarrow> list_items (paginate (Some \<lparr>page = int (Suc i), page_size = psize\<rparr>) xs) =
     take (nat psize) (drop (i * nat psize) (sort_key (\<lambda>s. - sbx_created_at s) xs))"
  by (simp add: paginate_def Let_def nat_mult_distrib)

text \<open>
  Paging loses and repeats nothing: for every page size the pages from the first to the last,
  one after the other, are all matching sandboxes, newest first; and a page says there is a next one
  exactly when it is not the last.
\<close>

theorem paginate_partition:
  assumes "1 \<le> psize" and "pages = nat (info_total_pages (list_info (paginate (Some \<lparr>page = 1, page_size = psize\<rparr>) xs)))"
  shows "concat (map (\<lambda>i. list_items (paginate (Some \<lparr>page = int (Suc i), page_size = psize\<rparr>) xs)) [0..<pages]) =
           sort_key (\<lambda>s. - sbx_created_at s) xs \<and>
    (\<forall>i. info_has_next_page (list_info (paginate (Some \<lparr>page = int (Suc i), page_size = psize\<rparr>) xs)) \<longleftrightarrow>
           Suc i < pages)"
proof (intro conjI allI)
  let ?n = "length xs"
  have t: "pages = (if ?n = 0 then 0 else nat ((int ?n + psize - 1) div psize))"
    using assms(2) by (simp add: paginate_def Let_def)
  have cover: "?n \<le> pages * nat psize"
  proof (cases "?n = 0")
    case False
    let ?a = "int ?n + psize - 1"
    have "?a div psize * psize + ?a mod psize = ?a" by (rule div_mult_mod_eq)
    moreover have "?a mod psize < psize" using assms(1) by (intro pos_mod_bound) simp
    ultimately have le: "int ?n \<le> ?a div psize * psize" by linarith
    have "int ?n \<le> int (nat (?a div psize) * nat psize)"
      using le assms(1) by (simp add: pos_imp_zdiv_nonneg_iff)
    then show ?thesis using False by (simp add: t del: of_nat_mult)
  qed simp
  have "concat (map (\<lambda>i. list_items (paginate (Some \<lparr>page = int (Suc i), page_size = psize\<rparr>) xs)) [0..<pages]) =
      take (pages * nat psize) (sort_key (\<lambda>s. - sbx_created_at s) xs)"
    using concat_slices [of "nat psize"] paginate_items [OF assms(1)] by (simp del: of_nat_Suc)
  with cover show "concat (map (\<lambda>i. list_items (paginate (Some \<lparr>page = int (Suc i), page_size = psize\<rparr>) xs)) [0..<pages]) =
      sort_key (\<lambda>s. - sbx_created_at s) xs" by simp
  show "info_has_next_page (list_info (paginate (Some \<lparr>page = int (Suc i), page_size = psize\<rparr>) xs)) \<longleftrightarrow> Suc i < pages" for i
    by (auto simp: t paginate_def Let_def)
qed

definition sandbox_at :: "timestamp \<Rightarrow> sandbox" where
  "sandbox_at t = \<lparr>sbx_id = str_int t, sbx_image = ''img:1'',
     sbx_status = \<lparr>state = ''Running'', reason = None, last_transition_at = None\<rparr>, sbx_metadata = None,
     sbx_entrypoint = [''sleep''], sbx_expires_at = None, sbx_created_at = t, sbx_last_activity_at = None\<rparr>"

theorem paginate_partition_witness:
  "concat (map (\<lambda>i. list_items (paginate (Some \<lparr>page = int (Suc i), page_size = 2\<rparr>)
       [sandbox_at 1, sandbox_at 3, sandbox_at 2])) [0..<2]) =
     sort_key (\<lambda>s. - sbx_created_at s) [sandbox_at 1, sandbox_at 3, sandbox_at 2] \<and>
   (\<forall>i. info_has_next_page (list_info (paginate (Some \<lparr>page = int (Suc i), page_size = 2\<rparr>)
       [sandbox_at 1, sandbox_at 3, sandbox_at 2])) \<longleftrightarrow> Suc i < 2)"
  by (rule paginate_partition) code_simp+

section \<open>Expiration tracking\<close>

text \<open>Every tracked expiration has a timer, and no sandbox has two.\<close>

definition tracking_ok :: "'w service \<Rightarrow> bool" where
  "tracking_ok s \<longleftrightarrow> dict_ok (sandbox_expirations s) \<and> dict_ok (expiration_timers s)
     \<and> (\<forall>sid. map_of (sandbox_expirations s) sid \<noteq> None \<longrightarrow> map_of (expiration_timers s) sid \<noteq> None)"

text \<open>Nothing is tracked for the sandbox.\<close>

definition untracked :: "string \<Rightarrow> 'w service \<Rightarrow> bool" where
  "untracked sid s \<longleftrightarrow> map_of (sandbox_expirations s) sid = None \<and> map_of (expiration_timers s) sid = None"

lemma outer_tracking [simp]:
  "outer tracking_ok" "outer (untracked sid)" "worldly tracking_ok" "worldly (untracked sid)"
  by (simp_all add: outer_def worldly_def tracking_ok_def untracked_def)

lemma keeps_schedule_expiration:
  "keeps tracking_ok (schedule_expiration dk sid t upd fb)"
  unfolding schedule_expiration_def
  by (intro keeps_intros keeps_modifyS outer_tracking) (auto simp: tracking_ok_def)

lemma keeps_remove_tracking:
  "keeps tracking_ok (remove_expiration_tracking sid)" "keeps (untracked sid) (remove_expiration_tracking sid)"
  unfolding remove_expiration_tracking_def
  by (auto intro!: keeps_modifyS simp: tracking_ok_def untracked_def)

lemma remove_tracking_untracked: "untracked sid (snd (remove_expiration_tracking sid s))"
  by (simp add: remove_expiration_tracking_def modifyS_def untracked_def)

lemmas tracking_rules = outer_tracking keeps_schedule_expiration keeps_remove_tracking

lemma keeps_terminate_expired: "keeps tracking_ok (terminate_expired dk sid ct)"
  unfolding terminate_expired_def by (intro keeps_intros tracking_rules)

lemma keeps_retry_expiration: "keeps tracking_ok (retry_expiration dk sid fb)"
  unfolding retry_expiration_def by (intro keeps_intros tracking_rules)

lemma keeps_expire_sandbox: "keeps tracking_ok (expire_sandbox dk sid fb)"
  unfolding expire_sandbox_def
  by (intro keeps_intros tracking_rules keeps_terminate_expired keeps_retry_expiration)

lemma keeps_restore_pass1: "keeps tracking_ok (restore_pass1 dk now cts sc refs ex)"
  by (induction cts arbitrary: sc refs ex)
     (simp_all only: restore_pass1.simps, intro keeps_intros tracking_rules, intro keeps_intros tracking_rules)

lemma keeps_restore: "keeps tracking_ok (restore_existing_sandboxes dk)"
  unfolding restore_existing_sandboxes_def cleanup_orphan_def
  by (intro keeps_intros tracking_rules keeps_restore_pass1 keeps_modifyS keeps_expire_sandbox)
     (simp add: tracking_ok_def)

lemma keeps_delete: "keeps tracking_ok (delete_sandbox dk sid)"
  unfolding delete_sandbox_def kill_and_remove_def by (intro keeps_intros tracking_rules)

lemma keeps_renew: "keeps tracking_ok (renew_expiration dk sid t)"
  unfolding renew_expiration_def apply_renewal_def by (intro keeps_intros tracking_rules)

lemma keeps_ensure_ossfs_mounted [keeps_intros]:
  "outer P \<Longrightarrow> keeps P (ensure_ossfs_mounted os mroot arg)"
  unfolding keeps_def ensure_ossfs_mounted_def
  by (auto simp: bindS_def liftR_def retS_def raiseS_def modifyS_def Let_def outerD
      split: sum.splits prod.splits if_splits dest!: inW_world)

lemma keeps_mount_batch [keeps_intros]: "outer P \<Longrightarrow> keeps P (mount_batch os mroot d prepared)"
proof (induction d arbitrary: prepared)
  case Nil
  then show ?case by (simp add: keeps_retS)
next
  case (Cons kv d)
  then show ?case
    by (cases kv) (simp only: mount_batch.simps, intro keeps_intros, auto)
qed

lemma keeps_prepare_ossfs_mounts [keeps_intros]: "outer P \<Longrightarrow> keeps P (prepare_ossfs_mounts os mroot vols)"
  unfolding prepare_ossfs_mounts_def by (intro keeps_intros)

lemma keeps_allocate_host_port [keeps_intros]: "worldly P \<Longrightarrow> keeps P (allocate_host_port n dk)"
  by (induction n) (simp_all only: allocate_host_port.simps, (intro keeps_intros; simp)+)

lemma keeps_distinct_port [keeps_intros]: "worldly P \<Longrightarrow> keeps P (distinct_port fuel dk e h)"
proof (induction fuel arbitrary: h)
  case 0
  then show ?case by (simp add: distinct_port.simps keeps_retS keeps_raiseS)
next
  case (Suc n)
  then show ?case
    by (subst distinct_port.simps) (auto intro!: keeps_intros)
qed

lemma keeps_allocate_ports [keeps_intros]: "worldly P \<Longrightarrow> keeps P (allocate_distinct_host_ports fuel dk)"
  unfolding allocate_distinct_host_ports_def by (intro keeps_intros)

lemma keeps_ensure_image [keeps_intros]: "worldly P \<Longrightarrow> keeps P (ensure_image_available dk uri auth)"
  unfolding ensure_image_available_def pull_image_def by (intro keeps_intros)

lemma keeps_create_with_cleanup [keeps_intros]:
  "worldly P \<Longrightarrow> (\<And>ct. keeps P (body ct)) \<Longrightarrow> keeps P (create_with_cleanup dk spec body)"
  unfolding create_with_cleanup_def by (intro keeps_intros)

lemma keeps_start_egress_sidecar [keeps_intros]:
  "worldly P \<Longrightarrow> keeps P (start_egress_sidecar c dk sid np token e h)"
  unfolding start_egress_sidecar_def by (intro keeps_intros)

text \<open>A predicate that does not look at the cached archive either is kept by the creation of containers.\<close>

definition cachely :: "('w service \<Rightarrow> bool) \<Rightarrow> bool" where
  "cachely P \<longleftrightarrow> worldly P \<and> (\<forall>s x. P (s\<lparr>execd_archive_cache := x\<rparr>) = P s)"

lemma cachelyD: "cachely P \<Longrightarrow> worldly P"
  by (simp add: cachely_def)

lemma keeps_prepare_runtime [keeps_intros]: "cachely P \<Longrightarrow> keeps P (prepare_sandbox_runtime c dk cid)"
  unfolding prepare_sandbox_runtime_def fetch_execd_archive_def ensure_directory_def
  by (intro keeps_intros keeps_modifyS) (auto simp: cachely_def)

lemma keeps_create_and_start [keeps_intros]:
  "cachely P \<Longrightarrow> keeps P (create_and_start_container c dk sid uri cmd labels env hc ports)"
  unfolding create_and_start_container_def by (intro keeps_intros) (auto dest: cachelyD)

lemma keeps_undo_provision [keeps_intros]:
  "outer P \<Longrightarrow> keeps P (undo_provision dk keys sc e)"
  unfolding undo_provision_def by (intro keeps_intros) (auto dest: outerD)

lemma keeps_provision_parts [keeps_intros]:
  "outer P \<Longrightarrow> cachely P \<Longrightarrow> keeps P (provision_with_policy fuel c dk sid r np labels env uri binds keys)"
  "outer P \<Longrightarrow> cachely P \<Longrightarrow> keeps P (provision_plain fuel c dk sid r labels env uri binds keys)"
  unfolding provision_with_policy_def provision_plain_def Let_def
  by (intro keeps_intros; (erule cachelyD | assumption))+

lemma cachely_tracking: "cachely tracking_ok"
  by (simp add: cachely_def worldly_def tracking_ok_def)

lemma keeps_provision_sandbox:
  "keeps tracking_ok (provision_sandbox fuel c dk sid r created expires cache)"
  unfolding provision_sandbox_def launch_sandbox_def resolve_image_auth_def
  by (intro keeps_intros tracking_rules cachely_tracking)

lemma keeps_validate_backends [keeps_intros]: "worldly P \<Longrightarrow> keeps P (validate_backends c dk allowed vs cache)"
proof (induction vs arbitrary: cache)
  case Nil
  then show ?case by (simp add: keeps_retS)
next
  case (Cons v vs)
  show ?case
    unfolding validate_backends.simps validate_host_volume_def validate_pvc_volume_def symlink_check_def
    by (intro keeps_intros Cons.IH Cons.prems)
qed

lemma keeps_check_create_request [keeps_intros]: "worldly P \<Longrightarrow> keeps P (check_create_request c dk r)"
  unfolding check_create_request_def validate_network_exists_def validate_volumes_def
    prepare_creation_context_def
  by (intro keeps_intros)

text \<open>A host with one running sandbox that expires at the instant 100, and the restarted service on it.\<close>

definition live_container :: container where
  "live_container = blank_container ''c1''
     [(SANDBOX_ID_LABEL, ''s1''), (SANDBOX_EXPIRES_AT_LABEL, ''100''),
      (SANDBOX_OSSFS_MOUNTS_LABEL, json_dumps_list [''/mnt/ossfs/bkt''])]"

definition live_world :: "int \<Rightarrow> sim" where
  "live_world clock = \<lparr>sim_containers = [live_container], sim_mounts = [''/mnt/ossfs/bkt''], sim_clock = clock\<rparr>"

lemma run_fst: "fst x = r \<Longrightarrow> x = (r, snd x)"
  by (cases x) simp

section \<open>The service as a transition system\<close>

text \<open>
  The calls that reach the service: the API operations, the timers and the worker threads. Each runs
  to its end before the next; its exception, if any, is the caller's.
\<close>

datatype svc_call =
    Create create_request
  | Create_Async create_request
  | Worker string create_request timestamp "timestamp option" "(string, vol_info) dict"
  | Expire string "string list option"
  | Pending_Timeout string
  | Delete string
  | Pause string
  | Resume string
  | Renew string datetime
  | Touch string
  | Get_One string
  | List_All list_request

fun svc_run :: "nat \<Rightarrow> app_config \<Rightarrow> 'w docker_api \<Rightarrow> svc_call \<Rightarrow> ('w service, unit) io" where
  "svc_run fuel c dk (Create r) = bindS (create_sandbox fuel c dk r) (\<lambda>_. retS ())"
| "svc_run fuel c dk (Create_Async r) = bindS (create_sandbox_async c dk r) (\<lambda>_. retS ())"
| "svc_run fuel c dk (Worker sid r t e cache) = async_provision_worker fuel c dk sid r t e cache"
| "svc_run fuel c dk (Expire sid fb) = expire_sandbox dk sid fb"
| "svc_run fuel c dk (Pending_Timeout sid) = remove_pending_sandbox sid"
| "svc_run fuel c dk (Delete sid) = delete_sandbox dk sid"
| "svc_run fuel c dk (Pause sid) = pause_sandbox dk sid"
| "svc_run fuel c dk (Resume sid) = resume_sandbox dk sid"
| "svc_run fuel c dk (Renew sid t) = bindS (renew_expiration dk sid t) (\<lambda>_. retS ())"
| "svc_run fuel c dk (Touch sid) = touch_last_activity dk sid"
| "svc_run fuel c dk (Get_One sid) = bindS (get_sandbox dk sid) (\<lambda>_. retS ())"
| "svc_run fuel c dk (List_All r) = bindS (list_sandboxes dk r) (\<lambda>_. retS ())"

definition init_service :: "'w \<Rightarrow> 'w service" where
  "init_service w = \<lparr>ref_counts = [], world = w, sandbox_expirations = [], expiration_timers = [],
     pending_sandboxes = [], pending_cleanup_timers = [], execd_archive_cache = None\<rparr>"

inductive svc_reachable :: "nat \<Rightarrow> app_config \<Rightarrow> 'w docker_api \<Rightarrow> 'w service \<Rightarrow> bool"
  for fuel c dk where
  start: "svc_reachable fuel c dk (snd (restore_existing_sandboxes dk (init_service w)))"
| call: "svc_reachable fuel c dk s \<Longrightarrow> svc_reachable fuel c dk (snd (svc_run fuel c dk op s))"
| outside: "svc_reachable fuel c dk s \<Longrightarrow> svc_reachable fuel c dk (s\<lparr>world := w\<rparr>)"

lemma keeps_list_containers [keeps_intros]: "worldly P \<Longrightarrow> keeps P (list_containers dk flt cts by_id seen)"
proof (induction cts arbitrary: by_id seen)
  case Nil
  then show ?case by (simp add: keeps_retS)
next
  case (Cons ct cts)
  show ?case unfolding list_containers.simps by (intro keeps_intros Cons.IH Cons.prems)
qed

lemma keeps_svc_run: "keeps tracking_ok (svc_run fuel c dk op)"
proof (cases op)
  case (Create r)
  then show ?thesis
    unfolding Create svc_run.simps create_sandbox_def
    by (intro keeps_intros tracking_rules keeps_provision_sandbox)
next
  case (Create_Async r)
  then show ?thesis
    unfolding Create_Async svc_run.simps create_sandbox_async_def
    by (intro keeps_intros tracking_rules keeps_modifyS) (simp add: tracking_ok_def)
next
  case (Worker sid r t e cache)
  then show ?thesis
    unfolding Worker svc_run.simps async_provision_worker_def mark_pending_failed_def
      cleanup_failed_containers_def cleanup_failed_container_def schedule_pending_cleanup_def
      remove_pending_sandbox_def
    by (intro keeps_intros tracking_rules keeps_provision_sandbox keeps_modifyS) (simp_all add: tracking_ok_def)
next
  case (Pending_Timeout sid)
  then show ?thesis
    unfolding Pending_Timeout svc_run.simps remove_pending_sandbox_def
    by (intro keeps_modifyS) (simp add: tracking_ok_def)
next
  case (Pause sid)
  then show ?thesis unfolding Pause svc_run.simps pause_sandbox_def by (intro keeps_intros tracking_rules)
next
  case (Resume sid)
  then show ?thesis unfolding Resume svc_run.simps resume_sandbox_def by (intro keeps_intros tracking_rules)
next
  case (Touch sid)
  then show ?thesis unfolding Touch svc_run.simps touch_last_activity_def by (intro keeps_intros tracking_rules)
next
  case (Get_One sid)
  then show ?thesis unfolding Get_One svc_run.simps get_sandbox_def by (intro keeps_intros tracking_rules)
next
  case (List_All r)
  then show ?thesis unfolding List_All svc_run.simps list_sandboxes_def by (intro keeps_intros tracking_rules)
qed (simp_all add: keeps_expire_sandbox keeps_delete keeps_bindS keeps_renew keeps_retS)

text \<open>
  C9. In every state the service can reach, through restarts, requests, timers, workers and changes of
  the outside world, each sandbox whose expiration is tracked has an entry in the timer table, and only
  one: no operation drops or doubles the timer of a sandbox it still promises to expire.
\<close>

theorem tracked_sandboxes_have_timers:
  assumes "svc_reachable fuel c dk s" and "map_of (sandbox_expirations s) sid = Some t"
  shows "\<exists>timer. map_of (expiration_timers s) sid = Some timer \<and> distinct (map fst (expiration_timers s))"
proof -
  have "tracking_ok s"
    using assms(1)
  proof (induction rule: svc_reachable.induct)
    case (start w)
    have "tracking_ok (init_service w)" by (simp add: tracking_ok_def init_service_def dict_ok_def)
    with keeps_restore [of dk] show ?case by (auto simp: keeps_def)
  next
    case (call s op)
    with keeps_svc_run [of fuel c dk op] show ?case by (auto simp: keeps_def)
  next
    case (outside s w)
    then show ?case by (simp add: tracking_ok_def)
  qed
  with assms(2) have "map_of (expiration_timers s) sid \<noteq> None" "distinct (map fst (expiration_timers s))"
    unfolding tracking_ok_def dict_ok_def by blast+
  then show ?thesis by blast
qed

definition live_service :: "sim service" where
  "live_service = snd (restore_existing_sandboxes sim_docker (init_service (live_world 7)))"

lemma live_service_tracks: "map_of (sandbox_expirations live_service) ''s1'' = Some 100"
  by code_simp

theorem tracked_sandboxes_have_timers_witness:
  "\<exists>timer. map_of (expiration_timers live_service) ''s1'' = Some timer
     \<and> distinct (map fst (expiration_timers live_service))"
  by (rule tracked_sandboxes_have_timers [OF _ live_service_tracks, where fuel = 1 and c = sample_config and dk = sim_docker])
     (simp add: live_service_def svc_reachable.start)

section \<open>Delete, renew, expire\<close>

lemma finallyS_snd: "snd (finallyS m f s) = snd (f (snd (m s)))"
  by (auto simp: finallyS_def split: prod.splits sum.splits)

lemma bindS_Inr: "m s = (Inr x, s') \<Longrightarrow> bindS m k s = k x s'"
  by (simp add: bindS_def)

lemma bindS_Inl: "m s = (Inl e, s') \<Longrightarrow> bindS m k s = (Inl e, s')"
  by (simp add: bindS_def)

text \<open>The clean-up in the \<open>finally\<close> of \<open>delete_sandbox\<close> begins by forgetting the sandbox.\<close>

lemma untracked_after_removal:
  assumes "\<And>x. keeps (untracked sid) (k x)"
  shows "untracked sid (snd (bindS (remove_expiration_tracking sid) k s))"
proof -
  obtain s' where s': "remove_expiration_tracking sid s = (ok, s')"
    by (simp add: remove_expiration_tracking_def modifyS_def)
  then have "untracked sid s'" using remove_tracking_untracked [of sid s] by simp
  with assms s' show ?thesis by (simp add: bindS_Inr keeps_def)
qed

text \<open>
  Deleting a sandbox ends its expiration tracking in every case: once its container has been
  found, whether the daemon kills and removes it or fails, no expiration and no timer is left for it.
\<close>

theorem delete_clears_tracking:
  assumes "get_container_by_sandbox_id dk sid s = (Inr ct, s1)"
  shows "untracked sid (snd (delete_sandbox dk sid s))"
proof -
  have "snd (delete_sandbox dk sid s) =
      snd (finallyS (docker_to (HTTPException 500 SANDBOX_DELETE_FAILED) (kill_and_remove dk ct))
        (bindS (remove_expiration_tracking sid) (\<lambda>_.
         bindS (cleanup_egress_sidecar dk sid) (\<lambda>_.
         bindS (liftR (iterate_mount_keys (ct_labels ct))) (release_ossfs_mounts dk)))) s1)"
    using assms by (simp add: delete_sandbox_def bindS_def)
  then show ?thesis
    by (simp only: finallyS_snd) (intro untracked_after_removal keeps_intros outer_tracking)
qed

theorem delete_clears_tracking_witness:
  "untracked ''s1'' (snd (delete_sandbox sim_docker ''s1'' live_service))"
  by (rule delete_clears_tracking [where ct = live_container, OF run_fst]) code_simp

definition refusing :: "sim docker_api" where
  "refusing = sim_docker\<lparr>dk_kill := \<lambda>cid w. (Inl (DockerException ''permission denied''), w)\<rparr>"

definition shared_mount_state :: "sim service" where
  "shared_mount_state =
     (sim_service [blank_container ''a'' [(SANDBOX_ID_LABEL, ''a''), (SANDBOX_OSSFS_MOUNTS_LABEL, json_dumps_list [''/mnt/ossfs/bkt''])],
                   blank_container ''b'' [(SANDBOX_ID_LABEL, ''b''), (SANDBOX_OSSFS_MOUNTS_LABEL, json_dumps_list [''/mnt/ossfs/bkt''])]]
        [''/mnt/ossfs/bkt''] 0)\<lparr>ref_counts := [(''/mnt/ossfs/bkt'', 2)]\<rparr>"

text \<open>
  A failed delete has given everything up already: the daemon's refusal is reported, the
  container is still there, but its mounts have been released and it will not expire any more. Since
  the label is still on the container, the next delete releases the same references again, so two
  failed deletes of one sandbox take away the mount another sandbox relies on.
\<close>

theorem failed_deletes_release_twice:
  "fst (delete_sandbox refusing ''a'' shared_mount_state) = Inl (HTTPException 500 SANDBOX_DELETE_FAILED) \<and>
   (let s1 = snd (delete_sandbox refusing ''a'' shared_mount_state);
        s2 = snd (delete_sandbox refusing ''a'' s1)
    in sim_containers (world s2) = sim_containers (world shared_mount_state) \<and>
       ref_count s1 ''/mnt/ossfs/bkt'' = 1 \<and> ref_count s2 ''/mnt/ossfs/bkt'' = 0 \<and>
       sim_mounts (world s1) = [''/mnt/ossfs/bkt''] \<and> sim_mounts (world s2) = [])"
  by code_simp

text \<open>
  \<open>queries m\<close>: a run of \<open>m\<close>, returning or raising, changes nothing of the service's own state.
\<close>

definition queries :: "('w service, 'a) io \<Rightarrow> bool" where
  "queries m \<longleftrightarrow> (\<forall>s. \<exists>w. snd (m s) = s\<lparr>world := w\<rparr>)"

named_theorems query_intros

lemma queriesD: "queries m \<Longrightarrow> m s = (r, s') \<Longrightarrow> \<exists>w. s' = s\<lparr>world := w\<rparr>"
  unfolding queries_def by (metis snd_conv)

lemma same_world: "\<exists>w. s = s\<lparr>world := w\<rparr>" for s :: "'w service"
  by (rule exI [of _ "world s"]) simp

lemma queries_basic [query_intros]:
  "queries (retS x)" "queries (raiseS e)" "queries (liftR r)" "queries (getS f)" "queries (inW m)"
  by (auto simp: queries_def retS_def raiseS_def liftR_def getS_def inW_def same_world split: prod.splits)

lemma queries_bindS [query_intros]:
  assumes "queries m" and "\<And>x. queries (k x)"
  shows "queries (bindS m k)"
  unfolding queries_def
proof
  fix s
  obtain r s1 where m: "m s = (r, s1)" by (cases "m s")
  then obtain w where w: "s1 = s\<lparr>world := w\<rparr>" using queriesD [OF assms(1)] by blast
  show "\<exists>w. snd (bindS m k s) = s\<lparr>world := w\<rparr>"
  proof (cases r)
    case (Inl e)
    with m w show ?thesis by (auto simp: bindS_def)
  next
    case (Inr x)
    obtain v where "snd (k x s1) = s1\<lparr>world := v\<rparr>" using assms(2) [of x] unfolding queries_def by blast
    with m w Inr show ?thesis by (auto simp: bindS_def)
  qed
qed

lemma queries_catchS [query_intros]:
  assumes "queries m" and "\<And>e. queries (h e)"
  shows "queries (catchS m h)"
  unfolding queries_def
proof
  fix s
  obtain r s1 where m: "m s = (r, s1)" by (cases "m s")
  then obtain w where w: "s1 = s\<lparr>world := w\<rparr>" using queriesD [OF assms(1)] by blast
  show "\<exists>w. snd (catchS m h s) = s\<lparr>world := w\<rparr>"
  proof (cases r)
    case (Inl e)
    obtain v where "snd (h e s1) = s1\<lparr>world := v\<rparr>" using assms(2) [of e] unfolding queries_def by blast
    with m w Inl show ?thesis by (auto simp: catchS_def)
  next
    case (Inr x)
    with m w show ?thesis by (auto simp: catchS_def)
  qed
qed

lemma queries_cases [query_intros]:
  "queries a \<Longrightarrow> queries b \<Longrightarrow> queries (if c then a else b)"
  "queries a \<Longrightarrow> (\<And>x. queries (f x)) \<Longrightarrow> queries (case v of None \<Rightarrow> a | Some x \<Rightarrow> f x)"
  "queries a \<Longrightarrow> (\<And>x xs. queries (g x xs)) \<Longrightarrow> queries (case l of [] \<Rightarrow> a | x # xs \<Rightarrow> g x xs)"
  "(\<And>x. queries (f x)) \<Longrightarrow> queries (let x = y in f x)"
  by (auto split: option.splits list.splits)

lemma queries_calls [query_intros]:
  "queries (get_container_by_sandbox_id dk sid)" "queries (parse_ts dk ts)"
  "queries (get_tracked_expiration dk sid labels)" "queries (update_container_labels dk ct labels)"
  "queries (still_valid dk sid)"
  unfolding get_container_by_sandbox_id_def docker_to_def parse_ts_def get_tracked_expiration_def
    update_container_labels_def still_valid_def
  by (intro query_intros)+

lemmas get_container_world = queriesD [OF queries_calls(1)]
lemmas get_tracked_world = queriesD [OF queries_calls(3)]
lemmas update_labels_world = queriesD [OF queries_calls(4)]

lemma inW_eq: "inW m s = (r, s') \<longleftrightarrow> (\<exists>w. m (world s) = (r, w) \<and> s' = s\<lparr>world := w\<rparr>)"
  by (auto simp: inW_def split: prod.splits)

lemma apply_renewal_Inr:
  assumes "apply_renewal dk sid ct t0 s = (Inr t, s')"
  obtains w now w' w5 where "t = t0" "dk_now dk w = (Inr now, w')"
    "s' = s\<lparr>world := w5, sandbox_expirations := AList.update sid t (sandbox_expirations s),
            expiration_timers := AList.update sid \<lparr>timer_delay = max 0 (t - now), timer_fallback = None\<rparr>
              (AList.delete sid (expiration_timers s))\<rparr>"
proof -
  obtain s1 s2 r where s: "schedule_expiration dk sid t0 True None s = (ok, s1)"
      "update_container_labels dk ct
        (AList.update SANDBOX_EXPIRES_AT_LABEL (dk_isoformat dk t0) (ct_labels ct)) s1 = (r, s')" "t = t0"
    using assms unfolding apply_renewal_def
    by (auto elim!: bindS_InrE simp: catchS_def retS_def raiseS_def split: prod.splits sum.splits if_splits)
  obtain now w1 where n: "dk_now dk (world s) = (Inr now, w1)"
      "s1 = s\<lparr>world := w1, sandbox_expirations := AList.update sid t (sandbox_expirations s),
            expiration_timers := AList.update sid \<lparr>timer_delay = max 0 (t - now), timer_fallback = None\<rparr>
              (AList.delete sid (expiration_timers s))\<rparr>"
    using s(1,3) by (auto simp: schedule_expiration_def modifyS_def inW_eq elim!: bindS_InrE)
  obtain w5 where "s' = s1\<lparr>world := w5\<rparr>" using update_labels_world [OF s(2)] by blast
  with n s(3) show ?thesis by (intro that [of "world s" now w1 w5]) simp_all
qed

text \<open>A successful renewal, step by step.\<close>

lemma renew_expiration_Inr:
  assumes "renew_expiration dk sid req s = (Inr t, s')"
  obtains now w1 w2 w3 now2 w4 w5 where
    "dk_now dk w1 = (Inr now, w2)" "ensure_future_expiration now req = Inr t"
    "dk_now dk w3 = (Inr now2, w4)"
    "s' = s\<lparr>world := w5, sandbox_expirations := AList.update sid t (sandbox_expirations s),
            expiration_timers := AList.update sid \<lparr>timer_delay = max 0 (t - now2), timer_fallback = None\<rparr>
              (AList.delete sid (expiration_timers s))\<rparr>"
proof -
  obtain ct s1 now s2 tr s3 t0 where st: "get_container_by_sandbox_id dk sid s = (Inr ct, s1)"
      "inW (dk_now dk) s1 = (Inr now, s2)" "ensure_future_expiration now req = Inr t0"
      "get_tracked_expiration dk sid (ct_labels ct) s2 = (Inr tr, s3)"
      "apply_renewal dk sid ct t0 s3 = (Inr t, s')"
    using assms unfolding renew_expiration_def
    by (auto elim!: bindS_InrE simp: liftR_def raiseS_def split: if_splits)
  obtain u1 u2 u3 where w: "s1 = s\<lparr>world := u1\<rparr>" "s2 = s1\<lparr>world := u2\<rparr>" "s3 = s2\<lparr>world := u3\<rparr>"
      "dk_now dk (world s1) = (Inr now, u2)"
    using get_container_world [OF st(1)] get_tracked_world [OF st(4)] st(2) by (auto simp: inW_eq)
  obtain w3 now2 w4 w5 where a: "t = t0" "dk_now dk w3 = (Inr now2, w4)"
    "s' = s3\<lparr>world := w5, sandbox_expirations := AList.update sid t (sandbox_expirations s3),
            expiration_timers := AList.update sid \<lparr>timer_delay = max 0 (t - now2), timer_fallback = None\<rparr>
              (AList.delete sid (expiration_timers s3))\<rparr>"
    by (rule apply_renewal_Inr [OF st(5)])
  show ?thesis
    by (rule that [OF w(4) _ a(2), of w5]) (use a st(3) w in simp_all)
qed

text \<open>
  C12. A renewal that succeeds sets the new expiration, which was in the future when it was checked, and
  replaces the timer; no other sandbox's expiration or timer changes.
\<close>

theorem renew_expiration_tracks:
  assumes "renew_expiration dk sid req s = (Inr t, s')"
  shows "map_of (sandbox_expirations s') = (map_of (sandbox_expirations s))(sid \<mapsto> t)
     \<and> (\<exists>w now w'. dk_now dk w = (Inr now, w') \<and> now < t)
     \<and> (\<exists>w now w'. dk_now dk w = (Inr now, w') \<and> map_of (expiration_timers s') =
          (map_of (expiration_timers s))(sid \<mapsto> \<lparr>timer_delay = max 0 (t - now), timer_fallback = None\<rparr>))"
proof (rule renew_expiration_Inr [OF assms])
  fix now w1 w2 w3 now2 w4 w5
  assume d: "dk_now dk w1 = (Inr now, w2)" "ensure_future_expiration now req = Inr t"
    "dk_now dk w3 = (Inr now2, w4)"
    "s' = s\<lparr>world := w5, sandbox_expirations := AList.update sid t (sandbox_expirations s),
            expiration_timers := AList.update sid \<lparr>timer_delay = max 0 (t - now2), timer_fallback = None\<rparr>
              (AList.delete sid (expiration_timers s))\<rparr>"
  have "now < t" using d(2) by (auto simp: ensure_future_expiration_def bindR_eq_Inr raise_if_Inr)
  then have "\<exists>w now w'. dk_now dk w = (Inr now, w') \<and> now < t" using d(1) by blast
  moreover have "map_of (expiration_timers s') =
      (map_of (expiration_timers s))(sid \<mapsto> \<lparr>timer_delay = max 0 (t - now2), timer_fallback = None\<rparr>)"
    using d(4) by simp
  moreover have "map_of (sandbox_expirations s') = (map_of (sandbox_expirations s))(sid \<mapsto> t)"
    using d(4) by simp
  ultimately show ?thesis using d(3) by blast
qed

definition renewed_service :: "sim service" where
  "renewed_service = snd (renew_expiration sim_docker ''s1'' (Aware 500 0) live_service)"

theorem renew_expiration_tracks_witness:
  "map_of (sandbox_expirations renewed_service) = (map_of (sandbox_expirations live_service))(''s1'' \<mapsto> 500)
     \<and> (\<exists>w now w'. dk_now sim_docker w = (Inr now, w') \<and> now < 500)
     \<and> (\<exists>w now w'. dk_now sim_docker w = (Inr now, w') \<and> map_of (expiration_timers renewed_service) =
          (map_of (expiration_timers live_service))(''s1'' \<mapsto> \<lparr>timer_delay = max 0 (500 - now), timer_fallback = None\<rparr>))"
proof (rule renew_expiration_tracks)
  have "fst (renew_expiration sim_docker ''s1'' (Aware 500 0) live_service) = Inr 500" by code_simp
  then show "renew_expiration sim_docker ''s1'' (Aware 500 0) live_service = (Inr 500, renewed_service)"
    unfolding renewed_service_def by (rule run_fst)
qed

text \<open>
  C11. A timer that fires after a renewal does nothing: if the sandbox's tracked expiration is later than
  the clock, \<open>_expire_sandbox\<close> only looks the container up and reads the clock; neither the container nor
  the tracking nor the mounts are touched.
\<close>

theorem expire_after_renew_is_noop:
  assumes "map_of (sandbox_expirations s) sid = Some t"
    and "dk_list dk (Label_Is SANDBOX_ID_LABEL sid) (world s) = (Inr (ct # cts), w1)"
    and "dk_now dk w1 = (Inr now, w2)" and "now < t"
  shows "expire_sandbox dk sid fallback s = (ok, s\<lparr>world := w2\<rparr>)"
proof -
  have "get_container_by_sandbox_id dk sid s = (Inr ct, s\<lparr>world := w1\<rparr>)"
    using assms(2) by (simp add: get_container_by_sandbox_id_def docker_to_def bindS_def catchS_def inW_def retS_def)
  moreover have "still_valid dk sid (s\<lparr>world := w1\<rparr>) = (Inr True, s\<lparr>world := w2\<rparr>)"
    using assms by (simp add: still_valid_def bindS_def getS_def inW_def retS_def)
  ultimately show ?thesis
    by (simp add: expire_sandbox_def bindS_def catchS_def retS_def)
qed

theorem expire_after_renew_is_noop_witness:
  "expire_sandbox sim_docker ''s1'' None live_service = (ok, live_service\<lparr>world := live_world 7\<rparr>)"
proof (rule expire_after_renew_is_noop [OF live_service_tracks])
  show "dk_list sim_docker (Label_Is SANDBOX_ID_LABEL ''s1'') (world live_service) = (Inr [live_container], live_world 7)"
    by code_simp
  show "dk_now sim_docker (live_world 7) = (Inr 7, live_world 7)" by code_simp
qed simp

lemma terminate_untracks:
  assumes "terminate_expired dk sid ct s = (Inr u, s')"
  shows "untracked sid s'"
proof -
  obtain s1 where "(bindS (remove_expiration_tracking sid) (\<lambda>_.
     bindS (cleanup_egress_sidecar dk sid) (\<lambda>_. release_ossfs_mounts dk (parse_mount_keys (ct_labels ct))))) s1 = (Inr u, s')"
    using assms unfolding terminate_expired_def
    by (elim bindS_InrE [where k = "\<lambda>_. bindS (log_docker m) k" for m k]
        bindS_InrE [where m = "log_docker m" for m]) (rule that)
  moreover have "untracked sid (snd (bindS (remove_expiration_tracking sid) (\<lambda>_.
     bindS (cleanup_egress_sidecar dk sid) (\<lambda>_. release_ossfs_mounts dk (parse_mount_keys (ct_labels ct)))) s1))"
    by (intro untracked_after_removal keeps_intros outer_tracking)
  ultimately show ?thesis by simp
qed

lemma retry_keeps_timer:
  assumes "retry_expiration dk sid fb s = (Inr u, s')" and "map_of (sandbox_expirations s) sid = Some t"
    and "tracking_ok s"
  shows "map_of (sandbox_expirations s') sid = Some t \<and> map_of (expiration_timers s') sid \<noteq> None"
proof -
  obtain now s1 where n: "inW (dk_now dk) s = (Inr now, s1)"
      "(if t > now then retS () else schedule_expiration dk sid (now + 30000000) False fb) s1 = (Inr u, s')"
    using assms(1,2) unfolding retry_expiration_def by (auto elim!: bindS_InrE simp: getS_def)
  have s1: "sandbox_expirations s1 = sandbox_expirations s" "tracking_ok s1"
    using n(1) assms(3) by (auto simp: inW_eq tracking_ok_def)
  show ?thesis
  proof (cases "t > now")
    case True
    with n(2) s1 assms(2) show ?thesis unfolding tracking_ok_def by (auto simp: retS_def)
  next
    case False
    with n(2) s1 assms(2) show ?thesis
      by (auto simp: schedule_expiration_def modifyS_def inW_eq elim!: bindS_InrE)
  qed
qed

lemma expire_found:
  assumes "tracking_ok s1" and "map_of (sandbox_expirations s1) sid = Some t"
    and "get_container_by_sandbox_id dk sid s = (Inr ct, s1)" and "expire_sandbox dk sid fallback s = (ok, s')"
  shows "untracked sid s' \<or>
     (map_of (sandbox_expirations s') sid = Some t \<and> map_of (expiration_timers s') sid \<noteq> None)"
proof -
  obtain v s2 where v: "still_valid dk sid s1 = (Inr v, s2)"
      "(if v then retS () else terminate_expired dk sid ct) s2 = (ok, s')"
    using assms(3,4) unfolding expire_sandbox_def
    by (auto elim!: bindS_InrE simp: catchS_def retS_def bindS_Inr)
  obtain w where w: "s2 = s1\<lparr>world := w\<rparr>" using queriesD [OF queries_calls(5) v(1)] by blast
  show ?thesis
  proof (cases v)
    case True
    with v(2) have "s' = s2" by (simp add: retS_def)
    with w assms(1,2) show ?thesis unfolding tracking_ok_def by simp
  next
    case False
    with v(2) have "untracked sid s'" by (simp add: terminate_untracks)
    then show ?thesis ..
  qed
qed

lemma expire_not_found:
  assumes "tracking_ok s1" and "map_of (sandbox_expirations s1) sid = Some t"
    and "get_container_by_sandbox_id dk sid s = (Inl e, s1)" and "expire_sandbox dk sid fallback s = (ok, s')"
  shows "untracked sid s' \<or>
     (map_of (sandbox_expirations s') sid = Some t \<and> map_of (expiration_timers s') sid \<noteq> None)"
proof -
  let ?forget = "bindS (remove_expiration_tracking sid) (\<lambda>_.
      whenS (fallback \<noteq> None \<and> fallback \<noteq> Some []) (release_ossfs_mounts dk (the fallback)))"
  obtain st d where e: "e = HTTPException st d"
    using assms(3,4) unfolding expire_sandbox_def
    by (cases e) (auto elim!: bindS_InrE simp: catchS_def raiseS_def bindS_def)
  have h: "(if st = 404 then ?forget else retry_expiration dk sid fallback) s1 = (ok, s')"
    using assms(3,4) e unfolding expire_sandbox_def
    by (auto elim!: bindS_InrE simp: catchS_def retS_def bindS_Inl [where k = "\<lambda>ct. retS (Some ct)"] bindS_def
        split: prod.splits sum.splits)
  show ?thesis
  proof (cases "st = 404")
    case True
    have "untracked sid (snd (?forget s1))" by (intro untracked_after_removal keeps_intros outer_tracking)
    with h True show ?thesis by simp
  next
    case False
    with h retry_keeps_timer [OF _ assms(2,1)] show ?thesis by simp
  qed
qed


definition expired_service :: "sim service" where
  "expired_service = snd (expire_sandbox sim_docker ''s1'' None (live_service\<lparr>world := live_world 100\<rparr>))"

lemma live_service_ok: "tracking_ok live_service"
proof -
  have "tracking_ok (init_service (live_world 7))" by (simp add: tracking_ok_def init_service_def dict_ok_def)
  then show ?thesis unfolding live_service_def by (rule keepsD [OF keeps_restore])
qed


section \<open>Restart\<close>

definition refs_of :: "(string, nat) dict \<Rightarrow> string \<Rightarrow> nat" where
  "refs_of d k = (case map_of d k of None \<Rightarrow> 0 | Some n \<Rightarrow> n)"

definition sandbox_container :: "container \<Rightarrow> bool" where
  "sandbox_container ct \<longleftrightarrow> \<not> given (map_of (ct_labels ct) EGRESS_SIDECAR_LABEL)
     \<and> given (map_of (ct_labels ct) SANDBOX_ID_LABEL)"

lemma add_refs_count: "refs_of (add_refs ks d) k = refs_of d k + count_list ks k"
  by (induction ks arbitrary: d) (auto simp: refs_of_def)

text \<open>The label written when a sandbox is provisioned reads back as the same keys.\<close>

lemma parse_mount_keys_written:
  assumes "mounts_label labels = json_dumps_list ks" and "[] \<notin> set ks"
  shows "parse_mount_keys labels = ks" and "iterate_mount_keys labels = Inr ks"
proof -
  have "filter (\<lambda>k. k \<noteq> []) ks = ks" using assms(2) by (intro filter_True) auto
  then show "parse_mount_keys labels = ks" "iterate_mount_keys labels = Inr ks"
    using assms(1) by (simp_all add: parse_mount_keys_def iterate_mount_keys_def json_loads_dumps_list o_def)
qed

lemma restore_pass1_refs:
  "restore_pass1 dk now cts sc refs ex s = (Inr (sc', refs', ex'), s') \<Longrightarrow>
   refs_of refs' k = refs_of refs k +
     (\<Sum>ct\<leftarrow>filter sandbox_container cts. count_list (parse_mount_keys (ct_labels ct)) k)"
proof (induction cts arbitrary: sc refs ex s)
  case Nil
  then show ?case by (simp add: retS_def)
next
  case (Cons ct cts)
  show ?case
  proof (cases "sandbox_container ct")
    case True
    then obtain sc1 ex1 s1 where
      "restore_pass1 dk now cts sc1 (add_refs (parse_mount_keys (ct_labels ct)) refs) ex1 s1 = (Inr (sc', refs', ex'), s')"
      using Cons.prems
      by (auto simp: sandbox_container_def Let_def elim!: bindS_InrE split: if_splits)
    from Cons.IH [OF this] True show ?thesis by (simp add: add_refs_count)
  next
    case False
    then obtain sc1 where "restore_pass1 dk now cts sc1 refs ex s = (Inr (sc', refs', ex'), s')"
      using Cons.prems by (auto simp: sandbox_container_def Let_def split: if_splits)
    from Cons.IH [OF this] False show ?thesis by simp
  qed
qed

text \<open>
  C13. A restart recovers the reference counts exactly: when every sandbox container carries the label
  its provisioning wrote, the counts collected in the first pass, before anything is expired, are for
  each mount the number of sandbox containers that use it.
\<close>

theorem restore_recovers_counts:
  assumes "restore_pass1 dk now cts [] [] [] s = (Inr (sidecars, refs, expired), s')"
    and "\<And>ct. ct \<in> set cts \<Longrightarrow> sandbox_container ct \<Longrightarrow>
           mounts_label (ct_labels ct) = json_dumps_list (f ct) \<and> [] \<notin> set (f ct) \<and> distinct (f ct)"
  shows "refs_of refs k = length (filter (\<lambda>ct. sandbox_container ct \<and> k \<in> set (f ct)) cts)"
proof -
  have "refs_of refs k = (\<Sum>ct\<leftarrow>filter sandbox_container cts. count_list (parse_mount_keys (ct_labels ct)) k)"
    using restore_pass1_refs [OF assms(1), of k] by (simp add: refs_of_def)
  also have "\<dots> = (\<Sum>ct\<leftarrow>filter sandbox_container cts. of_bool (k \<in> set (f ct)))"
    using assms(2)
    by (intro arg_cong [where f = sum_list] map_cong)
       (auto simp: parse_mount_keys_written(1) count_list_distinct)
  also have "\<dots> = length (filter (\<lambda>ct. sandbox_container ct \<and> k \<in> set (f ct)) cts)"
    by (induction cts) auto
  finally show ?thesis .
qed

theorem restore_recovers_counts_witness:
  "refs_of [(''/mnt/ossfs/bkt'', 1)] ''/mnt/ossfs/bkt'' =
     length (filter (\<lambda>ct. sandbox_container ct \<and> ''/mnt/ossfs/bkt'' \<in> set [''/mnt/ossfs/bkt'']) [live_container])"
proof (rule restore_recovers_counts)
  let ?run = "restore_pass1 sim_docker 7 [live_container] [] [] [] (init_service (live_world 7))"
  show "?run = (Inr ([], [(''/mnt/ossfs/bkt'', 1)], []), snd ?run)"
    by (rule run_fst) code_simp
  show "mounts_label (ct_labels ct) = json_dumps_list [''/mnt/ossfs/bkt''] \<and> [] \<notin> set [''/mnt/ossfs/bkt'']
      \<and> distinct [''/mnt/ossfs/bkt'']" if "ct \<in> set [live_container]" for ct
    using that by (simp add: live_container_def blank_container_def mounts_label_def label_defs)
qed

section \<open>Bind mounts\<close>

lemma validate_backends_host:
  "validate_backends c dk allowed vs cache s = (Inr cache', s') \<Longrightarrow> v \<in> set vs \<Longrightarrow> host_path v = Some p \<Longrightarrow>
   allowed \<noteq> None \<Longrightarrow> host_bind_path p v \<noteq> p \<Longrightarrow> ensure_valid_host_path (host_bind_path p v) allowed = ok"
proof (induction vs arbitrary: cache s)
  case Nil
  then show ?case by simp
next
  case (Cons u vs)
  show ?case
  proof (cases "u = v")
    case True
    have h: "(bindS (validate_host_volume dk v allowed) (\<lambda>_. validate_backends c dk allowed vs cache)) s = (Inr cache', s')"
      using Cons.prems(1,3) True by simp
    obtain s1 where "validate_host_volume dk v allowed s = (ok, s1)" by (rule bindS_InrE [OF h]) auto
    then show ?thesis
      using Cons.prems(3-5)
      by (auto simp: validate_host_volume_def Let_def liftR_def elim!: bindS_InrE)
  next
    case False
    then obtain cache1 s1 where "validate_backends c dk allowed vs cache1 s1 = (Inr cache', s')"
      using Cons.prems(1) by (auto elim!: bindS_InrE split: if_splits)
    then show ?thesis using Cons False by auto
  qed
qed

lemma host_prefix_allows_below: "host_prefix_allows p pre \<Longrightarrow> path_below (path_norm pre) (path_norm p)"
  unfolding host_prefix_allows_def path_below_def starts_with_prefix
  by (auto dest: append_prefixD)

text \<open>
  C14. With an allow-list of host paths, what is bound into a container from a host volume lies below one
  of the allowed prefixes, also after the sub-path has been appended and the result normalised.
\<close>

theorem host_binds_stay_below_allowlist:
  assumes "validate_volumes c dk r s = (Inr cache, s')" and "req_volumes r = Some vs" and "v \<in> set vs"
    and "host_path v = Some p" and "allowed_host_paths (cfg_storage c) \<noteq> []"
  shows "\<exists>q. volume_bind mroot cache v = Inr [bind_spec q v] \<and> norm_abs (path_norm q) \<and>
           (\<exists>pre \<in> set (allowed_host_paths (cfg_storage c)). path_below (path_norm pre) (path_norm q))"
proof -
  let ?ps = "allowed_host_paths (cfg_storage c)"
  have al: "allowed_prefixes_of c = Some ?ps" using assms(5) by (auto simp: allowed_prefixes_of_def split: list.splits)
  obtain s1 where v: "ensure_volumes_valid (Some vs) (Some ?ps) = ok"
      "validate_backends c dk (Some ?ps) vs [] s1 = (Inr cache, s')"
    using assms(1-3) al by (cases "vs = []") (auto simp: validate_volumes_def liftR_def elim!: bindS_InrE)
  have "list_all (volume_valid (Some ?ps)) vs"
    using v(1) by (auto simp: ensure_volumes_valid_def ensure_volumes_loop_iff split: if_splits)
  then have 1: "ensure_valid_host_path p (Some ?ps) = ok"
    using assms(3,4) by (auto simp: list_all_iff volume_valid_def)
  define q where "q = host_bind_path p v"
  have q: "ensure_valid_host_path q (Some ?ps) = ok"
    using 1 validate_backends_host [OF v(2) assms(3,4)] by (cases "q = p") (auto simp: q_def)
  then obtain pre where "pre \<in> set ?ps" "host_prefix_allows q pre"
    using ensure_valid_host_path_Inr(4) [OF q] by blast
  then have "\<exists>pre \<in> set ?ps. path_below (path_norm pre) (path_norm q)" using host_prefix_allows_below by blast
  moreover have "volume_bind mroot cache v = Inr [bind_spec q v]" using assms(4) by (simp add: volume_bind_def q_def)
  ultimately show ?thesis using ensure_valid_host_path_norm [OF q] by blast
qed

definition host_volume :: volume where
  "host_volume = \<lparr>vol_name = ''data'', host_path = Some ''/data/team'', pvc_claim = None, ossfs_of = None,
     mount_path = ''/data'', read_only = True, sub_path = Some ''a/b''\<rparr>"

theorem host_binds_stay_below_allowlist_witness:
  "\<exists>q. volume_bind ''/mnt/ossfs'' [] host_volume = Inr [bind_spec q host_volume] \<and> norm_abs (path_norm q) \<and>
     (\<exists>pre \<in> set (allowed_host_paths (cfg_storage sample_config)). path_below (path_norm pre) (path_norm q))"
proof (rule host_binds_stay_below_allowlist [where vs = "[host_volume]" and r = "sample_request\<lparr>req_volumes := Some [host_volume]\<rparr>"])
  show "validate_volumes sample_config sim_docker (sample_request\<lparr>req_volumes := Some [host_volume]\<rparr>) (sim_service [] [] 7) =
      (Inr [], sim_service [] [] 7)" by code_simp
qed (simp_all add: host_volume_def sample_config_def)

section \<open>Ports\<close>

lemma distinct_port_differs: "distinct_port fuel dk e h s = (Inr h', s') \<Longrightarrow> h' \<noteq> e"
proof (induction fuel arbitrary: h s)
  case 0
  then show ?case by (simp add: distinct_port.simps retS_def raiseS_def split: if_splits)
next
  case (Suc n)
  show ?case
  proof (cases "h = e")
    case False
    with Suc.prems show ?thesis by (simp add: distinct_port.simps retS_def)
  next
    case True
    with Suc.prems obtain q s1 where "distinct_port n dk e q s1 = (Inr h', s')"
      by (subst (asm) distinct_port.simps) (auto simp: raiseS_def elim!: bindS_InrE split: option.splits)
    then show ?thesis by (rule Suc.IH)
  qed
qed

lemma distinct_ports_differ: "allocate_distinct_host_ports fuel dk s = (Inr (e, h), s') \<Longrightarrow> e \<noteq> h"
  unfolding allocate_distinct_host_ports_def
  by (elim bindS_InrE) (auto simp: raiseS_def retS_def elim!: bindS_InrE dest: distinct_port_differs split: option.splits)

end
