(* ===== verification/Docker_Creation.thy ===== *)
theory Docker_Creation
  imports Docker_Safety
begin

text \<open>
  What creating a sandbox guarantees: a failed creation gives its mounts back, every sandbox container
  is created hardened as configured, the two published ports differ, and the record of a background
  creation follows its worker.
\<close>

section \<open>Roll-back of a failed creation\<close>

text \<open>
  Named hypotheses on the host: commands end with an exit status, the clock can be read, and removing
  a container fails only with the exceptions of the Docker client.
\<close>

definition host_behaves :: "'w docker_api \<Rightarrow> bool" where
  "host_behaves dk \<longleftrightarrow> commands_end dk \<and> (\<forall>w. \<exists>t w'. dk_now dk w = (Inr t, w'))
     \<and> (\<forall>cid w e w'. dk_remove dk cid w = (Inl e, w') \<longrightarrow> is_docker_exn e)"

lemma worldly_refs: "worldly (\<lambda>s. ref_count s = v)" "cachely (\<lambda>s. ref_count s = v)"
  by (simp_all add: worldly_def cachely_def ref_count_def fun_eq_iff)

lemma undo_provision_counts:
  assumes "host_behaves dk" and "\<forall>k \<in> set keys. validate_mount_path k = ok"
    and "undo_provision dk keys sc e s = (r, s')"
  shows "r = Inl e" and "ref_count s' k = ref_count s k - count_list keys k"
proof -
  obtain s1 where s1: "(case sc of None \<Rightarrow> retS () | Some c \<Rightarrow> log_docker (inW (dk_remove dk (ct_id c)))) s = (ok, s1)"
      "ref_count s1 = ref_count s"
  proof (cases sc)
    case None
    then show ?thesis using that by (simp add: retS_def)
  next
    case (Some c)
    obtain r w where r: "dk_remove dk (ct_id c) (world s) = (r, w)" by (cases "dk_remove dk (ct_id c) (world s)")
    have "log_docker (inW (dk_remove dk (ct_id c))) s = (ok, s\<lparr>world := w\<rparr>)"
    proof (cases r)
      case (Inl e1)
      then have "is_docker_exn e1" using r assms(1) unfolding host_behaves_def by blast
      with r Inl show ?thesis by (simp add: log_docker_def catchS_def inW_def retS_def)
    next
      case (Inr u)
      with r show ?thesis by (simp add: log_docker_def catchS_def inW_def)
    qed
    with Some that show ?thesis by simp
  qed
  have ce: "commands_end dk" using assms(1) by (simp add: host_behaves_def)
  have "r = Inl e \<and> s' = snd (release_ossfs_mounts dk keys s1)"
    using assms(3) s1(1) release_ossfs_mounts_fold [OF ce, of keys s1]
    by (simp add: undo_provision_def bindS_def raiseS_def)
  then show "r = Inl e" and "ref_count s' k = ref_count s k - count_list keys k"
    using release_ossfs_mounts_count [OF ce assms(2), of s1 k] s1(2) by auto
qed

text \<open>A step of the provisioning under the undo handler: it keeps the counts, or they are undone.\<close>

lemma catch_undo:
  assumes "host_behaves dk" and "\<forall>k \<in> set keys. validate_mount_path k = ok"
    and "\<And>v. keeps (\<lambda>s. ref_count s = v) m" and "catchS m (undo_provision dk keys sc) s = (r, s')"
  shows "case r of Inl e \<Rightarrow> ref_count s' = (\<lambda>k. ref_count s k - count_list keys k)
         | Inr x \<Rightarrow> ref_count s' = ref_count s"
proof -
  obtain r1 s1 where m: "m s = (r1, s1)" by (cases "m s")
  have c: "ref_count s1 = ref_count s" using keepsD [OF assms(3), of s "ref_count s"] m by simp
  show ?thesis
  proof (cases r1)
    case (Inr x)
    with m assms(4) c show ?thesis by (auto simp: catchS_def)
  next
    case (Inl e)
    with m assms(4) have u: "undo_provision dk keys sc e s1 = (r, s')" by (simp add: catchS_def)
    from undo_provision_counts [OF assms(1,2) u] c show ?thesis by (auto simp: fun_eq_iff)
  qed
qed

lemma provision_parts_counts:
  assumes "host_behaves dk" and "\<forall>k \<in> set keys. validate_mount_path k = ok"
  shows "provision_plain fuel c dk sid r labels env uri binds keys s = (Inl e, s') \<Longrightarrow>
           ref_count s' = (\<lambda>k. ref_count s k - count_list keys k)"
    and "provision_with_policy fuel c dk sid r np labels env uri binds keys s = (Inl e, s') \<Longrightarrow>
           ref_count s' = (\<lambda>k. ref_count s k - count_list keys k)"
proof -
  assume p: "provision_plain fuel c dk sid r labels env uri binds keys s = (Inl e, s')"
  show "ref_count s' = (\<lambda>k. ref_count s k - count_list keys k)"
    using catch_undo [OF assms _ p [unfolded provision_plain_def Let_def]]
    by (fastforce intro!: keeps_intros worldly_refs)
next
  assume p: "provision_with_policy fuel c dk sid r np labels env uri binds keys s = (Inl e, s')"
  let ?first = "bindS (inW (dk_token dk)) (\<lambda>token.
        bindS (allocate_distinct_host_ports fuel dk) (\<lambda>ports.
        bindS (start_egress_sidecar c dk sid np token (fst ports) (snd ports)) (\<lambda>sidecar.
        retS (token, ports, sidecar))))"
  obtain r1 s1 where f: "catchS ?first (undo_provision dk keys None) s = (r1, s1)"
    by (cases "catchS ?first (undo_provision dk keys None) s")
  have f1: "case r1 of Inl e \<Rightarrow> ref_count s1 = (\<lambda>k. ref_count s k - count_list keys k)
         | Inr x \<Rightarrow> ref_count s1 = ref_count s"
    by (rule catch_undo [OF assms _ f]) (intro keeps_intros worldly_refs)
  show "ref_count s' = (\<lambda>k. ref_count s k - count_list keys k)"
  proof (cases r1)
    case (Inl e1)
    with f f1 p show ?thesis by (auto simp: provision_with_policy_def bindS_def)
  next
    case (Inr x)
    obtain token ports sidecar where x: "x = (token, ports, sidecar)" by (cases x)
    let ?second = "bindS (create_and_start_container c dk sid uri (req_entrypoint r)
      (port_labels (fst ports) (snd ports) (AList.update SANDBOX_EGRESS_AUTH_TOKEN_METADATA_KEY token labels)) env
      ((drop_net_admin (base_host_config c (fst (resolve_resource_limits dk r)) (snd (resolve_resource_limits dk r))
         (''container:'' @ ct_id sidecar)))\<lparr>hc_binds := binds\<rparr>) None) (\<lambda>_. retS ())"
    have "catchS ?second (undo_provision dk keys (Some sidecar)) s1 = (Inl e, s')"
      using p f Inr x by (simp add: provision_with_policy_def bindS_def Let_def)
    from catch_undo [OF assms _ this] f1 Inr show ?thesis
      by (fastforce intro!: keeps_intros worldly_refs)
  qed
qed

lemma launch_counts:
  assumes "host_behaves dk" and "\<forall>k \<in> set keys. validate_mount_path k = ok"
    and "launch_sandbox fuel c dk sid r labels uri cache keys s = (Inl e, s')"
  shows "ref_count s' = (\<lambda>k. ref_count s k - count_list keys k)"
proof -
  let ?b = "liftR (build_volume_binds (ossfs_mount_root (cfg_storage c)) (req_volumes r) cache)"
  obtain rb s1 where b: "catchS ?b (undo_provision dk keys None) s = (rb, s1)"
    by (cases "catchS ?b (undo_provision dk keys None) s")
  have c: "case rb of Inl e \<Rightarrow> ref_count s1 = (\<lambda>k. ref_count s k - count_list keys k)
         | Inr x \<Rightarrow> ref_count s1 = ref_count s"
    by (rule catch_undo [OF assms(1,2) _ b]) (intro keeps_intros)
  show ?thesis
  proof (cases rb)
    case (Inl e1)
    with b c assms(3) show ?thesis by (simp add: launch_sandbox_def bindS_def)
  next
    case (Inr binds)
    with b assms(3) have "(case req_network_policy r of
        Some np \<Rightarrow> provision_with_policy fuel c dk sid r np labels (build_env r) uri binds keys
      | None \<Rightarrow> provision_plain fuel c dk sid r labels (build_env r) uri binds keys) s1 = (Inl e, s')"
      by (simp add: launch_sandbox_def bindS_def)
    with provision_parts_counts [OF assms(1,2)] c Inr show ?thesis
      by (auto split: option.splits)
  qed
qed

lemma schedule_total:
  assumes "host_behaves dk"
  shows "\<exists>s'. schedule_expiration dk sid t u fb s = (ok, s')"
proof -
  obtain n w where "dk_now dk (world s) = (Inr n, w)" using assms unfolding host_behaves_def by blast
  then show ?thesis by (simp add: schedule_expiration_def bindS_def inW_def modifyS_def)
qed

lemma prepare_outcome:
  assumes "host_behaves dk"
    and "\<And>vs v p. vols = Some vs \<Longrightarrow> v \<in> set vs \<Longrightarrow> resolve_ossfs_paths mroot v = Inr p \<Longrightarrow>
           validate_mount_path (fst p) = ok"
    and "prepare_ossfs_mounts dk mroot vols s = (rk, s')"
  shows "case rk of Inl e \<Rightarrow> ref_count s' = ref_count s
        | Inr ks \<Rightarrow> distinct ks \<and> (\<forall>k. ref_count s' k = ref_count s k + of_bool (k \<in> set ks))"
proof (cases vols)
  case None
  with assms(3) show ?thesis by (auto simp: prepare_ossfs_mounts_def retS_def)
next
  case (Some vs)
  have "commands_end dk" using assms(1) by (simp add: host_behaves_def)
  from prepare_ossfs_mounts_outcome [OF this, of vs mroot s] assms(2,3) Some show ?thesis by auto
qed

lemma prepared_keys_ok:
  assumes "\<And>vs v p. vols = Some vs \<Longrightarrow> v \<in> set vs \<Longrightarrow> resolve_ossfs_paths mroot v = Inr p \<Longrightarrow>
           validate_mount_path (fst p) = ok"
    and "prepare_ossfs_mounts dk mroot vols s = (Inr keys, s')"
  shows "\<forall>k \<in> set keys. validate_mount_path k = ok"
proof (cases "vols = None \<or> vols = Some []")
  case True
  with assms(2) show ?thesis by (auto simp: prepare_ossfs_mounts_def retS_def)
next
  case False
  then obtain vs where vs: "vols = Some vs" "vs \<noteq> []" by (cases vols) auto
  then obtain d where v: "vols = Some vs" "collect_keys mroot vs [] = Inr d" "keys = map fst d"
    using assms(2) by (auto simp: prepare_ossfs_mounts_def liftR_def retS_def elim!: bindS_InrE)
  have "\<forall>(k, v) \<in> set d. v \<in> set vs" using collect_keys_values [OF v(2)] by simp
  moreover have "\<forall>(k, v) \<in> set d. \<exists>p. resolve_ossfs_paths mroot v = Inr p \<and> fst p = k"
    using collect_keys_resolve [OF v(2)] by simp
  ultimately show ?thesis using assms(1) [OF v(1)] v(3) by fastforce
qed

lemma failed_provision_launch:
  assumes "host_behaves dk" and "dk_now dk (world s) = (Inr now, w0)" and "resolve_image_auth dk r (s\<lparr>world := w0\<rparr>) = (Inr img, s1)"
    and "prepare_ossfs_mounts dk (ossfs_mount_root (cfg_storage c)) (req_volumes r) s1 = (Inr keys, s2)"
    and "provision_sandbox fuel c dk sid r created expires cache s = (Inl e, s')"
  shows "\<exists>labels. launch_sandbox fuel c dk sid r labels (fst img) cache keys s2 = (Inl e, s')"
proof -
  let ?finish = "\<lambda>_. bindS (case expires of None \<Rightarrow> retS () | Some t \<Rightarrow> schedule_expiration dk sid t True None) (\<lambda>_.
      retS (create_response_for sid r created expires ''Running'' ''CONTAINER_RUNNING''))"
  obtain labels where p: "provision_sandbox fuel c dk sid r created expires cache s =
      bindS (launch_sandbox fuel c dk sid r labels (fst img) cache keys) ?finish s2"
    using assms(2-4) by (simp add: provision_sandbox_def bindS_def inW_def Let_def)
  have t: "\<exists>x t. ?finish () u = (Inr x, t)" for u
    using schedule_total [OF assms(1), of sid "the expires" True None u]
    by (cases expires) (auto simp: bindS_def retS_def)
  obtain rl s3 where l: "launch_sandbox fuel c dk sid r labels (fst img) cache keys s2 = (rl, s3)" by (rule prod.exhaust)
  have "rl = Inl e \<and> s3 = s'"
    using l p assms(5) t [of s3] by (cases rl) (auto simp: bindS_def [of "launch_sandbox fuel c dk sid r labels (fst img) cache keys"])
  with l show ?thesis by blast
qed


text \<open>A host whose daemon cannot create containers.\<close>

definition full_docker :: "sim docker_api" where
  "full_docker = sim_docker\<lparr>dk_create := \<lambda>spec. raiseS (DockerException ''no space left on device'')\<rparr>"

lemma full_docker_behaves: "host_behaves full_docker"
  using sim_commands_end
  by (auto simp: host_behaves_def commands_end_def full_docker_def sim_docker_def sim_remove_def getS_def
      is_docker_exn_def split: if_splits)

definition bucket_request :: create_request where
  "bucket_request = sample_request\<lparr>req_volumes := Some [sample_bucket ''bkt'' None]\<rparr>"

definition pending_service :: "sim service" where
  "pending_service = (sim_service [] [] 7)\<lparr>pending_sandboxes := [(''s1'', \<lparr>pend_request = bucket_request,
     pend_created_at = 7, pend_expires_at = Some 100, pend_status = pending_status 7\<rparr>)]\<rparr>"

definition failed_service :: "sim service" where
  "failed_service = snd (provision_sandbox 1 sample_config full_docker ''s1'' bucket_request 7 (Some 100) [] pending_service)"


section \<open>Hardening\<close>

text \<open>
  A container that runs user code is hardened as the configuration and the request demand: the
  resolved secure runtime, the configured capabilities dropped and none added, no new privileges,
  and \<open>NET_ADMIN\<close> dropped when an egress policy has to be enforced. Containers that run user code are
  those started through the bootstrap script.
\<close>

definition hardened :: "app_config \<Rightarrow> create_request \<Rightarrow> container_spec \<Rightarrow> bool" where
  "hardened c r spec \<longleftrightarrow>
     (cs_entrypoint spec = [BOOTSTRAP_PATH] \<longrightarrow>
        (let h = cs_host_config spec; d = cfg_docker c
         in (given (get_docker_runtime c) \<longrightarrow> hc_runtime h = get_docker_runtime c)
            \<and> set (dck_drop_capabilities d) \<subseteq> set (hc_cap_drop h) \<and> hc_cap_add h = []
            \<and> (dck_no_new_privileges d \<longrightarrow> ''no-new-privileges:true'' \<in> set (hc_security_opt h))
            \<and> hc_pids_limit h = dck_pids_limit d
            \<and> (req_network_policy r \<noteq> None \<longrightarrow> ''NET_ADMIN'' \<in> set (hc_cap_drop h))))"

lemma base_host_config_hardened:
  "req_network_policy r = None \<Longrightarrow> hardened c r (spec\<lparr>cs_host_config := base_host_config c m n net\<lparr>hc_binds := b\<rparr>\<rparr>)"
  "req_network_policy r = None \<Longrightarrow> hardened c r (spec\<lparr>cs_host_config := base_host_config c m n net
     \<lparr>hc_port_bindings := p, hc_binds := b\<rparr>\<rparr>)"
  "hardened c r (spec\<lparr>cs_host_config := drop_net_admin (base_host_config c m n net)\<lparr>hc_binds := b\<rparr>\<rparr>)"
  by (auto simp: hardened_def base_host_config_def drop_net_admin_def Let_def)

text \<open>
  A daemon that refuses containers which do not satisfy \<open>Q\<close>. An operation that behaves the same with
  it only ever creates containers that do.
\<close>

definition refuse :: "(container_spec \<Rightarrow> bool) \<Rightarrow> 'w docker_api \<Rightarrow> 'w docker_api" where
  "refuse Q dk = dk\<lparr>dk_create := \<lambda>spec. if Q spec then dk_create dk spec
                                      else raiseS (OtherException ''refused'')\<rparr>"

named_theorems refuse_simps

lemma refuse_fields [refuse_simps]:
  "os_run (refuse Q dk) = os_run dk" "os_ismount (refuse Q dk) = os_ismount dk"
  "os_makedirs (refuse Q dk) = os_makedirs dk" "os_open_write (refuse Q dk) = os_open_write dk"
  "os_chmod (refuse Q dk) = os_chmod dk" "os_remove (refuse Q dk) = os_remove dk"
  "os_uuid_hex (refuse Q dk) = os_uuid_hex dk" "os_tempdir (refuse Q dk) = os_tempdir dk"
  "dk_now (refuse Q dk) = dk_now dk" "dk_remove (refuse Q dk) = dk_remove dk"
  "dk_start (refuse Q dk) = dk_start dk" "dk_get (refuse Q dk) = dk_get dk"
  "dk_image_get (refuse Q dk) = dk_image_get dk" "dk_image_pull (refuse Q dk) = dk_image_pull dk"
  "dk_random_port (refuse Q dk) = dk_random_port dk" "dk_can_bind (refuse Q dk) = dk_can_bind dk"
  "dk_token (refuse Q dk) = dk_token dk" "dk_put_archive (refuse Q dk) = dk_put_archive dk"
  "dk_get_archive (refuse Q dk) = dk_get_archive dk" "dk_create_execd (refuse Q dk) = dk_create_execd dk"
  "dk_reload (refuse Q dk) = dk_reload dk" "dk_shlex_split (refuse Q dk) = dk_shlex_split dk"
  "dk_nano_cpus (refuse Q dk) = dk_nano_cpus dk" "dk_isoformat (refuse Q dk) = dk_isoformat dk"
  "dk_policy_json (refuse Q dk) = dk_policy_json dk"
  by (simp_all add: refuse_def)

lemmas branch_congs = if_cong option.case_cong list.case_cong sum.case_cong prod.case_cong

lemma refuse_try_unmount [refuse_simps]: "try_unmount (refuse Q dk) cmds = try_unmount dk cmds"
  by (induction cmds) (simp_all add: refuse_simps cong: branch_congs)

lemma refuse_mount_command [refuse_simps]:
  "run_ossfs_mount_command (refuse Q dk) = run_ossfs_mount_command dk"
  by (simp add: fun_eq_iff run_ossfs_mount_command_def refuse_simps cong: branch_congs)

lemma refuse_mount_path [refuse_simps]:
  "mount_ossfs_backend_path (refuse Q dk) v p = mount_ossfs_backend_path dk v p"
  by (simp add: mount_ossfs_backend_path_def write_secret_def remove_quietly_def refuse_simps Let_def
      cong: branch_congs)

lemma refuse_mounts [refuse_simps]:
  "release_ossfs_mounts (refuse Q dk) keys = release_ossfs_mounts dk keys"
  "ensure_ossfs_mounted (refuse Q dk) mroot a = ensure_ossfs_mounted dk mroot a"
  by (simp_all add: release_ossfs_mounts_def release_ossfs_mount_def unmount_path_def
      ensure_ossfs_mounted_def refuse_simps Let_def cong: branch_congs)

lemma refuse_mount_batch [refuse_simps]:
  "mount_batch (refuse Q dk) mroot d prepared = mount_batch dk mroot d prepared"
  by (induction d arbitrary: prepared) (auto simp: refuse_simps cong: branch_congs)

lemma refuse_host_port [refuse_simps]: "allocate_host_port n (refuse Q dk) = allocate_host_port n dk"
  by (induction n) (simp_all add: refuse_simps cong: branch_congs)

lemma refuse_distinct_port [refuse_simps]: "distinct_port fuel (refuse Q dk) e = distinct_port fuel dk e"
proof (induction fuel)
  case 0
  then show ?case by (simp add: fun_eq_iff distinct_port.simps)
next
  case (Suc n)
  show ?case by (rule ext) (subst (1 2) distinct_port.simps, simp add: Suc refuse_simps)
qed

lemma refuse_calls [refuse_simps]:
  "prepare_ossfs_mounts (refuse Q dk) mroot vols = prepare_ossfs_mounts dk mroot vols"
  "allocate_distinct_host_ports fuel (refuse Q dk) = allocate_distinct_host_ports fuel dk"
  "ensure_image_available (refuse Q dk) uri auth = ensure_image_available dk uri auth"
  "resolve_image_auth (refuse Q dk) r = resolve_image_auth dk r"
  "resolve_resource_limits (refuse Q dk) r = resolve_resource_limits dk r"
  "prepare_sandbox_runtime c (refuse Q dk) cid = prepare_sandbox_runtime c dk cid"
  "schedule_expiration (refuse Q dk) sid t u fb = schedule_expiration dk sid t u fb"
  "undo_provision (refuse Q dk) keys sc = undo_provision dk keys sc"
  by (simp_all cong: branch_congs add: prepare_ossfs_mounts_def allocate_distinct_host_ports_def ensure_image_available_def
      pull_image_def resolve_image_auth_def resolve_resource_limits_def prepare_sandbox_runtime_def
      fetch_execd_archive_def ensure_directory_def schedule_expiration_def undo_provision_def [abs_def] refuse_simps)

lemma refuse_create [refuse_simps]:
  "Q spec \<Longrightarrow> create_with_cleanup (refuse Q dk) spec body = create_with_cleanup dk spec body"
  by (simp add: create_with_cleanup_def refuse_simps cong: branch_congs) (simp add: refuse_def)

lemma provision_refuse_hardened:
  "provision_sandbox fuel c (refuse (hardened c r) dk) sid r created expires cache =
     provision_sandbox fuel c dk sid r created expires cache"
proof -
  let ?g = "refuse (hardened c r) dk"
  have side: "start_egress_sidecar c ?g sid np t e h = start_egress_sidecar c dk sid np t e h" for np t e h
    by (simp cong: branch_congs add: start_egress_sidecar_def refuse_simps hardened_def)
  have main: "create_and_start_container c ?g sid uri cmd l env hc p = create_and_start_container c dk sid uri cmd l env hc p"
    if "\<And>spec. hardened c r (spec\<lparr>cs_host_config := hc\<rparr>)" for uri cmd l env hc p
  proof -
    have "hardened c r \<lparr>cs_image = uri, cs_entrypoint = e, cs_command = cmd', cs_ports = p,
        cs_name = n, cs_environment = env, cs_labels = l, cs_host_config = hc\<rparr>" for cmd' e n
      using that [of "\<lparr>cs_image = uri, cs_entrypoint = e, cs_command = cmd', cs_ports = p,
        cs_name = n, cs_environment = env, cs_labels = l, cs_host_config = hc\<rparr>"] by simp
    then show ?thesis by (simp cong: branch_congs add: create_and_start_container_def refuse_simps)
  qed
  have policy: "provision_with_policy fuel c ?g sid r np l env uri b k = provision_with_policy fuel c dk sid r np l env uri b k"
    for np l env uri b k
    by (simp cong: branch_congs add: provision_with_policy_def refuse_simps side main base_host_config_hardened Let_def)
  have plain: "provision_plain fuel c ?g sid r l env uri b k = provision_plain fuel c dk sid r l env uri b k"
    if "req_network_policy r = None" for l env uri b k
    by (simp cong: branch_congs add: provision_plain_def refuse_simps main base_host_config_hardened Let_def that)
  have "launch_sandbox fuel c ?g sid r l uri cc k = launch_sandbox fuel c dk sid r l uri cc k" for l uri cc k
    by (cases "req_network_policy r") (simp_all cong: branch_congs add: launch_sandbox_def refuse_simps policy plain)
  then show ?thesis by (simp cong: branch_congs add: provision_sandbox_def refuse_simps)
qed

lemma refuse_refuse: "(\<And>spec. Q spec \<Longrightarrow> R spec) \<Longrightarrow> refuse Q (refuse R dk) = refuse Q dk"
  by (auto simp: refuse_def fun_eq_iff)

text \<open>What holds of every hardened container is demanded of every container that is created.\<close>

lemma provision_refuse_weaker:
  assumes "\<And>spec. hardened c r spec \<Longrightarrow> R spec"
  shows "provision_sandbox fuel c (refuse R dk) sid r created expires cache =
     provision_sandbox fuel c dk sid r created expires cache"
proof -
  have "refuse (hardened c r) (refuse R dk) = refuse (hardened c r) dk"
    by (rule refuse_refuse) (rule assms)
  with provision_refuse_hardened [of fuel c r "refuse R dk"] provision_refuse_hardened [of fuel c r dk]
  show ?thesis by metis
qed

text \<open>
  C2. Every container that a creation starts for user code is hardened: provisioning behaves the same
  on a daemon that refuses any other container.
\<close>

theorem provision_creates_hardened_containers:
  "provision_sandbox fuel c (refuse (hardened c r) dk) sid r created expires cache =
     provision_sandbox fuel c dk sid r created expires cache"
  by (rule provision_refuse_hardened)

section \<open>Background creation\<close>

lemma pending_frame:
  "outer (\<lambda>s. pending_sandboxes s = p)" "cachely (\<lambda>s. pending_sandboxes s = p)"
  "worldly (\<lambda>s. pending_sandboxes s = p)"
  by (simp_all add: outer_def worldly_def cachely_def)

lemma provision_keeps_pending:
  "keeps (\<lambda>s. pending_sandboxes s = p) (provision_sandbox fuel c dk sid r created expires cache)"
  unfolding provision_sandbox_def launch_sandbox_def resolve_image_auth_def schedule_expiration_def
  by (intro keeps_intros keeps_modifyS pending_frame) simp

lemma cleanup_keeps_pending:
  "keeps (\<lambda>s. pending_sandboxes s = p) (cleanup_failed_containers dk sid)"
  unfolding cleanup_failed_containers_def cleanup_failed_container_def
  by (intro keeps_intros pending_frame)


definition settled_service :: "sim service" where
  "settled_service = snd (async_provision_worker 1 sample_config full_docker ''s1'' bucket_request 7 (Some 100) [] pending_service)"


end
