(* ===== verification/Rate_Limiter.thy ===== *)
theory Rate_Limiter
  imports Prelude Complex_Main
begin

text \<open>
  \<open>server/src/services/k8s/rate_limiter.py\<close>: the token bucket in front of the Kubernetes API. The
  state of the object is a record; every operation takes the reading of \<open>time.monotonic()\<close> it makes.
  Python's floats are modelled as rational numbers, so rounding is not. The lock makes each
  \<open>_try_acquire\<close> atomic, hence the calls of all threads form one sequence with non-decreasing
  readings of the clock.
\<close>

record token_bucket =
  tb_qps :: rat
  tb_burst :: rat
  tb_tokens :: rat
  tb_last_refill :: rat

definition init_bucket :: "rat \<Rightarrow> rat \<Rightarrow> rat \<Rightarrow> token_bucket res" where
  "init_bucket now qps burst =
     (if qps \<le> 0 then Inl ValueError
      else (let b = max (if burst > 0 then burst else qps) 1
            in Inr \<lparr>tb_qps = qps, tb_burst = b, tb_tokens = b, tb_last_refill = now\<rparr>))"

definition refill :: "rat \<Rightarrow> token_bucket \<Rightarrow> token_bucket" where
  "refill now b =
     (let elapsed = now - tb_last_refill b
      in b\<lparr>tb_tokens := min (tb_burst b) (tb_tokens b + elapsed * tb_qps b), tb_last_refill := now\<rparr>)"

text \<open>\<open>_try_acquire\<close>: the returned wait and the new state.\<close>

definition try_acquire_wait :: "rat \<Rightarrow> token_bucket \<Rightarrow> rat \<times> token_bucket" where
  "try_acquire_wait now b =
     (let b' = refill now b
      in if tb_tokens b' \<ge> 1 then (0, b'\<lparr>tb_tokens := tb_tokens b' - 1\<rparr>)
         else ((1 - tb_tokens b') / tb_qps b', b'))"

definition try_acquire :: "rat \<Rightarrow> token_bucket \<Rightarrow> bool \<times> token_bucket" where
  "try_acquire now b = (case try_acquire_wait now b of (w, b') \<Rightarrow> (w \<le> 0, b'))"

text \<open>
  \<open>acquire\<close>: the \<open>while True\<close> loop with an iteration budget (\<open>None\<close> when it is used up). \<open>wake t d\<close> is
  the reading of the clock after \<open>time.sleep(d)\<close> begun at \<open>t\<close>. The result is the time of return.
\<close>

fun acquire :: "nat \<Rightarrow> (rat \<Rightarrow> rat \<Rightarrow> rat) \<Rightarrow> rat \<Rightarrow> token_bucket \<Rightarrow> (rat \<times> token_bucket) option" where
  "acquire 0 wake now b = None"
| "acquire (Suc n) wake now b =
     (case try_acquire_wait now b of (w, b') \<Rightarrow>
        if w \<le> 0 then Some (now, b') else acquire n wake (wake now (max w (1 / 1000))) b')"

text \<open>The calls of all threads, at their clock readings: how many got a token, and the last state.\<close>

fun admitted :: "rat list \<Rightarrow> token_bucket \<Rightarrow> nat \<times> token_bucket" where
  "admitted [] b = (0, b)"
| "admitted (t # ts) b =
     (case try_acquire t b of (got, b') \<Rightarrow>
        (case admitted ts b' of (n, b'') \<Rightarrow> (of_bool got + n, b'')))"

section \<open>Invariant\<close>

definition bucket_ok :: "token_bucket \<Rightarrow> bool" where
  "bucket_ok b \<longleftrightarrow> 0 < tb_qps b \<and> 1 \<le> tb_burst b \<and> 0 \<le> tb_tokens b \<and> tb_tokens b \<le> tb_burst b"

lemma init_bucket_ok: "init_bucket now qps burst = Inr b \<Longrightarrow> bucket_ok b"
  by (auto simp: init_bucket_def bucket_ok_def Let_def split: if_splits)

lemma refill_ok: "bucket_ok b \<Longrightarrow> tb_last_refill b \<le> now \<Longrightarrow> bucket_ok (refill now b)"
  by (auto simp: bucket_ok_def refill_def Let_def min_def)

lemma refill_gain:
  "tb_tokens (refill now b) \<le> tb_tokens b + (now - tb_last_refill b) * tb_qps b"
  by (simp add: refill_def Let_def)

lemma refill_keeps [simp]:
  "tb_qps (refill now b) = tb_qps b" "tb_burst (refill now b) = tb_burst b"
  "tb_last_refill (refill now b) = now"
  by (simp_all add: refill_def Let_def)

lemma try_acquire_ok:
  assumes "bucket_ok b" and "tb_last_refill b \<le> now"
  shows "bucket_ok (snd (try_acquire now b))"
    and "tb_last_refill (snd (try_acquire now b)) = now"
    and "tb_qps (snd (try_acquire now b)) = tb_qps b"
    and "tb_burst (snd (try_acquire now b)) = tb_burst b"
  using refill_ok [OF assms]
  by (auto simp: try_acquire_def try_acquire_wait_def bucket_ok_def Let_def)

lemma wait_positive:
  "bucket_ok b \<Longrightarrow> tb_last_refill b \<le> now \<Longrightarrow>
     fst (try_acquire_wait now b) \<le> 0 \<longleftrightarrow> 1 \<le> tb_tokens (refill now b)"
  using refill_ok [of b now]
  by (auto simp: try_acquire_wait_def Let_def bucket_ok_def divide_le_0_iff)

text \<open>One call: the tokens spent are paid for by the tokens held and the time elapsed.\<close>

lemma try_acquire_pays:
  assumes "bucket_ok b" and "tb_last_refill b \<le> now" and "try_acquire now b = (got, b')"
  shows "of_bool got + tb_tokens b' \<le> tb_tokens b + (now - tb_last_refill b) * tb_qps b"
  using refill_gain [of now b] wait_positive [OF assms(1,2)] assms(3)
  by (auto simp: try_acquire_def try_acquire_wait_def Let_def split: if_splits)

lemma admitted_pays:
  "bucket_ok b \<Longrightarrow> sorted (tb_last_refill b # ts) \<Longrightarrow> admitted ts b = (n, b') \<Longrightarrow>
     of_nat n + tb_tokens b' \<le> tb_tokens b + (last (tb_last_refill b # ts) - tb_last_refill b) * tb_qps b
     \<and> bucket_ok b'"
proof (induction ts arbitrary: b n)
  case Nil
  then show ?case by simp
next
  case (Cons t ts)
  obtain got c where g: "try_acquire t b = (got, c)" by (cases "try_acquire t b")
  obtain m where m: "admitted ts c = (m, b')" "n = of_bool got + m"
    using Cons.prems(3) g by (auto split: prod.splits)
  have le: "tb_last_refill b \<le> t" using Cons.prems(2) by simp
  note c = try_acquire_ok [OF Cons.prems(1) le, unfolded g snd_conv]
  have "of_nat m + tb_tokens b' \<le> tb_tokens c + (last (t # ts) - t) * tb_qps b \<and> bucket_ok b'"
    using Cons.IH [OF c(1) _ m(1)] Cons.prems(2) c(2,3) by simp
  with try_acquire_pays [OF Cons.prems(1) le g] show ?case
    by (cases got) (auto simp: m(2) algebra_simps)
qed



lemma refill_token_after_wait:
  assumes "bucket_ok b" and "tb_last_refill b \<le> now" and "try_acquire_wait now b = (w, b')" and "0 < w"
    and "now + w \<le> later"
  shows "1 \<le> tb_tokens (refill later b')"
proof -
  have b': "b' = refill now b" "w = (1 - tb_tokens b') / tb_qps b'"
    using assms(3,4) by (auto simp: try_acquire_wait_def Let_def split: if_splits)
  have ok: "bucket_ok b'" "tb_last_refill b' = now"
    using refill_ok [OF assms(1,2)] b' by simp_all
  have q: "0 < tb_qps b'" using ok by (simp add: bucket_ok_def)
  have "w * tb_qps b' = 1 - tb_tokens b'" using b'(2) q by simp
  moreover have "w * tb_qps b' \<le> (later - now) * tb_qps b'"
    using assms(5) q by (intro mult_right_mono) auto
  ultimately have "1 \<le> tb_tokens b' + (later - now) * tb_qps b'" by simp
  then show ?thesis using ok by (simp add: refill_def Let_def bucket_ok_def)
qed

text \<open>
  A blocked caller does not starve: if nobody else takes a token while it sleeps, \<open>acquire\<close>
  returns after at most one sleep, at a time no later than the end of that sleep.
\<close>

theorem acquire_returns:
  assumes "bucket_ok b" and "tb_last_refill b \<le> now" and "\<And>t d. t + d \<le> wake t d"
  shows "\<exists>t b'. acquire 2 wake now b = Some (t, b') \<and> bucket_ok b' \<and>
           (t = now \<or> t = wake now (max (fst (try_acquire_wait now b)) (1 / 1000)))"
proof -
  obtain w b1 where w: "try_acquire_wait now b = (w, b1)" by (cases "try_acquire_wait now b")
  have b1: "bucket_ok b1" "tb_last_refill b1 = now"
    using try_acquire_ok [OF assms(1,2)] w by (simp_all add: try_acquire_def)
  show ?thesis
  proof (cases "w \<le> 0")
    case True
    then show ?thesis using w b1 by (simp add: numeral_2_eq_2)
  next
    case False
    let ?t = "wake now (max w (1 / 1000))"
    have "now + w \<le> ?t" using assms(3) [of now "max w (1 / 1000)"] by linarith
    then have le: "now + w \<le> ?t" "tb_last_refill b1 \<le> ?t" using b1 False by linarith+
    have "1 \<le> tb_tokens (refill ?t b1)"
      using refill_token_after_wait [OF assms(1,2) w _ le(1)] False by simp
    then have "fst (try_acquire_wait ?t b1) \<le> 0" using wait_positive [OF b1(1) le(2)] by simp
    then show ?thesis
      using w False try_acquire_ok(1) [OF b1(1) le(2)]
      by (auto simp: numeral_2_eq_2 try_acquire_def split: prod.splits)
  qed
qed

theorem acquire_returns_witness:
  "\<exists>t b'. acquire 2 (\<lambda>t d. t + d) 1 \<lparr>tb_qps = 2, tb_burst = 2, tb_tokens = 0, tb_last_refill = 1\<rparr> = Some (t, b')
     \<and> bucket_ok b' \<and>
     (t = 1 \<or> t = (\<lambda>t d. t + d) 1 (max (fst (try_acquire_wait 1
        \<lparr>tb_qps = 2, tb_burst = 2, tb_tokens = 0, tb_last_refill = 1\<rparr>)) (1 / 1000)))"
  by (rule acquire_returns) (simp_all add: bucket_ok_def)

end
