(* ===== verification/K8s_Manifest.thy ===== *)
theory K8s_Manifest
  imports Helpers Json_Text
begin

text \<open>
  The manifests of the Kubernetes runtime as JSON values: the template merge
  (\<open>server/src/services/k8s/template_manager.py\<close>), the egress side car (\<open>egress_helper.py\<close>), user volumes
  (\<open>volume_helper.py\<close>), image pull secrets (\<open>image_pull_secret_helper.py\<close>) and resource quantities
  (\<open>resource_utils.py\<close>). A function that changes a dictionary in place returns the changed one.
\<close>

section \<open>Templates\<close>

type_synonym jobj = "(string, json) dict"

text \<open>\<open>_deep_copy\<close> is the identity on values, so only the merge is left of \<open>BaseSandboxTemplateManager\<close>.\<close>

fun deep_merge :: "jobj \<Rightarrow> jobj \<Rightarrow> jobj" where
  "deep_merge result [] = result"
| "deep_merge result ((key, override_value) # rest) =
     deep_merge
       (case override_value of
          JNull \<Rightarrow> result
        | JObj e \<Rightarrow>
            (case map_of result key of
               Some (JObj d) \<Rightarrow> AList.update key (JObj (deep_merge d e)) result
             | _ \<Rightarrow> AList.update key (JObj e) result)
        | v \<Rightarrow> AList.update key v result) rest"

text \<open>\<open>template\<close> is the parsed YAML document, \<open>[]\<close> when no template file is configured.\<close>

definition merge_with_runtime_values :: "jobj \<Rightarrow> jobj \<Rightarrow> jobj" where
  "merge_with_runtime_values template runtime_manifest =
     (if template = [] then runtime_manifest else deep_merge template runtime_manifest)"

section \<open>Egress side car\<close>

definition EGRESS_RULES_ENV :: string where
  "EGRESS_RULES_ENV = ''OPENSANDBOX_EGRESS_RULES''"

text \<open>\<open>json.dumps\<close> with the default separators.\<close>

fun comma_join :: "string list \<Rightarrow> string" where
  "comma_join [] = []"
| "comma_join [x] = x"
| "comma_join (x # y # xs) = x @ '', '' @ comma_join (y # xs)"

fun json_dumps :: "json \<Rightarrow> string" where
  "json_dumps JNull = ''null''"
| "json_dumps (JBool b) = (if b then ''true'' else ''false'')"
| "json_dumps (JInt n) = str_int n"
| "json_dumps (JFloat r) = r"
| "json_dumps (JStr s) = dumps_string s"
| "json_dumps (JList xs) = ''['' @ comma_join (map json_dumps xs) @ '']''"
| "json_dumps (JObj d) = ''{'' @ comma_join (map (\<lambda>(k, v). dumps_string k @ '': '' @ json_dumps v) d) @ ''}''"

text \<open>\<open>network_policy.model_dump(by_alias=True, exclude_none=True)\<close>\<close>

definition policy_dump :: "network_policy \<Rightarrow> json" where
  "policy_dump np =
     JObj ((case default_action np of None \<Rightarrow> [] | Some a \<Rightarrow> [(''defaultAction'', JStr a)])
           @ [(''egress'', JList (map (\<lambda>r. JObj [(''action'', JStr (rule_action r)), (''target'', JStr (rule_target r))])
                                    (egress_rules np)))])"

definition name_value :: "string \<Rightarrow> json \<Rightarrow> json" where
  "name_value n v = JObj [(''name'', JStr n), (''value'', v)]"

definition security_context_for_egress :: json where
  "security_context_for_egress = JObj [(''capabilities'', JObj [(''add'', JList [JStr ''NET_ADMIN''])])]"

definition build_egress_sidecar_container :: "string \<Rightarrow> network_policy \<Rightarrow> string option \<Rightarrow> json" where
  "build_egress_sidecar_container egress_image np egress_auth_token =
     JObj [(''name'', JStr ''egress''), (''image'', JStr egress_image),
           (''env'', JList ([name_value EGRESS_RULES_ENV (JStr (json_dumps (policy_dump np)))]
                     @ (if given egress_auth_token
                        then [name_value ''OPENSANDBOX_EGRESS_TOKEN'' (JStr (the egress_auth_token))] else []))),
           (''securityContext'', security_context_for_egress)]"

text \<open>
  A security context as the client library's object: its capability lists, where there are any. The
  dictionary of \<open>build_security_context_for_sandbox_container\<close> goes through that object and back.
\<close>

record v1_capabilities =
  cap_add :: "string list option"
  cap_drop :: "string list option"

record v1_security_context =
  sc_capabilities :: "v1_capabilities option"

definition build_security_context_for_sandbox_container :: "bool \<Rightarrow> jobj" where
  "build_security_context_for_sandbox_container has_network_policy =
     (if \<not> has_network_policy then []
      else [(''capabilities'', JObj [(''drop'', JList [JStr ''NET_ADMIN''])])])"

text \<open>\<open>xs if xs else None\<close>\<close>

definition nonempty :: "'a list \<Rightarrow> 'a list option" where
  "nonempty xs = (if xs = [] then None else Some xs)"

definition json_strings :: "json list \<Rightarrow> string list" where
  "json_strings xs = concat (map (\<lambda>x. case x of JStr s \<Rightarrow> [s] | _ \<Rightarrow> []) xs)"

definition build_security_context_from_dict :: "jobj \<Rightarrow> v1_security_context option" where
  "build_security_context_from_dict d =
     (if d = [] then None
      else Some \<lparr>sc_capabilities =
        (case map_of d ''capabilities'' of
           Some (JObj caps) \<Rightarrow> Some \<lparr>cap_add = nonempty (json_strings (jget_list caps ''add'')),
                                  cap_drop = nonempty (json_strings (jget_list caps ''drop''))\<rparr>
         | _ \<Rightarrow> None)\<rparr>)"

definition caps_to_dict :: "v1_capabilities \<Rightarrow> jobj" where
  "caps_to_dict caps =
     (case cap_add caps of None \<Rightarrow> [] | Some xs \<Rightarrow> [(''add'', JList (map JStr xs))])
     @ (case cap_drop caps of None \<Rightarrow> [] | Some xs \<Rightarrow> [(''drop'', JList (map JStr xs))])"

definition serialize_security_context_to_dict :: "v1_security_context option \<Rightarrow> jobj option" where
  "serialize_security_context_to_dict sc =
     (case sc of
        None \<Rightarrow> None
      | Some ctx \<Rightarrow>
          (case sc_capabilities ctx of
             None \<Rightarrow> None
           | Some caps \<Rightarrow> (case caps_to_dict caps of
                            [] \<Rightarrow> None
                          | d \<Rightarrow> Some [(''capabilities'', JObj d)])))"

definition build_ipv6_disable_sysctls :: "json list" where
  "build_ipv6_disable_sysctls =
     [name_value ''net.ipv6.conf.all.disable_ipv6'' (JStr ''1''),
      name_value ''net.ipv6.conf.default.disable_ipv6'' (JStr ''1''),
      name_value ''net.ipv6.conf.lo.disable_ipv6'' (JStr ''1'')]"

text \<open>The loop that collects sysctls by name; entries that are no dictionaries or have no name are skipped.\<close>

fun add_sysctls :: "json list \<Rightarrow> (json, json) dict \<Rightarrow> (json, json) dict" where
  "add_sysctls [] d = d"
| "add_sysctls (x # xs) d =
     add_sysctls xs
       (case x of
          JObj e \<Rightarrow> (case map_of e ''name'' of
                      None \<Rightarrow> d
                    | Some n \<Rightarrow> AList.update n (case map_of e ''value'' of None \<Rightarrow> JStr [] | Some v \<Rightarrow> v) d)
        | _ \<Rightarrow> d)"

definition merge_sysctls :: "json list \<Rightarrow> json list \<Rightarrow> json list" where
  "merge_sysctls existing_sysctls new_sysctls =
     (if existing_sysctls = [] then new_sysctls
      else map (\<lambda>(n, v). JObj [(''name'', n), (''value'', v)])
             (add_sysctls new_sysctls (add_sysctls existing_sysctls [])))"

text \<open>
  \<open>apply_egress_to_spec\<close>: the list \<open>containers\<close> of the caller is the one in the pod spec, so appending to
  it changes the pod spec.
\<close>

definition apply_egress_to_spec ::
    "jobj \<Rightarrow> network_policy option \<Rightarrow> string option \<Rightarrow> string option \<Rightarrow> jobj" where
  "apply_egress_to_spec pod_spec np egress_image egress_auth_token =
     (case np of
        None \<Rightarrow> pod_spec
      | Some policy \<Rightarrow>
          if \<not> given egress_image then pod_spec
          else (let containers = jget_list pod_spec ''containers''
                      @ [build_egress_sidecar_container (the egress_image) policy egress_auth_token];
                    spec1 = AList.update ''containers'' (JList containers) pod_spec;
                    ctx = jget_obj spec1 ''securityContext'';
                    sysctls = merge_sysctls (jget_list ctx ''sysctls'') build_ipv6_disable_sysctls
                in AList.update ''securityContext'' (JObj (AList.update ''sysctls'' (JList sysctls) ctx)) spec1))"

section \<open>Volumes\<close>

text \<open>The state of the loop in \<open>apply_volumes_to_pod_spec\<close>.\<close>

record volume_loop =
  vl_volumes :: "json list"
  vl_mounts :: "json list"
  vl_names :: "json list"
  vl_pvcs :: "(string, string) dict"

definition mount_entry :: "string \<Rightarrow> volume \<Rightarrow> json" where
  "mount_entry volume_name v =
     JObj ([(''name'', JStr volume_name), (''mountPath'', JStr (mount_path v)), (''readOnly'', JBool (read_only v))]
           @ (if given (sub_path v) then [(''subPath'', JStr (the (sub_path v)))] else []))"

definition pvc_volume_entry :: "string \<Rightarrow> string \<Rightarrow> json" where
  "pvc_volume_entry name claim =
     JObj [(''name'', JStr name), (''persistentVolumeClaim'', JObj [(''claimName'', JStr claim)])]"

definition host_volume_entry :: "string \<Rightarrow> string \<Rightarrow> json" where
  "host_volume_entry name path =
     JObj [(''name'', JStr name),
           (''hostPath'', JObj [(''path'', JStr path), (''type'', JStr ''DirectoryOrCreate'')])]"

definition apply_volume :: "volume \<Rightarrow> volume_loop \<Rightarrow> volume_loop res" where
  "apply_volume v st =
     (if JStr (vol_name v) \<in> set (vl_names st) then Inl ValueError
      else (case pvc_claim v of
              Some claim \<Rightarrow>
                (let st1 = (if map_of (vl_pvcs st) claim = None
                            then st\<lparr>vl_volumes := vl_volumes st @ [pvc_volume_entry (vol_name v) claim],
                                    vl_pvcs := AList.update claim (vol_name v) (vl_pvcs st),
                                    vl_names := JStr (vol_name v) # vl_names st\<rparr>
                            else st)
                 in Inr (st1\<lparr>vl_mounts := vl_mounts st1 @ [mount_entry (the (map_of (vl_pvcs st1) claim)) v]\<rparr>))
            | None \<Rightarrow>
                (case host_path v of
                   Some p \<Rightarrow> Inr (st\<lparr>vl_volumes := vl_volumes st @ [host_volume_entry (vol_name v) p],
                                     vl_mounts := vl_mounts st @ [mount_entry (vol_name v) v]\<rparr>)
                 | None \<Rightarrow> Inl ValueError)))"

fun apply_volume_loop :: "volume list \<Rightarrow> volume_loop \<Rightarrow> volume_loop res" where
  "apply_volume_loop [] st = Inr st"
| "apply_volume_loop (v # vs) st = bindR (apply_volume v st) (apply_volume_loop vs)"

definition entry_name :: "json \<Rightarrow> json list" where
  "entry_name x = (case x of JObj d \<Rightarrow> [jget d ''name''] | _ \<Rightarrow> [])"

definition apply_volumes_to_pod_spec :: "jobj \<Rightarrow> volume list \<Rightarrow> jobj res" where
  "apply_volumes_to_pod_spec pod_spec vs =
     (case jget_list pod_spec ''containers'' of
        [] \<Rightarrow> Inr pod_spec
      | JObj main # others \<Rightarrow>
          (let pod_volumes = jget_list pod_spec ''volumes''
           in bindR (apply_volume_loop vs
                \<lparr>vl_volumes = pod_volumes, vl_mounts = jget_list main ''volumeMounts'',
                 vl_names = concat (map entry_name pod_volumes), vl_pvcs = []\<rparr>) (\<lambda>st.
              Inr (AList.update ''containers''
                     (JList (JObj (AList.update ''volumeMounts'' (JList (vl_mounts st)) main) # others))
                     (AList.update ''volumes'' (JList (vl_volumes st)) pod_spec))))
      | _ \<Rightarrow> Inl AttributeError)"

section \<open>Image pull secrets\<close>

definition IMAGE_AUTH_SECRET_PREFIX :: string where
  "IMAGE_AUTH_SECRET_PREFIX = ''opensandbox-image-auth''"

definition build_image_pull_secret_name :: "string \<Rightarrow> string" where
  "build_image_pull_secret_name sandbox_id = IMAGE_AUTH_SECRET_PREFIX @ ''-'' @ sandbox_id"

text \<open>\<open>base64.b64encode\<close> on the bytes of a text.\<close>

definition b64_char :: "nat \<Rightarrow> char" where
  "b64_char n =
     (if n < 26 then char_of (65 + n) else if n < 52 then char_of (71 + n)
      else if n < 62 then char_of (n - 4) else if n = 62 then CHR ''+'' else CHR ''/'')"

fun b64encode :: "string \<Rightarrow> string" where
  "b64encode [] = []"
| "b64encode [a] = [b64_char (code a div 4), b64_char (code a mod 4 * 16), CHR ''='', CHR ''='']"
| "b64encode [a, b] =
     [b64_char (code a div 4), b64_char (code a mod 4 * 16 + code b div 16), b64_char (code b mod 16 * 4), CHR ''='']"
| "b64encode (a # b # c # rest) =
     [b64_char (code a div 4), b64_char (code a mod 4 * 16 + code b div 16),
      b64_char (code b mod 16 * 4 + code c div 64), b64_char (code c mod 64)] @ b64encode rest"

definition registry_of :: "string \<Rightarrow> string" where
  "registry_of uri =
     (let parts = split_on slash uri
      in if length parts \<ge> 2 \<and> (contains (hd parts) ''.'' \<or> contains (hd parts) '':'') then hd parts
         else ''https://index.docker.io/v1/'')"

record pull_secret =
  sec_name :: string
  sec_owner_api_version :: string
  sec_owner_kind :: string
  sec_owner_name :: string
  sec_owner_uid :: json
  sec_kind :: string
  sec_data :: "(string, string) dict"

definition pull_secret_config :: "string \<Rightarrow> image_auth \<Rightarrow> json" where
  "pull_secret_config uri auth =
     JObj [(''auths'', JObj [(registry_of uri,
       JObj [(''username'', JStr (auth_username auth)), (''password'', JStr (auth_password auth)),
             (''auth'', JStr (b64encode (auth_username auth @ '':'' @ auth_password auth)))])])]"

definition build_image_pull_secret ::
    "string \<Rightarrow> string \<Rightarrow> image_auth \<Rightarrow> json \<Rightarrow> string \<Rightarrow> string \<Rightarrow> pull_secret" where
  "build_image_pull_secret sandbox_id uri auth owner_uid owner_api_version owner_kind =
     \<lparr>sec_name = build_image_pull_secret_name sandbox_id, sec_owner_api_version = owner_api_version,
      sec_owner_kind = owner_kind, sec_owner_name = sandbox_id, sec_owner_uid = owner_uid,
      sec_kind = ''kubernetes.io/dockerconfigjson'',
      sec_data = [(''.dockerconfigjson'', b64encode (json_dumps (pull_secret_config uri auth)))]\<rparr>"

section \<open>Quantities\<close>

text \<open>
  \<open>_QUANTITY_RE\<close> on the stripped text: an integer or decimal number, white space, a suffix. Python's
  float is taken as an exact rational, so its rounding is not modelled; \<open>int\<close> rounds towards zero.
\<close>

definition QUANTITY_SUFFIXES :: "(string, int) dict" where
  "QUANTITY_SUFFIXES =
     [('''', 1), (''K'', 10 ^ 3), (''M'', 10 ^ 6), (''G'', 10 ^ 9), (''T'', 10 ^ 12), (''P'', 10 ^ 15), (''E'', 10 ^ 18),
      (''Ki'', 2 ^ 10), (''Mi'', 2 ^ 20), (''Gi'', 2 ^ 30), (''Ti'', 2 ^ 40), (''Pi'', 2 ^ 50), (''Ei'', 2 ^ 60)]"

definition quantity_match :: "string \<Rightarrow> (string \<times> string \<times> string) option" where
  "quantity_match s =
     (let whole = takeWhile is_digit s;
          r1 = dropWhile is_digit s;
          decimals = (case r1 of c # r \<Rightarrow> (if c = CHR ''.'' then takeWhile is_digit r else []) | [] \<Rightarrow> []);
          r2 = (if decimals = [] then r1 else drop (Suc (length decimals)) r1);
          unit_part = dropWhile is_space r2
      in if whole \<noteq> [] \<and> map_of QUANTITY_SUFFIXES unit_part \<noteq> None then Some (whole, decimals, unit_part) else None)"

definition parse_k8s_quantity :: "string \<Rightarrow> int res" where
  "parse_k8s_quantity v =
     (case quantity_match (strip v) of
        None \<Rightarrow> Inl ValueError
      | Some (whole, decimals, unit_part) \<Rightarrow>
          Inr (int (digits_val (whole @ decimals)) * the (map_of QUANTITY_SUFFIXES unit_part) div 10 ^ length decimals))"

section \<open>The merge keeps what the server sets\<close>

text \<open>\<open>jat ks d\<close>: the value found in \<open>d\<close> by following the keys \<open>ks\<close> through nested dictionaries.\<close>

fun jat :: "string list \<Rightarrow> jobj \<Rightarrow> json option" where
  "jat [] d = None"
| "jat [k] d = map_of d k"
| "jat (k # l # ks) d = (case map_of d k of Some (JObj e) \<Rightarrow> jat (l # ks) e | _ \<Rightarrow> None)"

text \<open>Dictionaries have each key once, at every depth.\<close>

fun wf_json :: "json \<Rightarrow> bool" where
  "wf_json (JObj d) = (dict_ok d \<and> list_all (\<lambda>(k, v). wf_json v) d)"
| "wf_json (JList xs) = list_all wf_json xs"
| "wf_json v = True"

text \<open>The same along one path only, which is all that a look-up along it needs.\<close>

fun path_ok :: "string list \<Rightarrow> jobj \<Rightarrow> bool" where
  "path_ok [] d = True"
| "path_ok (k # ks) d = (dict_ok d \<and> (case map_of d k of Some (JObj e) \<Rightarrow> path_ok ks e | _ \<Rightarrow> True))"

lemma wf_obj_lookup: "wf_json (JObj d) \<Longrightarrow> map_of d k = Some v \<Longrightarrow> wf_json v"
  by (auto simp: list_all_iff dest!: map_of_SomeD)

lemma wf_path_ok: "wf_json (JObj d) \<Longrightarrow> path_ok ks d"
proof (induction ks arbitrary: d)
  case (Cons k ks)
  have "path_ok ks e" if "map_of d k = Some (JObj e)" for e
    using Cons.IH wf_obj_lookup [OF Cons.prems that] by blast
  with Cons.prems show ?case by (auto split: option.splits json.splits)
qed simp

definition merged_value :: "json option \<Rightarrow> json option \<Rightarrow> json option" where
  "merged_value b v =
     (case v of
        None \<Rightarrow> b
      | Some JNull \<Rightarrow> b
      | Some (JObj e) \<Rightarrow> (case b of Some (JObj d) \<Rightarrow> Some (JObj (deep_merge d e)) | _ \<Rightarrow> v)
      | Some _ \<Rightarrow> v)"

lemma deep_merge_lookup:
  "dict_ok over \<Longrightarrow> map_of (deep_merge result over) k = merged_value (map_of result k) (map_of over k)"
proof (induction over arbitrary: result)
  case Nil
  then show ?case by (simp add: merged_value_def)
next
  case (Cons kv over)
  obtain key v where kv: "kv = (key, v)" by (cases kv)
  have d: "dict_ok over" "map_of over key = None"
    using Cons.prems kv by (auto simp: dict_ok_def map_of_eq_None_iff)
  note IH = Cons.IH [OF d(1)]
  show ?case
    using d(2)
    by (cases v; cases "map_of result key"; cases "the (map_of result key)")
       (auto simp: kv IH merged_value_def)
qed

lemma jat_Cons:
  "jat (k # ks) d = (if ks = [] then map_of d k
     else (case map_of d k of Some (JObj e) \<Rightarrow> jat ks e | _ \<Rightarrow> None))"
  by (cases ks) auto

definition leaf :: "json \<Rightarrow> bool" where
  "leaf v \<longleftrightarrow> v \<noteq> JNull \<and> (\<forall>e. v \<noteq> JObj e)"

lemma deep_merge_leaf:
  "path_ok ks over \<Longrightarrow> jat ks over = Some v \<Longrightarrow> leaf v \<Longrightarrow> jat ks (deep_merge base over) = Some v"
proof (induction ks arbitrary: over base)
  case Nil
  then show ?case by simp
next
  case (Cons k ks)
  have ok: "dict_ok over" using Cons.prems(1) by simp
  show ?case
  proof (cases "ks = []")
    case True
    with Cons.prems ok show ?thesis
      by (auto simp: deep_merge_lookup merged_value_def leaf_def split: json.splits)
  next
    case False
    then obtain e where e: "map_of over k = Some (JObj e)" "jat ks e = Some v"
      using Cons.prems(2) by (auto simp: jat_Cons split: option.splits json.splits)
    have "path_ok ks e" using Cons.prems(1) e(1) by simp
    from Cons.IH [OF this e(2) Cons.prems(3)] e ok False show ?thesis
      by (auto simp: jat_Cons deep_merge_lookup merged_value_def split: option.splits json.splits)
  qed
qed

text \<open>\<open>untouched ks over\<close>: the overriding dictionary has nothing at or above the path \<open>ks\<close>.\<close>

fun untouched :: "string list \<Rightarrow> jobj \<Rightarrow> bool" where
  "untouched [] over = False"
| "untouched (k # ks) over =
     (case map_of over k of
        None \<Rightarrow> True
      | Some JNull \<Rightarrow> True
      | Some (JObj e) \<Rightarrow> untouched ks e
      | Some _ \<Rightarrow> False)"

lemma deep_merge_untouched:
  "path_ok ks over \<Longrightarrow> untouched ks over \<Longrightarrow> jat ks base = Some v \<Longrightarrow> jat ks (deep_merge base over) = Some v"
proof (induction ks arbitrary: over base)
  case Nil
  then show ?case by simp
next
  case (Cons k ks)
  have ok: "dict_ok over" using Cons.prems(1) by simp
  show ?case
  proof (cases "map_of over k = None \<or> map_of over k = Some JNull")
    case True
    with Cons.prems(3) ok show ?thesis by (auto simp: jat_Cons deep_merge_lookup merged_value_def)
  next
    case False
    then obtain e where e: "map_of over k = Some (JObj e)" "untouched ks e" "ks \<noteq> []"
      using Cons.prems(2) by (cases ks) (auto split: option.splits json.splits)
    then obtain d where d: "map_of base k = Some (JObj d)" "jat ks d = Some v"
      using Cons.prems(3) by (auto simp: jat_Cons split: option.splits json.splits)
    have "path_ok ks e" using Cons.prems(1) e(1) by simp
    from Cons.IH [OF this e(2) d(2)] e d ok show ?thesis
      by (simp add: jat_Cons deep_merge_lookup merged_value_def)
  qed
qed

text \<open>
  Merging a manifest into a template: every value the server sets, at whatever depth, is in the
  result as the server set it, and what the template says elsewhere is kept. So a template cannot take
  back a runtime class, an image or a security context.
\<close>

theorem template_merge_laws:
  assumes "wf_json (JObj manifest)"
  shows "(jat ks manifest = Some v \<and> leaf v \<longrightarrow> jat ks (merge_with_runtime_values template manifest) = Some v) \<and>
    (untouched ks manifest \<and> jat ks template = Some v \<longrightarrow> jat ks (merge_with_runtime_values template manifest) = Some v)"
proof (cases "template = []")
  case True
  have "jat ks [] = None" by (cases ks) (auto simp: jat_Cons)
  with True show ?thesis by (auto simp: merge_with_runtime_values_def)
next
  case False
  with deep_merge_leaf [OF wf_path_ok [OF assms]] deep_merge_untouched [OF wf_path_ok [OF assms]] show ?thesis
    by (auto simp: merge_with_runtime_values_def)
qed

definition sample_template :: jobj where
  "sample_template = [(''spec'', JObj [(''runtimeClassName'', JStr ''runc''), (''hostNetwork'', JBool False)])]"

theorem template_merge_laws_witness:
  "jat [''spec'', ''runtimeClassName''] (merge_with_runtime_values sample_template
       [(''spec'', JObj [(''runtimeClassName'', JStr ''gvisor'')])]) = Some (JStr ''gvisor'') \<and>
   jat [''spec'', ''hostNetwork''] (merge_with_runtime_values sample_template
       [(''spec'', JObj [(''runtimeClassName'', JStr ''gvisor'')])]) = Some (JBool False)"
proof -
  have w: "wf_json (JObj [(''spec'', JObj [(''runtimeClassName'', JStr ''gvisor'')])])" by code_simp
  show ?thesis
    using template_merge_laws [OF w, of "[''spec'', ''runtimeClassName'']" "JStr ''gvisor''" sample_template]
      template_merge_laws [OF w, of "[''spec'', ''hostNetwork'']" "JBool False" sample_template]
    by (simp add: leaf_def sample_template_def)
qed

section \<open>The volumes of a pod fit together\<close>

definition jname :: "json \<Rightarrow> json" where
  "jname x = (case x of JObj d \<Rightarrow> jget d ''name'' | _ \<Rightarrow> JNull)"

lemma jname_entries [simp]:
  "jname (mount_entry n v) = JStr n" "jname (pvc_volume_entry n c) = JStr n"
  "jname (host_volume_entry n p) = JStr n"
  by (simp_all add: jname_def mount_entry_def pvc_volume_entry_def host_volume_entry_def jget_def)

text \<open>
  \<open>mounted v vols ms\<close>: one of the mounts \<open>ms\<close> is the one \<open>v\<close> asks for, and the volume it names stands for the
  claim or the host path of \<open>v\<close>.
\<close>

definition mounted :: "volume \<Rightarrow> json list \<Rightarrow> json list \<Rightarrow> bool" where
  "mounted v vols ms \<longleftrightarrow>
     (\<exists>n. mount_entry n v \<in> set ms \<and>
          (case pvc_claim v of
             Some claim \<Rightarrow> pvc_volume_entry n claim
           | None \<Rightarrow> host_volume_entry n (the (host_path v))) \<in> set vols)"

lemma mounted_mono: "mounted v vols ms \<Longrightarrow> mounted v (vols @ vols') (ms @ ms')"
  by (auto simp: mounted_def)

definition loop_ok :: "volume list \<Rightarrow> volume_loop \<Rightarrow> bool" where
  "loop_ok done_vs st \<longleftrightarrow>
     distinct (map jname (vl_volumes st)) \<and>
     jname ` set (vl_mounts st) \<subseteq> jname ` set (vl_volumes st) \<and>
     jname ` set (vl_volumes st) \<subseteq> set (vl_names st) \<union> JStr ` vol_name ` set done_vs \<and>
     (\<forall>c n. map_of (vl_pvcs st) c = Some n \<longrightarrow> pvc_volume_entry n c \<in> set (vl_volumes st)) \<and>
     (\<forall>v \<in> set done_vs. mounted v (vl_volumes st) (vl_mounts st))"

lemma apply_volume_ok:
  assumes "loop_ok done_vs st" and "vol_name v \<notin> vol_name ` set done_vs" and "apply_volume v st = Inr st'"
  shows "loop_ok (done_vs @ [v]) st'"
proof -
  have new: "JStr (vol_name v) \<notin> jname ` set (vl_volumes st)"
    using assms by (auto simp: loop_ok_def apply_volume_def split: if_splits)
  have m: "mounted u (vl_volumes st) (vl_mounts st) \<Longrightarrow> mounted u (vl_volumes st @ xs) (vl_mounts st @ ys)" for u xs ys
    by (rule mounted_mono)
  note m0 = m [of _ "[]", simplified]
  show ?thesis
  proof (cases "pvc_claim v")
    case None
    with assms(3) obtain p where p: "host_path v = Some p"
        "st' = st\<lparr>vl_volumes := vl_volumes st @ [host_volume_entry (vol_name v) p],
                 vl_mounts := vl_mounts st @ [mount_entry (vol_name v) v]\<rparr>"
      by (auto simp: apply_volume_def split: if_splits option.splits)
    moreover from p None have "mounted v (vl_volumes st') (vl_mounts st')" by (auto simp: mounted_def)
    ultimately show ?thesis using assms(1) new m by (auto simp: loop_ok_def)
  next
    case (Some claim)
    show ?thesis
    proof (cases "map_of (vl_pvcs st) claim")
      case None
      with Some assms(3) have "st' = st\<lparr>vl_volumes := vl_volumes st @ [pvc_volume_entry (vol_name v) claim],
          vl_pvcs := AList.update claim (vol_name v) (vl_pvcs st), vl_names := JStr (vol_name v) # vl_names st,
          vl_mounts := vl_mounts st @ [mount_entry (vol_name v) v]\<rparr>"
        by (auto simp: apply_volume_def Let_def split: if_splits)
      moreover from this Some have "mounted v (vl_volumes st') (vl_mounts st')" by (auto simp: mounted_def)
      ultimately show ?thesis using assms(1) new m by (auto simp: loop_ok_def split: if_splits)
    next
      case (Some n)
      with \<open>pvc_claim v = Some claim\<close> assms(3)
      have "st' = st\<lparr>vl_mounts := vl_mounts st @ [mount_entry n v]\<rparr>"
        by (auto simp: apply_volume_def Let_def split: if_splits)
      moreover have "pvc_volume_entry n claim \<in> set (vl_volumes st)" using assms(1) Some by (auto simp: loop_ok_def)
      with calculation \<open>pvc_claim v = Some claim\<close> have "mounted v (vl_volumes st') (vl_mounts st')"
        by (auto simp: mounted_def)
      ultimately show ?thesis using assms(1) m0 \<open>pvc_volume_entry n claim \<in> _\<close>
        by (auto simp: loop_ok_def) (metis image_eqI jname_entries(2))+
    qed
  qed
qed

lemma apply_volume_loop_ok:
  "apply_volume_loop vs st = Inr st' \<Longrightarrow> loop_ok done_vs st \<Longrightarrow> distinct (map vol_name (done_vs @ vs)) \<Longrightarrow>
     loop_ok (done_vs @ vs) st'"
proof (induction vs arbitrary: done_vs st)
  case Nil
  then show ?case by simp
next
  case (Cons v vs)
  then obtain st1 where "apply_volume v st = Inr st1" "apply_volume_loop vs st1 = Inr st'"
    by (auto simp: bindR_eq_Inr)
  moreover from this Cons.prems have "loop_ok (done_vs @ [v]) st1" by (intro apply_volume_ok) auto
  ultimately show ?case using Cons.IH [of st1 "done_vs @ [v]"] Cons.prems(3) by simp
qed

definition pod_mounts :: "jobj \<Rightarrow> json list" where
  "pod_mounts pod_spec = (case jget_list pod_spec ''containers'' of JObj main # _ \<Rightarrow> jget_list main ''volumeMounts'' | _ \<Rightarrow> [])"

text \<open>The volumes of a pod spec have distinct names, and its main container mounts only these.\<close>

definition pod_volumes_ok :: "jobj \<Rightarrow> bool" where
  "pod_volumes_ok pod_spec \<longleftrightarrow>
     distinct (map jname (jget_list pod_spec ''volumes'')) \<and>
     list_all (\<lambda>x. \<exists>d. x = JObj d) (jget_list pod_spec ''volumes'') \<and>
     jname ` set (pod_mounts pod_spec) \<subseteq> jname ` set (jget_list pod_spec ''volumes'')"

lemma entry_names: "list_all (\<lambda>x. \<exists>d. x = JObj d) xs \<Longrightarrow> set (concat (map entry_name xs)) = jname ` set xs"
  by (induction xs) (auto simp: entry_name_def jname_def)

text \<open>
  Adding a request's volumes to a pod keeps it well formed: when the volume names of the request
  are distinct, the pod's volumes still have distinct names, every mount of the main container refers
  to one of them, and each requested volume is mounted at its path, read-only exactly when it asks for
  it, from a volume of the pod that stands for its claim or host path.
\<close>

theorem apply_volumes_wellformed:
  assumes "apply_volumes_to_pod_spec ps vs = Inr ps'" and "pod_volumes_ok ps" and "distinct (map vol_name vs)"
    and "jget_list ps ''containers'' \<noteq> []"
  shows "distinct (map jname (jget_list ps' ''volumes'')) \<and>
    jname ` set (pod_mounts ps') \<subseteq> jname ` set (jget_list ps' ''volumes'') \<and>
    list_all (\<lambda>v. mounted v (jget_list ps' ''volumes'') (pod_mounts ps')) vs"
proof -
  obtain main others st where st: "jget_list ps ''containers'' = JObj main # others"
      "apply_volume_loop vs \<lparr>vl_volumes = jget_list ps ''volumes'', vl_mounts = jget_list main ''volumeMounts'',
         vl_names = concat (map entry_name (jget_list ps ''volumes'')), vl_pvcs = []\<rparr> = Inr st"
      "ps' = AList.update ''containers'' (JList (JObj (AList.update ''volumeMounts'' (JList (vl_mounts st)) main) # others))
               (AList.update ''volumes'' (JList (vl_volumes st)) ps)"
    using assms(1,4) by (auto simp: apply_volumes_to_pod_spec_def Let_def bindR_eq_Inr split: list.splits json.splits)
  have "loop_ok [] \<lparr>vl_volumes = jget_list ps ''volumes'', vl_mounts = jget_list main ''volumeMounts'',
         vl_names = concat (map entry_name (jget_list ps ''volumes'')), vl_pvcs = []\<rparr>"
    using assms(2) st(1) entry_names [of "jget_list ps ''volumes''"]
    by (auto simp: loop_ok_def pod_volumes_ok_def pod_mounts_def)
  from apply_volume_loop_ok [OF st(2) this] assms(3) have "loop_ok vs st" by simp
  then show ?thesis by (auto simp: loop_ok_def st(3) pod_mounts_def list_all_iff)
qed

definition shared_claim :: "string \<Rightarrow> volume" where
  "shared_claim n = \<lparr>vol_name = n, host_path = None, pvc_claim = Some ''team'', ossfs_of = None,
     mount_path = ''/mnt/'' @ n, read_only = True, sub_path = Some n\<rparr>"

definition sample_pod :: jobj where
  "sample_pod = [(''containers'', JList [JObj [(''name'', JStr ''sandbox''),
       (''volumeMounts'', JList [JObj [(''name'', JStr ''opensandbox-bin''), (''mountPath'', JStr ''/opt'')]])]]),
     (''volumes'', JList [JObj [(''name'', JStr ''opensandbox-bin''), (''emptyDir'', JObj [])]])]"

theorem apply_volumes_wellformed_witness:
  "\<exists>ps'. apply_volumes_to_pod_spec sample_pod [shared_claim ''a'', shared_claim ''b''] = Inr ps' \<and>
    list_all (\<lambda>v. mounted v (jget_list ps' ''volumes'') (pod_mounts ps')) [shared_claim ''a'', shared_claim ''b''] \<and>
    length (jget_list ps' ''volumes'') = 2 \<and> length (pod_mounts ps') = 3"
proof -
  let ?vs = "[shared_claim ''a'', shared_claim ''b'']"
  let ?ps = "projr (apply_volumes_to_pod_spec sample_pod ?vs)"
  have r: "apply_volumes_to_pod_spec sample_pod ?vs = Inr ?ps" by code_simp
  have "pod_volumes_ok sample_pod" by (simp add: pod_volumes_ok_def pod_mounts_def sample_pod_def jget_list_def jget_def jname_def)
  moreover have "distinct (map vol_name ?vs)" "jget_list sample_pod ''containers'' \<noteq> []" by code_simp+
  ultimately have "list_all (\<lambda>v. mounted v (jget_list ?ps ''volumes'') (pod_mounts ?ps)) ?vs"
    using apply_volumes_wellformed [OF r] by blast
  moreover have "length (jget_list ?ps ''volumes'') = 2" "length (pod_mounts ?ps) = 3" by code_simp+
  ultimately show ?thesis using r by blast
qed

end
