(* ===== verification/Informer.thy ===== *)
theory Informer
  imports Json
begin

text \<open>
  \<open>server/src/services/k8s/informer.py\<close>: the cache of Kubernetes custom resources kept by a watch
  thread. The object's fields are a record, the operations are functions on it, and \<open>_run\<close> with the
  concurrent calls of \<open>update_cache\<close> and \<open>stop\<close> is a step relation: the lock makes each cache update
  one step. What the API server answers (\<open>list_fn\<close>, the watch stream) is a parameter of the steps.
  Object names and resource versions are strings, as the Kubernetes API defines them. Back-off times
  are whole seconds.
\<close>

text \<open>
  \<open>inf_pc\<close> is where the watch thread stands in \<open>_run\<close>: at the test of the \<open>while\<close>, before the list
  call, after the synchronisation, inside the watch stream, or returned.
\<close>

type_synonym obj = "(string, json) dict"

datatype pc = Loop_Test | Listing | Body | Watching | Done

record informer =
  inf_cache :: "(string, obj) dict"
  inf_rv :: "string option"
  inf_synced :: bool
  inf_stop :: bool
  inf_backoff :: nat
  inf_pc :: pc

definition init_informer :: informer where
  "init_informer = \<lparr>inf_cache = [], inf_rv = None, inf_synced = False, inf_stop = False,
     inf_backoff = 1, inf_pc = Loop_Test\<rparr>"

definition informer_get :: "string \<Rightarrow> informer \<Rightarrow> obj option" where
  "informer_get name s = map_of (inf_cache s) name"

text \<open>\<open>_advance_resource_version\<close>; an empty version is Python-false.\<close>

definition advance_resource_version :: "string \<Rightarrow> informer \<Rightarrow> informer" where
  "advance_resource_version rv s =
     (if rv = [] then s
      else (case inf_rv s of
              None \<Rightarrow> s\<lparr>inf_rv := Some rv\<rparr>
            | Some cur \<Rightarrow>
                (case (py_int rv, py_int cur) of
                   (Some a, Some b) \<Rightarrow> if a > b then s\<lparr>inf_rv := Some rv\<rparr> else s
                 | _ \<Rightarrow> s)))"

definition update_cache :: "obj \<Rightarrow> informer \<Rightarrow> informer res" where
  "update_cache obj s =
     bindR (get_obj obj ''metadata'') (\<lambda>metadata.
       let name = get_str metadata ''name''
       in if name = [] then Inr s
          else Inr (advance_resource_version (get_str metadata ''resourceVersion'')
                 (s\<lparr>inf_cache := AList.update name obj (inf_cache s)\<rparr>)))"

text \<open>The loop that builds the new cache from the listed items.\<close>

fun build_cache :: "json list \<Rightarrow> (string, obj) dict \<Rightarrow> (string, obj) dict res" where
  "build_cache [] c = Inr c"
| "build_cache (item # rest) c =
     (case item of
        JObj d \<Rightarrow>
          bindR (get_obj d ''metadata'') (\<lambda>metadata.
            let name = get_str metadata ''name''
            in build_cache rest (if name = [] then c else AList.update name d c))
      | _ \<Rightarrow> Inl AttributeError)"

definition get_items :: "(string, json) dict \<Rightarrow> json list res" where
  "get_items d = (case map_of d ''items'' of None \<Rightarrow> Inr [] | Some (JList xs) \<Rightarrow> Inr xs | _ \<Rightarrow> Inl TypeError)"

definition full_resync :: "json \<Rightarrow> informer \<Rightarrow> informer res" where
  "full_resync resp s =
     (let d = (case resp of JObj e \<Rightarrow> e | _ \<Rightarrow> [])
      in bindR (get_items d) (\<lambda>items.
         bindR (get_obj d ''metadata'') (\<lambda>metadata.
         bindR (build_cache items []) (\<lambda>new_cache.
           Inr ((advance_resource_version (get_str metadata ''resourceVersion'')
                   (s\<lparr>inf_cache := new_cache\<rparr>))\<lparr>inf_synced := True\<rparr>)))))"

text \<open>A watch event: its type and object; an object that is no dictionary and has no \<open>to_dict\<close> is \<open>None\<close>.\<close>

record watch_event =
  ev_type :: string
  ev_object :: "obj option"

definition handle_event :: "watch_event \<Rightarrow> informer \<Rightarrow> informer res" where
  "handle_event ev s =
     (case ev_object ev of
        None \<Rightarrow> Inr s
      | Some obj \<Rightarrow>
          bindR (get_obj obj ''metadata'') (\<lambda>metadata.
            let name = get_str metadata ''name''
            in if name = [] then Inr s
               else Inr (advance_resource_version (get_str metadata ''resourceVersion'')
                      (s\<lparr>inf_cache := (if ev_type ev = ''DELETED'' then AList.delete name (inf_cache s)
                                      else AList.update name obj (inf_cache s))\<rparr>))))"

text \<open>The \<open>except\<close> branches of \<open>_run\<close>: the new state and the seconds slept.\<close>

definition on_error :: "exn \<Rightarrow> informer \<Rightarrow> informer \<times> nat" where
  "on_error e s =
     (if e = ApiException 410
      then (s\<lparr>inf_rv := None, inf_synced := False, inf_pc := Loop_Test\<rparr>, 0)
      else (s\<lparr>inf_synced := False, inf_backoff := min (inf_backoff s * 2) 30, inf_pc := Loop_Test\<rparr>,
            min (inf_backoff s) 30))"

section \<open>The watch thread\<close>

text \<open>
  One iteration of \<open>_run\<close> is split where other threads can act: the loop test, the list call with the
  swap of the cache, the wait of an informer whose watch is disabled (\<open>Poll\<close>), the watch stream, its
  events and its end, and errors. \<open>Push\<close> is a call of \<open>update_cache\<close>, \<open>Stop\<close> one of \<open>stop\<close>, by another
  thread.
\<close>

datatype label = Enter | Leave | Resync json | Poll | Watch_Start | Event watch_event | Watch_End
  | Failed exn | Push obj | Stop

inductive informer_step :: "bool \<Rightarrow> informer \<Rightarrow> label \<Rightarrow> informer \<Rightarrow> bool" for enable_watch where
  enter: "inf_pc s = Loop_Test \<Longrightarrow> \<not> inf_stop s \<Longrightarrow>
     informer_step enable_watch s Enter (s\<lparr>inf_pc := (if inf_synced s then Body else Listing)\<rparr>)"
| leave: "inf_pc s = Loop_Test \<Longrightarrow> inf_stop s \<Longrightarrow>
     informer_step enable_watch s Leave (s\<lparr>inf_pc := Done\<rparr>)"
| resync: "inf_pc s = Listing \<Longrightarrow> full_resync resp s = Inr s' \<Longrightarrow>
     informer_step enable_watch s (Resync resp) (s'\<lparr>inf_backoff := 1, inf_pc := Body\<rparr>)"
| poll: "inf_pc s = Body \<Longrightarrow> \<not> enable_watch \<Longrightarrow>
     informer_step enable_watch s Poll (s\<lparr>inf_synced := False, inf_pc := Loop_Test\<rparr>)"
| watch_start: "inf_pc s = Body \<Longrightarrow> enable_watch \<Longrightarrow>
     informer_step enable_watch s Watch_Start (s\<lparr>inf_pc := Watching\<rparr>)"
| event: "inf_pc s = Watching \<Longrightarrow> \<not> inf_stop s \<Longrightarrow> handle_event ev s = Inr s' \<Longrightarrow>
     informer_step enable_watch s (Event ev) s'"
| watch_end: "inf_pc s = Watching \<Longrightarrow>
     informer_step enable_watch s Watch_End (s\<lparr>inf_backoff := 1, inf_pc := Loop_Test\<rparr>)"
| failed: "inf_pc s = Watching \<or> inf_pc s = Listing \<Longrightarrow>
     informer_step enable_watch s (Failed e) (fst (on_error e s))"
| push: "update_cache obj s = Inr s' \<Longrightarrow> informer_step enable_watch s (Push obj) s'"
| stop: "informer_step enable_watch s Stop (s\<lparr>inf_stop := True\<rparr>)"

inductive_cases informer_stepE: "informer_step enable_watch s l s'"

inductive informer_run :: "bool \<Rightarrow> informer \<Rightarrow> label list \<Rightarrow> informer \<Rightarrow> bool" for enable_watch where
  run_Nil: "informer_run enable_watch s [] s"
| run_Cons: "informer_step enable_watch s l t \<Longrightarrow> informer_run enable_watch t ls u \<Longrightarrow>
     informer_run enable_watch s (l # ls) u"

inductive_simps informer_run_simps:
  "informer_run enable_watch s [] u"
  "informer_run enable_watch s (l # ls) u"

section \<open>Sample data\<close>

definition sample_obj :: "string \<Rightarrow> string \<Rightarrow> obj" where
  "sample_obj name rv = [(''metadata'', JObj [(''name'', JStr name), (''resourceVersion'', JStr rv)])]"

definition sample_informer :: informer where
  "sample_informer = init_informer\<lparr>inf_cache := [(''a'', sample_obj ''a'' ''5'')], inf_rv := Some ''5'',
     inf_synced := True, inf_pc := Body\<rparr>"

lemma sample_obj_metadata:
  "get_obj (sample_obj name rv) ''metadata'' = Inr [(''name'', JStr name), (''resourceVersion'', JStr rv)]"
  by (simp add: get_obj_def sample_obj_def)

lemma sample_push:
  "informer_run True sample_informer [Push (sample_obj ''b'' ''7'')]
     (sample_informer\<lparr>inf_cache := [(''a'', sample_obj ''a'' ''5''), (''b'', sample_obj ''b'' ''7'')],
        inf_rv := Some ''7''\<rparr>)"
proof -
  have "py_int ''7'' = Some 7" "py_int ''5'' = Some 5" by code_simp+
  then have "update_cache (sample_obj ''b'' ''7'') sample_informer =
      Inr (sample_informer\<lparr>inf_cache := [(''a'', sample_obj ''a'' ''5''), (''b'', sample_obj ''b'' ''7'')],
             inf_rv := Some ''7''\<rparr>)"
    by (simp add: update_cache_def sample_obj_metadata get_str_def advance_resource_version_def
        sample_informer_def init_informer_def Let_def)
  from informer_run.run_Cons [OF informer_step.push [OF this] informer_run.run_Nil]
  show ?thesis .
qed

section \<open>The watch cursor\<close>

text \<open>\<open>rv_le a b\<close>: the cursor has not moved back from \<open>a\<close> to \<open>b\<close>.\<close>

definition rv_le :: "string option \<Rightarrow> string option \<Rightarrow> bool" where
  "rv_le a b \<longleftrightarrow> a = b \<or> a = None \<or>
     (\<exists>x y m n. a = Some x \<and> b = Some y \<and> py_int x = Some m \<and> py_int y = Some n \<and> m < n)"

lemma rv_le_refl [simp]: "rv_le a a"
  by (simp add: rv_le_def)

lemma rv_le_trans: "rv_le a b \<Longrightarrow> rv_le b c \<Longrightarrow> rv_le a c"
  by (auto simp: rv_le_def)

lemma advance_rv_le: "rv_le (inf_rv s) (inf_rv (advance_resource_version rv s))"
  by (auto simp: advance_resource_version_def rv_le_def split: option.splits)

lemma advance_keeps [simp]:
  "inf_cache (advance_resource_version rv s) = inf_cache s"
  "inf_synced (advance_resource_version rv s) = inf_synced s"
  "inf_stop (advance_resource_version rv s) = inf_stop s"
  "inf_backoff (advance_resource_version rv s) = inf_backoff s"
  "inf_pc (advance_resource_version rv s) = inf_pc s"
  by (simp_all add: advance_resource_version_def split: option.splits)

lemma advance_from_None: "inf_rv s = None \<Longrightarrow> rv \<noteq> [] \<Longrightarrow> inf_rv (advance_resource_version rv s) = Some rv"
  by (simp add: advance_resource_version_def)

lemma advance_rv_le_upd:
  "inf_rv t = inf_rv s \<Longrightarrow> rv_le (inf_rv s) (inf_rv (advance_resource_version rv t))"
  using advance_rv_le [of t rv] by simp

lemma step_rv_le:
  "informer_step enable_watch s l s' \<Longrightarrow> l \<noteq> Failed (ApiException 410) \<Longrightarrow> rv_le (inf_rv s) (inf_rv s')"
  by (erule informer_step.cases)
     (auto simp: full_resync_def handle_event_def update_cache_def on_error_def Let_def bindR_eq_Inr
       intro!: advance_rv_le_upd split: option.splits if_splits)

text \<open>
  The watch cursor never moves back: along every interleaving of list calls, watch events,
  errors and concurrent cache updates, only the \<open>410 Gone\<close> branch resets it.
\<close>

theorem cursor_monotone:
  assumes "informer_run enable_watch s ls s'" and "Failed (ApiException 410) \<notin> set ls"
  shows "rv_le (inf_rv s) (inf_rv s')"
  using assms by (induction rule: informer_run.induct) (auto intro: step_rv_le rv_le_trans)

theorem cursor_monotone_witness:
  "rv_le (inf_rv sample_informer) (inf_rv (sample_informer\<lparr>inf_cache :=
     [(''a'', sample_obj ''a'' ''5''), (''b'', sample_obj ''b'' ''7'')], inf_rv := Some ''7''\<rparr>))"
  by (rule cursor_monotone [OF sample_push]) simp

text \<open>
  A concurrent \<open>update_cache\<close> with an object older than the cursor leaves the cursor alone but
  replaces the cached object: the watch, which resumes from the cursor, will not deliver the newer
  version again.
\<close>

theorem push_stale_overwrites:
  assumes "get_obj obj ''metadata'' = Inr m" and "get_str m ''name'' \<noteq> []" and "inf_rv s = Some cur"
    and "py_int (get_str m ''resourceVersion'') = Some a" and "py_int cur = Some b" and "a \<le> b"
  shows "\<exists>s'. update_cache obj s = Inr s' \<and> inf_rv s' = Some cur \<and>
           informer_get (get_str m ''name'') s' = Some obj"
  using assms by (simp add: update_cache_def advance_resource_version_def informer_get_def Let_def)

theorem push_stale_overwrites_witness:
  "\<exists>s'. update_cache (sample_obj ''a'' ''3'') sample_informer = Inr s' \<and> inf_rv s' = Some ''5'' \<and>
     informer_get ''a'' s' = Some (sample_obj ''a'' ''3'')"
proof -
  have "py_int ''3'' = Some 3" "py_int ''5'' = Some 5" by code_simp+
  with push_stale_overwrites [OF sample_obj_metadata [where name = "''a''" and rv = "''3''"], where s = sample_informer and cur = "''5''" and a = 3 and b = 5]
  show ?thesis by (simp add: get_str_def sample_informer_def)
qed

section \<open>The cache\<close>

text \<open>Every cached object is stored under its own name, and the back-off stays between 1 and 30.\<close>

definition obj_name :: "obj \<Rightarrow> string" where
  "obj_name obj = (case get_obj obj ''metadata'' of Inl _ \<Rightarrow> [] | Inr m \<Rightarrow> get_str m ''name'')"

definition informer_ok :: "informer \<Rightarrow> bool" where
  "informer_ok s \<longleftrightarrow> dict_ok (inf_cache s)
     \<and> (\<forall>k obj. map_of (inf_cache s) k = Some obj \<longrightarrow> k \<noteq> [] \<and> obj_name obj = k)
     \<and> 1 \<le> inf_backoff s \<and> inf_backoff s \<le> 30"

definition cache_ok :: "(string, obj) dict \<Rightarrow> bool" where
  "cache_ok c \<longleftrightarrow> dict_ok c \<and> (\<forall>k obj. map_of c k = Some obj \<longrightarrow> k \<noteq> [] \<and> obj_name obj = k)"

lemma informer_ok_cache:
  "informer_ok s \<longleftrightarrow> cache_ok (inf_cache s) \<and> 1 \<le> inf_backoff s \<and> inf_backoff s \<le> 30"
  by (simp add: informer_ok_def cache_ok_def)

lemma cache_ok_Nil: "cache_ok []"
  by (simp add: cache_ok_def dict_ok_def)

lemma cache_ok_update:
  "cache_ok c \<Longrightarrow> get_obj obj ''metadata'' = Inr m \<Longrightarrow> get_str m ''name'' \<noteq> [] \<Longrightarrow>
     cache_ok (AList.update (get_str m ''name'') obj c)"
  by (auto simp: cache_ok_def obj_name_def)

lemma cache_ok_delete: "cache_ok c \<Longrightarrow> cache_ok (AList.delete k c)"
  by (simp add: cache_ok_def)

lemma build_cache_ok: "build_cache items c = Inr c' \<Longrightarrow> cache_ok c \<Longrightarrow> cache_ok c'"
proof (induction items arbitrary: c)
  case Nil
  then show ?case by simp
next
  case (Cons item rest)
  then obtain d m where d: "item = JObj d" "get_obj d ''metadata'' = Inr m"
    by (cases item) (auto simp: bindR_eq_Inr)
  with Cons show ?case
    by (cases "get_str m ''name'' = []") (auto simp: cache_ok_update)
qed

lemma full_resync_cache:
  "full_resync resp s = Inr s' \<Longrightarrow> cache_ok (inf_cache s') \<and> inf_backoff s' = inf_backoff s"
  by (auto simp: full_resync_def Let_def bindR_eq_Inr dest: build_cache_ok intro: cache_ok_Nil)

lemma handle_event_cache:
  "handle_event ev s = Inr s' \<Longrightarrow> cache_ok (inf_cache s) \<Longrightarrow>
     cache_ok (inf_cache s') \<and> inf_backoff s' = inf_backoff s"
  by (auto simp: handle_event_def Let_def bindR_eq_Inr cache_ok_update cache_ok_delete
      split: option.splits if_splits)

lemma update_cache_cache:
  "update_cache obj s = Inr s' \<Longrightarrow> cache_ok (inf_cache s) \<Longrightarrow>
     cache_ok (inf_cache s') \<and> inf_backoff s' = inf_backoff s"
  by (auto simp: update_cache_def Let_def bindR_eq_Inr cache_ok_update split: if_splits)

lemma step_ok: "informer_step enable_watch s l s' \<Longrightarrow> informer_ok s \<Longrightarrow> informer_ok s'"
  unfolding informer_ok_cache
  by (erule informer_step.cases)
     (auto simp: on_error_def dest: full_resync_cache handle_event_cache update_cache_cache)



section \<open>Refinement of the server's store\<close>

text \<open>
  The abstract view: the API server's collection is a map from names to objects, and an event of the
  watch stream is the change it reports.
\<close>

definition apply_event :: "watch_event \<Rightarrow> (string \<Rightarrow> obj option) \<Rightarrow> (string \<Rightarrow> obj option)" where
  "apply_event ev store =
     (case ev_object ev of
        None \<Rightarrow> store
      | Some obj \<Rightarrow>
          if obj_name obj = [] then store
          else store(obj_name obj := (if ev_type ev = ''DELETED'' then None else Some obj)))"

definition event_ok :: "watch_event \<Rightarrow> bool" where
  "event_ok ev \<longleftrightarrow> (case ev_object ev of None \<Rightarrow> True | Some obj \<Rightarrow> (\<exists>m. get_obj obj ''metadata'' = Inr m))"

lemma handle_event_refines:
  assumes "event_ok ev"
  shows "\<exists>s'. handle_event ev s = Inr s' \<and> map_of (inf_cache s') = apply_event ev (map_of (inf_cache s))
           \<and> inf_synced s' = inf_synced s \<and> inf_stop s' = inf_stop s \<and> inf_pc s' = inf_pc s"
  using assms by (auto simp: handle_event_def event_ok_def apply_event_def obj_name_def Let_def split: option.splits)

definition store_of_items :: "obj list \<Rightarrow> (string \<Rightarrow> obj option)" where
  "store_of_items objs = map_of (rev (map (\<lambda>obj. (obj_name obj, obj)) objs))"

lemma build_cache_items:
  "\<forall>obj \<in> set objs. obj_name obj \<noteq> [] \<Longrightarrow>
     \<exists>c'. build_cache (map JObj objs) c = Inr c' \<and> map_of c' = map_of c ++ store_of_items objs"
proof (induction objs arbitrary: c)
  case Nil
  then show ?case by (simp add: store_of_items_def)
next
  case (Cons obj objs)
  then obtain m where m: "get_obj obj ''metadata'' = Inr m" "obj_name obj = get_str m ''name''"
    by (auto simp: obj_name_def split: sum.splits)
  with Cons obtain c' where c': "build_cache (map JObj objs) (AList.update (obj_name obj) obj c) = Inr c'"
      "map_of c' = map_of (AList.update (obj_name obj) obj c) ++ store_of_items objs"
    by force
  have "map_of c' = map_of c ++ store_of_items (obj # objs)"
    unfolding c'(2) store_of_items_def by (auto simp: map_add_def fun_eq_iff split: option.splits)
  then show ?case using c'(1) m Cons.prems by (auto simp: Let_def)
qed

text \<open>A stream of events handled one after the other by the watch loop.\<close>

lemma handle_events_refine:
  "list_all event_ok evs \<Longrightarrow> inf_pc s = Watching \<Longrightarrow> \<not> inf_stop s \<Longrightarrow>
     \<exists>s'. informer_run enable_watch s (map Event evs) s' \<and>
          map_of (inf_cache s') = fold apply_event evs (map_of (inf_cache s))"
proof (induction evs arbitrary: s)
  case Nil
  show ?case by (auto intro: informer_run.run_Nil)
next
  case (Cons ev evs)
  from handle_event_refines [of ev s] Cons.prems obtain t where
    t: "handle_event ev s = Inr t" "map_of (inf_cache t) = apply_event ev (map_of (inf_cache s))"
       "inf_stop t = inf_stop s" "inf_pc t = inf_pc s" by auto
  with Cons.IH [of t] Cons.prems obtain u where
    u: "informer_run enable_watch t (map Event evs) u"
       "map_of (inf_cache u) = fold apply_event evs (map_of (inf_cache t))" by auto
  have "informer_step enable_watch s (Event ev) t"
    using Cons.prems t(1) by (intro informer_step.event) auto
  with u t(2) show ?case by (auto intro: informer_run.run_Cons simp: fold_Cons)
qed

text \<open>
  C38. List-then-watch mirrors the server: an unsynced informer that lists a snapshot and then
  handles the stream of events after it holds exactly the server's collection: the snapshot with the
  events applied in order.
\<close>

theorem list_watch_refines:
  assumes "\<forall>obj \<in> set objs. obj_name obj \<noteq> []" and "list_all event_ok evs"
    and "inf_pc s = Loop_Test" and "\<not> inf_synced s" and "\<not> inf_stop s"
  shows "\<exists>s'. informer_run True s
             (Enter # Resync (JObj [(''items'', JList (map JObj objs)),
                                    (''metadata'', JObj [(''resourceVersion'', JStr rv)])])
              # Watch_Start # map Event evs) s'
           \<and> (\<forall>name. informer_get name s' = fold apply_event evs (store_of_items objs) name)"
proof -
  let ?resp = "JObj [(''items'', JList (map JObj objs)), (''metadata'', JObj [(''resourceVersion'', JStr rv)])]"
  from build_cache_items [OF assms(1), of "[]"] obtain c where
    c: "build_cache (map JObj objs) [] = Inr c" "map_of c = store_of_items objs" by auto
  define r where "r = s\<lparr>inf_pc := Listing\<rparr>"
  have 0: "informer_step True s Enter r"
    using informer_step.enter [of s True] assms by (simp add: r_def)
  define t where "t = (advance_resource_version rv (r\<lparr>inf_cache := c\<rparr>))\<lparr>inf_synced := True\<rparr>"
  have "full_resync ?resp r = Inr t"
    by (simp add: full_resync_def get_items_def get_obj_def get_str_def c t_def)
  then have 1: "informer_step True r (Resync ?resp) (t\<lparr>inf_backoff := 1, inf_pc := Body\<rparr>)"
    by (intro informer_step.resync) (simp_all add: r_def)
  define u where "u = t\<lparr>inf_backoff := 1, inf_pc := Watching\<rparr>"
  have 2: "informer_step True (t\<lparr>inf_backoff := 1, inf_pc := Body\<rparr>) Watch_Start u"
    using informer_step.watch_start [of "t\<lparr>inf_backoff := 1, inf_pc := Body\<rparr>" True]
    by (simp add: u_def)
  have "inf_pc u = Watching" "\<not> inf_stop u" "map_of (inf_cache u) = store_of_items objs"
    using assms c by (simp_all add: u_def t_def r_def)
  with handle_events_refine [OF assms(2), of u True] obtain s' where
    s': "informer_run True u (map Event evs) s'"
    "map_of (inf_cache s') = fold apply_event evs (store_of_items objs)" by auto
  have "informer_run True s (Enter # Resync ?resp # Watch_Start # map Event evs) s'"
    by (rule informer_run.run_Cons [OF 0 informer_run.run_Cons [OF 1 informer_run.run_Cons [OF 2 s'(1)]]])
  with s'(2) show ?thesis by (auto simp: informer_get_def)
qed

theorem list_watch_refines_witness:
  "\<exists>s'. informer_run True init_informer
          (Enter # Resync (JObj [(''items'', JList (map JObj [sample_obj ''a'' ''5''])),
                                 (''metadata'', JObj [(''resourceVersion'', JStr ''6'')])])
           # Watch_Start # map Event [\<lparr>ev_type = ''DELETED'', ev_object = Some (sample_obj ''a'' ''7'')\<rparr>]) s'
        \<and> (\<forall>name. informer_get name s' =
             fold apply_event [\<lparr>ev_type = ''DELETED'', ev_object = Some (sample_obj ''a'' ''7'')\<rparr>]
               (store_of_items [sample_obj ''a'' ''5'']) name)"
  by (rule list_watch_refines)
     (simp_all add: obj_name_def event_ok_def sample_obj_metadata get_str_def init_informer_def)

section \<open>Stopping\<close>

text \<open>The steps of the watch thread itself, and how many it has left once it is told to stop.\<close>

definition thread_label :: "label \<Rightarrow> bool" where
  "thread_label l \<longleftrightarrow> (case l of Push _ \<Rightarrow> False | Stop \<Rightarrow> False | _ \<Rightarrow> True)"

fun pc_left :: "pc \<Rightarrow> nat" where
  "pc_left Done = 0"
| "pc_left Loop_Test = 1"
| "pc_left Watching = 2"
| "pc_left Body = 3"
| "pc_left Listing = 4"

lemma step_stopped:
  "informer_step enable_watch s l s' \<Longrightarrow> inf_stop s \<Longrightarrow>
     inf_stop s' \<and> pc_left (inf_pc s') + of_bool (thread_label l) \<le> pc_left (inf_pc s)"
  by (erule informer_step.cases)
     (auto simp: thread_label_def full_resync_def update_cache_def on_error_def Let_def bindR_eq_Inr
       split: if_splits)

lemma run_stopped:
  "informer_run enable_watch s ls s' \<Longrightarrow> inf_stop s \<Longrightarrow>
     length (filter thread_label ls) + pc_left (inf_pc s') \<le> pc_left (inf_pc s)"
proof (induction rule: informer_run.induct)
  case (run_Nil s)
  then show ?case by simp
next
  case (run_Cons s l t ls u)
  from step_stopped [OF run_Cons(1,4)] run_Cons(3) show ?case
    by (cases "thread_label l") auto
qed

text \<open>
  \<open>stop\<close> is honoured: once it has been called the watch thread makes at most four more steps of
  its own, whatever other threads do, and handles no further event.
\<close>

theorem stop_terminates:
  assumes "informer_run enable_watch s ls s'" and "inf_stop s"
  shows "length (filter thread_label ls) \<le> 4 \<and> (\<forall>ev. Event ev \<notin> set ls)"
proof -
  have "pc_left p \<le> 4" for p by (cases p) simp_all
  with run_stopped [OF assms] have "length (filter thread_label ls) \<le> 4"
    using le_trans add_leE by blast
  moreover have "\<forall>ev. Event ev \<notin> set ls"
    using assms
  proof (induction rule: informer_run.induct)
    case (run_Nil s)
    then show ?case by simp
  next
    case (run_Cons s l t ls u)
    then have "l \<noteq> Event ev" for ev by (auto elim: informer_stepE)
    with run_Cons step_stopped [OF run_Cons(1)] show ?case by auto
  qed
  ultimately show ?thesis by simp
qed

theorem stop_terminates_witness:
  "length (filter thread_label [Leave]) \<le> 4 \<and> (\<forall>ev. Event ev \<notin> set [Leave])"
  by (rule stop_terminates [where enable_watch = True and s = "init_informer\<lparr>inf_stop := True\<rparr>"])
     (auto intro!: informer_run.run_Cons [OF informer_step.leave] informer_run.run_Nil simp: init_informer_def)

end
