(* ===== verification/K8s_Client.thy ===== *)
theory K8s_Client
  imports K8s_Manifest Informer
begin

text \<open>
  \<open>server/src/services/k8s/client.py\<close>: the wrapper around the Kubernetes client library. The library and the
  cluster behind it, the clock, random identifiers and hashing are the record \<open>kube_api\<close> over an
  arbitrary world \<open>'w\<close>; the calls are those on the custom resource of the configured provider in the
  configured namespace. The wrapper's own state is the informer of that resource. Its rate limiters only
  delay calls (theory \<open>Rate_Limiter\<close>), so they are left out here; its lazily created API handles have no
  state of their own.
\<close>

section \<open>The cluster\<close>

record pod_status =
  pod_phase :: "string option"
  pod_ip :: "string option"

record pod =
  pod_name :: string
  pod_status_of :: "pod_status option"

record pvc_body =
  pvb_name :: string
  pvb_labels :: "(string, string) dict"
  pvb_access_modes :: "string list"
  pvb_requests :: "(string, string) dict"

record pvc_info =
  pvi_requests :: "(string, string) dict"
  pvi_storage_class :: "string option"

text \<open>
  The state the server sees: the world, and the informer once it has been started. A call acts on the
  world; while the server sleeps, other threads run, the informer's among them, so \<open>ka_sleep\<close> acts on
  both. \<open>ka_str\<close> is \<open>str(e)\<close> of an exception of the library, \<open>ka_hash8\<close> the first eight hexadecimal digits
  of a SHA-256 sum, \<open>ka_repr\<close> Python's \<open>repr\<close> of a container, \<open>ka_parse_dt\<close> the schema library's parsing of a timestamp.
\<close>

record 'w kstate =
  kworld :: 'w
  kinformer :: "informer option"

record 'w kube_api =
  ka_create :: "jobj \<Rightarrow> ('w, jobj) io"
  ka_get :: "string \<Rightarrow> ('w, jobj) io"
  ka_list :: "string \<Rightarrow> ('w, jobj) io"
  ka_delete :: "string \<Rightarrow> ('w, unit) io"
  ka_patch :: "string \<Rightarrow> jobj \<Rightarrow> ('w, jobj) io"
  ka_create_secret :: "pull_secret \<Rightarrow> ('w, unit) io"
  ka_list_pods :: "string \<Rightarrow> string \<Rightarrow> ('w, pod list) io"
  ka_create_pvc :: "pvc_body \<Rightarrow> ('w, unit) io"
  ka_delete_pvc :: "string \<Rightarrow> ('w, unit) io"
  ka_read_pvc :: "string \<Rightarrow> ('w, pvc_info) io"
  ka_patch_pvc :: "string \<Rightarrow> jobj \<Rightarrow> ('w, unit) io"
  ka_read_storage_class :: "string \<Rightarrow> ('w, bool option) io"
  ka_read_pod_log :: "string \<Rightarrow> string \<Rightarrow> int option \<Rightarrow> bool \<Rightarrow> ('w, string) io"
  ka_start_thread :: "('w, unit) io"
  ka_now :: "('w, timestamp) io"
  ka_time :: "('w, timestamp) io"
  ka_sleep :: "rat \<Rightarrow> ('w kstate, unit) io"
  ka_new_id :: "('w, string) io"
  ka_token :: "('w, string) io"
  ka_isoformat :: "timestamp \<Rightarrow> string"
  ka_fromiso :: "string \<Rightarrow> datetime option"
  ka_parse_dt :: "json \<Rightarrow> timestamp option"
  ka_hash8 :: "string \<Rightarrow> string"
  ka_str :: "exn \<Rightarrow> string"
  ka_repr :: "json \<Rightarrow> string"

text \<open>A call of the library inside an operation of the server.\<close>

definition inK :: "('w, 'a) io \<Rightarrow> ('w kstate, 'a) io" where
  "inK m s = (case m (kworld s) of (r, w) \<Rightarrow> (r, s\<lparr>kworld := w\<rparr>))"

section \<open>The informer of the client\<close>

text \<open>\<open>_get_informer\<close>: whether there is an informer to consult, starting it at the first call.\<close>

definition get_informer :: "kubernetes_config \<Rightarrow> 'w kube_api \<Rightarrow> ('w kstate, bool) io" where
  "get_informer k api =
     (if \<not> k8s_informer_enabled k then retS False
      else bindS (getS kinformer) (\<lambda>i.
           (case i of
              Some _ \<Rightarrow> retS True
            | None \<Rightarrow>
                bindS (modifyS (\<lambda>s. s\<lparr>kinformer := Some init_informer\<rparr>)) (\<lambda>_.
                catchS (bindS (inK (ka_start_thread api)) (\<lambda>_. retS True))
                  (\<lambda>e. bindS (modifyS (\<lambda>s. s\<lparr>kinformer := None\<rparr>)) (\<lambda>_. retS False))))))"

text \<open>\<open>informer.get\<close> of a synchronised informer, and \<open>informer.update_cache\<close>, where there is one.\<close>

definition cached_object :: "bool \<Rightarrow> string \<Rightarrow> 'w kstate \<Rightarrow> jobj option" where
  "cached_object has_informer name s =
     (if has_informer
      then (case kinformer s of Some i \<Rightarrow> if inf_synced i then informer_get name i else None | None \<Rightarrow> None)
      else None)"

definition push_cache :: "bool \<Rightarrow> jobj \<Rightarrow> ('w kstate, unit) io" where
  "push_cache has_informer obj s =
     (if \<not> has_informer then (ok, s)
      else (case kinformer s of
              None \<Rightarrow> (ok, s)
            | Some i \<Rightarrow> (case update_cache obj i of
                           Inl e \<Rightarrow> (Inl e, s)
                         | Inr i' \<Rightarrow> (ok, s\<lparr>kinformer := Some i'\<rparr>))))"

section \<open>Custom objects\<close>

definition create_custom_object :: "'w kube_api \<Rightarrow> jobj \<Rightarrow> ('w kstate, jobj) io" where
  "create_custom_object api body = inK (ka_create api body)"

definition get_custom_object :: "kubernetes_config \<Rightarrow> 'w kube_api \<Rightarrow> string \<Rightarrow> ('w kstate, jobj option) io" where
  "get_custom_object k api name =
     bindS (get_informer k api) (\<lambda>has_informer.
     bindS (getS (cached_object has_informer name)) (\<lambda>cached.
     (case cached of
        Some obj \<Rightarrow> retS (Some obj)
      | None \<Rightarrow>
          catchS (bindS (inK (ka_get api name)) (\<lambda>obj.
                  bindS (push_cache has_informer obj) (\<lambda>_. retS (Some obj))))
            (\<lambda>e. if e = ApiException 404 then retS None else raiseS e))))"

definition list_custom_objects :: "'w kube_api \<Rightarrow> string \<Rightarrow> ('w kstate, json list) io" where
  "list_custom_objects api label_selector =
     catchS (bindS (inK (ka_list api label_selector)) (\<lambda>resp. liftR (get_items resp)))
       (\<lambda>e. if e = ApiException 404 then retS [] else raiseS e)"

definition delete_custom_object :: "'w kube_api \<Rightarrow> string \<Rightarrow> ('w kstate, unit) io" where
  "delete_custom_object api name = inK (ka_delete api name)"

definition patch_custom_object :: "'w kube_api \<Rightarrow> string \<Rightarrow> jobj \<Rightarrow> ('w kstate, jobj) io" where
  "patch_custom_object api name body = inK (ka_patch api name body)"

section \<open>Secrets, pods and volume claims\<close>

definition create_secret :: "'w kube_api \<Rightarrow> pull_secret \<Rightarrow> ('w kstate, unit) io" where
  "create_secret api body = inK (ka_create_secret api body)"

definition list_pods :: "'w kube_api \<Rightarrow> string \<Rightarrow> string \<Rightarrow> ('w kstate, pod list) io" where
  "list_pods api namespace label_selector = inK (ka_list_pods api namespace label_selector)"

definition create_pvc :: "'w kube_api \<Rightarrow> string \<Rightarrow> string \<Rightarrow> (string, string) dict \<Rightarrow> ('w kstate, unit) io" where
  "create_pvc api name storage_size labels =
     inK (ka_create_pvc api
       \<lparr>pvb_name = name, pvb_labels = labels, pvb_access_modes = [''ReadWriteOnce''],
        pvb_requests = [(''storage'', storage_size)]\<rparr>)"

definition delete_pvc :: "'w kube_api \<Rightarrow> string \<Rightarrow> ('w kstate, unit) io" where
  "delete_pvc api name =
     catchS (inK (ka_delete_pvc api name)) (\<lambda>e. if e = ApiException 404 then retS () else raiseS e)"

definition patch_pvc :: "'w kube_api \<Rightarrow> string \<Rightarrow> jobj \<Rightarrow> ('w kstate, unit) io" where
  "patch_pvc api name body = inK (ka_patch_pvc api name body)"

definition some_or_404 :: "('w, 'a) io \<Rightarrow> ('w kstate, 'a option) io" where
  "some_or_404 m =
     catchS (bindS (inK m) (\<lambda>x. retS (Some x))) (\<lambda>e. if e = ApiException 404 then retS None else raiseS e)"

definition get_storage_class :: "'w kube_api \<Rightarrow> string \<Rightarrow> ('w kstate, bool option option) io" where
  "get_storage_class api name = some_or_404 (ka_read_storage_class api name)"

definition get_pvc :: "'w kube_api \<Rightarrow> string \<Rightarrow> ('w kstate, pvc_info option) io" where
  "get_pvc api name = some_or_404 (ka_read_pvc api name)"

definition read_pod_log ::
    "'w kube_api \<Rightarrow> string \<Rightarrow> string \<Rightarrow> int option \<Rightarrow> bool \<Rightarrow> ('w kstate, string) io" where
  "read_pod_log api pod_nm container_nm tail_lines follow =
     inK (ka_read_pod_log api pod_nm container_nm tail_lines follow)"

text \<open>The loops over the pods of a sandbox: the first that is running, its name or its address.\<close>

definition running_pod :: "pod \<Rightarrow> bool" where
  "running_pod p = (case pod_status_of p of None \<Rightarrow> False | Some st \<Rightarrow> pod_phase st = Some ''Running'')"

definition pod_address :: "pod \<Rightarrow> string option" where
  "pod_address p = (case pod_status_of p of None \<Rightarrow> None | Some st \<Rightarrow> if given (pod_ip st) then pod_ip st else None)"

definition get_pod_name_for_sandbox :: "'w kube_api \<Rightarrow> string \<Rightarrow> string \<Rightarrow> ('w kstate, string option) io" where
  "get_pod_name_for_sandbox api namespace sandbox_id =
     bindS (list_pods api namespace (''opensandbox.io/id='' @ sandbox_id)) (\<lambda>pods.
     retS (map_option pod_name (find running_pod pods)))"

definition get_pod_ip_for_sandbox :: "'w kube_api \<Rightarrow> string \<Rightarrow> string \<Rightarrow> ('w kstate, string option) io" where
  "get_pod_ip_for_sandbox api namespace sandbox_id =
     bindS (list_pods api namespace (''opensandbox.io/id='' @ sandbox_id)) (\<lambda>pods.
     retS (case find (\<lambda>p. pod_address p \<noteq> None \<and> running_pod p) pods of None \<Rightarrow> None | Some p \<Rightarrow> pod_address p))"

end
