(* ===== verification/Wp.thy ===== *)
theory Wp
  imports K8s_Client
begin

text \<open>
  Weakest preconditions of the statements of the Kubernetes runtime: \<open>wp m Q E s\<close> says that a run of \<open>m\<close>
  from \<open>s\<close> returns a value and a state satisfying \<open>Q\<close> or raises an exception in a state satisfying \<open>E\<close>.
  The equations follow the combinators, so a proof unfolds an operation down to its calls and uses what
  is known about these through \<open>wp_mono\<close>.
\<close>

named_theorems wp_simps

definition wp :: "('s, 'a) io \<Rightarrow> ('a \<Rightarrow> 's \<Rightarrow> bool) \<Rightarrow> (exn \<Rightarrow> 's \<Rightarrow> bool) \<Rightarrow> 's \<Rightarrow> bool" where
  "wp m Q E s = (case m s of (Inr x, s') \<Rightarrow> Q x s' | (Inl e, s') \<Rightarrow> E e s')"

lemma wpI:
  "(\<And>x s'. m s = (Inr x, s') \<Longrightarrow> Q x s') \<Longrightarrow> (\<And>e s'. m s = (Inl e, s') \<Longrightarrow> E e s') \<Longrightarrow> wp m Q E s"
  by (auto simp: wp_def split: prod.splits sum.splits)

lemma wp_InrD: "wp m Q E s \<Longrightarrow> m s = (Inr x, s') \<Longrightarrow> Q x s'"
  by (simp add: wp_def)

lemma wp_InlD: "wp m Q E s \<Longrightarrow> m s = (Inl e, s') \<Longrightarrow> E e s'"
  by (simp add: wp_def)

lemma wp_mono:
  "wp m Q E s \<Longrightarrow> (\<And>x s'. Q x s' \<Longrightarrow> Q' x s') \<Longrightarrow> (\<And>e s'. E e s' \<Longrightarrow> E' e s') \<Longrightarrow> wp m Q' E' s"
  by (auto simp: wp_def split: prod.splits sum.splits)

lemma wp_retS [wp_simps]: "wp (retS x) Q E = Q x"
  by (simp add: fun_eq_iff wp_def io_simps)

lemma wp_raiseS [wp_simps]: "wp (raiseS e) Q E = E e"
  by (simp add: fun_eq_iff wp_def io_simps)

lemma wp_getS [wp_simps]: "wp (getS f) Q E s = Q (f s) s"
  by (simp add: wp_def io_simps)

lemma wp_modifyS [wp_simps]: "wp (modifyS f) Q E s = Q () (f s)"
  by (simp add: wp_def io_simps)

lemma wp_liftR [wp_simps]: "wp (liftR r) Q E s = (case r of Inr x \<Rightarrow> Q x s | Inl e \<Rightarrow> E e s)"
  by (auto simp: wp_def io_simps split: sum.splits)

lemma wp_bindS [wp_simps]: "wp (bindS m k) Q E = wp m (\<lambda>x. wp (k x) Q E) E"
  by (auto simp: fun_eq_iff wp_def bindS_def split: prod.splits sum.splits)

lemma wp_catchS [wp_simps]: "wp (catchS m h) Q E = wp m Q (\<lambda>e. wp (h e) Q E)"
  by (auto simp: fun_eq_iff wp_def catchS_def split: prod.splits sum.splits)

lemma wp_whenS [wp_simps]: "wp (whenS b m) Q E s = (if b then wp m Q E s else Q () s)"
  by (simp add: whenS_def wp_retS)

lemma wp_inK [wp_simps]:
  "wp (inK m) Q E s = wp m (\<lambda>x w. Q x (s\<lparr>kworld := w\<rparr>)) (\<lambda>e w. E e (s\<lparr>kworld := w\<rparr>)) (kworld s)"
  by (auto simp: wp_def inK_def split: prod.splits sum.splits)

lemma wp_if [wp_simps]: "wp (if b then m else n) Q E s = (if b then wp m Q E s else wp n Q E s)"
  by simp

lemma wp_case_option [wp_simps]:
  "wp (case v of None \<Rightarrow> m | Some x \<Rightarrow> f x) Q E s = (case v of None \<Rightarrow> wp m Q E s | Some x \<Rightarrow> wp (f x) Q E s)"
  by (cases v) simp_all

lemma wp_case_prod [wp_simps]:
  "wp (case p of (x, y) \<Rightarrow> f x y) Q E s = (case p of (x, y) \<Rightarrow> wp (f x y) Q E s)"
  by (cases p) simp

text \<open>An invariant of a call, whatever it returns or raises.\<close>

abbreviation always :: "('s, 'a) io \<Rightarrow> ('s \<Rightarrow> bool) \<Rightarrow> 's \<Rightarrow> bool" where
  "always m P s \<equiv> wp m (\<lambda>_. P) (\<lambda>_. P) s"

lemma always_snd: "always m P s \<longleftrightarrow> P (snd (m s))"
  by (auto simp: wp_def split: prod.splits sum.splits)

end
