(* ===== verification/K8s_Workload.thy ===== *)
theory K8s_Workload
  imports K8s_Client
begin

text \<open>
  What the workload providers share (\<open>server/src/services/k8s/workload_provider.py\<close> and the parts that
  \<open>batchsandbox_provider.py\<close> and \<open>agent_sandbox_provider.py\<close> have in common): the arguments and results of the
  interface, the containers of a pod, and the interface itself as a record of operations.
\<close>

section \<open>Arguments and results\<close>

record workload_request =
  wr_sandbox_id :: string
  wr_namespace :: "string option"
  wr_image :: image_spec
  wr_entrypoint :: "string list"
  wr_env :: "(string, string option) dict"
  wr_limits :: "(string, string) dict"
  wr_labels :: "(string, string) dict"
  wr_expires_at :: "timestamp option"
  wr_execd_image :: string
  wr_extensions :: "(string, string) dict option"
  wr_network_policy :: "network_policy option"
  wr_egress_image :: "string option"
  wr_volumes :: "volume list option"
  wr_annotations :: "(string, string) dict option"
  wr_egress_token :: "string option"

record workload_info =
  wi_name :: json
  wi_uid :: json

text \<open>The dictionary returned by \<open>get_status\<close>, without its human-readable message.\<close>

record status_info =
  si_state :: string
  si_reason :: json
  si_transition :: json

record 'w provider =
  pv_create :: "workload_request \<Rightarrow> ('w kstate, workload_info) io"
  pv_get :: "string \<Rightarrow> ('w kstate, jobj option) io"
  pv_delete :: "string \<Rightarrow> ('w kstate, unit) io"
  pv_list :: "string \<Rightarrow> ('w kstate, json list) io"
  pv_update_expiration :: "string \<Rightarrow> timestamp \<Rightarrow> ('w kstate, unit) io"
  pv_get_expiration :: "jobj \<Rightarrow> datetime option res"
  pv_get_status :: "jobj \<Rightarrow> ('w kstate, status_info) io"
  pv_get_endpoint_info :: "jobj \<Rightarrow> int \<Rightarrow> string \<Rightarrow> ('w kstate, sandbox_endpoint option) io"
  pv_pause :: "string \<Rightarrow> ('w kstate, unit) io"
  pv_resume :: "string \<Rightarrow> ('w kstate, unit) io"
  pv_update_limits :: "string \<Rightarrow> (string, string) dict \<Rightarrow> ('w kstate, unit) io"
  pv_update_env :: "string \<Rightarrow> (string, string) dict \<Rightarrow> ('w kstate, unit) io"
  pv_supports_image_auth :: bool
  pv_touch :: "string \<Rightarrow> timestamp \<Rightarrow> ('w kstate, unit) io"

definition legacy_resource_name :: "string \<Rightarrow> string" where
  "legacy_resource_name sandbox_id =
     (if starts_with sandbox_id ''sandbox-'' then sandbox_id else ''sandbox-'' @ sandbox_id)"

section \<open>Values in manifests\<close>

definition strings_json :: "(string, string) dict \<Rightarrow> json" where
  "strings_json d = JObj (map (\<lambda>(k, v). (k, JStr v)) d)"

definition opt_json :: "string option \<Rightarrow> json" where
  "opt_json v = (case v of None \<Rightarrow> JNull | Some s \<Rightarrow> JStr s)"

text \<open>\<open>d[k]\<close> on a JSON object, and \<open>obj["metadata"][k]\<close>.\<close>

definition jindex :: "jobj \<Rightarrow> string \<Rightarrow> json res" where
  "jindex d k = (case map_of d k of None \<Rightarrow> Inl KeyError | Some v \<Rightarrow> Inr v)"

definition meta_field :: "jobj \<Rightarrow> string \<Rightarrow> json res" where
  "meta_field obj k =
     bindR (jindex obj ''metadata'') (\<lambda>m. (case m of JObj d \<Rightarrow> jindex d k | _ \<Rightarrow> Inl TypeError))"

text \<open>\<open>workload["metadata"]["name"]\<close> as the name given to the API.\<close>

definition meta_name :: "jobj \<Rightarrow> string res" where
  "meta_name obj = bindR (meta_field obj ''name'') (\<lambda>v. (case v of JStr n \<Rightarrow> Inr n | _ \<Rightarrow> Inl TypeError))"

text \<open>\<open>dict(d.get(k, {}))\<close>\<close>

definition dict_copy :: "jobj \<Rightarrow> string \<Rightarrow> jobj res" where
  "dict_copy d k = (case map_of d k of None \<Rightarrow> Inr [] | Some (JObj e) \<Rightarrow> Inr e | Some _ \<Rightarrow> Inl TypeError)"

text \<open>\<open>d.get(k) or {}\<close>, used as a dictionary.\<close>

definition get_or_empty :: "jobj \<Rightarrow> string \<Rightarrow> jobj res" where
  "get_or_empty d k =
     (case jget d k of JObj e \<Rightarrow> Inr e | v \<Rightarrow> if truthy v then Inl AttributeError else Inr [])"

text \<open>\<open>if not x\<close> on an optional dictionary.\<close>

definition present :: "jobj option \<Rightarrow> bool" where
  "present w \<longleftrightarrow> w \<noteq> None \<and> w \<noteq> Some []"

text \<open>\<open>v == n\<close> for a JSON value and an integer; \<open>True == 1\<close> in Python.\<close>

definition json_eq_int :: "json \<Rightarrow> int \<Rightarrow> bool" where
  "json_eq_int v n = (case v of JInt m \<Rightarrow> m = n | JBool b \<Rightarrow> of_bool b = n | _ \<Rightarrow> False)"

section \<open>Containers\<close>

record v1_resources =
  res_limits :: "(string, string) dict option"
  res_requests :: "(string, string) dict option"

record v1_container =
  ctr_name :: string
  ctr_image :: string
  ctr_command :: "string list"
  ctr_args :: "string list"
  ctr_env :: "(string, string option) dict"
  ctr_resources :: "v1_resources option"
  ctr_mounts :: "(string, string) dict"
  ctr_security_context :: "v1_security_context option"

definition dict_given :: "(string, string) dict option \<Rightarrow> bool" where
  "dict_given d \<longleftrightarrow> d \<noteq> None \<and> d \<noteq> Some []"

definition resources_to_dict :: "v1_resources \<Rightarrow> jobj" where
  "resources_to_dict r =
     (if dict_given (res_limits r) then [(''limits'', strings_json (the (res_limits r)))] else [])
     @ (if dict_given (res_requests r) then [(''requests'', strings_json (the (res_requests r)))] else [])"

definition container_to_dict :: "v1_container \<Rightarrow> jobj" where
  "container_to_dict c =
     [(''name'', JStr (ctr_name c)), (''image'', JStr (ctr_image c))]
     @ (if ctr_command c \<noteq> [] then [(''command'', JList (map JStr (ctr_command c)))] else [])
     @ (if ctr_args c \<noteq> [] then [(''args'', JList (map JStr (ctr_args c)))] else [])
     @ (if ctr_env c \<noteq> [] then [(''env'', JList (map (\<lambda>(k, v). name_value k (opt_json v)) (ctr_env c)))] else [])
     @ (case ctr_resources c of None \<Rightarrow> [] | Some r \<Rightarrow> [(''resources'', JObj (resources_to_dict r))])
     @ (if ctr_mounts c \<noteq> []
        then [(''volumeMounts'', JList (map (\<lambda>(n, p). JObj [(''name'', JStr n), (''mountPath'', JStr p)]) (ctr_mounts c)))]
        else [])
     @ (case serialize_security_context_to_dict (ctr_security_context c) of
          None \<Rightarrow> [] | Some d \<Rightarrow> [(''securityContext'', JObj d)])"

definition K8S_BOOTSTRAP :: string where
  "K8S_BOOTSTRAP = ''/opt/opensandbox/bin/bootstrap.sh''"

definition K8S_EXECD :: string where
  "K8S_EXECD = ''/opt/opensandbox/bin/execd''"

definition execd_init_script :: string where
  "execd_init_script =
     ''cp ./execd /opt/opensandbox/bin/execd && '' @
     ''cp ./bootstrap.sh /opt/opensandbox/bin/bootstrap.sh && '' @
     ''chmod +x /opt/opensandbox/bin/execd && '' @
     ''chmod +x /opt/opensandbox/bin/bootstrap.sh''"

definition build_execd_init_container :: "kubernetes_config \<Rightarrow> string \<Rightarrow> v1_container" where
  "build_execd_init_container k execd_image =
     \<lparr>ctr_name = ''execd-installer'', ctr_image = execd_image, ctr_command = [''/bin/sh'', ''-c''],
      ctr_args = [execd_init_script], ctr_env = [],
      ctr_resources = (case k8s_execd_init_resources k of
         None \<Rightarrow> None
       | Some r \<Rightarrow> Some \<lparr>res_limits = init_limits r, res_requests = init_requests r\<rparr>),
      ctr_mounts = [(''opensandbox-bin'', ''/opt/opensandbox/bin'')], ctr_security_context = None\<rparr>"

definition build_main_container ::
    "image_spec \<Rightarrow> string list \<Rightarrow> (string, string option) dict \<Rightarrow> (string, string) dict \<Rightarrow> bool \<Rightarrow> v1_container" where
  "build_main_container img entrypoint env resource_limits has_network_policy =
     \<lparr>ctr_name = ''sandbox'', ctr_image = image_uri img, ctr_command = K8S_BOOTSTRAP # entrypoint, ctr_args = [],
      ctr_env = env @ [(''EXECD'', Some K8S_EXECD)],
      ctr_resources = (if resource_limits = [] then None
         else Some \<lparr>res_limits = Some resource_limits, res_requests = Some resource_limits\<rparr>),
      ctr_mounts = [(''opensandbox-bin'', ''/opt/opensandbox/bin'')],
      ctr_security_context = (if has_network_policy
         then build_security_context_from_dict (build_security_context_for_sandbox_container True) else None)\<rparr>"

text \<open>The pod both providers start from, and the egress side car that both add.\<close>

definition base_pod_spec :: "kubernetes_config \<Rightarrow> workload_request \<Rightarrow> (string, string) dict \<Rightarrow> jobj" where
  "base_pod_spec k r limits =
     [(''initContainers'', JList [JObj (container_to_dict (build_execd_init_container k (wr_execd_image r)))]),
      (''containers'', JList [JObj (container_to_dict (build_main_container (wr_image r) (wr_entrypoint r)
          (wr_env r) limits (wr_network_policy r \<noteq> None)))]),
      (''volumes'', JList [JObj [(''name'', JStr ''opensandbox-bin''), (''emptyDir'', JObj [])]])]"

definition with_runtime_class :: "app_config \<Rightarrow> jobj \<Rightarrow> jobj" where
  "with_runtime_class c pod_spec =
     (if given (get_k8s_runtime_class c)
      then AList.update ''runtimeClassName'' (JStr (the (get_k8s_runtime_class c))) pod_spec else pod_spec)"

definition add_user_volumes :: "workload_request \<Rightarrow> jobj \<Rightarrow> jobj res" where
  "add_user_volumes r pod_spec =
     (case wr_volumes r of
        None \<Rightarrow> Inr pod_spec
      | Some vs \<Rightarrow> if vs = [] then Inr pod_spec else apply_volumes_to_pod_spec pod_spec vs)"

section \<open>Resource limits of the first container\<close>

text \<open>\<open>containers[0]\<close> of a template, with the error of a template that has none.\<close>

definition first_container :: "jobj \<Rightarrow> string \<Rightarrow> jobj res" where
  "first_container pod_template missing =
     bindR (get_obj pod_template ''spec'') (\<lambda>pod_spec.
     (case jget pod_spec ''containers'' of
        JList (JObj main # _) \<Rightarrow> Inr main
      | v \<Rightarrow> if truthy v then Inl AttributeError else Inl (OtherException missing)))"

definition updated_resources :: "jobj \<Rightarrow> (string, string) dict \<Rightarrow> json res" where
  "updated_resources main limits =
     bindR (get_obj main ''resources'') (\<lambda>current.
     bindR (dict_copy current ''limits'') (\<lambda>current_limits.
     bindR (dict_copy current ''requests'') (\<lambda>current_requests.
     (let new = map (\<lambda>(k, v). (k, JStr v)) limits
      in Inr (JObj [(''limits'', JObj (dict_update current_limits new)),
                    (''requests'', JObj (dict_update current_requests new))])))))"

definition env_entries :: "(string, string) dict \<Rightarrow> json" where
  "env_entries env =
     JList (map (\<lambda>(k, v). name_value k (JStr v)) env @ [name_value ''EXECD'' (JStr K8S_EXECD)])"

text \<open>\<open>{"spec": {template_key: {"spec": {"containers": [c]}}}}\<close>\<close>

definition containers_patch :: "string \<Rightarrow> jobj \<Rightarrow> jobj" where
  "containers_patch template_key c =
     [(''spec'', JObj [(template_key, JObj [(''spec'', JObj [(''containers'', JList [JObj c])])])])]"

definition activity_labels :: "jobj \<Rightarrow> timestamp \<Rightarrow> jobj res" where
  "activity_labels workload now =
     bindR (get_obj workload ''metadata'') (\<lambda>m.
     bindR (get_or_empty m ''labels'') (\<lambda>labels.
     Inr (AList.update SANDBOX_LAST_ACTIVITY_AT_LABEL (JStr (str_int (now div 1000000))) labels)))"

text \<open>
  The pattern of every change to an existing workload: look it up, raise the given message when it is
  not there, compute the patch, send it.
\<close>

definition patch_workload ::
    "'w kube_api \<Rightarrow> ('w kstate, jobj option) io \<Rightarrow> string \<Rightarrow> (jobj \<Rightarrow> jobj res) \<Rightarrow> ('w kstate, unit) io" where
  "patch_workload api lookup missing body =
     bindS lookup (\<lambda>w.
     if \<not> present w then raiseS (OtherException missing)
     else bindS (liftR (body (the w))) (\<lambda>patch.
          bindS (liftR (meta_name (the w))) (\<lambda>name.
          bindS (patch_custom_object api name patch) (\<lambda>_. retS ()))))"

text \<open>\<open>datetime.fromisoformat(s.replace("Z", "+00:00"))\<close> of a field of the spec, \<open>None\<close> on a bad value.\<close>

fun replace_z :: "string \<Rightarrow> string" where
  "replace_z [] = []"
| "replace_z (c # s) = (if c = CHR ''Z'' then ''+00:00'' @ replace_z s else c # replace_z s)"

definition spec_time :: "'w kube_api \<Rightarrow> string \<Rightarrow> jobj \<Rightarrow> datetime option res" where
  "spec_time api field workload =
     bindR (get_obj workload ''spec'') (\<lambda>spec.
     (case jget spec field of
        JStr t \<Rightarrow> Inr (if t = [] then None else ka_fromiso api (replace_z t))
      | v \<Rightarrow> if truthy v then Inl AttributeError else Inr None))"

end
