(* ===== verification/Batch_Provider.thy ===== *)
theory Batch_Provider
  imports K8s_Workload
begin

text \<open>
  \<open>server/src/services/k8s/batchsandbox_provider.py\<close>: sandboxes as \<open>BatchSandbox\<close> resources. The manifest of a
  new workload is computed by \<open>batch_manifest\<close> from the request, the configuration and the template file
  (\<open>template\<close>, \<open>[]\<close> when there is none); the operations follow the methods of the class.
\<close>

section \<open>Pool mode\<close>

text \<open>\<open>shlex.quote\<close>: the characters that need no quotes are \<open>[a-zA-Z0-9_@%+=:,./-]\<close>.\<close>

definition shell_safe :: "char \<Rightarrow> bool" where
  "shell_safe c \<longleftrightarrow> is_alnum c \<or> c \<in> set ''_@%+=:,./-''"

definition squote :: char where
  "squote = CHR 0x27"

definition dquote :: char where
  "dquote = CHR 0x22"

fun escape_squotes :: "string \<Rightarrow> string" where
  "escape_squotes [] = []"
| "escape_squotes (c # s) =
     (if c = squote then [squote, dquote, squote, dquote, squote] else [c]) @ escape_squotes s"

definition shlex_quote :: "string \<Rightarrow> string" where
  "shlex_quote s =
     (if s = [] then [squote, squote]
      else if list_all shell_safe s then s
      else [squote] @ escape_squotes s @ [squote])"

definition task_command :: "string list \<Rightarrow> string" where
  "task_command entrypoint =
     K8S_BOOTSTRAP @ '' '' @ join_with (CHR '' '') (map shlex_quote entrypoint) @ '' &''"

definition build_task_template :: "string list \<Rightarrow> (string, string option) dict \<Rightarrow> json" where
  "build_task_template entrypoint env =
     JObj [(''spec'', JObj [(''process'', JObj
       [(''command'', JList [JStr ''/bin/sh'', JStr ''-c'', JStr (task_command entrypoint)]),
        (''env'', JList (map (\<lambda>(k, v). name_value k (opt_json v)) env))])])]"

definition batch_pool_manifest :: "(timestamp \<Rightarrow> string) \<Rightarrow> workload_request \<Rightarrow> string \<Rightarrow> jobj" where
  "batch_pool_manifest isof r pool_ref =
     [(''apiVersion'', JStr ''sandbox.opensandbox.io/v1alpha1''), (''kind'', JStr ''BatchSandbox''),
      (''metadata'', JObj [(''name'', JStr (wr_sandbox_id r)), (''namespace'', opt_json (wr_namespace r)),
         (''labels'', strings_json (wr_labels r))]),
      (''spec'', JObj ([(''replicas'', JInt 1), (''poolRef'', JStr pool_ref),
         (''taskTemplate'', build_task_template (wr_entrypoint r) (wr_env r))]
         @ (case wr_expires_at r of None \<Rightarrow> [] | Some t \<Rightarrow> [(''expireTime'', JStr (isof t))])))]"

section \<open>Template mode\<close>

text \<open>\<open>_extract_template_pod_extras\<close>: the volumes of the template and the mounts of its sandbox container.\<close>

fun find_sandbox_container :: "json list \<Rightarrow> jobj option res" where
  "find_sandbox_container [] = Inr None"
| "find_sandbox_container (JObj d # cs) =
     (if jget d ''name'' = JStr ''sandbox'' then Inr (Some d) else find_sandbox_container cs)"
| "find_sandbox_container (_ # cs) = Inl AttributeError"

definition template_mounts :: "json \<Rightarrow> json list res" where
  "template_mounts containers =
     (case containers of
        JList (first # cs) \<Rightarrow>
          bindR (find_sandbox_container (first # cs)) (\<lambda>target.
          Inr (case target of
                 Some d \<Rightarrow> jget_list d ''volumeMounts''
               | None \<Rightarrow> (case first of JObj d \<Rightarrow> jget_list d ''volumeMounts'' | _ \<Rightarrow> [])))
      | v \<Rightarrow> if truthy v then Inl AttributeError else Inr [])"

definition extract_template_pod_extras :: "jobj \<Rightarrow> (json list \<times> json list) res" where
  "extract_template_pod_extras template =
     bindR (get_obj template ''spec'') (\<lambda>spec.
     bindR (get_obj spec ''template'') (\<lambda>pod_template.
     bindR (get_obj pod_template ''spec'') (\<lambda>template_spec.
     bindR (template_mounts (jget template_spec ''containers'')) (\<lambda>extra_mounts.
     Inr (jget_list template_spec ''volumes'', extra_mounts)))))"

text \<open>\<open>_merge_pod_spec_extras\<close>: entries of the template whose name is not taken are appended.\<close>

fun merge_named :: "json list \<Rightarrow> json list \<Rightarrow> json list \<Rightarrow> json list" where
  "merge_named existing acc [] = acc"
| "merge_named existing acc (JObj d # rest) =
     (let name = jget d ''name''
      in if \<not> truthy name \<or> name \<in> set existing then merge_named existing acc rest
         else merge_named (name # existing) (acc @ [JObj d]) rest)"
| "merge_named existing acc (_ # rest) = merge_named existing acc rest"

definition merge_extra_entries :: "json list \<Rightarrow> json list \<Rightarrow> json list" where
  "merge_extra_entries entries extra = merge_named (concat (map entry_name entries)) entries extra"

definition merge_list_field :: "string \<Rightarrow> json list \<Rightarrow> jobj \<Rightarrow> jobj" where
  "merge_list_field field extra d =
     (case jget d field of
        JList xs \<Rightarrow> if extra = [] then d else AList.update field (JList (merge_extra_entries xs extra)) d
      | v \<Rightarrow> if truthy v \<or> extra = [] then d
            else AList.update field (JList (merge_extra_entries [] extra)) d)"

definition merge_spec_extras :: "json list \<Rightarrow> json list \<Rightarrow> jobj \<Rightarrow> jobj" where
  "merge_spec_extras extra_volumes extra_mounts spec =
     (let spec1 = merge_list_field ''volumes'' extra_volumes spec
      in case jget spec1 ''containers'' of
           JList (JObj main # others) \<Rightarrow>
             AList.update ''containers'' (JList (JObj (merge_list_field ''volumeMounts'' extra_mounts main) # others)) spec1
         | _ \<Rightarrow> spec1)"

text \<open>A change of the dictionary found by following keys; nothing happens when one of them is missing.\<close>

fun upd_obj :: "string list \<Rightarrow> (jobj \<Rightarrow> jobj) \<Rightarrow> jobj \<Rightarrow> jobj" where
  "upd_obj [] f d = f d"
| "upd_obj (k # ks) f d =
     (case map_of d k of Some (JObj e) \<Rightarrow> AList.update k (JObj (upd_obj ks f e)) d | _ \<Rightarrow> d)"

definition set_or_pop :: "string \<Rightarrow> string option \<Rightarrow> jobj \<Rightarrow> jobj" where
  "set_or_pop field v d =
     (case v of None \<Rightarrow> AList.delete field d | Some t \<Rightarrow> AList.update field (JStr t) d)"

definition batch_pod_spec :: "app_config \<Rightarrow> kubernetes_config \<Rightarrow> workload_request \<Rightarrow> jobj res" where
  "batch_pod_spec c k r =
     (let spec0 = with_runtime_class c (base_pod_spec k r (wr_limits r));
          spec1 = (if image_auth_of (wr_image r) \<noteq> None
                   then AList.update ''imagePullSecrets''
                          (JList [JObj [(''name'', JStr (build_image_pull_secret_name (wr_sandbox_id r)))]]) spec0
                   else spec0)
      in add_user_volumes r
           (apply_egress_to_spec spec1 (wr_network_policy r) (wr_egress_image r) (wr_egress_token r)))"

definition workload_metadata :: "string \<Rightarrow> workload_request \<Rightarrow> json" where
  "workload_metadata name r =
     JObj ([(''name'', JStr name), (''namespace'', opt_json (wr_namespace r)), (''labels'', strings_json (wr_labels r))]
       @ (if dict_given (wr_annotations r) then [(''annotations'', strings_json (the (wr_annotations r)))] else []))"

definition batch_manifest ::
    "app_config \<Rightarrow> kubernetes_config \<Rightarrow> jobj \<Rightarrow> (timestamp \<Rightarrow> string) \<Rightarrow> workload_request \<Rightarrow> jobj res" where
  "batch_manifest c k template isof r =
     bindR (extract_template_pod_extras template) (\<lambda>(extra_volumes, extra_mounts).
     bindR (batch_pod_spec c k r) (\<lambda>pod_spec.
     (let runtime_manifest =
            [(''apiVersion'', JStr ''sandbox.opensandbox.io/v1alpha1''), (''kind'', JStr ''BatchSandbox''),
             (''metadata'', workload_metadata (wr_sandbox_id r) r),
             (''spec'', JObj [(''replicas'', JInt 1), (''template'', JObj [(''spec'', JObj pod_spec)])])];
          merged = merge_with_runtime_values template runtime_manifest;
          timed = upd_obj [''spec''] (set_or_pop ''expireTime'' (map_option isof (wr_expires_at r))) merged
      in Inr (upd_obj [''spec'', ''template'', ''spec''] (merge_spec_extras extra_volumes extra_mounts) timed))))"

section \<open>Creation\<close>

definition created_info :: "jobj \<Rightarrow> workload_info res" where
  "created_info created =
     bindR (meta_field created ''name'') (\<lambda>n.
     bindR (meta_field created ''uid'') (\<lambda>u. Inr \<lparr>wi_name = n, wi_uid = u\<rparr>))"

definition create_pull_secret :: "'w kube_api \<Rightarrow> workload_request \<Rightarrow> image_auth \<Rightarrow> jobj \<Rightarrow> ('w kstate, unit) io" where
  "create_pull_secret api r auth created =
     bindS (liftR (meta_field created ''uid'')) (\<lambda>uid.
     catchS (create_secret api (build_image_pull_secret (wr_sandbox_id r) (image_uri (wr_image r)) auth uid
               ''sandbox.opensandbox.io/v1alpha1'' ''BatchSandbox''))
       (\<lambda>e. bindS (catchS (delete_custom_object api (wr_sandbox_id r)) (\<lambda>_. retS ())) (\<lambda>_. raiseS e)))"

definition create_workload_from_pool :: "'w kube_api \<Rightarrow> workload_request \<Rightarrow> string \<Rightarrow> ('w kstate, workload_info) io" where
  "create_workload_from_pool api r pool_ref =
     bindS (create_custom_object api (batch_pool_manifest (ka_isoformat api) r pool_ref)) (\<lambda>created.
     liftR (created_info created))"

definition batch_create_workload ::
    "app_config \<Rightarrow> kubernetes_config \<Rightarrow> jobj \<Rightarrow> 'w kube_api \<Rightarrow> workload_request \<Rightarrow> ('w kstate, workload_info) io" where
  "batch_create_workload c k template api r =
     (let pool_ref = (case wr_extensions r of None \<Rightarrow> None | Some ext \<Rightarrow> map_of ext ''poolRef'')
      in if given pool_ref
         then (if wr_volumes r \<noteq> None \<and> wr_volumes r \<noteq> Some [] then raiseS ValueError
               else create_workload_from_pool api r (the pool_ref))
         else bindS (liftR (batch_manifest c k template (ka_isoformat api) r)) (\<lambda>batchsandbox.
              bindS (create_custom_object api batchsandbox) (\<lambda>created.
              bindS (case image_auth_of (wr_image r) of
                       None \<Rightarrow> retS () | Some auth \<Rightarrow> create_pull_secret api r auth created) (\<lambda>_.
              liftR (created_info created)))))"

section \<open>The other operations\<close>

definition batch_get_workload :: "kubernetes_config \<Rightarrow> 'w kube_api \<Rightarrow> string \<Rightarrow> ('w kstate, jobj option) io" where
  "batch_get_workload k api sandbox_id =
     bindS (get_custom_object k api sandbox_id) (\<lambda>w.
     if present w then retS w
     else if legacy_resource_name sandbox_id \<noteq> sandbox_id
     then get_custom_object k api (legacy_resource_name sandbox_id)
     else retS None)"

definition batch_not_found :: "string \<Rightarrow> string" where
  "batch_not_found sandbox_id = ''BatchSandbox for sandbox '' @ sandbox_id @ '' not found''"

definition batch_delete_workload :: "kubernetes_config \<Rightarrow> 'w kube_api \<Rightarrow> string \<Rightarrow> ('w kstate, unit) io" where
  "batch_delete_workload k api sandbox_id =
     bindS (batch_get_workload k api sandbox_id) (\<lambda>w.
     if \<not> present w then raiseS (OtherException (batch_not_found sandbox_id))
     else bindS (liftR (meta_name (the w))) (delete_custom_object api))"

definition batch_limits_patch :: "(string, string) dict \<Rightarrow> jobj \<Rightarrow> jobj res" where
  "batch_limits_patch limits workload =
     bindR (get_obj workload ''spec'') (\<lambda>spec.
     bindR (get_obj spec ''template'') (\<lambda>template.
     bindR (first_container template ''No containers found in BatchSandbox spec'') (\<lambda>main.
     bindR (updated_resources main limits) (\<lambda>res.
     Inr (containers_patch ''template''
       [(''name'', case map_of main ''name'' of None \<Rightarrow> JStr ''sandbox'' | Some v \<Rightarrow> v), (''resources'', res)])))))"

definition batch_update_resource_limits ::
    "kubernetes_config \<Rightarrow> 'w kube_api \<Rightarrow> string \<Rightarrow> (string, string) dict \<Rightarrow> ('w kstate, unit) io" where
  "batch_update_resource_limits k api sandbox_id limits =
     patch_workload api (batch_get_workload k api sandbox_id) (batch_not_found sandbox_id) (batch_limits_patch limits)"

definition batch_env_patch :: "(string, string) dict \<Rightarrow> jobj \<Rightarrow> jobj res" where
  "batch_env_patch env workload =
     bindR (get_obj workload ''spec'') (\<lambda>spec.
     bindR (get_obj spec ''template'') (\<lambda>template.
     bindR (first_container template ''No containers found in BatchSandbox spec'') (\<lambda>main.
     Inr (containers_patch ''template'' (AList.update ''env'' (env_entries env) main)))))"

definition batch_update_env ::
    "kubernetes_config \<Rightarrow> 'w kube_api \<Rightarrow> string \<Rightarrow> (string, string) dict \<Rightarrow> ('w kstate, unit) io" where
  "batch_update_env k api sandbox_id env =
     patch_workload api (batch_get_workload k api sandbox_id) (batch_not_found sandbox_id) (batch_env_patch env)"

definition batch_pause_workload :: "string \<Rightarrow> ('w kstate, unit) io" where
  "batch_pause_workload sandbox_id = raiseS NotImplementedError"

definition batch_resume_workload :: "string \<Rightarrow> ('w kstate, unit) io" where
  "batch_resume_workload sandbox_id = raiseS NotImplementedError"

definition batch_list_workloads :: "'w kube_api \<Rightarrow> string \<Rightarrow> ('w kstate, json list) io" where
  "batch_list_workloads api label_selector = list_custom_objects api label_selector"

definition batch_update_expiration ::
    "kubernetes_config \<Rightarrow> 'w kube_api \<Rightarrow> string \<Rightarrow> timestamp \<Rightarrow> ('w kstate, unit) io" where
  "batch_update_expiration k api sandbox_id expires_at =
     patch_workload api (batch_get_workload k api sandbox_id) (batch_not_found sandbox_id)
       (\<lambda>_. Inr [(''spec'', JObj [(''expireTime'', JStr (ka_isoformat api expires_at))])])"

definition batch_get_expiration :: "'w kube_api \<Rightarrow> jobj \<Rightarrow> datetime option res" where
  "batch_get_expiration api = spec_time api ''expireTime''"

text \<open>\<open>_parse_pod_ip\<close>: the first entry of the end points annotation, \<open>JNull\<close> when there is none.\<close>

definition parse_pod_ip :: "jobj \<Rightarrow> json res" where
  "parse_pod_ip workload =
     bindR (get_obj workload ''metadata'') (\<lambda>m.
     bindR (get_obj m ''annotations'') (\<lambda>annotations.
     (case jget annotations ''sandbox.opensandbox.io/endpoints'' of
        JStr t \<Rightarrow>
          (if t = [] then Inr JNull
           else (case json_loads t of
                   Some (JList (x # _)) \<Rightarrow> Inr x
                 | Some (JStr (ch # _)) \<Rightarrow> Inr (JStr [ch])
                 | Some (JObj (_ # _)) \<Rightarrow> Inl KeyError
                 | _ \<Rightarrow> Inr JNull))
      | _ \<Rightarrow> Inr JNull)))"

definition json_positive :: "json \<Rightarrow> bool res" where
  "json_positive v =
     (case v of
        JInt n \<Rightarrow> Inr (n > 0)
      | JBool b \<Rightarrow> Inr b
      | JFloat t \<Rightarrow> Inr (truthy v \<and> \<not> starts_with t ''-'')
      | _ \<Rightarrow> Inl TypeError)"

definition get_default :: "jobj \<Rightarrow> string \<Rightarrow> json \<Rightarrow> json" where
  "get_default d k v = (case map_of d k of None \<Rightarrow> v | Some x \<Rightarrow> x)"

definition batch_status :: "jobj \<Rightarrow> status_info res" where
  "batch_status workload =
     bindR (get_obj workload ''status'') (\<lambda>status.
     bindR (parse_pod_ip workload) (\<lambda>ip.
     bindR (if json_eq_int (get_default status ''ready'' (JInt 0)) 1 \<and> truthy ip
            then Inr (''Running'', ''POD_READY_WITH_IP'')
            else if truthy ip then Inr (''Allocated'', ''IP_ASSIGNED'')
            else bindR (json_positive (get_default status ''allocated'' (JInt 0))) (\<lambda>allocated.
                 Inr (''Pending'', if allocated then ''POD_SCHEDULED'' else ''BATCHSANDBOX_PENDING''))) (\<lambda>(st, rs).
     bindR (get_obj workload ''metadata'') (\<lambda>m.
     Inr \<lparr>si_state = st, si_reason = JStr rs, si_transition = jget m ''creationTimestamp''\<rparr>))))"

definition batch_get_status :: "jobj \<Rightarrow> ('w kstate, status_info) io" where
  "batch_get_status workload = liftR (batch_status workload)"

definition batch_get_endpoint_info ::
    "app_config \<Rightarrow> 'w kube_api \<Rightarrow> jobj \<Rightarrow> int \<Rightarrow> string \<Rightarrow> ('w kstate, sandbox_endpoint option) io" where
  "batch_get_endpoint_info c api workload port sandbox_id =
     (if (case cfg_ingress c of None \<Rightarrow> False | Some i \<Rightarrow> ing_mode i = INGRESS_MODE_GATEWAY)
      then liftR (format_ingress_endpoint (cfg_ingress c) sandbox_id port)
      else bindS (liftR (parse_pod_ip workload)) (\<lambda>ip.
           if \<not> truthy ip then retS None
           else retS (Some \<lparr>ep_endpoint = str_json (ka_repr api) ip @ '':'' @ str_int port, ep_headers = None\<rparr>)))"

definition batch_touch_last_activity ::
    "kubernetes_config \<Rightarrow> 'w kube_api \<Rightarrow> string \<Rightarrow> timestamp \<Rightarrow> ('w kstate, unit) io" where
  "batch_touch_last_activity k api sandbox_id now =
     bindS (batch_get_workload k api sandbox_id) (\<lambda>w.
     if \<not> present w then retS ()
     else bindS (liftR (activity_labels (the w) now)) (\<lambda>labels.
          bindS (liftR (meta_name (the w))) (\<lambda>name.
          bindS (patch_custom_object api name [(''metadata'', JObj [(''labels'', JObj labels)])]) (\<lambda>_. retS ()))))"

definition batch_provider :: "app_config \<Rightarrow> kubernetes_config \<Rightarrow> jobj \<Rightarrow> 'w kube_api \<Rightarrow> 'w provider" where
  "batch_provider c k template api =
     \<lparr>pv_create = batch_create_workload c k template api, pv_get = batch_get_workload k api,
      pv_delete = batch_delete_workload k api, pv_list = batch_list_workloads api,
      pv_update_expiration = batch_update_expiration k api, pv_get_expiration = batch_get_expiration api,
      pv_get_status = batch_get_status, pv_get_endpoint_info = batch_get_endpoint_info c api,
      pv_pause = batch_pause_workload, pv_resume = batch_resume_workload,
      pv_update_limits = batch_update_resource_limits k api, pv_update_env = batch_update_env k api,
      pv_supports_image_auth = True, pv_touch = batch_touch_last_activity k api\<rparr>"

end
