(* ===== verification/Agent_Provider.thy ===== *)
theory Agent_Provider
  imports Batch_Provider
begin

text \<open>
  \<open>server/src/services/k8s/agent_sandbox_provider.py\<close>: sandboxes as \<open>Sandbox\<close> resources of the agent-sandbox
  controller, each with a workspace volume claim. Resource names are made from sandbox ids by
  \<open>to_dns1035_label\<close>.
\<close>

section \<open>Names\<close>

definition DNS1035_LABEL_MAX_LENGTH :: nat where
  "DNS1035_LABEL_MAX_LENGTH = 63"

text \<open>\<open>re.sub("[...]+", "-", s)\<close>: each maximal run of matching characters becomes one hyphen.\<close>

fun sub_runs :: "(char \<Rightarrow> bool) \<Rightarrow> bool \<Rightarrow> string \<Rightarrow> string" where
  "sub_runs p in_run [] = []"
| "sub_runs p in_run (c # s) =
     (if p c then (if in_run then sub_runs p True s else CHR ''-'' # sub_runs p True s)
      else c # sub_runs p False s)"

definition hyphen :: "char \<Rightarrow> bool" where
  "hyphen c \<longleftrightarrow> c = CHR ''-''"

definition strip_hyphens :: "string \<Rightarrow> string" where
  "strip_hyphens s = rstrip_by hyphen (lstrip_by hyphen s)"

definition is_alpha :: "char \<Rightarrow> bool" where
  "is_alpha c \<longleftrightarrow> is_lower c \<or> is_upper c"

definition normalize_label :: "string \<Rightarrow> string" where
  "normalize_label v =
     strip_hyphens (sub_runs hyphen False (sub_runs (\<lambda>c. \<not> lower_digit_hyphen c) False (lower (strip v))))"

definition to_dns1035_label :: "(string \<Rightarrow> string) \<Rightarrow> string \<Rightarrow> string \<Rightarrow> string" where
  "to_dns1035_label hash8 v name_prefix =
     (let hash_suffix = hash8 v;
          n0 = normalize_label v;
          n1 = (if n0 = [] then name_prefix @ ''-'' @ hash_suffix
                else if \<not> is_alpha (hd n0) then name_prefix @ ''-'' @ n0
                else n0);
          n2 = (if length n1 > DNS1035_LABEL_MAX_LENGTH
                then (let max_base = DNS1035_LABEL_MAX_LENGTH - length hash_suffix - 1;
                          base = rstrip_by hyphen (take max_base n1);
                          base' = (if base = [] \<or> \<not> is_alpha (hd base) then name_prefix else base)
                      in base' @ ''-'' @ hash_suffix)
                else n1)
      in strip_hyphens n2)"

definition resource_name :: "'w kube_api \<Rightarrow> string \<Rightarrow> string" where
  "resource_name api sandbox_id = to_dns1035_label (ka_hash8 api) sandbox_id ''sandbox''"

definition pvc_name :: "'w kube_api \<Rightarrow> string \<Rightarrow> string" where
  "pvc_name api sandbox_id = ''workspace-'' @ resource_name api sandbox_id"

definition resource_name_candidates :: "'w kube_api \<Rightarrow> string \<Rightarrow> string list" where
  "resource_name_candidates api sandbox_id =
     (let c1 = [resource_name api sandbox_id];
          c2 = (if sandbox_id \<notin> set c1 then c1 @ [sandbox_id] else c1);
          legacy = legacy_resource_name sandbox_id
      in if legacy \<notin> set c2 then c2 @ [legacy] else c2)"

section \<open>Creation\<close>

definition agent_config :: "app_config \<Rightarrow> agent_sandbox_config" where
  "agent_config c = (case cfg_agent_sandbox c of None \<Rightarrow> default_agent_sandbox_config | Some a \<Rightarrow> a)"

definition agent_pod_spec :: "app_config \<Rightarrow> kubernetes_config \<Rightarrow> workload_request \<Rightarrow> (string, string) dict \<Rightarrow> jobj" where
  "agent_pod_spec c k r limits =
     apply_egress_to_spec
       (with_runtime_class c
          (base_pod_spec k r limits @ [(''nodeSelector'', JObj [(''kubernetes.io/arch'', JStr ''arm64'')])]))
       (wr_network_policy r) (wr_egress_image r) (wr_egress_token r)"

text \<open>The workspace volume is appended to the pod and mounted into its main container.\<close>

definition attach_workspace :: "string \<Rightarrow> jobj \<Rightarrow> jobj" where
  "attach_workspace claim pod_spec =
     (let spec1 = AList.update ''volumes'' (JList (jget_list pod_spec ''volumes'' @
            [JObj [(''name'', JStr ''workspace''), (''persistentVolumeClaim'', JObj [(''claimName'', JStr claim)])]])) pod_spec
      in case jget_list spec1 ''containers'' of
           JObj main # others \<Rightarrow>
             AList.update ''containers'' (JList (JObj (AList.update ''volumeMounts'' (JList (jget_list main ''volumeMounts'' @
               [JObj [(''name'', JStr ''workspace''), (''mountPath'', JStr ''/workspace''), (''readOnly'', JBool False)]])) main)
               # others)) spec1
         | _ \<Rightarrow> spec1)"

definition agent_manifest ::
    "app_config \<Rightarrow> kubernetes_config \<Rightarrow> jobj \<Rightarrow> 'w kube_api \<Rightarrow> workload_request \<Rightarrow> jobj \<Rightarrow> jobj" where
  "agent_manifest c k template api r pod_spec =
     (let spec1 = attach_workspace (pvc_name api (wr_sandbox_id r)) pod_spec;
          spec2 = (if given (k8s_service_account k)
                   then AList.update ''serviceAccountName'' (JStr (the (k8s_service_account k))) spec1 else spec1);
          runtime_manifest =
            [(''apiVersion'', JStr ''agents.x-k8s.io/v1alpha1''), (''kind'', JStr ''Sandbox''),
             (''metadata'', workload_metadata (resource_name api (wr_sandbox_id r)) r),
             (''spec'', JObj [(''replicas'', JInt 1), (''shutdownPolicy'', JStr (agent_shutdown_policy (agent_config c))),
                (''podTemplate'', JObj [(''metadata'', JObj [(''labels'', strings_json (wr_labels r))]),
                                        (''spec'', JObj spec2)])])]
      in upd_obj [''spec''] (set_or_pop ''shutdownTime'' (map_option (ka_isoformat api) (wr_expires_at r)))
           (merge_with_runtime_values template runtime_manifest))"

definition agent_create_workload ::
    "app_config \<Rightarrow> kubernetes_config \<Rightarrow> jobj \<Rightarrow> 'w kube_api \<Rightarrow> workload_request \<Rightarrow> ('w kstate, workload_info) io" where
  "agent_create_workload c k template api r =
     (let workspace_size = (case map_of (wr_limits r) ''storage'' of
            None \<Rightarrow> default_workspace_volume_size (cfg_storage c) | Some sz \<Rightarrow> sz);
          limits = AList.delete ''storage'' (wr_limits r);
          claim = pvc_name api (wr_sandbox_id r)
      in bindS (liftR (add_user_volumes r (agent_pod_spec c k r limits))) (\<lambda>pod_spec.
         bindS (create_pvc api claim workspace_size [(SANDBOX_ID_LABEL, wr_sandbox_id r)]) (\<lambda>_.
         bindS (catchS (create_custom_object api (agent_manifest c k template api r pod_spec))
                  (\<lambda>e. bindS (catchS (delete_pvc api claim) (\<lambda>_. retS ())) (\<lambda>_. raiseS e))) (\<lambda>created.
         liftR (created_info created)))))"

section \<open>The other operations\<close>

fun try_names :: "kubernetes_config \<Rightarrow> 'w kube_api \<Rightarrow> string list \<Rightarrow> ('w kstate, jobj option) io" where
  "try_names k api [] = retS None"
| "try_names k api (name # names) =
     bindS (get_custom_object k api name) (\<lambda>w. if present w then retS w else try_names k api names)"

definition agent_get_workload :: "kubernetes_config \<Rightarrow> 'w kube_api \<Rightarrow> string \<Rightarrow> ('w kstate, jobj option) io" where
  "agent_get_workload k api sandbox_id = try_names k api (resource_name_candidates api sandbox_id)"

definition agent_not_found :: "string \<Rightarrow> string" where
  "agent_not_found sandbox_id = ''Sandbox '' @ sandbox_id @ '' not found''"

definition agent_for_not_found :: "string \<Rightarrow> string" where
  "agent_for_not_found sandbox_id = ''Sandbox for sandbox '' @ sandbox_id @ '' not found''"

definition agent_delete_workload :: "kubernetes_config \<Rightarrow> 'w kube_api \<Rightarrow> string \<Rightarrow> ('w kstate, unit) io" where
  "agent_delete_workload k api sandbox_id =
     bindS (agent_get_workload k api sandbox_id) (\<lambda>w.
     if \<not> present w then raiseS (OtherException (agent_for_not_found sandbox_id))
     else bindS (liftR (meta_name (the w))) (\<lambda>name.
          bindS (delete_custom_object api name) (\<lambda>_.
          catchS (delete_pvc api (pvc_name api sandbox_id)) (\<lambda>_. retS ()))))"

text \<open>\<open>spec.get("podTemplate", spec.get("template", {}))\<close> with the key it was found under.\<close>

definition agent_template :: "jobj \<Rightarrow> (string \<times> jobj) res" where
  "agent_template spec =
     (if map_of spec ''podTemplate'' \<noteq> None
      then bindR (get_obj spec ''podTemplate'') (\<lambda>t. Inr (''podTemplate'', t))
      else bindR (get_obj spec ''template'') (\<lambda>t. Inr (''template'', t)))"

definition agent_limits_patch :: "(string, string) dict \<Rightarrow> jobj \<Rightarrow> jobj res" where
  "agent_limits_patch limits workload =
     bindR (get_obj workload ''spec'') (\<lambda>spec.
     bindR (agent_template spec) (\<lambda>(template_key, template).
     bindR (first_container template ''No containers found in Sandbox spec'') (\<lambda>main.
     bindR (updated_resources main limits) (\<lambda>res.
     Inr (containers_patch template_key (AList.update ''resources'' res main))))))"

definition agent_update_resource_limits ::
    "kubernetes_config \<Rightarrow> 'w kube_api \<Rightarrow> string \<Rightarrow> (string, string) dict \<Rightarrow> ('w kstate, unit) io" where
  "agent_update_resource_limits k api sandbox_id limits =
     patch_workload api (agent_get_workload k api sandbox_id) (agent_not_found sandbox_id) (agent_limits_patch limits)"

definition agent_env_patch :: "(string, string) dict \<Rightarrow> jobj \<Rightarrow> jobj res" where
  "agent_env_patch env workload =
     bindR (get_obj workload ''spec'') (\<lambda>spec.
     bindR (agent_template spec) (\<lambda>(template_key, template).
     bindR (first_container template ''No containers found in Sandbox spec'') (\<lambda>main.
     Inr (containers_patch template_key (AList.update ''env'' (env_entries env) main)))))"

definition agent_update_env ::
    "kubernetes_config \<Rightarrow> 'w kube_api \<Rightarrow> string \<Rightarrow> (string, string) dict \<Rightarrow> ('w kstate, unit) io" where
  "agent_update_env k api sandbox_id env =
     patch_workload api (agent_get_workload k api sandbox_id) (agent_not_found sandbox_id) (agent_env_patch env)"

definition paused_spec :: "jobj \<Rightarrow> bool res" where
  "paused_spec workload =
     bindR (get_obj workload ''spec'') (\<lambda>spec. Inr (json_eq_int (get_default spec ''replicas'' (JInt 1)) 0))"

definition replicas_patch :: "int \<Rightarrow> jobj" where
  "replicas_patch n = [(''spec'', JObj [(''replicas'', JInt n)])]"

definition agent_pause_workload :: "kubernetes_config \<Rightarrow> 'w kube_api \<Rightarrow> string \<Rightarrow> ('w kstate, unit) io" where
  "agent_pause_workload k api sandbox_id =
     patch_workload api (agent_get_workload k api sandbox_id) (agent_not_found sandbox_id) (\<lambda>workload.
       bindR (paused_spec workload) (\<lambda>paused.
       if paused then Inl (OtherException (''Sandbox '' @ sandbox_id @ '' is already paused''))
       else Inr (replicas_patch 0)))"

definition agent_resume_workload :: "kubernetes_config \<Rightarrow> 'w kube_api \<Rightarrow> string \<Rightarrow> ('w kstate, unit) io" where
  "agent_resume_workload k api sandbox_id =
     patch_workload api (agent_get_workload k api sandbox_id) (agent_not_found sandbox_id) (\<lambda>workload.
       bindR (paused_spec workload) (\<lambda>paused.
       if \<not> paused then Inl (OtherException (''Sandbox '' @ sandbox_id @ '' is not paused''))
       else Inr (replicas_patch 1)))"

definition agent_list_workloads :: "'w kube_api \<Rightarrow> string \<Rightarrow> ('w kstate, json list) io" where
  "agent_list_workloads api label_selector = list_custom_objects api label_selector"

definition agent_update_expiration ::
    "kubernetes_config \<Rightarrow> 'w kube_api \<Rightarrow> string \<Rightarrow> timestamp \<Rightarrow> ('w kstate, unit) io" where
  "agent_update_expiration k api sandbox_id expires_at =
     patch_workload api (agent_get_workload k api sandbox_id) (agent_for_not_found sandbox_id)
       (\<lambda>_. Inr [(''spec'', JObj [(''shutdownTime'', JStr (ka_isoformat api expires_at))])])"

definition agent_get_expiration :: "'w kube_api \<Rightarrow> jobj \<Rightarrow> datetime option res" where
  "agent_get_expiration api = spec_time api ''shutdownTime''"

section \<open>Status and end points\<close>

text \<open>The pods of a workload, by the selector in its status; \<open>None\<close> when there is no selector or namespace.\<close>

definition selector_of :: "jobj \<Rightarrow> (string \<times> string) option res" where
  "selector_of workload =
     bindR (get_obj workload ''status'') (\<lambda>status.
     bindR (get_obj workload ''metadata'') (\<lambda>m.
     (case (jget status ''selector'', jget m ''namespace'') of
        (JStr sel, JStr ns) \<Rightarrow> Inr (if sel = [] \<or> ns = [] then None else Some (ns, sel))
      | _ \<Rightarrow> Inr None)))"

fun pods_state :: "pod list \<Rightarrow> (string \<times> string) option" where
  "pods_state [] = None"
| "pods_state (p # ps) =
     (case pod_status_of p of
        None \<Rightarrow> pods_state ps
      | Some st \<Rightarrow>
          Some (if given (pod_ip st) \<and> pod_phase st = Some ''Running'' then (''Running'', ''POD_READY'')
                else if given (pod_ip st) then (''Allocated'', ''IP_ASSIGNED'')
                else (''Pending'', ''POD_SCHEDULED'')))"

definition pod_state_from_selector :: "'w kube_api \<Rightarrow> jobj \<Rightarrow> ('w kstate, (string \<times> string) option) io" where
  "pod_state_from_selector api workload =
     bindS (liftR (selector_of workload)) (\<lambda>sel.
     (case sel of
        None \<Rightarrow> retS None
      | Some (namespace, selector) \<Rightarrow>
          catchS (bindS (list_pods api namespace selector) (\<lambda>pods.
                  retS (case pods_state pods of
                          Some st \<Rightarrow> Some st
                        | None \<Rightarrow> if pods = [] then None else Some (''Pending'', ''POD_PENDING''))))
            (\<lambda>_. retS None)))"

fun find_ready :: "json list \<Rightarrow> jobj option res" where
  "find_ready [] = Inr None"
| "find_ready (JObj d # cs) = (if jget d ''type'' = JStr ''Ready'' then Inr (Some d) else find_ready cs)"
| "find_ready (_ # cs) = Inl AttributeError"

definition agent_get_status :: "'w kube_api \<Rightarrow> jobj \<Rightarrow> ('w kstate, status_info) io" where
  "agent_get_status api workload =
     bindS (liftR (paused_spec workload)) (\<lambda>paused.
     bindS (liftR (get_obj workload ''metadata'')) (\<lambda>m.
     let created = jget m ''creationTimestamp''
     in if paused then retS \<lparr>si_state = ''Paused'', si_reason = JStr ''SANDBOX_PAUSED'', si_transition = created\<rparr>
        else bindS (liftR (get_obj workload ''status'')) (\<lambda>status.
             bindS (liftR (case jget status ''conditions'' of
                 JList cs \<Rightarrow> find_ready cs
               | JNull \<Rightarrow> (if map_of status ''conditions'' = None then Inr None else Inl TypeError)
               | _ \<Rightarrow> Inl TypeError)) (\<lambda>ready.
             (case ready of
                None \<Rightarrow>
                  bindS (pod_state_from_selector api workload) (\<lambda>ps.
                  retS (case ps of
                     Some (st, rs) \<Rightarrow> \<lparr>si_state = st, si_reason = JStr rs, si_transition = created\<rparr>
                   | None \<Rightarrow> \<lparr>si_state = ''Pending'', si_reason = JStr ''SANDBOX_PENDING'', si_transition = created\<rparr>))
              | Some cond \<Rightarrow>
                  retS \<lparr>si_state =
                          (if jget cond ''status'' = JStr ''True'' then ''Running''
                           else if jget cond ''reason'' = JStr ''SandboxExpired'' then ''Terminated''
                           else ''Pending''),
                        si_reason = jget cond ''reason'',
                        si_transition = (if truthy (jget cond ''lastTransitionTime'')
                                         then jget cond ''lastTransitionTime'' else created)\<rparr>)))))"

definition agent_get_endpoint_info ::
    "app_config \<Rightarrow> 'w kube_api \<Rightarrow> jobj \<Rightarrow> int \<Rightarrow> string \<Rightarrow> ('w kstate, sandbox_endpoint option) io" where
  "agent_get_endpoint_info c api workload port sandbox_id =
     bindS (liftR (format_ingress_endpoint (cfg_ingress c) sandbox_id port)) (\<lambda>ingress.
     if ingress \<noteq> None then retS ingress
     else bindS (liftR (selector_of workload)) (\<lambda>sel.
          bindS (case sel of
                   None \<Rightarrow> retS None
                 | Some (namespace, selector) \<Rightarrow>
                     catchS (bindS (list_pods api namespace selector) (\<lambda>pods.
                             retS (find (\<lambda>p. pod_address p \<noteq> None \<and> running_pod p) pods)))
                       (\<lambda>_. retS None)) (\<lambda>found.
          (case found of
             Some p \<Rightarrow> retS (Some \<lparr>ep_endpoint = the (pod_address p) @ '':'' @ str_int port, ep_headers = None\<rparr>)
           | None \<Rightarrow>
               bindS (liftR (get_obj workload ''status'')) (\<lambda>status.
               let fqdn = jget status ''serviceFQDN''
               in retS (if truthy fqdn
                        then Some \<lparr>ep_endpoint = str_json (ka_repr api) fqdn @ '':'' @ str_int port, ep_headers = None\<rparr>
                        else None))))))"

definition agent_touch_last_activity ::
    "kubernetes_config \<Rightarrow> 'w kube_api \<Rightarrow> string \<Rightarrow> timestamp \<Rightarrow> ('w kstate, unit) io" where
  "agent_touch_last_activity k api sandbox_id now =
     bindS (agent_get_workload k api sandbox_id) (\<lambda>w.
     if \<not> present w then retS ()
     else bindS (liftR (activity_labels (the w) now)) (\<lambda>labels.
          bindS (liftR (meta_name (the w))) (\<lambda>name.
          bindS (patch_custom_object api name [(''metadata'', JObj [(''labels'', JObj labels)])]) (\<lambda>_. retS ()))))"

definition agent_provider :: "app_config \<Rightarrow> kubernetes_config \<Rightarrow> jobj \<Rightarrow> 'w kube_api \<Rightarrow> 'w provider" where
  "agent_provider c k template api =
     \<lparr>pv_create = agent_create_workload c k template api, pv_get = agent_get_workload k api,
      pv_delete = agent_delete_workload k api, pv_list = agent_list_workloads api,
      pv_update_expiration = agent_update_expiration k api, pv_get_expiration = agent_get_expiration api,
      pv_get_status = agent_get_status api, pv_get_endpoint_info = agent_get_endpoint_info c api,
      pv_pause = agent_pause_workload k api, pv_resume = agent_resume_workload k api,
      pv_update_limits = agent_update_resource_limits k api, pv_update_env = agent_update_env k api,
      pv_supports_image_auth = False, pv_touch = agent_touch_last_activity k api\<rparr>"

section \<open>The provider factory\<close>

text \<open>
  \<open>server/src/services/k8s/provider_factory.py\<close>. The registry is the constant dictionary of the module, in
  its order; \<open>register_provider\<close> is not called by the server.
\<close>

datatype provider_class = AgentSandboxProvider | BatchSandboxProvider

definition PROVIDER_REGISTRY :: "(string, provider_class) dict" where
  "PROVIDER_REGISTRY = [(''agent-sandbox'', AgentSandboxProvider), (''batchsandbox'', BatchSandboxProvider)]"

definition provider_class_of :: "string option \<Rightarrow> provider_class res" where
  "provider_class_of provider_type =
     (let name = (case provider_type of None \<Rightarrow> fst (hd PROVIDER_REGISTRY) | Some t \<Rightarrow> t)
      in case map_of PROVIDER_REGISTRY (lower name) of None \<Rightarrow> Inl ValueError | Some cls \<Rightarrow> Inr cls)"

text \<open>\<open>templates\<close> is the parsed content of a template file, \<open>[]\<close> for none.\<close>

definition create_workload_provider ::
    "app_config \<Rightarrow> kubernetes_config \<Rightarrow> (string option \<Rightarrow> jobj res) \<Rightarrow> 'w kube_api \<Rightarrow> 'w provider res" where
  "create_workload_provider c k templates api =
     bindR (provider_class_of (k8s_workload_provider k)) (\<lambda>cls.
     (case cls of
        AgentSandboxProvider \<Rightarrow>
          bindR (templates (agent_template_file (agent_config c))) (\<lambda>t. Inr (agent_provider c k t api))
      | BatchSandboxProvider \<Rightarrow>
          bindR (templates (k8s_batchsandbox_template_file k)) (\<lambda>t. Inr (batch_provider c k t api))))"

end
