(* ===== verification/K8s_Service.thy ===== *)
theory K8s_Service
  imports Agent_Provider
begin

text \<open>
  \<open>KubernetesSandboxService\<close> (\<open>server/src/services/k8s/kubernetes_service.py\<close>): the sandbox operations on top of a
  workload provider, an argument \<open>pv\<close> of type \<open>provider\<close>. The service has no state of its own. Its
  operations carry the suffix \<open>_k8s\<close> where the Docker service has one of the same name. The terminal and
  the task operations, which forward to a process in the pod, are in \<open>K8s_Tasks\<close>.
\<close>

section \<open>Errors\<close>

definition exn_str :: "'w kube_api \<Rightarrow> exn \<Rightarrow> string" where
  "exn_str api e = (case e of OtherException m \<Rightarrow> m | _ \<Rightarrow> ka_str api e)"

text \<open>\<open>except HTTPException: raise; except Exception as e: raise HTTPException(500, code)\<close>\<close>

definition or_500 :: "string \<Rightarrow> ('w kstate, 'a) io \<Rightarrow> ('w kstate, 'a) io" where
  "or_500 err m = catchS m (\<lambda>e. if is_http_exn e then raiseS e else raiseS (HTTPException 500 err))"

text \<open>The handlers of the creation: a \<open>ValueError\<close> is a bad request.\<close>

definition create_errors :: "('w kstate, 'a) io \<Rightarrow> ('w kstate, 'a) io" where
  "create_errors m =
     catchS m (\<lambda>e. if is_http_exn e then raiseS e
                   else if e = ValueError then raiseS (HTTPException 400 INVALID_PARAMETER)
                   else raiseS (HTTPException 500 K8S_API_ERROR))"

definition require_workload :: "'w provider \<Rightarrow> string \<Rightarrow> ('w kstate, jobj) io" where
  "require_workload pv sandbox_id =
     bindS (pv_get pv sandbox_id) (\<lambda>w.
     if \<not> present w then raiseS (HTTPException 404 K8S_SANDBOX_NOT_FOUND) else retS (the w))"

text \<open>Validation of a \<open>SandboxStatus\<close> by the schema library; a violation is a \<open>ValueError\<close>.\<close>

definition opt_string :: "json \<Rightarrow> string option res" where
  "opt_string v = (case v of JNull \<Rightarrow> Inr None | JStr s \<Rightarrow> Inr (Some s) | _ \<Rightarrow> Inl ValueError)"

definition opt_time :: "'w kube_api \<Rightarrow> json \<Rightarrow> timestamp option res" where
  "opt_time api v =
     (if v = JNull then Inr None
      else (case ka_parse_dt api v of None \<Rightarrow> Inl ValueError | Some t \<Rightarrow> Inr (Some t)))"

definition sandbox_status_of :: "'w kube_api \<Rightarrow> status_info \<Rightarrow> sandbox_status res" where
  "sandbox_status_of api si =
     bindR (opt_string (si_reason si)) (\<lambda>rs.
     bindR (opt_time api (si_transition si)) (\<lambda>t.
     Inr \<lparr>state = si_state si, reason = rs, last_transition_at = t\<rparr>))"

section \<open>Waiting for a workload\<close>

definition READY_STATES :: "string list" where
  "READY_STATES = [''Running'', ''Allocated'']"

text \<open>One pass through the body of the loop: the workload once it is ready; errors are only logged.\<close>

definition poll_ready :: "'w provider \<Rightarrow> string \<Rightarrow> ('w kstate, jobj option) io" where
  "poll_ready pv sandbox_id =
     catchS (bindS (pv_get pv sandbox_id) (\<lambda>w.
             if \<not> present w then retS None
             else bindS (pv_get_status pv (the w)) (\<lambda>si.
                  retS (if si_state si \<in> set READY_STATES then w else None))))
       (\<lambda>e. if is_http_exn e then raiseS e else retS None)"

text \<open>
  \<open>while time.time() - start_time < timeout\<close>. The loop ends when the clock passes the deadline, which no
  bound on the number of passes can express; \<open>fuel\<close> bounds the passes and running out of it is the result
  \<open>None\<close>. Times are in microseconds.
\<close>

fun wait_loop ::
    "nat \<Rightarrow> 'w kube_api \<Rightarrow> 'w provider \<Rightarrow> string \<Rightarrow> timestamp \<Rightarrow> int \<Rightarrow> rat \<Rightarrow> ('w kstate, jobj option) io" where
  "wait_loop fuel api pv sandbox_id start_time timeout_seconds poll =
     bindS (inK (ka_time api)) (\<lambda>now.
     if \<not> now - start_time < timeout_seconds * 1000000 then raiseS (HTTPException 504 K8S_POD_READY_TIMEOUT)
     else (case fuel of
             0 \<Rightarrow> retS None
           | Suc n \<Rightarrow>
               bindS (poll_ready pv sandbox_id) (\<lambda>found.
               if found \<noteq> None then retS found
               else bindS (ka_sleep api poll) (\<lambda>_.
                    wait_loop n api pv sandbox_id start_time timeout_seconds poll))))"

declare wait_loop.simps [simp del]

definition wait_for_sandbox_ready ::
    "nat \<Rightarrow> 'w kube_api \<Rightarrow> 'w provider \<Rightarrow> string \<Rightarrow> int \<Rightarrow> rat \<Rightarrow> ('w kstate, jobj option) io" where
  "wait_for_sandbox_ready fuel api pv sandbox_id timeout_seconds poll =
     bindS (inK (ka_time api)) (\<lambda>start_time.
     wait_loop fuel api pv sandbox_id start_time timeout_seconds poll)"

section \<open>Creation\<close>

definition ensure_network_policy_support_k8s :: "app_config \<Rightarrow> create_request \<Rightarrow> unit res" where
  "ensure_network_policy_support_k8s c r = ensure_egress_configured (req_network_policy r) (cfg_egress c)"

definition ensure_image_auth_support :: "'w provider \<Rightarrow> create_request \<Rightarrow> unit res" where
  "ensure_image_auth_support pv r =
     (if image_auth_of (req_image r) = None then ok
      else if pv_supports_image_auth pv then ok
      else Inl (HTTPException 400 INVALID_PARAMETER))"

definition build_labels_k8s :: "string \<Rightarrow> timestamp \<Rightarrow> timestamp option \<Rightarrow> create_request \<Rightarrow> (string, string) dict" where
  "build_labels_k8s sandbox_id created_at expires_at r =
     dict_update
       ([(SANDBOX_ID_LABEL, sandbox_id), (SANDBOX_LAST_ACTIVITY_AT_LABEL, str_int (created_at div 1000000))]
        @ (if expires_at = None then [(SANDBOX_MANUAL_CLEANUP_LABEL, ''true'')] else []))
       (case req_metadata r of None \<Rightarrow> [] | Some m \<Rightarrow> m)"

text \<open>The checks and the identity of a new sandbox, the same in both creation methods.\<close>

definition admit_request ::
    "app_config \<Rightarrow> 'w kube_api \<Rightarrow> 'w provider \<Rightarrow> create_request
       \<Rightarrow> ('w kstate, string \<times> timestamp \<times> timestamp option) io" where
  "admit_request c api pv r =
     bindS (liftR (ensure_entrypoint (req_entrypoint r))) (\<lambda>_.
     bindS (liftR (ensure_metadata_labels (req_metadata r))) (\<lambda>_.
     bindS (inK (ka_now api)) (\<lambda>now.
     bindS (liftR (ensure_timeout_within_limit now (req_timeout r) (srv_max_timeout (cfg_server c)))) (\<lambda>_.
     bindS (liftR (ensure_network_policy_support_k8s c r)) (\<lambda>_.
     bindS (liftR (ensure_image_auth_support pv r)) (\<lambda>_.
     bindS (inK (ka_new_id api)) (\<lambda>sandbox_id.
     bindS (inK (ka_now api)) (\<lambda>created_at.
     bindS (case req_timeout r of
              None \<Rightarrow> retS None
            | Some t \<Rightarrow> bindS (liftR (calculate_expiration_or_raise created_at t)) (\<lambda>e. retS (Some e))) (\<lambda>expires_at.
     retS (sandbox_id, created_at, expires_at))))))))))"

definition egress_image_of :: "app_config \<Rightarrow> string option" where
  "egress_image_of c = (case cfg_egress c of None \<Rightarrow> None | Some img \<Rightarrow> img)"

definition workload_request_of ::
    "app_config \<Rightarrow> kubernetes_config \<Rightarrow> create_request \<Rightarrow> string \<Rightarrow> timestamp \<Rightarrow> timestamp option
       \<Rightarrow> string option \<Rightarrow> workload_request" where
  "workload_request_of c k r sandbox_id created_at expires_at token =
     \<lparr>wr_sandbox_id = sandbox_id, wr_namespace = k8s_namespace k, wr_image = req_image r,
      wr_entrypoint = req_entrypoint r, wr_env = (case req_env r of None \<Rightarrow> [] | Some e \<Rightarrow> e),
      wr_limits = req_resource_limits r, wr_labels = build_labels_k8s sandbox_id created_at expires_at r,
      wr_expires_at = expires_at, wr_execd_image = cfg_execd_image c, wr_extensions = req_extensions r,
      wr_network_policy = req_network_policy r,
      wr_egress_image = (if req_network_policy r = None then None else egress_image_of c),
      wr_volumes = req_volumes r,
      wr_annotations = (case token of None \<Rightarrow> None | Some t \<Rightarrow> Some [(SANDBOX_EGRESS_AUTH_TOKEN_METADATA_KEY, t)]),
      wr_egress_token = token\<rparr>"

text \<open>The token, the volume checks and the call of the provider.\<close>

definition submit_workload ::
    "app_config \<Rightarrow> kubernetes_config \<Rightarrow> 'w kube_api \<Rightarrow> 'w provider \<Rightarrow> create_request \<Rightarrow> string \<Rightarrow> timestamp
       \<Rightarrow> timestamp option \<Rightarrow> ('w kstate, workload_info) io" where
  "submit_workload c k api pv r sandbox_id created_at expires_at =
     bindS (if req_network_policy r = None then retS None
            else bindS (inK (ka_token api)) (\<lambda>t. retS (Some t))) (\<lambda>token.
     bindS (liftR (ensure_volumes_valid (req_volumes r) (allowed_prefixes_of c))) (\<lambda>_.
     pv_create pv (workload_request_of c k r sandbox_id created_at expires_at token)))"

definition response_of ::
    "create_request \<Rightarrow> string \<Rightarrow> sandbox_status \<Rightarrow> timestamp \<Rightarrow> timestamp option \<Rightarrow> create_response" where
  "response_of r sandbox_id st created_at expires_at =
     \<lparr>resp_id = sandbox_id, resp_status = st, resp_metadata = req_metadata r, resp_expires_at = expires_at,
      resp_created_at = created_at, resp_entrypoint = req_entrypoint r\<rparr>"

text \<open>The inner \<open>try\<close>: wait, read the status, and delete the workload when that fails with an HTTP error.\<close>

definition await_ready ::
    "nat \<Rightarrow> kubernetes_config \<Rightarrow> 'w kube_api \<Rightarrow> 'w provider \<Rightarrow> create_request \<Rightarrow> string \<Rightarrow> timestamp
       \<Rightarrow> timestamp option \<Rightarrow> ('w kstate, create_response option) io" where
  "await_ready fuel k api pv r sandbox_id created_at expires_at =
     catchS
       (bindS (wait_for_sandbox_ready fuel api pv sandbox_id (k8s_create_timeout_seconds k)
                 (k8s_create_poll_interval_seconds k)) (\<lambda>found.
        (case found of
           None \<Rightarrow> retS None
         | Some workload \<Rightarrow>
             bindS (pv_get_status pv workload) (\<lambda>si.
             bindS (liftR (sandbox_status_of api si)) (\<lambda>st.
             retS (Some (response_of r sandbox_id st created_at expires_at)))))))
       (\<lambda>e. if is_http_exn e
            then bindS (catchS (pv_delete pv sandbox_id) (\<lambda>_. retS ())) (\<lambda>_. raiseS e)
            else raiseS e)"

definition create_sandbox_k8s ::
    "nat \<Rightarrow> app_config \<Rightarrow> kubernetes_config \<Rightarrow> 'w kube_api \<Rightarrow> 'w provider \<Rightarrow> create_request
       \<Rightarrow> ('w kstate, create_response option) io" where
  "create_sandbox_k8s fuel c k api pv r =
     bindS (admit_request c api pv r) (\<lambda>(sandbox_id, created_at, expires_at).
     create_errors
       (bindS (submit_workload c k api pv r sandbox_id created_at expires_at) (\<lambda>_.
        await_ready fuel k api pv r sandbox_id created_at expires_at)))"

definition create_sandbox_async_k8s ::
    "app_config \<Rightarrow> kubernetes_config \<Rightarrow> 'w kube_api \<Rightarrow> 'w provider \<Rightarrow> create_request
       \<Rightarrow> ('w kstate, create_response) io" where
  "create_sandbox_async_k8s c k api pv r =
     bindS (admit_request c api pv r) (\<lambda>(sandbox_id, created_at, expires_at).
     create_errors
       (bindS (submit_workload c k api pv r sandbox_id created_at expires_at) (\<lambda>_.
        retS (response_of r sandbox_id
          \<lparr>state = ''Pending'', reason = Some ''PROVISIONING'', last_transition_at = Some created_at\<rparr>
          created_at expires_at))))"

section \<open>Queries\<close>

definition string_dict :: "jobj \<Rightarrow> (string, string) dict res" where
  "string_dict d = collect_each (\<lambda>(k, v). (case v of JStr s \<Rightarrow> Inr (k, s) | _ \<Rightarrow> Inl ValueError)) d"

definition string_list :: "json \<Rightarrow> string list res" where
  "string_list v =
     (case v of
        JList xs \<Rightarrow> collect_each (\<lambda>x. (case x of JStr s \<Rightarrow> Inr s | _ \<Rightarrow> Inl ValueError)) xs
      | _ \<Rightarrow> Inl ValueError)"

text \<open>\<open>template.get("spec", {}).get("containers", [])[0]\<close>, when there is a container.\<close>

definition main_container_of :: "jobj \<Rightarrow> jobj option res" where
  "main_container_of template =
     bindR (get_obj template ''spec'') (\<lambda>pod_spec.
     (case jget pod_spec ''containers'' of
        JList (JObj main # _) \<Rightarrow> Inr (Some main)
      | v \<Rightarrow> if truthy v then Inl AttributeError else Inr None))"

text \<open>\<open>spec.get("template") or spec.get("podTemplate") or {}\<close>\<close>

definition either_template :: "jobj \<Rightarrow> jobj res" where
  "either_template spec =
     (if truthy (jget spec ''template'') then get_or_empty spec ''template'' else get_or_empty spec ''podTemplate'')"

text \<open>\<open>ImageSpec(uri=image_uri) if image_uri else ImageSpec(uri="unknown")\<close>\<close>

definition image_or_unknown :: "json \<Rightarrow> string res" where
  "image_or_unknown v =
     (if \<not> truthy v then Inr ''unknown'' else (case v of JStr s \<Rightarrow> Inr s | _ \<Rightarrow> Inl ValueError))"

definition image_and_entrypoint :: "jobj \<Rightarrow> (string \<times> string list) res" where
  "image_and_entrypoint spec =
     bindR (either_template spec) (\<lambda>template.
     bindR (main_container_of template) (\<lambda>main.
     (case main of
        None \<Rightarrow> Inr (''unknown'', [])
      | Some d \<Rightarrow>
          bindR (image_or_unknown (get_default d ''image'' (JStr []))) (\<lambda>img.
          bindR (string_list (get_default d ''command'' (JList []))) (\<lambda>cmd. Inr (img, cmd))))))"

text \<open>The last-activity label: seconds since the epoch, or an ISO text; a bad value is ignored.\<close>

definition last_activity_of :: "'w kube_api \<Rightarrow> json \<Rightarrow> timestamp option res" where
  "last_activity_of api raw =
     (case raw of
        JStr s \<Rightarrow>
          (if s = [] then Inr None
           else (case py_int s of
                   Some n \<Rightarrow>
                     (if in_range (n * 1000000) then Inr (Some (n * 1000000))
                      else if n \<ge> 2 ^ 63 \<or> n < - (2 ^ 63) then Inl (OtherException ''OverflowError'')
                      else Inr (map_option instant (ka_fromiso api s)))
                 | None \<Rightarrow> Inr (map_option instant (ka_fromiso api s))))
      | _ \<Rightarrow> Inr None)"

definition user_metadata_of :: "jobj \<Rightarrow> (string, string) dict option res" where
  "user_metadata_of labels =
     bindR (string_dict (filter (\<lambda>(k, v). \<not> starts_with k ''opensandbox.io/'') labels)) (\<lambda>m.
     Inr (if m = [] then None else Some m))"

definition build_sandbox_from_workload :: "'w kube_api \<Rightarrow> 'w provider \<Rightarrow> jobj \<Rightarrow> ('w kstate, sandbox) io" where
  "build_sandbox_from_workload api pv workload =
     bindS (liftR (get_obj workload ''metadata'')) (\<lambda>m.
     bindS (liftR (get_obj workload ''spec'')) (\<lambda>spec.
     bindS (liftR (get_obj m ''labels'')) (\<lambda>labels.
     bindS (liftR (pv_get_expiration pv workload)) (\<lambda>expires_at.
     bindS (pv_get_status pv workload) (\<lambda>si.
     bindS (liftR (image_and_entrypoint spec)) (\<lambda>(img, cmd).
     bindS (liftR (last_activity_of api (jget labels SANDBOX_LAST_ACTIVITY_AT_LABEL))) (\<lambda>activity.
     bindS (liftR (user_metadata_of labels)) (\<lambda>metadata.
     bindS (liftR (sandbox_status_of api si)) (\<lambda>st.
     bindS (liftR (case get_default labels SANDBOX_ID_LABEL (JStr []) of JStr s \<Rightarrow> Inr s | _ \<Rightarrow> Inl ValueError)) (\<lambda>sandbox_id.
     bindS (liftR (case ka_parse_dt api (jget m ''creationTimestamp'') of
                     None \<Rightarrow> Inl ValueError | Some t \<Rightarrow> Inr t)) (\<lambda>created_at.
     retS \<lparr>sbx_id = sandbox_id, sbx_image = img, sbx_status = st, sbx_metadata = metadata, sbx_entrypoint = cmd,
           sbx_expires_at = map_option instant expires_at, sbx_created_at = created_at,
           sbx_last_activity_at = activity\<rparr>)))))))))))"

definition get_sandbox_k8s :: "'w kube_api \<Rightarrow> 'w provider \<Rightarrow> string \<Rightarrow> ('w kstate, sandbox) io" where
  "get_sandbox_k8s api pv sandbox_id =
     or_500 K8S_API_ERROR
       (bindS (require_workload pv sandbox_id) (build_sandbox_from_workload api pv))"

fun build_sandboxes :: "'w kube_api \<Rightarrow> 'w provider \<Rightarrow> json list \<Rightarrow> ('w kstate, sandbox list) io" where
  "build_sandboxes api pv [] = retS []"
| "build_sandboxes api pv (JObj w # ws) =
     bindS (build_sandbox_from_workload api pv w) (\<lambda>sb.
     bindS (build_sandboxes api pv ws) (\<lambda>sbs. retS (sb # sbs)))"
| "build_sandboxes api pv (_ # ws) = raiseS AttributeError"

definition apply_filters :: "sandbox list \<Rightarrow> sandbox_filter option \<Rightarrow> sandbox list" where
  "apply_filters sandboxes filter_spec =
     (if filter_spec = None then sandboxes else filter (\<lambda>sb. matches_filter sb filter_spec) sandboxes)"

text \<open>
  Sorting and slicing; \<open>sort(reverse=True)\<close> keeps the order of equal elements. Page and page size are at
  least one by the request schema; a size of zero would be a division by zero.
\<close>

definition paginate_k8s :: "pagination_request option \<Rightarrow> sandbox list \<Rightarrow> list_response res" where
  "paginate_k8s pagination filtered =
     (case pagination of
        None \<Rightarrow> Inl AttributeError
      | Some p \<Rightarrow>
          (let sorted_items = sort_key (\<lambda>s. - sbx_created_at s) filtered;
               total_items = int (length sorted_items);
               start_idx = (page p - 1) * page_size p;
               end_idx = start_idx + page_size p;
               total_pages = (total_items + page_size p - 1) div page_size p
           in if page_size p = 0 then Inl (OtherException ''ZeroDivisionError'')
              else Inr \<lparr>list_items = drop (nat start_idx) (take (nat end_idx) sorted_items),
                        list_info = \<lparr>info_page = page p, info_page_size = page_size p, info_total_items = total_items,
                                     info_total_pages = total_pages, info_has_next_page = page p < total_pages\<rparr>\<rparr>))"

definition list_sandboxes_k8s :: "'w kube_api \<Rightarrow> 'w provider \<Rightarrow> list_request \<Rightarrow> ('w kstate, list_response) io" where
  "list_sandboxes_k8s api pv req =
     catchS
       (bindS (pv_list pv SANDBOX_ID_LABEL) (\<lambda>workloads.
        bindS (build_sandboxes api pv workloads) (\<lambda>sandboxes.
        liftR (paginate_k8s (list_pagination req) (apply_filters sandboxes (Some (list_filter req)))))))
       (\<lambda>e. raiseS (HTTPException 500 K8S_API_ERROR))"

section \<open>Changes\<close>

definition delete_sandbox_k8s :: "'w kube_api \<Rightarrow> 'w provider \<Rightarrow> string \<Rightarrow> ('w kstate, unit) io" where
  "delete_sandbox_k8s api pv sandbox_id =
     catchS (pv_delete pv sandbox_id)
       (\<lambda>e. if contains (lower (exn_str api e)) ''not found''
            then raiseS (HTTPException 404 K8S_SANDBOX_NOT_FOUND)
            else raiseS (HTTPException 500 K8S_API_ERROR))"

text \<open>The guard of the state changes: look the workload up and compare its state.\<close>

definition require_state :: "'w provider \<Rightarrow> string \<Rightarrow> string list \<Rightarrow> ('w kstate, unit) io" where
  "require_state pv sandbox_id allowed =
     bindS (require_workload pv sandbox_id) (\<lambda>workload.
     bindS (pv_get_status pv workload) (\<lambda>si.
     if si_state si \<notin> set allowed then raiseS (HTTPException 409 K8S_INVALID_STATE) else retS ()))"

definition pause_sandbox_k8s :: "'w provider \<Rightarrow> string \<Rightarrow> ('w kstate, unit) io" where
  "pause_sandbox_k8s pv sandbox_id =
     or_500 K8S_API_ERROR
       (bindS (require_state pv sandbox_id [''Running'']) (\<lambda>_. pv_pause pv sandbox_id))"

definition resume_sandbox_k8s :: "'w provider \<Rightarrow> string \<Rightarrow> ('w kstate, unit) io" where
  "resume_sandbox_k8s pv sandbox_id =
     or_500 K8S_API_ERROR
       (bindS (require_state pv sandbox_id [''Paused'']) (\<lambda>_. pv_resume pv sandbox_id))"

definition storage_patch :: "string \<Rightarrow> jobj" where
  "storage_patch new_size =
     [(''spec'', JObj [(''resources'', JObj [(''requests'', JObj [(''storage'', JStr new_size)])])])]"

definition expand_workspace_storage :: "'w kube_api \<Rightarrow> string \<Rightarrow> string \<Rightarrow> ('w kstate, unit) io" where
  "expand_workspace_storage api sandbox_id new_size =
     bindS (get_pvc api (''workspace-'' @ sandbox_id)) (\<lambda>found.
     (case found of
        None \<Rightarrow> raiseS (HTTPException 404 K8S_PVC_EXPAND_FAILED)
      | Some pvc \<Rightarrow>
          bindS (liftR (parse_k8s_quantity
                   (case map_of (pvi_requests pvc) ''storage'' of None \<Rightarrow> ''0'' | Some v \<Rightarrow> v))) (\<lambda>current_bytes.
          bindS (liftR (parse_k8s_quantity new_size)) (\<lambda>new_bytes.
          if new_bytes < current_bytes then raiseS (HTTPException 400 K8S_PVC_SHRINK_NOT_SUPPORTED)
          else if new_bytes = current_bytes then retS ()
          else bindS (if given (pvi_storage_class pvc)
                      then bindS (get_storage_class api (the (pvi_storage_class pvc))) (\<lambda>sc.
                           (case sc of
                              None \<Rightarrow> retS ()
                            | Some allow \<Rightarrow>
                                if allow \<noteq> Some True then raiseS (HTTPException 422 K8S_VOLUME_EXPANSION_NOT_SUPPORTED)
                                else retS ()))
                      else retS ()) (\<lambda>_.
               patch_pvc api (''workspace-'' @ sandbox_id) (storage_patch new_size))))))"

definition extract_resource_limits :: "jobj \<Rightarrow> jobj res" where
  "extract_resource_limits workload =
     bindR (get_obj workload ''spec'') (\<lambda>spec.
     bindR (if map_of spec ''template'' \<noteq> None then get_obj spec ''template'' else get_obj spec ''podTemplate'') (\<lambda>template.
     bindR (main_container_of template) (\<lambda>main.
     (case main of
        None \<Rightarrow> Inr []
      | Some d \<Rightarrow> bindR (get_obj d ''resources'') (\<lambda>res. dict_copy res ''limits'')))))"

record limits_response =
  lr_id :: string
  lr_status :: sandbox_status
  lr_limits :: "(string, string) dict"

definition compute_updates :: "resource_update \<Rightarrow> (string, string) dict" where
  "compute_updates u =
     (case upd_cpu u of None \<Rightarrow> [] | Some v \<Rightarrow> [(''cpu'', v)])
     @ (case upd_memory u of None \<Rightarrow> [] | Some v \<Rightarrow> [(''memory'', v)])"

definition report_limits ::
    "'w kube_api \<Rightarrow> 'w provider \<Rightarrow> string \<Rightarrow> (string, string) dict \<Rightarrow> ('w kstate, limits_response) io" where
  "report_limits api pv sandbox_id changed =
     bindS (pv_get pv sandbox_id) (\<lambda>w.
     (case w of
        None \<Rightarrow> raiseS AttributeError
      | Some workload \<Rightarrow>
          bindS (pv_get_status pv workload) (\<lambda>si.
          bindS (liftR (extract_resource_limits workload)) (\<lambda>current.
          bindS (liftR (sandbox_status_of api si)) (\<lambda>st.
          bindS (liftR (string_dict (dict_update current (map (\<lambda>(k, v). (k, JStr v)) changed)))) (\<lambda>limits.
          retS \<lparr>lr_id = sandbox_id, lr_status = st, lr_limits = limits\<rparr>))))))"

definition update_resource_limits_k8s ::
    "'w kube_api \<Rightarrow> 'w provider \<Rightarrow> string \<Rightarrow> resource_update \<Rightarrow> ('w kstate, limits_response) io" where
  "update_resource_limits_k8s api pv sandbox_id u =
     or_500 K8S_RESOURCE_UPDATE_FAILED
       (bindS (require_state pv sandbox_id [''Running'', ''Paused'']) (\<lambda>_.
        bindS (whenS (compute_updates u \<noteq> []) (pv_update_limits pv sandbox_id (compute_updates u))) (\<lambda>_.
        bindS (case upd_storage u of
                 None \<Rightarrow> retS () | Some sz \<Rightarrow> expand_workspace_storage api sandbox_id sz) (\<lambda>_.
        report_limits api pv sandbox_id
          (compute_updates u @ (case upd_storage u of None \<Rightarrow> [] | Some sz \<Rightarrow> [(''storage'', sz)]))))))"

definition clean_env :: "(string, string option) dict \<Rightarrow> (string, string) dict" where
  "clean_env env = map (\<lambda>(k, v). (k, str_or v [])) env"

definition update_env_k8s ::
    "'w provider \<Rightarrow> string \<Rightarrow> (string, string option) dict \<Rightarrow> ('w kstate, (string, string) dict) io" where
  "update_env_k8s pv sandbox_id env =
     or_500 K8S_RESOURCE_UPDATE_FAILED
       (bindS (require_state pv sandbox_id [''Running'', ''Paused'']) (\<lambda>_.
        bindS (pv_update_env pv sandbox_id (clean_env env)) (\<lambda>_. retS (clean_env env))))"

definition renew_expiration_k8s ::
    "'w kube_api \<Rightarrow> 'w provider \<Rightarrow> string \<Rightarrow> datetime \<Rightarrow> ('w kstate, timestamp) io" where
  "renew_expiration_k8s api pv sandbox_id requested =
     bindS (inK (ka_now api)) (\<lambda>now.
     bindS (liftR (ensure_future_expiration now requested)) (\<lambda>new_expiration.
     or_500 K8S_API_ERROR
       (bindS (require_workload pv sandbox_id) (\<lambda>workload.
        bindS (liftR (pv_get_expiration pv workload)) (\<lambda>current.
        if current = None then raiseS (HTTPException 409 INVALID_EXPIRATION)
        else bindS (pv_update_expiration pv sandbox_id new_expiration) (\<lambda>_. retS new_expiration))))))"

definition touch_last_activity_k8s :: "'w kube_api \<Rightarrow> 'w provider \<Rightarrow> string \<Rightarrow> ('w kstate, unit) io" where
  "touch_last_activity_k8s api pv sandbox_id =
     catchS (bindS (inK (ka_now api)) (pv_touch pv sandbox_id)) (\<lambda>_. retS ())"

section \<open>End points, pods, logs\<close>

definition get_egress_auth_token :: "jobj \<Rightarrow> json res" where
  "get_egress_auth_token workload =
     bindR (get_obj workload ''metadata'') (\<lambda>m.
     bindR (get_or_empty m ''annotations'') (\<lambda>annotations.
     Inr (jget annotations SANDBOX_EGRESS_AUTH_TOKEN_METADATA_KEY)))"

definition attach_egress_auth_headers_k8s :: "sandbox_endpoint \<Rightarrow> jobj \<Rightarrow> sandbox_endpoint res" where
  "attach_egress_auth_headers_k8s ep workload =
     bindR (get_egress_auth_token workload) (\<lambda>token.
     Inr (case token of
            JStr t \<Rightarrow> if t = [] then ep
                     else ep\<lparr>ep_headers := Some (merge_endpoint_headers (ep_headers ep) (build_egress_auth_headers t))\<rparr>
          | _ \<Rightarrow> ep))"

definition get_endpoint_k8s :: "'w provider \<Rightarrow> string \<Rightarrow> int \<Rightarrow> ('w kstate, sandbox_endpoint) io" where
  "get_endpoint_k8s pv sandbox_id port =
     bindS (liftR (ensure_valid_port port)) (\<lambda>_.
     or_500 K8S_API_ERROR
       (bindS (require_workload pv sandbox_id) (\<lambda>workload.
        bindS (pv_get_endpoint_info pv workload port sandbox_id) (\<lambda>ep.
        (case ep of
           None \<Rightarrow> raiseS (HTTPException 404 K8S_POD_IP_NOT_AVAILABLE)
         | Some e \<Rightarrow> liftR (attach_egress_auth_headers_k8s e workload))))))"

definition get_sandbox_pod_name ::
    "kubernetes_config \<Rightarrow> 'w kube_api \<Rightarrow> 'w provider \<Rightarrow> string \<Rightarrow> ('w kstate, string) io" where
  "get_sandbox_pod_name k api pv sandbox_id =
     bindS (require_workload pv sandbox_id) (\<lambda>workload.
     bindS (pv_get_status pv workload) (\<lambda>si.
     if si_state si = ''Paused'' then raiseS (HTTPException 409 K8S_INVALID_STATE)
     else bindS (get_pod_name_for_sandbox api (str_or (k8s_namespace k) []) sandbox_id) (\<lambda>name.
          if given name then retS (the name) else raiseS (HTTPException 404 K8S_POD_IP_NOT_AVAILABLE))))"

definition get_sandbox_logs ::
    "kubernetes_config \<Rightarrow> 'w kube_api \<Rightarrow> 'w provider \<Rightarrow> string \<Rightarrow> int \<Rightarrow> bool \<Rightarrow> ('w kstate, string) io" where
  "get_sandbox_logs k api pv sandbox_id tail_lines follow =
     bindS (get_sandbox_pod_name k api pv sandbox_id) (\<lambda>name.
     catchS (read_pod_log api name ''sandbox'' (Some tail_lines) follow)
       (\<lambda>e. raiseS (HTTPException 500 K8S_API_ERROR)))"

section \<open>The service object\<close>

text \<open>
  \<open>__init__\<close>: the provider the service works with. \<open>client\<close> is the outcome of loading the cluster
  configuration, \<open>templates\<close> that of reading a template file.
\<close>

definition init_service_k8s ::
    "app_config \<Rightarrow> unit res \<Rightarrow> (string option \<Rightarrow> jobj res) \<Rightarrow> 'w kube_api \<Rightarrow> 'w provider res" where
  "init_service_k8s c client templates api =
     (if cfg_runtime_type c \<noteq> ''kubernetes'' then Inl ValueError
      else (case cfg_kubernetes c of
              None \<Rightarrow> Inl ValueError
            | Some k \<Rightarrow>
                (case client of
                   Inl _ \<Rightarrow> Inl (HTTPException 503 ''KUBERNETES::INITIALIZATION_ERROR'')
                 | Inr _ \<Rightarrow>
                     (case create_workload_provider c k templates api of
                        Inl e \<Rightarrow> Inl (if e = ValueError then HTTPException 503 ''KUBERNETES::INITIALIZATION_ERROR'' else e)
                      | Inr pv \<Rightarrow> Inr pv))))"

end
