(* ===== verification/K8s_Cluster.thy ===== *)
theory K8s_Cluster
  imports Wp K8s_Service
begin

text \<open>
  What the Kubernetes runtime relies on and what follows from it. The locale \<open>crd_store\<close> states the
  documented behaviour of the cluster's API on the custom resources of one namespace, over the abstract
  view \<open>objs\<close>: names mapped to objects. The locale \<open>workload_provider\<close> states what the service needs of a
  provider, in terms of the same view; the service's lemmas are proved in it, and both providers are
  instances of it over every lawful cluster.
\<close>

section \<open>Merge patches\<close>

text \<open>
  JSON merge patch (RFC 7386), which the client library sends for a dictionary: nested objects are
  merged, a null removes a key, every other value (a list too) replaces what is there.
\<close>

fun merge_patch :: "jobj \<Rightarrow> jobj \<Rightarrow> jobj" where
  "merge_patch d [] = d"
| "merge_patch d ((k, JNull) # p) = merge_patch (AList.delete k d) p"
| "merge_patch d ((k, JObj e) # p) =
     merge_patch (AList.update k (JObj (merge_patch (case map_of d k of Some (JObj x) \<Rightarrow> x | _ \<Rightarrow> []) e)) d) p"
| "merge_patch d ((k, v) # p) = merge_patch (AList.update k v d) p"

section \<open>The view of the server\<close>

text \<open>
  The informer's cache agrees with the cluster. This holds once the watch thread has caught up with the
  last change; the operations below are entered in such a state. \<open>same\<close> relates two states with the same
  custom resources, the second one with such a cache.
\<close>

definition coherent :: "('w \<Rightarrow> string \<rightharpoonup> jobj) \<Rightarrow> 'w kstate \<Rightarrow> bool" where
  "coherent objs s \<longleftrightarrow> (\<forall>i n obj. kinformer s = Some i \<and> inf_synced i \<and> informer_get n i = Some obj \<longrightarrow>
     objs (kworld s) n = Some obj)"

definition same :: "('w \<Rightarrow> string \<rightharpoonup> jobj) \<Rightarrow> 'w kstate \<Rightarrow> 'w kstate \<Rightarrow> bool" where
  "same objs s s' \<longleftrightarrow> objs (kworld s') = objs (kworld s) \<and> coherent objs s'"

lemma coherent_world: "coherent objs s \<Longrightarrow> objs w = objs (kworld s) \<Longrightarrow> coherent objs (s\<lparr>kworld := w\<rparr>)"
  by (simp add: coherent_def)

lemma coherent_fresh_informer: "coherent objs (s\<lparr>kinformer := Some init_informer\<rparr>)" "coherent objs (s\<lparr>kinformer := None\<rparr>)"
  by (simp_all add: coherent_def init_informer_def)

lemma same_objs: "same objs s s' \<Longrightarrow> objs (kworld s') = objs (kworld s)"
  by (simp add: same_def)

lemma same_coherent: "same objs s s' \<Longrightarrow> coherent objs s'"
  by (simp add: same_def)

lemma same_refl: "coherent objs s \<Longrightarrow> same objs s s"
  by (simp add: same_def)

lemma same_trans: "same objs s t \<Longrightarrow> same objs t u \<Longrightarrow> same objs s u"
  by (simp add: same_def)

lemma same_kworld: "same objs s t \<Longrightarrow> objs w = objs (kworld t) \<Longrightarrow> same objs s (t\<lparr>kworld := w\<rparr>)"
  by (simp add: same_def coherent_world)

lemma meta_name_metadata:
  "meta_name obj = Inr n \<Longrightarrow> \<exists>m. get_obj obj ''metadata'' = Inr m \<and> get_str m ''name'' = n \<and> map_of obj ''metadata'' = Some (JObj m)"
  by (auto simp: meta_name_def meta_field_def jindex_def get_obj_def get_str_def bindR_eq_Inr
      split: option.splits json.splits)

text \<open>What a push does to the cache: the object is found under its own name, the rest is as before.\<close>

lemma update_cache_lookup:
  assumes "update_cache obj i = Inr i'" and "meta_name obj = Inr n"
  shows "inf_synced i' = inf_synced i \<and> (informer_get n' i' = informer_get n' i \<or> n' = n \<and> informer_get n' i' = Some obj)"
proof -
  obtain m where m: "get_obj obj ''metadata'' = Inr m" "get_str m ''name'' = n"
    using meta_name_metadata [OF assms(2)] by blast
  with assms(1) have "i' = (if n = [] then i else advance_resource_version (get_str m ''resourceVersion'')
      (i\<lparr>inf_cache := AList.update n obj (inf_cache i)\<rparr>))"
    by (auto simp: update_cache_def Let_def split: if_splits)
  then show ?thesis by (simp add: informer_get_def)
qed

text \<open>
  \<open>finds objs names m s\<close>: the look-up \<open>m\<close> returns an object stored under one of the names, or \<open>None\<close> when
  there is none under any of them, and changes nothing. \<open>one_removed\<close> and \<open>one_replaced\<close> describe the effect
  of a change on the stored objects.
\<close>

definition finds :: "('w \<Rightarrow> string \<rightharpoonup> jobj) \<Rightarrow> string list \<Rightarrow> ('w kstate, jobj option) io \<Rightarrow> 'w kstate \<Rightarrow> bool" where
  "finds objs names m s \<longleftrightarrow> wp m
     (\<lambda>r s'. same objs s s' \<and> (case r of Some x \<Rightarrow> \<exists>n \<in> set names. objs (kworld s) n = Some x
                                    | None \<Rightarrow> \<forall>n \<in> set names. objs (kworld s) n = None))
     (\<lambda>e. same objs s) s"

definition one_removed :: "string list \<Rightarrow> (string \<rightharpoonup> jobj) \<Rightarrow> (string \<rightharpoonup> jobj) \<Rightarrow> bool" where
  "one_removed names m m' \<longleftrightarrow> (\<exists>n \<in> set names. m n \<noteq> None \<and> m' = m(n := None))"

definition one_replaced ::
    "string list \<Rightarrow> (jobj \<Rightarrow> jobj \<Rightarrow> bool) \<Rightarrow> (string \<rightharpoonup> jobj) \<Rightarrow> (string \<rightharpoonup> jobj) \<Rightarrow> bool" where
  "one_replaced names R m m' \<longleftrightarrow> (\<exists>n \<in> set names. \<exists>x y. m n = Some x \<and> m' = m(n \<mapsto> y) \<and> R x y)"

lemma one_replaced_mono:
  "one_replaced names R m m' \<Longrightarrow> (\<And>x y. R x y \<Longrightarrow> R' x y) \<Longrightarrow> one_replaced names R' m m'"
  unfolding one_replaced_def by blast

section \<open>The cluster\<close>

text \<open>
  A call that raises changes nothing; a read returns what is stored; a created object has the name and
  the spec that were sent, under a name that was free; a patch replaces one object by a version whose
  spec is the merged one. Calls on other resources and on the clock leave the custom resources alone.
\<close>

locale crd_store =
  fixes api :: "'w kube_api" and objs :: "'w \<Rightarrow> string \<rightharpoonup> jobj"
  assumes get_law: "wp (ka_get api n) (\<lambda>obj w'. objs w n = Some obj \<and> objs w' = objs w)
      (\<lambda>e w'. objs w' = objs w \<and> (e = ApiException 404 \<longrightarrow> objs w n = None)) w"
    and create_law: "wp (ka_create api body)
      (\<lambda>obj w'. \<exists>n. meta_name body = Inr n \<and> objs w n = None \<and> objs w' = (objs w)(n \<mapsto> obj)
         \<and> map_of obj ''spec'' = map_of body ''spec'' \<and> (\<exists>u. meta_field obj ''uid'' = Inr u))
      (\<lambda>e w'. objs w' = objs w) w"
    and delete_law: "wp (ka_delete api n)
      (\<lambda>_ w'. objs w n \<noteq> None \<and> objs w' = (objs w)(n := None)) (\<lambda>e w'. objs w' = objs w) w"
    and patch_law: "wp (ka_patch api n patch)
      (\<lambda>obj w'. \<exists>old. objs w n = Some old \<and> objs w' = (objs w)(n \<mapsto> obj)
         \<and> map_of obj ''spec'' = map_of (merge_patch old patch) ''spec'')
      (\<lambda>e w'. objs w' = objs w) w"
    and named: "objs w n = Some obj \<Longrightarrow> meta_name obj = Inr n"
    and iso_law: "in_range t \<Longrightarrow> ka_isoformat api t \<noteq> []"
      "in_range t \<Longrightarrow> ka_fromiso api (replace_z (ka_isoformat api t)) = Some (Aware t 0)"
    and frame_secret: "always (ka_create_secret api sec) (\<lambda>w'. objs w' = objs w) w"
    and frame_pods: "always (ka_list_pods api ns sel) (\<lambda>w'. objs w' = objs w) w"
    and frame_pvc: "always (ka_create_pvc api pvb) (\<lambda>w'. objs w' = objs w) w"
      "always (ka_delete_pvc api n) (\<lambda>w'. objs w' = objs w) w"
    and frame_thread: "always (ka_start_thread api) (\<lambda>w'. objs w' = objs w) w"
    and frame_clock: "always (ka_now api) (\<lambda>w'. objs w' = objs w) w" "always (ka_time api) (\<lambda>w'. objs w' = objs w) w"
    and frame_random: "always (ka_new_id api) (\<lambda>w'. objs w' = objs w) w" "always (ka_token api) (\<lambda>w'. objs w' = objs w) w"
begin

lemma stored_nonempty: "objs w n = Some obj \<Longrightarrow> obj \<noteq> []"
  using named [of w n obj] by (auto simp: meta_name_def meta_field_def jindex_def)

lemma push_cache_wp:
  assumes "coherent objs s" and "objs (kworld s) n = Some obj"
  shows "wp (push_cache b obj) (\<lambda>_. same objs s) (\<lambda>e s'. same objs s s' \<and> e \<noteq> ApiException 404) s"
proof (cases "b \<and> kinformer s \<noteq> None")
  case True
  then obtain i where i: "kinformer s = Some i" by auto
  note nm = named [OF assms(2)]
  obtain m where m: "get_obj obj ''metadata'' = Inr m" using meta_name_metadata [OF nm] by blast
  then obtain i' where i': "update_cache obj i = Inr i'"
    by (cases "get_str m ''name'' = []") (auto simp: update_cache_def Let_def)
  have "objs (kworld s) n' = Some o'" if "informer_get n' i' = Some o'" "inf_synced i'" for n' o'
  proof -
    from update_cache_lookup [OF i' nm, of n'] that
    have "inf_synced i \<and> informer_get n' i = Some o' \<or> n' = n \<and> o' = obj" by auto
    then show ?thesis using assms i unfolding coherent_def by blast
  qed
  with i i' True show ?thesis by (simp add: wp_def push_cache_def same_def coherent_def)
next
  case False
  with assms show ?thesis by (auto simp: wp_def push_cache_def same_def)
qed

lemma get_informer_wp:
  assumes "coherent objs s"
  shows "wp (get_informer k api) (\<lambda>b. same objs s) (\<lambda>e s'. False) s"
proof -
  have "wp (catchS (bindS (inK (ka_start_thread api)) (\<lambda>_. retS True))
          (\<lambda>e. bindS (modifyS (\<lambda>s. s\<lparr>kinformer := None\<rparr>)) (\<lambda>_. retS False))) (\<lambda>b. same objs s) (\<lambda>e s'. False)
          (s\<lparr>kinformer := Some init_informer\<rparr>)"
    unfolding wp_catchS wp_bindS wp_inK
    by (rule wp_mono [OF frame_thread]) (auto simp: wp_simps same_def coherent_fresh_informer intro!: coherent_world)
  with assms show ?thesis
    by (auto simp: get_informer_def wp_bindS wp_getS wp_modifyS wp_retS wp_if same_refl split: option.split)
qed

lemma get_custom_object_wp:
  assumes c: "coherent objs s"
  shows "wp (get_custom_object k api n) (\<lambda>r s'. same objs s s' \<and> r = objs (kworld s) n) (\<lambda>e. same objs s) s"
proof -
  have call: "wp (catchS (bindS (inK (ka_get api n)) (\<lambda>obj.
                  bindS (push_cache b obj) (\<lambda>_. retS (Some obj))))
            (\<lambda>e. if e = ApiException 404 then retS None else raiseS e))
        (\<lambda>r s'. same objs s s' \<and> r = objs (kworld s) n) (\<lambda>e. same objs s) t" if t: "same objs s t" for t b
    unfolding wp_catchS wp_bindS wp_inK
  proof (rule wp_mono [OF get_law], goal_cases)
    case (1 obj w')
    then have w: "same objs s (t\<lparr>kworld := w'\<rparr>)" "objs (kworld (t\<lparr>kworld := w'\<rparr>)) n = Some obj"
      using t by (auto intro: same_kworld)
    then have o: "objs (kworld s) n = Some obj" by (simp add: same_def)
    show ?case
      by (rule wp_mono [OF push_cache_wp [OF same_coherent [OF w(1)] w(2), of b]])
         (use w o in \<open>auto simp: wp_simps intro: same_trans\<close>)
  next
    case (2 e w')
    then have "same objs s (t\<lparr>kworld := w'\<rparr>)" using t by (auto intro: same_kworld)
    with 2 t show ?case by (auto simp: wp_simps same_objs)
  qed
  show ?thesis
    unfolding get_custom_object_def wp_bindS
  proof (rule wp_mono [OF get_informer_wp [OF c]], goal_cases)
    case (1 b t)
    show ?case
    proof (cases "cached_object b n t")
      case None
      with call [OF 1, of b] show ?thesis by (simp add: wp_getS)
    next
      case (Some obj)
      with 1 have "objs (kworld s) n = Some obj"
        by (auto simp: cached_object_def same_def coherent_def split: if_splits option.splits)
      with Some 1 show ?thesis by (simp add: wp_simps)
    qed
  qed simp
qed

lemma present_stored: "objs w n = Some x \<Longrightarrow> present (Some x)"
  using stored_nonempty [of w n x] by (simp add: present_def)

lemma finds_custom_object: "coherent objs s \<Longrightarrow> finds objs [n] (get_custom_object k api n) s"
  unfolding finds_def by (rule wp_mono [OF get_custom_object_wp]) (auto split: option.splits)

lemma finds_more:
  assumes "coherent objs s" and "\<And>t. same objs s t \<Longrightarrow> finds objs ns m t"
  shows "finds objs (n # ns) (bindS (get_custom_object k api n) (\<lambda>w. if present w then retS w else m)) s"
  unfolding finds_def wp_bindS
proof (rule wp_mono [OF get_custom_object_wp [OF assms(1)]], goal_cases)
  case (1 r t)
  show ?case
  proof (cases r)
    case None
    then have "objs (kworld s) n = None" using 1 by simp
    moreover have "finds objs ns m t" using assms(2) 1 by blast
    ultimately show ?thesis
      unfolding finds_def using None 1
      by (auto simp: present_def same_objs elim!: wp_mono intro: same_trans split: option.splits)
  next
    case (Some x)
    then have "objs (kworld s) n = Some x" using 1 by simp
    with present_stored [OF this] Some 1 show ?thesis by (simp add: wp_simps)
  qed
qed simp

lemma one_replaced_named:
  "one_replaced names R (objs w) (objs w') \<Longrightarrow>
     one_replaced names (\<lambda>x y. R x y \<and> (\<exists>n. meta_name y = Inr n)) (objs w) (objs w')"
  unfolding one_replaced_def by (metis fun_upd_same named)

text \<open>A change that looks the workload up and patches it.\<close>

lemma patch_workload_wp:
  assumes "finds objs names m s"
  shows "wp (patch_workload api m missing body)
    (\<lambda>_ s'. one_replaced names (\<lambda>x y. \<exists>p. body x = Inr p \<and> map_of y ''spec'' = map_of (merge_patch x p) ''spec'')
       (objs (kworld s)) (objs (kworld s')))
    (\<lambda>e s'. objs (kworld s') = objs (kworld s)) s"
  unfolding patch_workload_def wp_bindS
proof (rule wp_mono [OF assms [unfolded finds_def]], goal_cases)
  case (1 r t)
  show ?case
  proof (cases r)
    case None
    with 1 show ?thesis by (simp add: present_def wp_simps same_objs)
  next
    case (Some x)
    then obtain n where n: "n \<in> set names" "objs (kworld s) n = Some x" using 1 by auto
    have t: "objs (kworld t) = objs (kworld s)" using 1 by (simp add: same_objs)
    show ?thesis
    proof (cases "body x")
      case (Inr p)
      have "wp (ka_patch api n p) (\<lambda>y w'. one_replaced names
              (\<lambda>x y. \<exists>p. body x = Inr p \<and> map_of y ''spec'' = map_of (merge_patch x p) ''spec'') (objs (kworld s)) (objs w'))
            (\<lambda>e w'. objs w' = objs (kworld s)) (kworld t)"
        by (rule wp_mono [OF patch_law]) (use n t Inr in \<open>auto simp: one_replaced_def\<close>)
      then show ?thesis
        using Some Inr present_stored [OF n(2)] named [OF n(2)]
        by (simp add: wp_simps patch_custom_object_def)
    qed (use Some t present_stored [OF n(2)] in \<open>simp add: wp_simps\<close>)
  qed
qed (simp add: same_objs)

lemma delete_custom_object_wp:
  "wp (delete_custom_object api n)
     (\<lambda>_ s'. objs (kworld s) n \<noteq> None \<and> objs (kworld s') = (objs (kworld s))(n := None))
     (\<lambda>e s'. objs (kworld s') = objs (kworld s)) s"
  unfolding delete_custom_object_def wp_inK by (rule wp_mono [OF delete_law]) auto

lemma delete_pvc_frame: "always (delete_pvc api n) (\<lambda>s'. objs (kworld s') = objs (kworld s)) s"
  unfolding delete_pvc_def wp_catchS wp_inK by (rule wp_mono [OF frame_pvc(2)]) (auto simp: wp_simps)

lemma list_pods_same: "coherent objs s \<Longrightarrow> always (list_pods api ns sel) (same objs s) s"
  unfolding list_pods_def wp_inK by (rule wp_mono [OF frame_pods]) (auto intro: same_kworld same_refl)

end

end
