(* ===== verification/K8s_Contract.thy ===== *)
theory K8s_Contract
  imports K8s_Cluster
begin

text \<open>
  The contract between \<open>KubernetesSandboxService\<close> and its workload provider, as the locale
  \<open>workload_provider\<close>; the service's operations are verified in it. Both providers meet the contract over
  every lawful cluster (\<open>crd_store\<close>).
\<close>

section \<open>The contract\<close>

text \<open>
  \<open>names sid\<close> are the resource names under which the workload of a sandbox may be stored.
\<close>

locale workload_provider =
  fixes api :: "'w kube_api" and objs :: "'w \<Rightarrow> string \<rightharpoonup> jobj" and pv :: "'w provider"
    and names :: "string \<Rightarrow> string list"
  assumes get_finds: "coherent objs s \<Longrightarrow> finds objs (names sid) (pv_get pv sid) s"
    and found_present: "pv_get pv sid s = (Inr (Some x), s') \<Longrightarrow> coherent objs s \<Longrightarrow> x \<noteq> []"
    and delete_effect: "coherent objs s \<Longrightarrow> wp (pv_delete pv sid)
      (\<lambda>_ s'. one_removed (names sid) (objs (kworld s)) (objs (kworld s')))
      (\<lambda>e s'. objs (kworld s') = objs (kworld s)) s"
    and delete_missing: "pv_get pv sid s = (Inr None, s') \<Longrightarrow>
      \<exists>m. pv_delete pv sid s = (Inl (OtherException m), s') \<and> contains (lower m) ''not found''"
    and renew_effect: "coherent objs s \<Longrightarrow> in_range t \<Longrightarrow> wp (pv_update_expiration pv sid t)
      (\<lambda>_ s'. one_replaced (names sid) (\<lambda>x y. pv_get_expiration pv y = Inr (Some (Aware t 0)))
         (objs (kworld s)) (objs (kworld s')))
      (\<lambda>e s'. objs (kworld s') = objs (kworld s)) s"
    and status_same: "coherent objs s \<Longrightarrow> always (pv_get_status pv x) (same objs s) s"
    and clock_frame: "always (ka_now api) (\<lambda>w'. objs w' = objs w) w"
begin

lemma require_workload_wp:
  assumes "coherent objs s"
  shows "wp (require_workload pv sid)
    (\<lambda>x s'. same objs s s' \<and> (\<exists>n \<in> set (names sid). objs (kworld s) n = Some x))
    (\<lambda>e s'. same objs s s') s"
proof -
  have "wp (pv_get pv sid) (\<lambda>r t. same objs s t \<and> (case r of
          Some x \<Rightarrow> x \<noteq> [] \<and> (\<exists>n \<in> set (names sid). objs (kworld s) n = Some x) | None \<Rightarrow> True)) (\<lambda>e. same objs s) s"
    using get_finds [OF assms, of sid] found_present [of sid s _ _, OF _ assms]
    by (intro wpI) (auto simp: finds_def wp_def split: option.splits)
  then show ?thesis
    unfolding require_workload_def wp_bindS
    by (rule wp_mono) (auto simp: wp_simps present_def split: option.splits)
qed

text \<open>Deleting a sandbox removes one object, that of the sandbox, or reports an error and removes none.\<close>

lemma delete_sandbox_wp:
  "coherent objs s \<Longrightarrow> wp (delete_sandbox_k8s api pv sid)
     (\<lambda>_ s'. one_removed (names sid) (objs (kworld s)) (objs (kworld s')))
     (\<lambda>e s'. objs (kworld s') = objs (kworld s) \<and>
        (e = HTTPException 404 K8S_SANDBOX_NOT_FOUND \<or> e = HTTPException 500 K8S_API_ERROR)) s"
  unfolding delete_sandbox_k8s_def wp_catchS
  by (rule wp_mono [OF delete_effect]) (auto simp: wp_simps)

lemma delete_sandbox_missing:
  assumes "pv_get pv sid s = (Inr None, s')"
  shows "delete_sandbox_k8s api pv sid s = (Inl (HTTPException 404 K8S_SANDBOX_NOT_FOUND), s')"
  using delete_missing [OF assms] by (auto simp: delete_sandbox_k8s_def catchS_def exn_str_def raiseS_def)

lemma or_500_wp:
  "wp m Q E s \<Longrightarrow> (\<And>e s'. E e s' \<Longrightarrow> E' s') \<Longrightarrow> wp (or_500 err m) Q (\<lambda>e. E') s"
  unfolding or_500_def wp_catchS by (erule wp_mono) (auto simp: wp_simps)

lemma require_state_wp:
  assumes "coherent objs s"
  shows "always (require_state pv sid allowed) (same objs s) s"
  unfolding require_state_def wp_bindS
proof (rule wp_mono [OF require_workload_wp [OF assms]], goal_cases)
  case (1 x t)
  then have "always (pv_get_status pv x) (same objs t) t" using status_same same_coherent by blast
  with 1 show ?case by (auto simp: wp_simps intro: same_trans elim!: wp_mono)
qed simp

text \<open>A change behind the state guard, with the service's error handling around it.\<close>

lemma guarded_wp:
  assumes "coherent objs s"
    and "\<And>t. same objs s t \<Longrightarrow> wp op Q (\<lambda>e s'. objs (kworld s') = objs (kworld t)) t"
  shows "wp (or_500 err (bindS (require_state pv sid allowed) (\<lambda>_. op))) Q
    (\<lambda>e s'. objs (kworld s') = objs (kworld s)) s"
proof (rule or_500_wp)
  show "wp (bindS (require_state pv sid allowed) (\<lambda>_. op)) Q (\<lambda>e s'. objs (kworld s') = objs (kworld s)) s"
    unfolding wp_bindS
    by (rule wp_mono [OF require_state_wp [OF assms(1)]])
       (auto simp: same_objs intro: wp_mono [OF assms(2)])
qed

text \<open>A renewal stores the new instant, in the future, in the sandbox's object only.\<close>

lemma renew_expiration_wp:
  assumes c: "coherent objs s" and r: "\<And>t. to_utc requested = Inr t \<Longrightarrow> in_range t"
  shows "wp (renew_expiration_k8s api pv sid requested)
    (\<lambda>t s'. to_utc requested = Inr t \<and>
       one_replaced (names sid) (\<lambda>x y. pv_get_expiration pv y = Inr (Some (Aware t 0))) (objs (kworld s)) (objs (kworld s')))
    (\<lambda>e s'. objs (kworld s') = objs (kworld s)) s"
  unfolding renew_expiration_k8s_def wp_bindS wp_inK
proof (rule wp_mono [OF clock_frame], goal_cases)
  case (1 now w')
  let ?t = "s\<lparr>kworld := w'\<rparr>"
  have t: "same objs s ?t" using c 1 by (auto intro: same_kworld same_refl)
  show ?case
  proof (cases "ensure_future_expiration now requested")
    case (Inl e)
    with 1 show ?thesis by (simp add: wp_simps)
  next
    case (Inr new)
    then have new: "to_utc requested = Inr new" "in_range new"
      using r by (auto simp: ensure_future_expiration_def res_simps)
    have "wp (bindS (require_workload pv sid) (\<lambda>workload.
        bindS (liftR (pv_get_expiration pv workload)) (\<lambda>current.
        if current = None then raiseS (HTTPException 409 INVALID_EXPIRATION)
        else bindS (pv_update_expiration pv sid new) (\<lambda>_. retS new))))
      (\<lambda>t s'. t = new \<and> one_replaced (names sid) (\<lambda>x y. pv_get_expiration pv y = Inr (Some (Aware t 0)))
         (objs (kworld s)) (objs (kworld s')))
      (\<lambda>e s'. objs (kworld s') = objs (kworld s)) ?t"
      unfolding wp_bindS
    proof (rule wp_mono [OF require_workload_wp [OF same_coherent [OF t]]], goal_cases)
      case (1 x u)
      have u: "coherent objs u" "objs (kworld u) = objs (kworld s)"
        using 1 t by (auto simp: same_def)
      have "wp (pv_update_expiration pv sid new)
          (\<lambda>_ s'. one_replaced (names sid) (\<lambda>x y. pv_get_expiration pv y = Inr (Some (Aware new 0)))
             (objs (kworld s)) (objs (kworld s')))
          (\<lambda>e s'. objs (kworld s') = objs (kworld s)) u"
        using renew_effect [OF u(1) new(2)] u(2) by simp
      then show ?case using u by (auto simp: wp_simps elim!: wp_mono split: sum.splits)
    next
      case (2 e u)
      with t show ?case by (auto simp: same_def)
    qed
    then have "wp (or_500 K8S_API_ERROR (bindS (require_workload pv sid) (\<lambda>workload.
        bindS (liftR (pv_get_expiration pv workload)) (\<lambda>current.
        if current = None then raiseS (HTTPException 409 INVALID_EXPIRATION)
        else bindS (pv_update_expiration pv sid new) (\<lambda>_. retS new)))))
      (\<lambda>t s'. t = new \<and> one_replaced (names sid) (\<lambda>x y. pv_get_expiration pv y = Inr (Some (Aware t 0)))
         (objs (kworld s)) (objs (kworld s')))
      (\<lambda>e s'. objs (kworld s') = objs (kworld s)) ?t"
      by (rule or_500_wp)
    then show ?thesis using Inr new by (auto simp: wp_liftR elim!: wp_mono)
  qed
qed simp

end

section \<open>Both providers meet the contract\<close>

definition batch_names :: "string \<Rightarrow> string list" where
  "batch_names sid = [sid, legacy_resource_name sid]"

lemma not_found_text: "contains (lower (a @ '' not found'')) ''not found''"
proof -
  have "lower (a @ '' not found'') = (lower a @ '' '') @ ''not found''"
    by (simp add: lower_def lower_char_def is_upper_def code_def)
  then show ?thesis using sublist_appendI [of "''not found''" "lower a @ '' ''" "[]"] by (simp add: contains_sublist)
qed

context crd_store
begin

lemma finds_nothing: "coherent objs s \<Longrightarrow> finds objs [] (retS None) s"
  by (simp add: finds_def wp_simps same_refl)

lemma batch_finds:
  assumes "coherent objs s"
  shows "finds objs (batch_names sid) (batch_get_workload k api sid) s"
proof (cases "legacy_resource_name sid = sid")
  case True
  have "finds objs [sid] (bindS (get_custom_object k api sid) (\<lambda>w. if present w then retS w else retS None)) s"
    by (rule finds_more [OF assms]) (intro finds_nothing same_coherent)
  moreover have "finds objs [sid] m s = finds objs [sid, sid] m s" for m by (simp add: finds_def cong: option.case_cong)
  ultimately show ?thesis using True by (simp add: batch_get_workload_def batch_names_def)
next
  case False
  have "finds objs [sid, legacy_resource_name sid] (bindS (get_custom_object k api sid) (\<lambda>w. if present w then retS w
      else get_custom_object k api (legacy_resource_name sid))) s"
    by (rule finds_more [OF assms]) (intro finds_custom_object same_coherent)
  with False show ?thesis by (simp add: batch_get_workload_def batch_names_def)
qed

lemma agent_finds:
  assumes "coherent objs s"
  shows "finds objs (resource_name_candidates api sid) (agent_get_workload k api sid) s"
proof -
  have "finds objs ns (try_names k api ns) t" if "coherent objs t" for ns t
    using that
  proof (induction ns arbitrary: t)
    case (Cons n ns)
    show ?case unfolding try_names.simps
      by (rule finds_more [OF Cons.prems]) (use Cons.IH same_coherent in blast)
  qed (simp add: finds_nothing)
  with assms show ?thesis by (simp add: agent_get_workload_def)
qed

text \<open>What a look-up returns is stored, so it is not empty.\<close>

lemma finds_present:
  assumes "coherent objs s \<Longrightarrow> finds objs ns m s" and "coherent objs s" and "m s = (Inr (Some x), s')"
  shows "x \<noteq> []"
  using wp_InrD [OF assms(1) [OF assms(2), unfolded finds_def] assms(3)] stored_nonempty by auto

lemma delete_found_wp:
  assumes "finds objs names m s"
    and "\<And>n t. wp (del n) (\<lambda>_ s'. objs (kworld t) n \<noteq> None \<and> objs (kworld s') = (objs (kworld t))(n := None))
           (\<lambda>e s'. objs (kworld s') = objs (kworld t)) t"
  shows "wp (bindS m (\<lambda>w. if \<not> present w then raiseS e0 else bindS (liftR (meta_name (the w))) del))
     (\<lambda>_ s'. one_removed names (objs (kworld s)) (objs (kworld s')))
     (\<lambda>e s'. objs (kworld s') = objs (kworld s)) s"
  unfolding wp_bindS
proof (rule wp_mono [OF assms(1) [unfolded finds_def]], goal_cases)
  case (1 r t)
  show ?case
  proof (cases r)
    case None
    with 1 show ?thesis by (simp add: present_def wp_simps same_objs)
  next
    case (Some x)
    then obtain n where n: "n \<in> set names" "objs (kworld s) n = Some x" using 1 by auto
    have t: "objs (kworld t) = objs (kworld s)" using 1 by (simp add: same_objs)
    have "wp (del n) (\<lambda>_ s'. one_removed names (objs (kworld s)) (objs (kworld s')))
        (\<lambda>e s'. objs (kworld s') = objs (kworld s)) t"
      by (rule wp_mono [OF assms(2)]) (use n t in \<open>auto simp: one_removed_def\<close>)
    then show ?thesis using Some present_stored [OF n(2)] named [OF n(2)] by (simp add: wp_simps)
  qed
qed (simp add: same_objs)

lemma update_time_wp:
  assumes "finds objs names m s" and "in_range t"
  shows "wp (patch_workload api m missing (\<lambda>_. Inr [(''spec'', JObj [(field, JStr (ka_isoformat api t))])]))
    (\<lambda>_ s'. one_replaced names (\<lambda>x y. spec_time api field y = Inr (Some (Aware t 0))) (objs (kworld s)) (objs (kworld s')))
    (\<lambda>e s'. objs (kworld s') = objs (kworld s)) s"
  by (rule wp_mono [OF patch_workload_wp [OF assms(1)]])
     (auto elim!: one_replaced_mono simp: spec_time_def get_obj_def jget_def iso_law [OF assms(2)])

lemma batch_contract: "workload_provider api objs (batch_provider c k template api) batch_names"
proof (unfold_locales, goal_cases)
  case (1 s sid)
  then show ?case by (simp add: batch_provider_def batch_finds)
next
  case (2 sid s x s')
  then show ?case using finds_present [OF batch_finds] by (simp add: batch_provider_def)
next
  case (3 s sid)
  then show ?case
    using delete_found_wp [OF batch_finds [OF 3] delete_custom_object_wp]
    by (simp add: batch_provider_def batch_delete_workload_def)
next
  case (4 sid s s')
  then show ?case
    using not_found_text [of "''BatchSandbox for sandbox '' @ sid"]
    by (simp add: batch_provider_def batch_delete_workload_def bindS_def present_def raiseS_def batch_not_found_def)
next
  case (5 s t sid)
  then show ?case
    using update_time_wp [OF batch_finds] by (simp add: batch_provider_def batch_update_expiration_def batch_get_expiration_def)
next
  case (6 s x)
  then show ?case by (auto simp: batch_provider_def batch_get_status_def wp_simps same_refl split: sum.splits)
next
  case (7 w)
  show ?case by (rule frame_clock)
qed

lemma agent_status_same: "coherent objs s \<Longrightarrow> always (agent_get_status api x) (same objs s) s"
proof -
  assume c: "coherent objs s"
  have p: "always (pod_state_from_selector api x) (same objs s) s"
    using c unfolding pod_state_from_selector_def
    by (auto simp: wp_simps same_refl split: sum.splits option.splits intro!: wp_mono [OF list_pods_same])
  show ?thesis
    using c unfolding agent_get_status_def Let_def
    by (auto simp: wp_simps same_refl split: sum.splits option.splits intro!: wp_mono [OF p])
qed

lemma agent_contract: "workload_provider api objs (agent_provider c k template api) (resource_name_candidates api)"
proof (unfold_locales, goal_cases)
  case (1 s sid)
  then show ?case by (simp add: agent_provider_def agent_finds)
next
  case (2 sid s x s')
  then show ?case using finds_present [OF agent_finds] by (simp add: agent_provider_def)
next
  case (3 s sid)
  have "wp (bindS (delete_custom_object api n) (\<lambda>_. catchS (delete_pvc api (pvc_name api sid)) (\<lambda>_. retS ())))
      (\<lambda>_ s'. objs (kworld t) n \<noteq> None \<and> objs (kworld s') = (objs (kworld t))(n := None))
      (\<lambda>e s'. objs (kworld s') = objs (kworld t)) t" for n t
    unfolding wp_bindS
    by (rule wp_mono [OF delete_custom_object_wp])
       (auto simp: wp_catchS wp_retS intro!: wp_mono [OF delete_pvc_frame])
  from delete_found_wp [OF agent_finds [OF 3] this] show ?case
    by (simp add: agent_provider_def agent_delete_workload_def)
next
  case (4 sid s s')
  then show ?case
    using not_found_text [of "''Sandbox for sandbox '' @ sid"]
    by (simp add: agent_provider_def agent_delete_workload_def bindS_def present_def raiseS_def agent_for_not_found_def)
next
  case (5 s t sid)
  then show ?case
    using update_time_wp [OF agent_finds] by (simp add: agent_provider_def agent_update_expiration_def agent_get_expiration_def)
next
  case (6 s x)
  then show ?case by (simp add: agent_provider_def agent_status_same)
next
  case (7 w)
  show ?case by (rule frame_clock)
qed

end

sublocale crd_store \<subseteq> batch: workload_provider api objs "batch_provider c k template api" batch_names
  for c k template
  by (rule batch_contract)

sublocale crd_store \<subseteq> agent: workload_provider api objs "agent_provider c k template api" "resource_name_candidates api"
  for c k template
  by (rule agent_contract)

end
