(* ===== verification/K8s_Sim.thy ===== *)
theory K8s_Sim
  imports K8s_Contract
begin

text \<open>
  A concrete cluster: named custom objects, volume claims, secrets and a clock, with a controller that
  reports every new object as ready. It meets the laws of \<open>crd_store\<close>, so these can hold, and the
  witnesses are evaluated on it.
\<close>

record cluster =
  cl_objs :: "(string, jobj) dict"
  cl_pods :: "pod list"
  cl_pvcs :: "(string, string) dict"
  cl_secrets :: "string list"
  cl_clock :: int

text \<open>The objects of the cluster; an entry counts when it carries its own name.\<close>

definition sim_objs :: "cluster \<Rightarrow> string \<rightharpoonup> jobj" where
  "sim_objs w n = (case map_of (cl_objs w) n of
     None \<Rightarrow> None | Some obj \<Rightarrow> if meta_name obj = Inr n then Some obj else None)"

definition sim_get_obj :: "string \<Rightarrow> (cluster, jobj) io" where
  "sim_get_obj n w = (case sim_objs w n of None \<Rightarrow> (Inl (ApiException 404), w) | Some obj \<Rightarrow> (Inr obj, w))"

definition sim_ready :: json where
  "sim_ready = JObj [(''conditions'', JList [JObj [(''type'', JStr ''Ready''), (''status'', JStr ''True'')]])]"

definition sim_stamp :: "int \<Rightarrow> jobj \<Rightarrow> jobj" where
  "sim_stamp clock body =
     AList.update ''status'' sim_ready
       (upd_obj [''metadata''] (\<lambda>m. AList.update ''uid'' (JStr ''u1'')
          (AList.update ''creationTimestamp'' (JInt clock) m)) body)"

definition sim_store :: "string \<Rightarrow> jobj \<Rightarrow> cluster \<Rightarrow> cluster" where
  "sim_store n obj w = w\<lparr>cl_objs := AList.update n obj (cl_objs w)\<rparr>"

definition sim_create_obj :: "jobj \<Rightarrow> (cluster, jobj) io" where
  "sim_create_obj body w =
     (case meta_name body of
        Inl _ \<Rightarrow> (Inl (ApiException 422), w)
      | Inr n \<Rightarrow>
          if sim_objs w n \<noteq> None then (Inl (ApiException 409), w)
          else (Inr (sim_stamp (cl_clock w) body), sim_store n (sim_stamp (cl_clock w) body) w))"

definition sim_delete_obj :: "string \<Rightarrow> (cluster, unit) io" where
  "sim_delete_obj n w =
     (if sim_objs w n = None then (Inl (ApiException 404), w)
      else (ok, w\<lparr>cl_objs := AList.delete n (cl_objs w)\<rparr>))"

definition sim_patch_obj :: "string \<Rightarrow> jobj \<Rightarrow> (cluster, jobj) io" where
  "sim_patch_obj n patch w =
     (case sim_objs w n of
        None \<Rightarrow> (Inl (ApiException 404), w)
      | Some old \<Rightarrow>
          if meta_name (merge_patch old patch) \<noteq> Inr n then (Inl (ApiException 422), w)
          else (Inr (merge_patch old patch), sim_store n (merge_patch old patch) w))"

definition sim_iso :: "int \<Rightarrow> string" where
  "sim_iso t = (if 0 \<le> t then ''p'' @ str_nat (nat t) else ''m'' @ str_nat (nat (- t)))"

definition sim_fromiso :: "string \<Rightarrow> datetime option" where
  "sim_fromiso s = (case s of
     [] \<Rightarrow> None
   | c # r \<Rightarrow> (if c = CHR ''p'' then map_option (\<lambda>z. Aware z 0) (py_int r)
              else if c = CHR ''m'' then map_option (\<lambda>z. Aware (- z) 0) (py_int r) else None))"

definition sim_kube :: "cluster kube_api" where
  "sim_kube =
     \<lparr>ka_create = sim_create_obj, ka_get = sim_get_obj,
      ka_list = (\<lambda>sel w. (Inr [(''items'', JList (map (\<lambda>(n, x). JObj x) (cl_objs w)))], w)),
      ka_delete = sim_delete_obj, ka_patch = sim_patch_obj,
      ka_create_secret = (\<lambda>sec w. (ok, w\<lparr>cl_secrets := sec_name sec # cl_secrets w\<rparr>)),
      ka_list_pods = (\<lambda>ns sel w. (Inr (cl_pods w), w)),
      ka_create_pvc = (\<lambda>b w. if map_of (cl_pvcs w) (pvb_name b) \<noteq> None then (Inl (ApiException 409), w)
         else (ok, w\<lparr>cl_pvcs := AList.update (pvb_name b) (the (map_of (pvb_requests b) ''storage'')) (cl_pvcs w)\<rparr>)),
      ka_delete_pvc = (\<lambda>n w. if map_of (cl_pvcs w) n = None then (Inl (ApiException 404), w)
         else (ok, w\<lparr>cl_pvcs := AList.delete n (cl_pvcs w)\<rparr>)),
      ka_read_pvc = (\<lambda>n w. case map_of (cl_pvcs w) n of
         None \<Rightarrow> (Inl (ApiException 404), w)
       | Some sz \<Rightarrow> (Inr \<lparr>pvi_requests = [(''storage'', sz)], pvi_storage_class = None\<rparr>, w)),
      ka_patch_pvc = (\<lambda>n b w. (ok, w)), ka_read_storage_class = (\<lambda>n w. (Inr (Some True), w)),
      ka_read_pod_log = (\<lambda>p ct tl f w. (Inr ''log'', w)), ka_start_thread = retS (),
      ka_now = getS cl_clock, ka_time = getS cl_clock,
      ka_sleep = (\<lambda>p s. (ok, s\<lparr>kworld := (kworld s)\<lparr>cl_clock := cl_clock (kworld s) + \<lceil>p * 1000000\<rceil>\<rparr>\<rparr>)),
      ka_new_id = retS ''1a2b'', ka_token = retS ''token'',
      ka_isoformat = sim_iso, ka_fromiso = sim_fromiso,
      ka_parse_dt = (\<lambda>v. case v of JInt n \<Rightarrow> Some n | _ \<Rightarrow> None),
      ka_hash8 = (\<lambda>s. ''0123abcd''), ka_str = (\<lambda>e. ''Reason: Conflict''), ka_repr = json_dumps\<rparr>"

lemmas sim_kube_simps = sim_kube_def sim_create_obj_def sim_get_obj_def sim_delete_obj_def sim_patch_obj_def

lemma sim_objs_store:
  "meta_name obj = Inr n \<Longrightarrow> sim_objs (sim_store n obj w) = (sim_objs w)(n \<mapsto> obj)"
  by (auto simp: sim_objs_def sim_store_def fun_eq_iff)

lemma sim_objs_delete: "sim_objs (w\<lparr>cl_objs := AList.delete n (cl_objs w)\<rparr>) = (sim_objs w)(n := None)"
  by (auto simp: sim_objs_def fun_eq_iff)

lemma sim_objs_other [simp]:
  "sim_objs (w\<lparr>cl_secrets := x\<rparr>) = sim_objs w" "sim_objs (w\<lparr>cl_pvcs := y\<rparr>) = sim_objs w"
  "sim_objs (w\<lparr>cl_clock := z\<rparr>) = sim_objs w"
  by (simp_all add: sim_objs_def fun_eq_iff)

lemma sim_stamp_fields:
  assumes "meta_name body = Inr n"
  shows "meta_name (sim_stamp t body) = Inr n" "map_of (sim_stamp t body) ''spec'' = map_of body ''spec''"
    "\<exists>u. meta_field (sim_stamp t body) ''uid'' = Inr u"
proof -
  obtain m where m: "map_of body ''metadata'' = Some (JObj m)" using meta_name_metadata [OF assms] by blast
  with assms show "meta_name (sim_stamp t body) = Inr n" "map_of (sim_stamp t body) ''spec'' = map_of body ''spec''"
    "\<exists>u. meta_field (sim_stamp t body) ''uid'' = Inr u"
    by (simp_all add: sim_stamp_def meta_name_def meta_field_def jindex_def)
qed

lemma replace_z_digits: "list_all is_digit s \<Longrightarrow> replace_z s = s"
  by (induction s) (auto simp: is_digit_def code_def)

lemma sim_iso_roundtrip: "sim_fromiso (replace_z (sim_iso t)) = Some (Aware t 0)"
  using str_nat_list_all [of "nat t"] str_nat_list_all [of "nat (- t)"]
  by (auto simp: sim_iso_def sim_fromiso_def replace_z_digits py_int_str_nat)

interpretation sim: crd_store sim_kube sim_objs
proof (unfold_locales, goal_cases)
  case (1 n w)
  show ?case by (auto simp: sim_kube_simps wp_def split: option.splits)
next
  case (2 body w)
  show ?case
    by (auto simp: sim_kube_simps wp_def sim_objs_store sim_stamp_fields split: sum.splits)
next
  case (3 n w)
  show ?case by (auto simp: sim_kube_simps wp_def sim_objs_delete)
next
  case (4 n patch w)
  show ?case by (auto simp: sim_kube_simps wp_def sim_objs_store split: option.splits)
next
  case (5 w n obj)
  then show ?case by (auto simp: sim_objs_def split: option.splits if_splits)
next
  case (6 t)
  show ?case by (simp add: sim_kube_def sim_iso_def)
next
  case (7 t)
  show ?case by (simp add: sim_kube_def sim_iso_roundtrip)
qed (auto simp: sim_kube_def wp_def io_simps split: if_splits)

end
