(* ===== verification/K8s_Safety.thy ===== *)
theory K8s_Safety
  imports K8s_Sim
begin

text \<open>
  The properties of the Kubernetes runtime on lawful clusters: what the service's operations do to the
  stored workloads, for either provider.
\<close>

text \<open>The provider the factory builds for a configuration, and the names its workloads can have.\<close>

definition k8s_provider ::
    "app_config \<Rightarrow> kubernetes_config \<Rightarrow> jobj \<Rightarrow> 'w kube_api \<Rightarrow> 'w provider \<Rightarrow> (string \<Rightarrow> string list) \<Rightarrow> bool" where
  "k8s_provider c k template api pv names \<longleftrightarrow>
     pv = batch_provider c k template api \<and> names = batch_names \<or>
     pv = agent_provider c k template api \<and> names = resource_name_candidates api"

lemma provider_contract:
  "crd_store api objs \<Longrightarrow> k8s_provider c k template api pv names \<Longrightarrow> workload_provider api objs pv names"
  using crd_store.batch_contract crd_store.agent_contract by (auto simp: k8s_provider_def)

section \<open>Sample data\<close>

definition sample_kube_config :: kubernetes_config where
  "sample_kube_config = default_kubernetes_config\<lparr>k8s_namespace := Some ''ns'', k8s_create_timeout_seconds := 2\<rparr>"

definition sample_workload :: "string \<Rightarrow> string \<Rightarrow> int \<Rightarrow> jobj" where
  "sample_workload name sid replicas =
     [(''metadata'', JObj [(''name'', JStr name), (''namespace'', JStr ''ns''),
         (''labels'', JObj [(SANDBOX_ID_LABEL, JStr sid)]), (''creationTimestamp'', JInt 3)]),
      (''spec'', JObj [(''replicas'', JInt replicas), (''shutdownTime'', JStr ''p100''),
         (''podTemplate'', JObj [(''spec'', JObj [(''containers'', JList
            [JObj [(''name'', JStr ''sandbox''), (''image'', JStr ''img:1''), (''command'', JList [JStr ''sleep''])],
             JObj [(''name'', JStr ''egress''), (''image'', JStr ''egress:1'')]])])])]),
      (''status'', sim_ready)]"

definition sim_state :: "(string, jobj) dict \<Rightarrow> cluster kstate" where
  "sim_state xs = \<lparr>kworld = \<lparr>cl_objs = xs, cl_pods = [], cl_pvcs = [], cl_secrets = [], cl_clock = 5\<rparr>, kinformer = None\<rparr>"

definition two_sandboxes :: "cluster kstate" where
  "two_sandboxes = sim_state [(''a1'', sample_workload ''a1'' ''a1'' 1), (''b2'', sample_workload ''b2'' ''b2'' 1)]"

definition sample_agent :: "cluster provider" where
  "sample_agent = agent_provider sample_k8s_config sample_kube_config [] sim_kube"

lemma sample_agent_provider:
  "k8s_provider sample_k8s_config sample_kube_config [] sim_kube sample_agent (resource_name_candidates sim_kube)"
  by (simp add: k8s_provider_def sample_agent_def)

lemma two_sandboxes_coherent: "coherent sim_objs two_sandboxes"
  by (simp add: coherent_def two_sandboxes_def sim_state_def)

lemmas sample_on_sim = sim.crd_store_axioms sample_agent_provider two_sandboxes_coherent

section \<open>Deletion\<close>



section \<open>Renewal\<close>



section \<open>Pausing and resuming\<close>

text \<open>\<open>scaled n x y\<close>: \<open>y\<close> has the spec of \<open>x\<close> but for the number of replicas.\<close>

definition scaled :: "int \<Rightarrow> jobj \<Rightarrow> jobj \<Rightarrow> bool" where
  "scaled n x y \<longleftrightarrow>
     map_of y ''spec'' = Some (JObj (AList.update ''replicas'' (JInt n) (jget_obj x ''spec'')))"

lemma scaled_patch:
  "map_of y ''spec'' = map_of (merge_patch x (replicas_patch n)) ''spec'' \<Longrightarrow> scaled n x y"
  by (auto simp: scaled_def replicas_patch_def jget_obj_def split: option.splits json.splits)

lemma paused_spec_scaled: "scaled n x y \<Longrightarrow> paused_spec y = Inr (n = 0)"
  by (simp add: scaled_def paused_spec_def get_obj_def get_default_def json_eq_int_def)

context crd_store
begin

lemma agent_pause_wp:
  assumes "coherent objs s"
  shows "wp (agent_pause_workload k api sid)
    (\<lambda>_ s'. one_replaced (resource_name_candidates api sid) (\<lambda>x y. paused_spec x = Inr False \<and> scaled 0 x y)
       (objs (kworld s)) (objs (kworld s')))
    (\<lambda>e s'. objs (kworld s') = objs (kworld s)) s"
  unfolding agent_pause_workload_def
  by (rule wp_mono [OF patch_workload_wp [OF agent_finds [OF assms]]])
     (auto elim!: one_replaced_mono simp: bindR_eq_Inr intro: scaled_patch split: if_splits)

lemma agent_resume_wp:
  assumes "coherent objs s"
  shows "wp (agent_resume_workload k api sid)
    (\<lambda>_ s'. one_replaced (resource_name_candidates api sid) (\<lambda>x y. paused_spec x = Inr True \<and> scaled 1 x y)
       (objs (kworld s)) (objs (kworld s')))
    (\<lambda>e s'. objs (kworld s') = objs (kworld s)) s"
  unfolding agent_resume_workload_def
  by (rule wp_mono [OF patch_workload_wp [OF agent_finds [OF assms]]])
     (auto elim!: one_replaced_mono simp: bindR_eq_Inr intro: scaled_patch split: if_splits)

end

text \<open>\<open>shown_paused api y\<close>: the status read from \<open>y\<close> is Paused, whatever the cluster answers.\<close>

definition shown_paused :: "'w kube_api \<Rightarrow> jobj \<Rightarrow> bool" where
  "shown_paused api y \<longleftrightarrow> (\<forall>t. \<exists>si. agent_get_status api y t = (Inr si, t) \<and> si_state si = ''Paused'')"

lemma pods_state_values: "pods_state ps = Some (st, rs) \<Longrightarrow> st \<in> {''Running'', ''Allocated'', ''Pending''}"
  by (induction ps) (auto split: option.splits if_splits)

lemma pod_state_wp:
  "wp (pod_state_from_selector api y) (\<lambda>r _. \<forall>st rs. r = Some (st, rs) \<longrightarrow> st \<in> {''Running'', ''Allocated'', ''Pending''})
     (\<lambda>_ _. True) t"
  unfolding pod_state_from_selector_def
  by (auto simp: wp_simps split: sum.splits option.splits if_splits dest!: pods_state_values intro!: wpI)

lemma agent_status_wp:
  "wp (agent_get_status api y)
     (\<lambda>si _. si_state si \<in> {''Pending'', ''Allocated'', ''Running'', ''Paused'', ''Terminated''} \<and>
        (si_state si = ''Paused'' \<longleftrightarrow> paused_spec y = Inr True)) (\<lambda>_ _. True) t"
  unfolding agent_get_status_def Let_def
  by (auto simp: wp_simps split: sum.splits option.splits intro!: wp_mono [OF pod_state_wp])

lemma shown_paused_iff:
  assumes "paused_spec y = Inr b" and "meta_name y = Inr n"
  shows "shown_paused api y \<longleftrightarrow> b"
proof (cases b)
  case True
  obtain m where "get_obj y ''metadata'' = Inr m" using meta_name_metadata [OF assms(2)] by blast
  with assms(1) True show ?thesis
    by (simp add: shown_paused_def agent_get_status_def Let_def bindS_def liftR_def retS_def)
next
  case False
  have "\<not> shown_paused api y"
  proof
    assume "shown_paused api y"
    then obtain t si where "agent_get_status api y t = (Inr si, t)" "si_state si = ''Paused''"
      unfolding shown_paused_def by blast
    with wp_InrD [OF agent_status_wp this(1)] assms(1) False show False by simp
  qed
  with False show ?thesis by simp
qed



section \<open>Waiting\<close>

text \<open>
  What the waiting loop needs of the clock: reading it returns a value that never goes back, no call of
  the provider turns it back, and a sleep of \<open>p\<close> seconds advances it by at least \<open>p\<close> seconds.
\<close>

locale ticking =
  fixes api :: "'w kube_api" and pv :: "'w provider" and clk :: "'w kstate \<Rightarrow> int"
  assumes time_law: "wp (inK (ka_time api)) (\<lambda>now s'. clk s \<le> now \<and> now \<le> clk s') (\<lambda>e s'. False) s"
    and sleep_law: "wp (ka_sleep api p) (\<lambda>_ s'. of_int (clk s) + p * 1000000 \<le> (of_int (clk s') :: rat)) (\<lambda>e s'. False) s"
    and get_forward: "always (pv_get pv sid) (\<lambda>s'. clk s \<le> clk s') s"
    and status_forward: "always (pv_get_status pv x) (\<lambda>s'. clk s \<le> clk s') s"
begin

lemma poll_forward: "always (poll_ready pv sid) (\<lambda>s'. clk s \<le> clk s') s"
  unfolding poll_ready_def wp_catchS wp_bindS
proof (rule wp_mono [OF get_forward], goal_cases)
  case (1 r t)
  then show ?case by (auto simp: wp_simps intro!: wp_mono [OF status_forward] elim: order_trans)
qed (simp add: wp_simps)

text \<open>Each pass moves the clock by a poll interval, so the deadline bounds the number of passes.\<close>

lemma wait_loop_ends:
  assumes "0 < p"
  shows "of_int (start_time + timeout_seconds * 1000000 - clk s) \<le> of_nat fuel * p * 1000000 \<Longrightarrow>
    wp (wait_loop fuel api pv sid start_time timeout_seconds p)
      (\<lambda>r s'. r \<noteq> None) (\<lambda>e s'. is_http_exn e) s"
proof (induction fuel arbitrary: s)
  case 0
  then have d: "start_time + timeout_seconds * 1000000 \<le> clk s" by simp
  show ?case
    unfolding wait_loop.simps [of 0] wp_bindS
    by (rule wp_mono [OF time_law]) (use d in \<open>auto simp: wp_simps\<close>)
next
  case (Suc n)
  have next_pass: "wp (bindS (ka_sleep api p) (\<lambda>_. wait_loop n api pv sid start_time timeout_seconds p))
      (\<lambda>r s'. r \<noteq> None) (\<lambda>e s'. is_http_exn e) t" if "clk s \<le> clk t" for t
    unfolding wp_bindS
  proof (rule wp_mono [OF sleep_law], goal_cases)
    case (1 u t')
    have "of_int (clk s) \<le> (of_int (clk t) :: rat)" using that by simp
    then show ?case using 1 Suc.prems by (intro Suc.IH) (simp add: algebra_simps)
  qed simp
  show ?case
    unfolding wait_loop.simps [of "Suc n"] wp_bindS
  proof (rule wp_mono [OF time_law], goal_cases)
    case (1 now t)
    have "wp (poll_ready pv sid) (\<lambda>found. wp (if found \<noteq> None then retS found else
          bindS (ka_sleep api p) (\<lambda>_. wait_loop n api pv sid start_time timeout_seconds p))
          (\<lambda>r s'. r \<noteq> None) (\<lambda>e s'. is_http_exn e)) (\<lambda>e s'. is_http_exn e) t"
    proof (rule wpI)
      fix e s' assume "poll_ready pv sid t = (Inl e, s')"
      then show "is_http_exn e"
        by (auto simp: poll_ready_def catchS_def raiseS_def retS_def split: prod.splits sum.splits if_splits)
    next
      fix r s' assume "poll_ready pv sid t = (Inr r, s')"
      from wp_InrD [OF poll_forward this] 1 have "clk s \<le> clk s'" by simp
      from next_pass [OF this] show "wp (if r \<noteq> None then retS r else
          bindS (ka_sleep api p) (\<lambda>_. wait_loop n api pv sid start_time timeout_seconds p))
          (\<lambda>r s'. r \<noteq> None) (\<lambda>e s'. is_http_exn e) s'"
        by (simp add: wp_simps)
    qed
    then show ?case by (simp add: wp_simps)
  qed simp
qed

end

text \<open>On the simulated cluster nothing but a sleep moves the clock.\<close>

abbreviation sim_clk :: "cluster kstate \<Rightarrow> int" where
  "sim_clk s \<equiv> cl_clock (kworld s)"

lemma keeps_sim_clk: "keeps (\<lambda>s. sim_clk s = t) m \<Longrightarrow> always m (\<lambda>s'. sim_clk s \<le> sim_clk s') s" if "sim_clk s = t"
  using that by (auto simp: always_snd keeps_def)

lemma keeps_inK: "keeps (\<lambda>w. cl_clock w = t) m \<Longrightarrow> keeps (\<lambda>s. sim_clk s = t) (inK m)"
  by (auto simp: keeps_def inK_def split: prod.splits)

lemma sim_calls_keep_clock:
  "keeps (\<lambda>w. cl_clock w = t) (ka_get sim_kube n)" "keeps (\<lambda>w. cl_clock w = t) (ka_start_thread sim_kube)"
  "keeps (\<lambda>w. cl_clock w = t) (ka_list_pods sim_kube ns sel)"
  by (auto simp: keeps_def sim_kube_def sim_get_obj_def retS_def split: option.splits)

lemma sim_get_custom_object_clock: "keeps (\<lambda>s. sim_clk s = t) (get_custom_object k sim_kube n)"
proof -
  have "keeps (\<lambda>s. sim_clk s = t) (push_cache b obj)" for b obj
    by (auto simp: keeps_def push_cache_def split: option.splits sum.splits)
  then show ?thesis
    unfolding get_custom_object_def get_informer_def
    by (intro keeps_intros keeps_modifyS keeps_inK sim_calls_keep_clock) auto
qed

lemma sim_agent_clock:
  "keeps (\<lambda>s. sim_clk s = t) (agent_get_workload k sim_kube sid)"
  "keeps (\<lambda>s. sim_clk s = t) (agent_get_status sim_kube x)"
proof -
  have "keeps (\<lambda>s. sim_clk s = t) (try_names k sim_kube ns)" for ns
    by (induction ns) (auto intro!: keeps_intros sim_get_custom_object_clock)
  then show "keeps (\<lambda>s. sim_clk s = t) (agent_get_workload k sim_kube sid)" by (simp add: agent_get_workload_def)
  have "keeps (\<lambda>s. sim_clk s = t) (list_pods sim_kube ns sel)" for ns sel
    unfolding list_pods_def by (intro keeps_inK sim_calls_keep_clock)
  then show "keeps (\<lambda>s. sim_clk s = t) (agent_get_status sim_kube x)"
    unfolding agent_get_status_def pod_state_from_selector_def Let_def
    by (intro keeps_intros) (auto intro!: keeps_intros split: prod.splits)
qed

interpretation sim_time: ticking sim_kube sample_agent sim_clk
proof (unfold_locales, goal_cases)
  case (1 s)
  show ?case by (simp add: sim_kube_def wp_simps)
next
  case (2 p s)
  have "of_int (sim_clk s) + p * 1000000 \<le> (of_int (sim_clk s + \<lceil>p * 1000000\<rceil>) :: rat)" by simp
  then show ?case by (simp add: sim_kube_def wp_def)
next
  case (3 sid s)
  show ?case by (rule keeps_sim_clk [OF refl]) (simp add: sample_agent_def agent_provider_def sim_agent_clock)
next
  case (4 x s)
  show ?case by (rule keeps_sim_clk [OF refl]) (simp add: sample_agent_def agent_provider_def sim_agent_clock)
qed

lemma wait_for_sandbox_ready_ends:
  assumes "ticking api pv clk" and "kubernetes_fields_ok k"
    and "of_int (k8s_create_timeout_seconds k) \<le> of_nat fuel * k8s_create_poll_interval_seconds k"
  shows "wp (wait_for_sandbox_ready fuel api pv sid (k8s_create_timeout_seconds k) (k8s_create_poll_interval_seconds k))
    (\<lambda>r _. r \<noteq> None) (\<lambda>e _. True) t"
  unfolding wait_for_sandbox_ready_def wp_bindS
proof (rule wp_mono [OF ticking.time_law [OF assms(1)]], goal_cases)
  case (1 now u)
  let ?n = "k8s_create_timeout_seconds k" and ?p = "k8s_create_poll_interval_seconds k"
  have p: "0 < ?p" using assms(2) by (simp add: kubernetes_fields_ok_def)
  have "of_int now \<le> (of_int (clk u) :: rat)" using 1 by simp
  moreover have "of_int ?n * 1000000 \<le> of_nat fuel * ?p * (1000000 :: rat)"
    using mult_right_mono [OF assms(3), of 1000000] by simp
  ultimately have "of_int (now + ?n * 1000000 - clk u) \<le> of_nat fuel * ?p * 1000000" by simp
  from ticking.wait_loop_ends [OF assms(1) p this, of sid] show ?case by (rule wp_mono) auto
qed simp

lemma await_ready_ends:
  assumes "\<And>sid t. wp (wait_for_sandbox_ready fuel api pv sid (k8s_create_timeout_seconds k) (k8s_create_poll_interval_seconds k))
    (\<lambda>r _. r \<noteq> None) (\<lambda>e _. True) t"
  shows "wp (await_ready fuel k api pv r sid ca ea) (\<lambda>x _. x \<noteq> None) (\<lambda>_ _. True) t"
proof -
  have h: "wp (if is_http_exn e then bindS (catchS (pv_delete pv sid) (\<lambda>_. retS ())) (\<lambda>_. raiseS e) else raiseS e)
      (\<lambda>x _. x \<noteq> None) (\<lambda>_ _. True) u" for e u
    by (simp add: wp_def bindS_def raiseS_def split: prod.splits sum.splits)
  have g: "wp (bindS (pv_get_status pv y) (\<lambda>si. bindS (liftR (sandbox_status_of api si))
      (\<lambda>st. retS (Some (response_of r sid st ca ea))))) (\<lambda>x _. x \<noteq> None) (\<lambda>_ _. True) u" for y u
    by (auto simp: wp_def bindS_def liftR_def retS_def split: prod.splits sum.splits)
  have "wp (bindS (wait_for_sandbox_ready fuel api pv sid (k8s_create_timeout_seconds k) (k8s_create_poll_interval_seconds k))
      (\<lambda>found. case found of None \<Rightarrow> retS None
      | Some y \<Rightarrow> bindS (pv_get_status pv y) (\<lambda>si. bindS (liftR (sandbox_status_of api si))
          (\<lambda>st. retS (Some (response_of r sid st ca ea)))))) (\<lambda>x _. x \<noteq> None) (\<lambda>_ _. True) t"
    unfolding wp_bindS [of "wait_for_sandbox_ready _ _ _ _ _ _"]
  proof (rule wp_mono [OF assms], goal_cases)
    case (1 found u)
    then obtain y where "found = Some y" by auto
    with g [of y u] show ?case by simp
  qed simp
  then show ?thesis
    unfolding await_ready_def wp_catchS by (rule wp_mono) (assumption, rule h)
qed

lemma create_errors_ends:
  "wp m (\<lambda>x _. x \<noteq> None) (\<lambda>_ _. True) t \<Longrightarrow> wp (create_errors m) (\<lambda>x _. x \<noteq> None) (\<lambda>_ _. True) t"
  unfolding create_errors_def wp_catchS by (rule wp_mono) (auto simp: wp_simps)

text \<open>
  C31. Creating a sandbox ends: when sleeping moves the clock and no call turns it back, a number of
  passes that covers the configured timeout at the configured interval is enough for the waiting loop,
  so the creation returns a response or raises.
\<close>

theorem create_sandbox_k8s_ends:
  assumes "ticking api pv clk" and "kubernetes_fields_ok k"
    and "of_int (k8s_create_timeout_seconds k) \<le> of_nat fuel * k8s_create_poll_interval_seconds k"
  shows "fst (create_sandbox_k8s fuel c k api pv r s) \<noteq> Inr None"
proof -
  have b: "wp (create_errors (bindS (submit_workload c k api pv r sid ca ea) (\<lambda>_. await_ready fuel k api pv r sid ca ea)))
      (\<lambda>x _. x \<noteq> None) (\<lambda>_ _. True) u" for sid ca ea u
    by (rule create_errors_ends, unfold wp_bindS, rule wpI, rule await_ready_ends [OF wait_for_sandbox_ready_ends [OF assms]], simp)
  have "wp (create_sandbox_k8s fuel c k api pv r) (\<lambda>x _. x \<noteq> None) (\<lambda>_ _. True) s"
    unfolding create_sandbox_k8s_def wp_bindS
  proof (rule wpI, goal_cases)
    case (1 x t)
    obtain sid ca ea where "x = (sid, ca, ea)" by (cases x)
    with b show ?case by simp
  qed simp
  then show ?thesis by (auto simp: wp_def split: prod.splits)
qed

definition small_request :: create_request where
  "small_request =
     \<lparr>req_image = \<lparr>image_uri = ''img:1'', image_auth_of = None\<rparr>, req_timeout = None, req_resource_limits = [],
      req_env = None, req_metadata = None, req_entrypoint = [''sleep''], req_network_policy = None,
      req_volumes = None, req_extensions = None\<rparr>"

theorem create_sandbox_k8s_ends_witness:
  "fst (create_sandbox_k8s 2 sample_k8s_config sample_kube_config sim_kube sample_agent small_request two_sandboxes) \<noteq> Inr None"
  by (rule create_sandbox_k8s_ends [OF sim_time.ticking_axioms])
     (simp_all add: sample_kube_config_def default_kubernetes_config_def kubernetes_fields_ok_def)

end
