(* ===== verification/K8s_Creation.thy ===== *)
theory K8s_Creation
  imports K8s_Safety
begin

text \<open>
  What the Kubernetes runtime creates: the pod of every new workload is hardened as the configuration and
  the request ask, whatever the template file says, and a creation that fails leaves no workload behind.
\<close>

section \<open>Paths through manifests\<close>

lemma jat_chain:
  "jat [a, b, c, k] d = Some v \<Longrightarrow> \<exists>d1 d2 d3. map_of d a = Some (JObj d1) \<and> map_of d1 b = Some (JObj d2) \<and>
     map_of d2 c = Some (JObj d3) \<and> map_of d3 k = Some v"
  by (auto split: option.splits json.splits)

lemma map_of_set_or_pop [simp]: "k \<noteq> field \<Longrightarrow> map_of (set_or_pop field v d) k = map_of d k"
  by (simp add: set_or_pop_def split: option.split)

text \<open>A leaf set by the server is found in the merged manifest, template or not.\<close>

lemma merge_runtime_leaf:
  "path_ok ks manifest \<Longrightarrow> jat ks manifest = Some v \<Longrightarrow> leaf v \<Longrightarrow>
     jat ks (merge_with_runtime_values template manifest) = Some v"
  by (simp add: merge_with_runtime_values_def deep_merge_leaf)

section \<open>Hardened pods\<close>

text \<open>
  \<open>hardened_pod c img entry np egress pod\<close>: the pod runs the given image through the bootstrap script in
  its first container, with the configured runtime class; under a network policy that container drops
  \<open>NET_ADMIN\<close> and the only other container is the side car that enforces the policy; without one there
  is no other container.
\<close>

definition net_admin_dropped :: json where
  "net_admin_dropped = JObj [(''capabilities'', JObj [(''drop'', JList [JStr ''NET_ADMIN''])])]"

definition hardened_pod ::
    "app_config \<Rightarrow> string \<Rightarrow> string list \<Rightarrow> network_policy option \<Rightarrow> string option \<Rightarrow> (string \<Rightarrow> json option) \<Rightarrow> bool" where
  "hardened_pod c img entry np egress pod \<longleftrightarrow>
     (given (get_k8s_runtime_class c) \<longrightarrow> pod ''runtimeClassName'' = Some (JStr (the (get_k8s_runtime_class c)))) \<and>
     (\<exists>main others. pod ''containers'' = Some (JList (JObj main # others)) \<and>
        map_of main ''image'' = Some (JStr img) \<and>
        map_of main ''command'' = Some (JList (map JStr (K8S_BOOTSTRAP # entry))) \<and>
        (case np of
           None \<Rightarrow> others = [] \<and> map_of main ''securityContext'' = None
         | Some p \<Rightarrow> map_of main ''securityContext'' = Some net_admin_dropped \<and>
             (given egress \<longrightarrow> (\<exists>token. others = [build_egress_sidecar_container (the egress) p token]))))"

text \<open>What the steps of the manifest keep: the entry \<open>k\<close> of the first container and all other containers.\<close>

definition same_containers :: "jobj \<Rightarrow> jobj \<Rightarrow> bool" where
  "same_containers d e \<longleftrightarrow>
     (\<exists>main main' others. map_of d ''containers'' = Some (JList (JObj main # others)) \<and>
        map_of e ''containers'' = Some (JList (JObj main' # others)) \<and>
        (\<forall>k. k \<noteq> ''volumeMounts'' \<longrightarrow> map_of main' k = map_of main k)) \<and>
     (\<forall>k. k \<notin> {''containers'', ''volumes'', ''serviceAccountName''} \<longrightarrow> map_of e k = map_of d k) \<and>
     (dict_ok d \<longrightarrow> dict_ok e)"

lemma same_containersE:
  assumes "same_containers d e"
  obtains main main' others where "map_of d ''containers'' = Some (JList (JObj main # others))"
    "map_of e ''containers'' = Some (JList (JObj main' # others))"
    "\<forall>k. k \<noteq> ''volumeMounts'' \<longrightarrow> map_of main' k = map_of main k"
  using assms unfolding same_containers_def by (elim conjE exE) (rule that)

lemma hardened_same_containers:
  assumes "same_containers d e" and "hardened_pod c img entry np egress (map_of d)"
  shows "hardened_pod c img entry np egress (map_of e)"
proof -
  obtain main main' others where m: "map_of d ''containers'' = Some (JList (JObj main # others))"
      "map_of e ''containers'' = Some (JList (JObj main' # others))"
      "\<forall>k. k \<noteq> ''volumeMounts'' \<longrightarrow> map_of main' k = map_of main k"
    using assms(1) by (rule same_containersE)
  have "map_of e ''runtimeClassName'' = map_of d ''runtimeClassName''" using assms(1) by (simp add: same_containers_def)
  moreover have "map_of main' ''image'' = map_of main ''image''" "map_of main' ''command'' = map_of main ''command''"
    "map_of main' ''securityContext'' = map_of main ''securityContext''" using m(3) by simp_all
  ultimately show ?thesis using assms(2) m(1,2) unfolding hardened_pod_def by (cases np) simp_all
qed

lemma same_containers_trans:
  assumes "same_containers d e" and "same_containers e f"
  shows "same_containers d f"
proof -
  obtain main main' others where m: "map_of d ''containers'' = Some (JList (JObj main # others))"
      "map_of e ''containers'' = Some (JList (JObj main' # others))"
      "\<forall>k. k \<noteq> ''volumeMounts'' \<longrightarrow> map_of main' k = map_of main k"
    using assms(1) by (rule same_containersE)
  then obtain main'' where "map_of f ''containers'' = Some (JList (JObj main'' # others))"
      "\<forall>k. k \<noteq> ''volumeMounts'' \<longrightarrow> map_of main'' k = map_of main k"
    using assms(2) by (auto elim!: same_containersE)
  with m assms show ?thesis unfolding same_containers_def by simp
qed

lemma volumes_same_containers:
  assumes "apply_volumes_to_pod_spec d vs = Inr e" and "\<exists>main others. map_of d ''containers'' = Some (JList (JObj main # others))"
  shows "same_containers d e"
  using assms
  by (auto simp: apply_volumes_to_pod_spec_def Let_def bindR_eq_Inr jget_list_def same_containers_def
      split: list.splits json.splits option.splits)

lemma serialize_main_context:
  "serialize_security_context_to_dict (build_security_context_from_dict (build_security_context_for_sandbox_container True)) =
     Some [(''capabilities'', JObj [(''drop'', JList [JStr ''NET_ADMIN''])])]"
  by code_simp

lemma base_pod_hardened:
  "dict_ok (base_pod_spec k r limits)"
  "map_of (base_pod_spec k r limits) ''containers'' = Some (JList [JObj (container_to_dict
     (build_main_container (wr_image r) (wr_entrypoint r) (wr_env r) limits (wr_network_policy r \<noteq> None)))])"
  by (simp_all add: base_pod_spec_def dict_ok_def)

lemma main_container_fields:
  fixes img entry env limits b
  defines "m \<equiv> container_to_dict (build_main_container img entry env limits b)"
  shows "map_of m ''image'' = Some (JStr (image_uri img))"
    "map_of m ''command'' = Some (JList (map JStr (K8S_BOOTSTRAP # entry)))"
    "map_of m ''securityContext'' = (if b then Some net_admin_dropped else None)"
  by (auto simp: m_def container_to_dict_def build_main_container_def serialize_main_context net_admin_dropped_def
      serialize_security_context_to_dict_def [of None] split: option.splits)

lemma pod_after_egress:
  assumes "dict_ok d" and "map_of d ''containers'' = Some (JList [JObj main])"
    and "given (get_k8s_runtime_class c) \<longrightarrow> map_of d ''runtimeClassName'' = Some (JStr (the (get_k8s_runtime_class c)))"
    and "map_of main ''image'' = Some (JStr img)" "map_of main ''command'' = Some (JList (map JStr (K8S_BOOTSTRAP # entry)))"
    and "map_of main ''securityContext'' = (if np \<noteq> None then Some net_admin_dropped else None)"
  shows "hardened_pod c img entry np egress (map_of (apply_egress_to_spec d np egress token))"
    and "dict_ok (apply_egress_to_spec d np egress token)"
    and "\<exists>main others. map_of (apply_egress_to_spec d np egress token) ''containers'' = Some (JList (JObj main # others))"
proof -
  have l: "jget_list d ''containers'' = [JObj main]" using assms(2) by (simp add: jget_list_def)
  show "hardened_pod c img entry np egress (map_of (apply_egress_to_spec d np egress token))"
    using assms l by (cases np) (auto simp: hardened_pod_def apply_egress_to_spec_def Let_def)
  show "dict_ok (apply_egress_to_spec d np egress token)"
    using assms(1) by (auto simp: apply_egress_to_spec_def Let_def split: option.splits)
  show "\<exists>main others. map_of (apply_egress_to_spec d np egress token) ''containers'' = Some (JList (JObj main # others))"
    using assms(2) l by (auto simp: apply_egress_to_spec_def Let_def split: option.splits)
qed

lemma volumes_hardened:
  assumes "add_user_volumes r d = Inr e" and "hardened_pod c img entry np egress (map_of d)" and "dict_ok d"
    and "\<exists>main others. map_of d ''containers'' = Some (JList (JObj main # others))"
  shows "hardened_pod c img entry np egress (map_of e)" "dict_ok e"
    "\<exists>main others. map_of e ''containers'' = Some (JList (JObj main # others))"
proof -
  have "d = e \<or> same_containers d e"
    using assms(1) volumes_same_containers [OF _ assms(4)] by (auto simp: add_user_volumes_def split: option.splits if_splits)
  then show "hardened_pod c img entry np egress (map_of e)" "dict_ok e"
    "\<exists>main others. map_of e ''containers'' = Some (JList (JObj main # others))"
    using assms(2-4) hardened_same_containers [of d e] same_containersE [of d e]
    by (auto simp: same_containers_def)
qed

lemma with_runtime_class_simps:
  "dict_ok d \<Longrightarrow> dict_ok (with_runtime_class c d)"
  "k \<noteq> ''runtimeClassName'' \<Longrightarrow> map_of (with_runtime_class c d) k = map_of d k"
  "given (get_k8s_runtime_class c) \<Longrightarrow>
     map_of (with_runtime_class c d) ''runtimeClassName'' = Some (JStr (the (get_k8s_runtime_class c)))"
  by (auto simp: with_runtime_class_def)

abbreviation hardened_for :: "app_config \<Rightarrow> workload_request \<Rightarrow> (string \<Rightarrow> json option) \<Rightarrow> bool" where
  "hardened_for c r \<equiv> hardened_pod c (image_uri (wr_image r)) (wr_entrypoint r) (wr_network_policy r) (wr_egress_image r)"

lemma batch_pod_hardened:
  assumes "batch_pod_spec c k r = Inr pod"
  shows "hardened_for c r (map_of pod)" "dict_ok pod"
    "\<exists>main others. map_of pod ''containers'' = Some (JList (JObj main # others))"
proof -
  define d where "d = (if image_auth_of (wr_image r) \<noteq> None
     then AList.update ''imagePullSecrets'' (JList [JObj [(''name'', JStr (build_image_pull_secret_name (wr_sandbox_id r)))]])
            (with_runtime_class c (base_pod_spec k r (wr_limits r)))
     else with_runtime_class c (base_pod_spec k r (wr_limits r)))"
  have d: "dict_ok d" "map_of d ''containers'' = map_of (base_pod_spec k r (wr_limits r)) ''containers''"
     "given (get_k8s_runtime_class c) \<longrightarrow> map_of d ''runtimeClassName'' = Some (JStr (the (get_k8s_runtime_class c)))"
    by (simp_all add: d_def with_runtime_class_simps base_pod_hardened(1))
  note e = pod_after_egress [OF d(1) d(2) [unfolded base_pod_hardened(2)] d(3) main_container_fields,
      where egress = "wr_egress_image r" and token = "wr_egress_token r"]
  have "add_user_volumes r (apply_egress_to_spec d (wr_network_policy r) (wr_egress_image r) (wr_egress_token r)) = Inr pod"
    using assms by (simp add: batch_pod_spec_def d_def Let_def)
  from volumes_hardened [OF this e]
  show "hardened_for c r (map_of pod)" "dict_ok pod"
    "\<exists>main others. map_of pod ''containers'' = Some (JList (JObj main # others))" by simp_all
qed

section \<open>The manifests\<close>

lemma hardened_transfer:
  assumes "hardened_pod c img entry np egress p" and "\<And>k v. p k = Some v \<Longrightarrow> leaf v \<Longrightarrow> q k = Some v"
  shows "hardened_pod c img entry np egress q"
proof -
  obtain main others where m: "p ''containers'' = Some (JList (JObj main # others))"
    using assms(1) unfolding hardened_pod_def by blast
  then have "q ''containers'' = Some (JList (JObj main # others))" using assms(2) by (simp add: leaf_def)
  moreover have "q ''runtimeClassName'' = Some (JStr (the (get_k8s_runtime_class c)))" if "given (get_k8s_runtime_class c)"
    using assms that unfolding hardened_pod_def by (simp add: leaf_def)
  ultimately show ?thesis using assms(1) m unfolding hardened_pod_def by simp
qed

text \<open>The manifest both providers send, with the pod under the given key, before it is merged.\<close>

lemma merged_pod:
  assumes "hardened_pod c img entry np egress (map_of pod)" and "dict_ok pod" and "dict_ok spec_rest"
    and "tk \<notin> fst ` set spec_rest" and "dict_ok tmpl_rest" and "''spec'' \<notin> fst ` set tmpl_rest"
    and "\<exists>main others. map_of pod ''containers'' = Some (JList (JObj main # others))"
    and m_def: "m = merge_with_runtime_values template
     [(''apiVersion'', v1), (''kind'', v2), (''metadata'', JObj md), (''spec'', JObj (spec_rest @ [(tk, JObj (tmpl_rest @ [(''spec'', JObj pod)]))]))]"
  obtains d1 d2 d3 where "map_of m ''spec'' = Some (JObj d1)" "map_of d1 tk = Some (JObj d2)" "map_of d2 ''spec'' = Some (JObj d3)"
    "hardened_pod c img entry np egress (map_of d3)" "\<exists>main others. map_of d3 ''containers'' = Some (JList (JObj main # others))"
proof -
  let ?r = "[(''apiVersion'', v1), (''kind'', v2), (''metadata'', JObj md),
     (''spec'', JObj (spec_rest @ [(tk, JObj (tmpl_rest @ [(''spec'', JObj pod)]))]))]"
  have n: "map_of (xs @ [(k, v)]) k = Some v" if "k \<notin> fst ` set xs" for xs k and v :: json
    using that by (induction xs) auto
  have o: "dict_ok (xs @ [(k, v)])" if "dict_ok xs" "k \<notin> fst ` set xs" for xs k and v :: json
    using that by (simp add: dict_ok_def)
  have chain: "map_of ?r ''spec'' = Some (JObj (spec_rest @ [(tk, JObj (tmpl_rest @ [(''spec'', JObj pod)]))]))"
    "map_of (spec_rest @ [(tk, JObj (tmpl_rest @ [(''spec'', JObj pod)]))]) tk = Some (JObj (tmpl_rest @ [(''spec'', JObj pod)]))"
    "map_of (tmpl_rest @ [(''spec'', JObj pod)]) ''spec'' = Some (JObj pod)"
    using n assms(4,6) by simp_all
  have ok: "path_ok [''spec'', tk, ''spec'', k] ?r" for k
    using o [OF assms(3,4)] o [OF assms(5,6)] assms(2) chain
    by (simp add: dict_ok_def split: option.splits json.splits)
  have leaves: "jat [''spec'', tk, ''spec'', k] m = Some v" if "map_of pod k = Some v" "leaf v" for k v
    unfolding m_def by (rule merge_runtime_leaf [OF ok]) (use chain that in simp_all)
  obtain cs where cs: "map_of pod ''containers'' = Some (JList cs)" "cs \<noteq> []" using assms(7) by auto
  then have "jat [''spec'', tk, ''spec'', ''containers''] m = Some (JList cs)" by (intro leaves) (simp_all add: leaf_def)
  then obtain d1 d2 d3 where d: "map_of m ''spec'' = Some (JObj d1)" "map_of d1 tk = Some (JObj d2)"
      "map_of d2 ''spec'' = Some (JObj d3)" "map_of d3 ''containers'' = Some (JList cs)"
    using jat_chain by blast
  have "hardened_pod c img entry np egress (map_of d3)"
    by (rule hardened_transfer [OF assms(1)]) (use leaves d in simp)
  with d cs assms(7) show thesis by (intro that) auto
qed

lemma extras_same_containers:
  assumes "\<exists>main others. map_of d ''containers'' = Some (JList (JObj main # others))"
  shows "same_containers d (merge_spec_extras vols mounts d)"
proof -
  obtain main others where m: "map_of d ''containers'' = Some (JList (JObj main # others))" using assms by blast
  have f: "k \<noteq> field \<Longrightarrow> map_of (merge_list_field field xs e) k = map_of e k"
    "dict_ok e \<Longrightarrow> dict_ok (merge_list_field field xs e)" for field xs e k
    by (auto simp: merge_list_field_def split: json.splits)
  have "jget (merge_list_field ''volumes'' vols d) ''containers'' = JList (JObj main # others)"
    using m f(1) [of "''containers''" "''volumes''" vols d] by (simp add: jget_def)
  then show ?thesis using m f by (simp add: merge_spec_extras_def same_containers_def Let_def)
qed

text \<open>The pod of a manifest, as a function of its keys.\<close>

definition pod_of :: "string \<Rightarrow> jobj \<Rightarrow> string \<Rightarrow> json option" where
  "pod_of template_key m k = jat [''spec'', template_key, ''spec'', k] m"

lemma merged_name:
  "meta_name (merge_with_runtime_values template
     [(''apiVersion'', v1), (''kind'', v2), (''metadata'', workload_metadata n r), (''spec'', sp)]) = Inr n"
proof -
  have "jat [''metadata'', ''name''] (merge_with_runtime_values template
     [(''apiVersion'', v1), (''kind'', v2), (''metadata'', workload_metadata n r), (''spec'', sp)]) = Some (JStr n)"
    by (rule merge_runtime_leaf) (auto simp: workload_metadata_def dict_ok_def leaf_def)
  then show ?thesis
    by (auto simp: meta_name_def meta_field_def jindex_def split: option.splits json.splits)
qed

lemma meta_name_upd_spec [simp]: "meta_name (upd_obj (''spec'' # ks) f d) = meta_name d"
  by (auto simp: meta_name_def meta_field_def jindex_def split: option.splits json.splits)

lemma batch_manifest_hardened:
  assumes "batch_manifest c k template isof r = Inr m"
  shows "hardened_for c r (pod_of ''template'' m)" "meta_name m = Inr (wr_sandbox_id r)"
proof -
  obtain vols mounts pod m0 where p: "batch_pod_spec c k r = Inr pod"
      "m0 = merge_with_runtime_values template
            [(''apiVersion'', JStr ''sandbox.opensandbox.io/v1alpha1''), (''kind'', JStr ''BatchSandbox''),
             (''metadata'', workload_metadata (wr_sandbox_id r) r),
             (''spec'', JObj ([(''replicas'', JInt 1)] @ [(''template'', JObj ([] @ [(''spec'', JObj pod)]))]))]"
      "m = upd_obj [''spec'', ''template'', ''spec''] (merge_spec_extras vols mounts)
        (upd_obj [''spec''] (set_or_pop ''expireTime'' (map_option isof (wr_expires_at r))) m0)"
    using assms by (auto simp: batch_manifest_def bindR_eq_Inr Let_def split: prod.splits)
  note h = batch_pod_hardened [OF p(1)]
  obtain d1 d2 d3 where d: "map_of m0 ''spec'' = Some (JObj d1)"
      "map_of d1 ''template'' = Some (JObj d2)" "map_of d2 ''spec'' = Some (JObj d3)" "hardened_for c r (map_of d3)"
      "\<exists>main others. map_of d3 ''containers'' = Some (JList (JObj main # others))"
    by (rule merged_pod [OF h(1,2) _ _ _ _ h(3) p(2) [unfolded workload_metadata_def]]) (auto simp: dict_ok_def)
  have "pod_of ''template'' m = map_of (merge_spec_extras vols mounts d3)"
    by (rule ext) (simp add: pod_of_def p(3) d(1-3))
  with hardened_same_containers [OF extras_same_containers [OF d(5)] d(4)]
  show "hardened_for c r (pod_of ''template'' m)" by simp
  show "meta_name m = Inr (wr_sandbox_id r)" by (simp add: p(2,3) merged_name del: upd_obj.simps)
qed

lemma workspace_same_containers:
  assumes "\<exists>main others. map_of d ''containers'' = Some (JList (JObj main # others))"
  shows "same_containers d (attach_workspace claim d)"
  using assms by (auto simp: attach_workspace_def same_containers_def jget_list_def Let_def split: list.splits json.splits)

lemma agent_manifest_hardened:
  assumes "add_user_volumes r (agent_pod_spec c k r limits) = Inr pod"
  shows "hardened_for c r (pod_of ''podTemplate'' (agent_manifest c k template api r pod))"
    "meta_name (agent_manifest c k template api r pod) = Inr (resource_name api (wr_sandbox_id r))"
proof -
  define b where "b = base_pod_spec k r limits @ [(''nodeSelector'', JObj [(''kubernetes.io/arch'', JStr ''arm64'')])]"
  have b0: "dict_ok b" "map_of b ''containers'' = map_of (base_pod_spec k r limits) ''containers''"
    by (simp_all add: b_def base_pod_spec_def dict_ok_def)
  have b: "dict_ok (with_runtime_class c b)"
    "map_of (with_runtime_class c b) ''containers'' = map_of (base_pod_spec k r limits) ''containers''"
    "given (get_k8s_runtime_class c) \<longrightarrow>
       map_of (with_runtime_class c b) ''runtimeClassName'' = Some (JStr (the (get_k8s_runtime_class c)))"
    by (simp_all add: with_runtime_class_simps b0)
  note e = pod_after_egress [OF b(1) b(2) [unfolded base_pod_hardened(2)] b(3) main_container_fields,
      where egress = "wr_egress_image r" and token = "wr_egress_token r"]
  note h = volumes_hardened [OF assms [unfolded agent_pod_spec_def, folded b_def] e]
  define ws where "ws = attach_workspace (pvc_name api (wr_sandbox_id r)) pod"
  define sp where "sp = (if given (k8s_service_account k)
                   then AList.update ''serviceAccountName'' (JStr (the (k8s_service_account k))) ws else ws)"
  have ws: "same_containers pod ws" unfolding ws_def by (rule workspace_same_containers [OF h(3)])
  obtain main others where ms: "map_of ws ''containers'' = Some (JList (JObj main # others))"
    using ws by (rule same_containersE)
  have "same_containers ws sp" using ms by (simp add: sp_def same_containers_def)
  then have s: "hardened_for c r (map_of sp)" "dict_ok sp"
    using hardened_same_containers [OF same_containers_trans [OF ws]] h ws by (auto simp: same_containers_def)
  have ms': "\<exists>main others. map_of sp ''containers'' = Some (JList (JObj main # others))" using ms by (simp add: sp_def)
  obtain m0 where m0: "m0 = merge_with_runtime_values template
       [(''apiVersion'', JStr ''agents.x-k8s.io/v1alpha1''), (''kind'', JStr ''Sandbox''),
        (''metadata'', workload_metadata (resource_name api (wr_sandbox_id r)) r),
        (''spec'', JObj ([(''replicas'', JInt 1), (''shutdownPolicy'', JStr (agent_shutdown_policy (agent_config c)))] @
           [(''podTemplate'', JObj ([(''metadata'', JObj [(''labels'', strings_json (wr_labels r))])] @ [(''spec'', JObj sp)]))]))]"
    by blast
  have m: "agent_manifest c k template api r pod =
      upd_obj [''spec''] (set_or_pop ''shutdownTime'' (map_option (ka_isoformat api) (wr_expires_at r))) m0"
    unfolding agent_manifest_def Let_def m0 sp_def ws_def append.simps by (rule refl)
  obtain d1 d2 d3 where d: "map_of m0 ''spec'' = Some (JObj d1)"
      "map_of d1 ''podTemplate'' = Some (JObj d2)" "map_of d2 ''spec'' = Some (JObj d3)" "hardened_for c r (map_of d3)"
    by (rule merged_pod [OF s _ _ _ _ ms' m0 [unfolded workload_metadata_def]]) (auto simp: dict_ok_def)
  have "pod_of ''podTemplate'' (agent_manifest c k template api r pod) = map_of d3"
    by (rule ext) (simp add: pod_of_def m d(1-3))
  with d(4) show "hardened_for c r (pod_of ''podTemplate'' (agent_manifest c k template api r pod))" by simp
  show "meta_name (agent_manifest c k template api r pod) = Inr (resource_name api (wr_sandbox_id r))"
    by (simp add: m m0 merged_name del: upd_obj.simps)
qed

section \<open>Creation on a lawful cluster\<close>

text \<open>\<open>one_added objs' objs n P\<close>: the object stored under \<open>n\<close> is new and satisfies \<open>P\<close>; nothing else changed.\<close>

definition one_added :: "string \<Rightarrow> (jobj \<Rightarrow> bool) \<Rightarrow> (string \<rightharpoonup> jobj) \<Rightarrow> (string \<rightharpoonup> jobj) \<Rightarrow> bool" where
  "one_added n P m m' \<longleftrightarrow> m n = None \<and> (\<exists>x. m' = m(n \<mapsto> x) \<and> P x)"

text \<open>A cluster on which the deletion of a stored object succeeds.\<close>

definition removable :: "'w kube_api \<Rightarrow> ('w \<Rightarrow> string \<rightharpoonup> jobj) \<Rightarrow> bool" where
  "removable api objs \<longleftrightarrow> (\<forall>n w. objs w n \<noteq> None \<longrightarrow> (\<exists>w'. ka_delete api n w = (Inr (), w')))"

lemma pod_of_spec: "map_of x ''spec'' = map_of y ''spec'' \<Longrightarrow> pod_of tk x = pod_of tk y"
  by (simp add: pod_of_def fun_eq_iff)

context crd_store
begin

lemma create_object_wp:
  assumes "meta_name body = Inr n"
  shows "wp (create_custom_object api body)
    (\<lambda>x s'. one_added n (\<lambda>y. y = x \<and> map_of x ''spec'' = map_of body ''spec'') (objs (kworld s)) (objs (kworld s')) \<and>
       (\<exists>i. created_info x = Inr i) \<and> (\<exists>u. meta_field x ''uid'' = Inr u))
    (\<lambda>e s'. objs (kworld s') = objs (kworld s)) s"
  unfolding create_custom_object_def wp_inK
proof (rule wp_mono [OF create_law], goal_cases)
  case (1 x w')
  then obtain u where w: "objs (kworld s) n = None" "objs w' = (objs (kworld s))(n \<mapsto> x)"
      "map_of x ''spec'' = map_of body ''spec''" "meta_field x ''uid'' = Inr u"
    using assms by auto
  have "meta_name x = Inr n" using named [of w' n x] w(2) by simp
  with w(4) have "\<exists>i. created_info x = Inr i" by (auto simp: created_info_def meta_name_def bindR_eq_Inr)
  with w show ?case by (simp add: one_added_def)
qed simp

lemma pull_secret_wp:
  assumes "removable api objs" and "objs (kworld s) = m(wr_sandbox_id r \<mapsto> x)" and "m (wr_sandbox_id r) = None"
    and "meta_field x ''uid'' = Inr u"
  shows "wp (create_pull_secret api r auth x) (\<lambda>_ s'. objs (kworld s') = objs (kworld s)) (\<lambda>e s'. objs (kworld s') = m) s"
proof -
  have d: "wp (delete_custom_object api (wr_sandbox_id r)) (\<lambda>_ s'. objs (kworld s') = m) (\<lambda>_ _. False) t"
    if "objs (kworld t) = objs (kworld s)" for t
  proof (rule wpI)
    fix u s' assume "delete_custom_object api (wr_sandbox_id r) t = (Inr u, s')"
    from wp_InrD [OF delete_custom_object_wp this] show "objs (kworld s') = m"
      using that assms(2,3) by (auto simp: fun_eq_iff)
  next
    fix e s' assume "delete_custom_object api (wr_sandbox_id r) t = (Inl e, s')"
    then show False using assms(1,2) that
      by (auto simp: removable_def delete_custom_object_def inK_def split: prod.splits)
         (metis fst_conv fun_upd_same option.distinct(1) sum.distinct(1))
  qed
  show ?thesis
    unfolding create_pull_secret_def create_secret_def
    using assms(4)
    by (auto simp: wp_simps intro!: wp_mono [OF frame_secret] wp_mono [OF d])
qed

lemma one_added_mono: "one_added n P m m' \<Longrightarrow> (\<And>y. P y \<Longrightarrow> Q y) \<Longrightarrow> one_added n Q m m'"
  by (auto simp: one_added_def)

lemma batch_create_wp:
  assumes "removable api objs"
  shows "wp (batch_create_workload c k template api r)
    (\<lambda>_ s'. one_added (wr_sandbox_id r)
       (\<lambda>y. (case wr_extensions r of None \<Rightarrow> False | Some ext \<Rightarrow> given (map_of ext ''poolRef'')) \<or>
          hardened_for c r (pod_of ''template'' y)) (objs (kworld s)) (objs (kworld s')))
    (\<lambda>e s'. objs (kworld s') = objs (kworld s)) s"
proof -
  define pool where "pool = (case wr_extensions r of None \<Rightarrow> None | Some ext \<Rightarrow> map_of ext ''poolRef'')"
  have p: "given pool \<longleftrightarrow> (case wr_extensions r of None \<Rightarrow> False | Some ext \<Rightarrow> given (map_of ext ''poolRef''))"
    by (auto simp: pool_def given_def split: option.splits)
  have pool_run: "wp (create_workload_from_pool api r ref) (\<lambda>_ s'. one_added (wr_sandbox_id r) (\<lambda>_. True) (objs (kworld s)) (objs (kworld s')))
      (\<lambda>e s'. objs (kworld s') = objs (kworld s)) s" for ref
    unfolding create_workload_from_pool_def wp_bindS
    by (rule wp_mono [OF create_object_wp [of _ "wr_sandbox_id r"]])
       (auto simp: batch_pool_manifest_def meta_name_def meta_field_def jindex_def wp_simps elim!: one_added_mono)
  have template_run: "wp (bindS (create_custom_object api m) (\<lambda>created.
        bindS (case image_auth_of (wr_image r) of None \<Rightarrow> retS () | Some auth \<Rightarrow> create_pull_secret api r auth created) (\<lambda>_.
        liftR (created_info created))))
      (\<lambda>_ s'. one_added (wr_sandbox_id r) (\<lambda>y. hardened_for c r (pod_of ''template'' y)) (objs (kworld s)) (objs (kworld s')))
      (\<lambda>e s'. objs (kworld s') = objs (kworld s)) s" if m: "batch_manifest c k template (ka_isoformat api) r = Inr m" for m
    unfolding wp_bindS
  proof (rule wp_mono [OF create_object_wp [OF batch_manifest_hardened(2) [OF m]]], goal_cases)
    case (1 x t)
    then obtain i u where x: "objs (kworld s) (wr_sandbox_id r) = None" "objs (kworld t) = (objs (kworld s))(wr_sandbox_id r \<mapsto> x)"
        "map_of x ''spec'' = map_of m ''spec''" "created_info x = Inr i" "meta_field x ''uid'' = Inr u"
      by (auto simp: one_added_def)
    have "hardened_for c r (pod_of ''template'' x)"
      using batch_manifest_hardened(1) [OF m] pod_of_spec [OF x(3)] by simp
    then have added: "one_added (wr_sandbox_id r) (\<lambda>y. hardened_for c r (pod_of ''template'' y)) (objs (kworld s)) (objs (kworld t))"
      using x by (auto simp: one_added_def)
    show ?case
    proof (cases "image_auth_of (wr_image r)")
      case (Some auth)
      show ?thesis
        using Some x(4) added
        by (auto simp: wp_simps intro!: wp_mono [OF pull_secret_wp [OF assms x(2,1,5)]])
    qed (simp add: wp_simps x(4) added)
  qed simp
  show ?thesis
    unfolding batch_create_workload_def Let_def pool_def [symmetric] p [symmetric]
    by (auto simp: wp_simps split: sum.splits intro: wp_mono [OF pool_run] elim!: one_added_mono
        intro!: wp_mono [OF template_run [unfolded wp_bindS]])
qed

lemma agent_create_wp:
  "wp (agent_create_workload c k template api r)
    (\<lambda>_ s'. one_added (resource_name api (wr_sandbox_id r)) (\<lambda>y. hardened_for c r (pod_of ''podTemplate'' y))
       (objs (kworld s)) (objs (kworld s')))
    (\<lambda>e s'. objs (kworld s') = objs (kworld s)) s"
proof -
  have pvc: "always (create_pvc api n sz lb) (\<lambda>s'. objs (kworld s') = objs (kworld t)) t" for n sz lb t
    unfolding create_pvc_def wp_inK by (rule wp_mono [OF frame_pvc(1)]) auto
  have run: "wp (catchS (create_custom_object api (agent_manifest c k template api r pod))
        (\<lambda>e. bindS (catchS (delete_pvc api cl) (\<lambda>_. retS ())) (\<lambda>_. raiseS e)))
      (\<lambda>x s'. one_added (resource_name api (wr_sandbox_id r)) (\<lambda>y. hardened_for c r (pod_of ''podTemplate'' y))
         (objs (kworld s)) (objs (kworld s')) \<and> (\<exists>i. created_info x = Inr i))
      (\<lambda>e s'. objs (kworld s') = objs (kworld s)) t"
    if "objs (kworld t) = objs (kworld s)" and "add_user_volumes r (agent_pod_spec c k r limits) = Inr pod" for t pod cl limits
    unfolding wp_catchS
  proof (rule wp_mono [OF create_object_wp [OF agent_manifest_hardened(2) [OF that(2)]]], goal_cases)
    case (1 x u)
    have "hardened_for c r (pod_of ''podTemplate'' x)"
      if "map_of x ''spec'' = map_of (agent_manifest c k template api r pod) ''spec''"
      using agent_manifest_hardened(1) [OF \<open>add_user_volumes r _ = Inr pod\<close>, of template api] pod_of_spec [OF that] by simp
    with 1 that(1) show ?case by (auto elim!: one_added_mono)
  next
    case (2 e u)
    with that(1) show ?case by (auto simp: wp_simps intro!: wp_mono [OF delete_pvc_frame])
  qed
  show ?thesis
    unfolding agent_create_workload_def Let_def
  proof (simp add: wp_simps split: sum.split, intro allI impI, goal_cases)
    case (1 pod)
    then show ?case
      by (intro wp_mono [OF pvc] wp_mono [OF run [unfolded wp_catchS]]) (auto simp: wp_simps)
  qed
qed

lemma admit_request_wp:
  "wp (admit_request c api pv r)
     (\<lambda>_ s'. objs (kworld s') = objs (kworld s) \<and> (req_network_policy r \<noteq> None \<longrightarrow> given (egress_image_of c)))
     (\<lambda>e s'. objs (kworld s') = objs (kworld s)) s"
proof -
  have n: "always (inK (ka_now api)) (\<lambda>s'. objs (kworld s') = objs (kworld t)) t" for t
    unfolding wp_inK by (rule wp_mono [OF frame_clock(1)]) auto
  have i: "always (inK (ka_new_id api)) (\<lambda>s'. objs (kworld s') = objs (kworld t)) t" for t
    unfolding wp_inK by (rule wp_mono [OF frame_random(1)]) auto
  have e: "req_network_policy r \<noteq> None \<longrightarrow> given (egress_image_of c)" if "ensure_network_policy_support_k8s c r = Inr ()"
    using that by (auto simp: ensure_network_policy_support_k8s_def ensure_egress_configured_def egress_image_of_def
        res_simps split: option.splits)
  have tail: "wp (bindS (inK (ka_new_id api)) (\<lambda>sid. bindS (inK (ka_now api)) (\<lambda>ca.
      bindS (case req_timeout r of None \<Rightarrow> retS None
            | Some t \<Rightarrow> bindS (liftR (calculate_expiration_or_raise ca t)) (\<lambda>e. retS (Some e))) (\<lambda>ea. retS (sid, ca, ea)))))
      (\<lambda>_ s'. objs (kworld s') = objs (kworld t)) (\<lambda>e s'. objs (kworld s') = objs (kworld t)) t" for t
    unfolding wp_bindS
    by (intro wp_mono [OF i] wp_mono [OF n]) (auto simp: wp_simps split: option.splits sum.splits)
  show ?thesis
    unfolding admit_request_def
    by (simp add: wp_bindS [of "liftR _"] wp_bindS [of "inK (ka_now api)"] wp_liftR split: sum.split)
       (auto intro!: wp_mono [OF n] wp_mono [OF tail] simp: wp_liftR e split: sum.split)
qed

end

text \<open>
  The two ways to create a workload with a pod of its own: the agent-sandbox provider, and the
  BatchSandbox provider without a pool; with the key of the pod template and the resource name.
\<close>

definition creates_pods ::
    "app_config \<Rightarrow> kubernetes_config \<Rightarrow> jobj \<Rightarrow> 'w kube_api \<Rightarrow> create_request \<Rightarrow> 'w provider \<Rightarrow> string \<Rightarrow> (string \<Rightarrow> string) \<Rightarrow> bool" where
  "creates_pods c k template api r pv template_key name \<longleftrightarrow>
     pv = agent_provider c k template api \<and> template_key = ''podTemplate'' \<and> name = resource_name api \<or>
     pv = batch_provider c k template api \<and> template_key = ''template'' \<and> name = id \<and>
       (case req_extensions r of None \<Rightarrow> True | Some ext \<Rightarrow> \<not> given (map_of ext ''poolRef''))"

lemma provider_create_wp:
  assumes "crd_store api objs" and "removable api objs" and "creates_pods c k template api r pv tk name"
    and "wr_extensions q = req_extensions r"
  shows "wp (pv_create pv q)
    (\<lambda>_ s'. one_added (name (wr_sandbox_id q)) (\<lambda>y. hardened_for c q (pod_of tk y)) (objs (kworld s)) (objs (kworld s')))
    (\<lambda>e s'. objs (kworld s') = objs (kworld s)) s"
  using assms(3)
proof (unfold creates_pods_def, elim disjE conjE)
  assume "pv = agent_provider c k template api" "tk = ''podTemplate''" "name = resource_name api"
  then show ?thesis using crd_store.agent_create_wp [OF assms(1)] by (simp add: agent_provider_def)
next
  assume p: "pv = batch_provider c k template api" "tk = ''template''" "name = id"
    "case req_extensions r of None \<Rightarrow> True | Some ext \<Rightarrow> \<not> given (map_of ext ''poolRef'')"
  then have "\<not> (case wr_extensions q of None \<Rightarrow> False | Some ext \<Rightarrow> given (map_of ext ''poolRef''))"
    using assms(4) by (auto split: option.splits)
  with p crd_store.batch_create_wp [OF assms(1,2), of c k template q s]
  show ?thesis by (simp add: batch_provider_def)
qed


lemma sim_removable: "removable sim_kube sim_objs"
  by (auto simp: removable_def sim_kube_def sim_delete_obj_def)

definition egress_config :: app_config where
  "egress_config = sample_k8s_config\<lparr>cfg_egress := Some (Some ''egress:1'')\<rparr>"

definition guarded_k8s_request :: create_request where
  "guarded_k8s_request = small_request\<lparr>req_network_policy := Some \<lparr>default_action = Some ''deny'', egress_rules = []\<rparr>\<rparr>"

definition created_on_sim :: "(exn + create_response) \<times> cluster kstate" where
  "created_on_sim = create_sandbox_async_k8s egress_config sample_kube_config sim_kube
     (agent_provider egress_config sample_kube_config [] sim_kube) guarded_k8s_request (sim_state [])"


end
