(* ===== verification/K8s_Names.thy ===== *)
theory K8s_Names
  imports Agent_Provider
begin

text \<open>
  Two text transformations of the Kubernetes providers and what they guarantee: resource names made from
  sandbox ids are valid DNS labels, and the entry point of a pooled sandbox survives the shell unchanged.
\<close>

section \<open>DNS labels\<close>

text \<open>RFC 1035 labels as the API server checks them.\<close>

definition dns1035_ok :: "string \<Rightarrow> bool" where
  "dns1035_ok s \<longleftrightarrow> s \<noteq> [] \<and> length s \<le> 63 \<and> is_lower (hd s) \<and> last s \<noteq> CHR ''-'' \<and> list_all lower_digit_hyphen s"

lemma set_sub_runs: "set (sub_runs p b s) \<subseteq> {c \<in> set s. \<not> p c} \<union> {CHR ''-''}"
  by (induction p b s rule: sub_runs.induct) auto

lemma strip_hyphens_set: "set (strip_hyphens s) \<subseteq> set s"
proof
  fix c assume "c \<in> set (strip_hyphens s)"
  then have "c \<in> set (dropWhile hyphen (rev (dropWhile hyphen s)))"
    by (simp add: strip_hyphens_def lstrip_by_def rstrip_by_def)
  then have "c \<in> set (rev (dropWhile hyphen s))" by (rule set_dropWhileD)
  then show "c \<in> set s" using set_dropWhileD [of c hyphen s] by simp
qed

lemma strip_hyphens_ends:
  "strip_hyphens s \<noteq> [] \<Longrightarrow> \<not> hyphen (hd (strip_hyphens s)) \<and> \<not> hyphen (last (strip_hyphens s))"
proof -
  assume n: "strip_hyphens s \<noteq> []"
  let ?t = "dropWhile hyphen s"
  have t: "?t \<noteq> []"
  proof
    assume "?t = []"
    then show False using n by (simp add: strip_hyphens_def lstrip_by_def rstrip_by_def del: dropWhile_eq_Nil_conv)
  qed
  then have "\<not> hyphen (hd ?t)" by (rule hd_dropWhile)
  moreover have "dropWhile hyphen (rev ?t) \<noteq> []"
    using n by (simp add: strip_hyphens_def lstrip_by_def rstrip_by_def)
  then have "\<not> hyphen (hd (dropWhile hyphen (rev ?t)))" by (rule hd_dropWhile)
  moreover have "hd (rev (dropWhile hyphen (rev ?t))) = hd ?t"
  proof -
    obtain zs where "rev ?t = zs @ dropWhile hyphen (rev ?t)" by (metis takeWhile_dropWhile_id)
    then have "?t = rev (dropWhile hyphen (rev ?t)) @ rev zs" by (metis rev_append rev_rev_ident)
    then show ?thesis using \<open>dropWhile hyphen (rev ?t) \<noteq> []\<close> by (metis hd_append2 rev_is_Nil_conv)
  qed
  ultimately show ?thesis
    using n by (simp add: strip_hyphens_def lstrip_by_def rstrip_by_def last_rev)
qed

lemma strip_hyphens_id: "s \<noteq> [] \<Longrightarrow> \<not> hyphen (hd s) \<Longrightarrow> \<not> hyphen (last s) \<Longrightarrow> strip_hyphens s = s"
  by (simp add: strip_hyphens_def lstrip_by_id rstrip_by_id)

lemma normalize_label_chars: "list_all lower_digit_hyphen (normalize_label v)"
proof -
  have h: "lower_digit_hyphen (CHR ''-'')" by (simp add: lower_digit_hyphen_def)
  have "c \<in> set (sub_runs (\<lambda>c. \<not> lower_digit_hyphen c) False (lower (strip v))) \<Longrightarrow> lower_digit_hyphen c" for c
    using set_sub_runs [of "\<lambda>c. \<not> lower_digit_hyphen c" False "lower (strip v)"] h by auto
  then show ?thesis
    using set_sub_runs [of hyphen False] strip_hyphens_set h unfolding normalize_label_def list_all_iff by fast
qed

lemma label_char_letter: "lower_digit_hyphen c \<Longrightarrow> is_alpha c \<Longrightarrow> is_lower c"
  by (auto simp: lower_digit_hyphen_def lower_digit_def is_alpha_def is_lower_def is_upper_def is_digit_def code_def)

lemma lower_not_hyphen: "is_lower c \<or> lower_digit c \<Longrightarrow> \<not> hyphen c"
  by (auto simp: hyphen_def lower_digit_def is_lower_def is_digit_def code_def)

text \<open>The text before the length is cut: it starts with a letter and does not end in a hyphen.\<close>

definition label_shape :: "string \<Rightarrow> bool" where
  "label_shape s \<longleftrightarrow> s \<noteq> [] \<and> is_lower (hd s) \<and> \<not> hyphen (last s) \<and> list_all lower_digit_hyphen s"

lemma label_shape_append:
  assumes "label_shape a" and "b \<noteq> []" "\<not> hyphen (last b)" "list_all lower_digit_hyphen b"
  shows "label_shape (a @ CHR ''-'' # b)"
  using assms by (auto simp: label_shape_def lower_digit_hyphen_def)

lemma label_shape_cut:
  assumes "label_shape s" and "0 < n"
  shows "label_shape (rstrip_by hyphen (take n s))" "length (rstrip_by hyphen (take n s)) \<le> n"
proof -
  obtain c t where s: "s = c # t" "is_lower c" using assms(1) by (cases s) (auto simp: label_shape_def)
  have p: "\<exists>zs. take n s = rstrip_by hyphen (take n s) @ zs"
    unfolding rstrip_by_def by (metis rev_append rev_rev_ident takeWhile_dropWhile_id)
  then obtain zs where zs: "take n s = rstrip_by hyphen (take n s) @ zs" by blast
  have ne: "rstrip_by hyphen (take n s) \<noteq> []"
  proof
    assume "rstrip_by hyphen (take n s) = []"
    then have "\<forall>c \<in> set (take n s). hyphen c" by (simp add: rstrip_by_def dropWhile_eq_Nil_conv)
    with s assms(2) lower_not_hyphen [of c] show False by (cases n) auto
  qed
  have hd_eq: "hd (rstrip_by hyphen (take n s)) = c"
    using zs ne s assms(2) by (metis hd_append2 hd_take list.sel(1))
  have "\<not> hyphen (last (rstrip_by hyphen (take n s)))"
    using ne hd_dropWhile [of hyphen "rev (take n s)"] by (simp add: rstrip_by_def last_rev)
  moreover have "set (rstrip_by hyphen (take n s)) \<subseteq> set s"
    using zs by (metis Un_iff set_append set_take_subset subsetD subsetI)
  ultimately show "label_shape (rstrip_by hyphen (take n s))"
    using ne hd_eq s assms(1) by (auto simp: label_shape_def list_all_iff)
  have "length (take n s) = length (rstrip_by hyphen (take n s)) + length zs"
    by (metis length_append zs)
  then show "length (rstrip_by hyphen (take n s)) \<le> n" by simp
qed

lemma to_dns1035_label_ok:
  assumes "length (hash8 v) = 8" and "list_all lower_digit (hash8 v)"
  shows "dns1035_ok (to_dns1035_label hash8 v ''sandbox'')"
proof -
  let ?h = "hash8 v" and ?n0 = "normalize_label v"
  have ne8: "?h \<noteq> []" using assms(1) by auto
  have "lower_digit (last ?h)" using assms(2) last_in_set [OF ne8] by (simp add: list_all_iff)
  then have h: "?h \<noteq> []" "\<not> hyphen (last ?h)" "list_all lower_digit_hyphen ?h"
    using ne8 assms(2) lower_not_hyphen by (auto simp: list_all_iff lower_digit_hyphen_def)
  have sb: "label_shape ''sandbox''" by code_simp
  have ne: "?n0 \<noteq> [] \<Longrightarrow> \<not> hyphen (last ?n0)" using strip_hyphens_ends by (simp add: normalize_label_def)
  define n1 where "n1 = (if ?n0 = [] then ''sandbox'' @ ''-'' @ ?h
     else if \<not> is_alpha (hd ?n0) then ''sandbox'' @ ''-'' @ ?n0 else ?n0)"
  have n1: "label_shape n1"
  proof (cases "?n0 = [] \<or> \<not> is_alpha (hd ?n0)")
    case True
    then show ?thesis
      using label_shape_append [OF sb h] label_shape_append [OF sb _ _ normalize_label_chars] ne
      by (auto simp: n1_def)
  next
    case False
    then have "is_lower (hd ?n0)"
      using label_char_letter normalize_label_chars [of v] by (auto simp: list_all_iff)
    with False ne normalize_label_chars show ?thesis by (simp add: n1_def label_shape_def)
  qed
  define n2 where "n2 = (if length n1 > 63 then rstrip_by hyphen (take 54 n1) @ CHR ''-'' # ?h else n1)"
  note cut = label_shape_cut [OF n1, of 54]
  have n2: "label_shape n2" "length n2 \<le> 63"
    using label_shape_append [OF cut(1) h] cut(2) n1 assms(1) by (auto simp: n2_def)
  have "is_lower (hd (rstrip_by hyphen (take 54 n1))) \<and> rstrip_by hyphen (take 54 n1) \<noteq> []"
    using cut(1) by (simp add: label_shape_def)
  then have "to_dns1035_label hash8 v ''sandbox'' = strip_hyphens n2"
    using assms(1) by (simp add: to_dns1035_label_def Let_def n1_def n2_def DNS1035_LABEL_MAX_LENGTH_def is_alpha_def)
  also have "\<dots> = n2" using n2(1) lower_not_hyphen by (intro strip_hyphens_id) (auto simp: label_shape_def)
  finally show ?thesis using n2 by (simp add: dns1035_ok_def label_shape_def hyphen_def)
qed

text \<open>
  Whatever text a sandbox id is, the resource name made from it is a valid DNS-1035 label: at most 63
  characters, lower-case letters, digits and hyphens, a letter first and no hyphen last. The hash
  function is only assumed to give eight lower-case hexadecimal digits.
\<close>

theorem to_dns1035_label_valid:
  assumes "length (hash8 v) = 8" and "list_all lower_digit (hash8 v)"
  shows "dns1035_ok (to_dns1035_label hash8 v ''sandbox'')"
  using assms by (rule to_dns1035_label_ok)

theorem to_dns1035_label_valid_witness:
  "dns1035_ok (to_dns1035_label (\<lambda>_. ''0123abcd'') ''7B__'' ''sandbox'')"
  by (rule to_dns1035_label_valid) (simp_all add: lower_digit_def is_lower_def is_digit_def code_def)

section \<open>The command line of a pooled sandbox\<close>

text \<open>
  A reference reading of one simple command by the POSIX shell: blanks separate words, single quotes
  protect everything, double quotes protect everything but the three characters that keep a meaning
  there, and a final ampersand runs the command in the background. Any other character that the shell
  could interpret outside quotes makes the reading fail, so that a successful reading involves no
  expansion, no redirection and no second command.
\<close>

datatype sh_mode = Bare | InSingle | InDouble

definition sh_special :: "char \<Rightarrow> bool" where
  "sh_special c \<longleftrightarrow> c \<in> set ''|&;<>()$`*?[]#~!{}^'' \<or> c = CHR 0x5C \<or> c = CHR 0x09 \<or> c = CHR 0x0A"

definition word_end :: "string option \<Rightarrow> string list" where
  "word_end w = (case w of None \<Rightarrow> [] | Some x \<Rightarrow> [x])"

definition word_add :: "string option \<Rightarrow> string \<Rightarrow> string option" where
  "word_add w t = Some ((case w of None \<Rightarrow> [] | Some x \<Rightarrow> x) @ t)"

fun sh_read :: "sh_mode \<Rightarrow> string option \<Rightarrow> string \<Rightarrow> (string list \<times> bool) option" where
  "sh_read m w [] = (if m = Bare then Some (word_end w, False) else None)"
| "sh_read Bare w (c # s) =
     (if c = CHR '' '' then map_option (apfst (\<lambda>ws. word_end w @ ws)) (sh_read Bare None s)
      else if c = squote then sh_read InSingle (word_add w []) s
      else if c = dquote then sh_read InDouble (word_add w []) s
      else if c = CHR ''&'' \<and> s = [] then Some (word_end w, True)
      else if sh_special c then None
      else sh_read Bare (word_add w [c]) s)"
| "sh_read InSingle w (c # s) = (if c = squote then sh_read Bare w s else sh_read InSingle (word_add w [c]) s)"
| "sh_read InDouble w (c # s) =
     (if c = dquote then sh_read Bare w s
      else if c = CHR ''$'' \<or> c = CHR ''`'' \<or> c = CHR 0x5C then None
      else sh_read InDouble (word_add w [c]) s)"

lemma word_add_add [simp]: "word_add (word_add w a) b = word_add w (a @ b)"
  by (simp add: word_add_def)

lemma word_end_add [simp]: "word_end (word_add None a) = [a]"
  by (simp add: word_add_def word_end_def)

lemma sh_read_background: "sh_read Bare (word_add None a) '' &'' = Some ([a], True)"
  "sh_read Bare None ''&'' = Some ([], True)"
  by (auto simp: squote_def dquote_def word_end_def word_add_def)

lemma shell_safe_plain:
  assumes "shell_safe c"
  shows "c \<noteq> CHR '' ''" "c \<noteq> squote" "c \<noteq> dquote" "c \<noteq> CHR ''&''" "\<not> sh_special c"
  using assms
  by (auto simp: shell_safe_def sh_special_def squote_def dquote_def is_alnum_def is_lower_def is_upper_def
      is_digit_def code_def)

lemma sh_read_safe: "list_all shell_safe a \<Longrightarrow> sh_read Bare (word_add w p) (a @ s) = sh_read Bare (word_add w (p @ a)) s"
  by (induction a arbitrary: p) (simp_all add: shell_safe_plain)

lemma sh_read_escaped:
  "sh_read InSingle (word_add w p) (escape_squotes a @ squote # s) = sh_read Bare (word_add w (p @ a)) s"
  by (induction a arbitrary: p) (simp_all add: squote_def dquote_def)

lemma sh_read_quote: "sh_read Bare None (shlex_quote a @ s) = sh_read Bare (word_add None a) s"
proof (cases "a = [] \<or> \<not> list_all shell_safe a")
  case True
  then show ?thesis
    using sh_read_escaped [of None "[]" a s] sh_read_escaped [of None "[]" "[]" s]
    by (auto simp: shlex_quote_def squote_def)
next
  case False
  then obtain c t where a: "a = c # t" "shell_safe c" "list_all shell_safe t" by (cases a) auto
  then show ?thesis
    using sh_read_safe [of t None "[c]" s] by (simp add: shlex_quote_def shell_safe_plain)
qed

lemma sh_read_words:
  "as \<noteq> [] \<Longrightarrow> sh_read Bare None (join_with (CHR '' '') (map shlex_quote as) @ '' &'') = Some (as, True)"
proof (induction as)
  case (Cons a as)
  then show ?case using sh_read_background by (cases as) (simp_all add: sh_read_quote)
qed simp

text \<open>
  C35. The command line a pooled sandbox is started with is read back by the shell as the bootstrap
  script applied to exactly the arguments of the request, run in the background: no argument, whatever
  characters it has, is split, expanded or taken for another command.
\<close>

theorem task_command_roundtrip: "sh_read Bare None (task_command args) = Some (K8S_BOOTSTRAP # args, True)"
proof -
  have b: "list_all shell_safe K8S_BOOTSTRAP" by code_simp
  have "sh_read Bare None (K8S_BOOTSTRAP @ s) = sh_read Bare (word_add None K8S_BOOTSTRAP) s" for s
    using sh_read_quote [of K8S_BOOTSTRAP s] b by (simp add: shlex_quote_def K8S_BOOTSTRAP_def)
  then show ?thesis
    using sh_read_words [of args] sh_read_background by (cases "args = []") (simp_all add: task_command_def word_end_def squote_def dquote_def)
qed

end
