(* ===== verification/K8s_Outcomes.thy ===== *)
theory K8s_Outcomes
  imports K8s_Safety K8s_Names
begin

text \<open>
  What a caller of the Kubernetes service can see: which exceptions leave its operations, which values a
  returned sandbox can have, and what the updates of a running workload do to its containers.
\<close>

section \<open>Only HTTP errors\<close>

definition http_only :: "('s, 'a) io \<Rightarrow> 's \<Rightarrow> bool" where
  "http_only m s \<longleftrightarrow> wp m (\<lambda>_ _. True) (\<lambda>e _. is_http_exn e) s"

definition never_raises :: "('s, 'a) io \<Rightarrow> bool" where
  "never_raises m \<longleftrightarrow> (\<forall>s. wp m (\<lambda>_ _. True) (\<lambda>_ _. False) s)"

lemma wp_True: "(\<And>e s'. E e s') \<Longrightarrow> (\<And>x s'. Q x s') \<Longrightarrow> wp m Q E s"
  by (rule wpI)

lemma http_only_or_500: "http_only (or_500 err m) s"
  unfolding http_only_def or_500_def wp_catchS by (rule wp_True) (simp_all add: wp_simps)

lemma http_only_create_errors: "http_only (create_errors m) s"
  unfolding http_only_def create_errors_def wp_catchS by (rule wp_True) (simp_all add: wp_simps)

lemma http_only_bindS:
  assumes "http_only m s" and "\<And>x s'. http_only (k x) s'"
  shows "http_only (bindS m k) s"
  using assms unfolding http_only_def wp_bindS by (auto intro: wp_mono)

lemma http_only_never_raises: "never_raises m \<Longrightarrow> http_only (inK m) s"
  unfolding http_only_def never_raises_def wp_inK by (erule allE, erule wp_mono) auto

text \<open>The same for the validators, which compute a result without effects.\<close>

definition http_res :: "'a res \<Rightarrow> bool" where
  "http_res r \<longleftrightarrow> (\<forall>e. r = Inl e \<longrightarrow> is_http_exn e)"

named_theorems http_intros

lemma http_res_raise_if [http_intros]: "http_res (raise_if b (HTTPException n err))"
  by (auto simp: http_res_def raise_if_Inl)

lemma http_res_prod [http_intros]: "(\<And>x y. http_res (f x y)) \<Longrightarrow> http_res (case p of (x, y) \<Rightarrow> f x y)"
  by (cases p) simp

lemma http_res_ok [http_intros]: "http_res (Inr x)" "http_res (Inl (HTTPException n err))" "http_res ok"
  by (simp_all add: http_res_def)

lemma http_res_if [http_intros]: "http_res x \<Longrightarrow> http_res y \<Longrightarrow> http_res (if b then x else y)"
  by simp

lemma http_res_option [http_intros]: "http_res x \<Longrightarrow> (\<And>v. http_res (f v)) \<Longrightarrow> http_res (case o' of None \<Rightarrow> x | Some v \<Rightarrow> f v)"
  by (cases o') simp_all

lemma http_res_bindR [http_intros]: "http_res x \<Longrightarrow> (\<And>v. http_res (f v)) \<Longrightarrow> http_res (bindR x f)"
  by (cases x) (auto simp: http_res_def)

lemma http_res_for_each [http_intros]: "(\<And>x. http_res (f x)) \<Longrightarrow> http_res (for_each f xs)"
  by (induction xs) (simp_all add: http_res_ok http_res_bindR)

lemma http_only_liftR [http_intros]: "http_res r \<Longrightarrow> http_only (liftR r) s"
  by (auto simp: http_only_def http_res_def wp_simps split: sum.splits)

lemma http_only_retS [http_intros]: "http_only (retS x) s"
  by (simp add: http_only_def wp_simps)

lemma validators_http [http_intros]:
  "http_res (ensure_entrypoint ep)" "http_res (ensure_valid_port port)"
  "http_res (ensure_metadata_labels md)" "http_res (calculate_expiration_or_raise now tmo)"
  "http_res (ensure_timeout_within_limit now tm mx)" "http_res (ensure_egress_configured np img)"
  unfolding ensure_entrypoint_def ensure_valid_port_def ensure_metadata_labels_def
    ensure_metadata_label_def calculate_expiration_or_raise_def ensure_timeout_within_limit_def
    ensure_egress_configured_def Let_def
  by (rule http_intros | simp)+

lemma future_expiration_http: "to_utc dt = Inr t \<Longrightarrow> http_res (ensure_future_expiration now dt)"
  by (simp add: ensure_future_expiration_def http_res_bindR http_res_raise_if http_res_ok)

lemma admit_request_http:
  assumes "never_raises (ka_now api)" and "never_raises (ka_new_id api)"
  shows "http_only (admit_request c api pv r) s"
  unfolding admit_request_def ensure_network_policy_support_k8s_def ensure_image_auth_support_def
  by (intro http_only_bindS http_only_never_raises assms http_intros)
     (auto split: option.splits intro!: http_only_bindS http_intros)



section \<open>The values of a sandbox\<close>

definition K8S_STATES :: "string list" where
  "K8S_STATES = [''Pending'', ''Allocated'', ''Running'', ''Paused'', ''Terminated'']"

definition sandbox_typed :: "sandbox \<Rightarrow> bool" where
  "sandbox_typed sb \<longleftrightarrow> state (sbx_status sb) \<in> set K8S_STATES \<and> sbx_image sb \<noteq> [] \<and>
     (case sbx_metadata sb of
        None \<Rightarrow> True
      | Some m \<Rightarrow> m \<noteq> [] \<and> list_all (\<lambda>(k, v). \<not> starts_with k RESERVED_LABEL_PREFIX) m)"

lemma batch_status_wp: "wp (batch_get_status y) (\<lambda>si _. si_state si \<in> set K8S_STATES) (\<lambda>_ _. True) t"
  by (auto simp: batch_get_status_def batch_status_def wp_simps K8S_STATES_def bindR_eq_Inr split: sum.splits if_splits)

lemma provider_status_wp:
  assumes "k8s_provider c k template api pv names"
  shows "wp (pv_get_status pv y) (\<lambda>si _. si_state si \<in> set K8S_STATES) (\<lambda>_ _. True) t"
proof -
  have "wp (agent_get_status api y) (\<lambda>si _. si_state si \<in> set K8S_STATES) (\<lambda>_ _. True) t"
    by (rule wp_mono [OF agent_status_wp]) (auto simp: K8S_STATES_def)
  with assms batch_status_wp [of y t] show ?thesis
    by (auto simp: k8s_provider_def batch_provider_def agent_provider_def)
qed

lemma string_dict_keys: "string_dict d = Inr m \<Longrightarrow> map fst m = map fst d"
proof (induction d arbitrary: m)
  case (Cons p d)
  then show ?case by (cases p) (auto simp: string_dict_def bindR_eq_Inr split: json.splits)
qed (simp add: string_dict_def)

lemma user_metadata_typed:
  assumes "user_metadata_of labels = Inr md"
  shows "case md of None \<Rightarrow> True | Some m \<Rightarrow> m \<noteq> [] \<and> list_all (\<lambda>(k, v). \<not> starts_with k RESERVED_LABEL_PREFIX) m"
proof -
  let ?keep = "\<lambda>(k, v). \<not> starts_with k ''opensandbox.io/''"
  obtain m where m: "string_dict (filter ?keep labels) = Inr m" "md = (if m = [] then None else Some m)"
    using assms by (auto simp: user_metadata_of_def bindR_eq_Inr)
  have "\<not> starts_with k ''opensandbox.io/''" if "(k, v) \<in> set m" for k v
  proof -
    have "k \<in> set (map fst m)" using that by force
    then show ?thesis using string_dict_keys [OF m(1)] by auto
  qed
  then show ?thesis using m(2) by (auto simp: list_all_iff RESERVED_LABEL_PREFIX_def)
qed

lemma image_or_unknown_nonempty: "image_or_unknown v = Inr img \<Longrightarrow> img \<noteq> []"
  by (cases v) (auto simp: image_or_unknown_def split: if_splits)

lemma image_nonempty: "image_and_entrypoint spec = Inr (img, cmd) \<Longrightarrow> img \<noteq> []"
  using image_or_unknown_nonempty by (fastforce simp: image_and_entrypoint_def bindR_eq_Inr split: option.split_asm)

lemma build_sandbox_wp:
  assumes "k8s_provider c k template api pv names"
  shows "wp (build_sandbox_from_workload api pv w) (\<lambda>sb _. sandbox_typed sb) (\<lambda>_ _. True) s"
proof -
  have st: "state st = si_state si" if "sandbox_status_of api si = Inr st" for si st
    using that by (auto simp: sandbox_status_of_def bindR_eq_Inr)
  show ?thesis
    unfolding build_sandbox_from_workload_def
    by (auto simp: wp_simps sandbox_typed_def st user_metadata_typed dest: image_nonempty
        split: sum.splits intro!: wp_mono [OF provider_status_wp [OF assms]])
qed

lemma build_sandboxes_wp:
  assumes "k8s_provider c k template api pv names"
  shows "wp (build_sandboxes api pv ws) (\<lambda>sbs _. list_all sandbox_typed sbs) (\<lambda>_ _. True) s"
proof (induction ws arbitrary: s)
  case (Cons w ws)
  show ?case
    by (cases w) (auto simp: wp_simps intro!: wp_mono [OF build_sandbox_wp [OF assms]] wp_mono [OF Cons.IH])
qed (simp add: wp_simps)

lemma paginate_k8s_items: "paginate_k8s pg sbs = Inr lr \<Longrightarrow> set (list_items lr) \<subseteq> set sbs"
  by (auto simp: paginate_k8s_def Let_def split: option.splits if_splits dest!: in_set_dropD in_set_takeD)



section \<open>Updates of the pod template\<close>

text \<open>The containers of the pod template that a workload has under the given key of its spec.\<close>

definition pod_containers :: "string \<Rightarrow> jobj \<Rightarrow> json list" where
  "pod_containers key w = jget_list (jget_obj (jget_obj (jget_obj w ''spec'') key) ''spec'') ''containers''"

lemma get_obj_jget: "get_obj d k = Inr e \<Longrightarrow> jget_obj d k = e"
  by (auto simp: get_obj_def jget_obj_def split: option.splits json.splits)

lemma first_container_head:
  assumes "first_container t err = Inr main"
  shows "\<exists>rest. jget_list (jget_obj t ''spec'') ''containers'' = JObj main # rest"
proof -
  obtain ps where ps: "get_obj t ''spec'' = Inr ps" and
      m: "(case jget ps ''containers'' of JList (JObj main # _) \<Rightarrow> Inr main
         | v \<Rightarrow> if truthy v then Inl AttributeError else Inl (OtherException err)) = Inr main"
    using assms unfolding first_container_def bindR_eq_Inr by blast
  from m obtain rest where "jget ps ''containers'' = JList (JObj main # rest)"
    by (cases "jget ps ''containers''") (auto split: if_splits list.splits json.splits)
  then show ?thesis
    by (auto simp: get_obj_jget [OF ps] jget_list_def jget_def split: option.splits)
qed

lemma containers_patch_merge:
  assumes "map_of y ''spec'' = map_of (merge_patch x (containers_patch key c)) ''spec''"
  shows "pod_containers key y = [JObj c]"
  using assms by (simp add: pod_containers_def containers_patch_def jget_obj_def jget_list_def)

text \<open>\<open>container_replaced f x y\<close>: \<open>y\<close> has one container, the first one of \<open>x\<close> changed by \<open>f\<close>.\<close>

definition container_replaced :: "(jobj \<Rightarrow> jobj) \<Rightarrow> jobj \<Rightarrow> jobj \<Rightarrow> bool" where
  "container_replaced f x y \<longleftrightarrow> (\<exists>key main rest. key \<in> {''template'', ''podTemplate''} \<and>
     pod_containers key x = JObj main # rest \<and> pod_containers key y = [JObj (f main)])"

text \<open>A patch of the containers made from the first container of the template under \<open>key\<close>.\<close>

lemma container_replacedI:
  assumes "get_obj x ''spec'' = Inr spec" and "jget_obj spec key = t" and "key \<in> {''template'', ''podTemplate''}"
    and "first_container t err = Inr main"
    and "map_of y ''spec'' = map_of (merge_patch x (containers_patch key (f main))) ''spec''"
  shows "container_replaced f x y"
proof -
  obtain rest where "jget_list (jget_obj t ''spec'') ''containers'' = JObj main # rest"
    using first_container_head [OF assms(4)] by blast
  then have "pod_containers key x = JObj main # rest"
    using get_obj_jget [OF assms(1)] assms(2) by (simp add: pod_containers_def)
  with containers_patch_merge [OF assms(5)] assms(3) show ?thesis unfolding container_replaced_def by blast
qed

lemma batch_env_patch_replaces:
  assumes "batch_env_patch env x = Inr p" and "map_of y ''spec'' = map_of (merge_patch x p) ''spec''"
  shows "container_replaced (AList.update ''env'' (env_entries env)) x y"
proof -
  obtain spec t main where p: "get_obj x ''spec'' = Inr spec" "get_obj spec ''template'' = Inr t"
      "first_container t ''No containers found in BatchSandbox spec'' = Inr main"
      "p = containers_patch ''template'' (AList.update ''env'' (env_entries env) main)"
    using assms(1) unfolding batch_env_patch_def bindR_eq_Inr by blast
  show ?thesis by (rule container_replacedI [OF p(1) get_obj_jget [OF p(2)] _ p(3)]) (use assms(2) p(4) in simp_all)
qed

lemma agent_template_jget: "agent_template spec = Inr (key, t) \<Longrightarrow> jget_obj spec key = t \<and> key \<in> {''template'', ''podTemplate''}"
  by (auto simp: agent_template_def bindR_eq_Inr get_obj_jget split: if_splits)

lemma agent_env_patch_replaces:
  assumes "agent_env_patch env x = Inr p" and "map_of y ''spec'' = map_of (merge_patch x p) ''spec''"
  shows "container_replaced (AList.update ''env'' (env_entries env)) x y"
proof -
  obtain spec key t main where p: "get_obj x ''spec'' = Inr spec" "agent_template spec = Inr (key, t)"
      "first_container t ''No containers found in Sandbox spec'' = Inr main"
      "p = containers_patch key (AList.update ''env'' (env_entries env) main)"
    using assms(1) unfolding agent_env_patch_def by (auto simp: bindR_eq_Inr)
  show ?thesis
    by (rule container_replacedI [OF p(1) _ _ p(3)]) (use agent_template_jget [OF p(2)] assms(2) p(4) in simp_all)
qed

lemma provider_update_env_wp:
  assumes "crd_store api objs" and "k8s_provider c k template api pv names" and "coherent objs s"
  shows "wp (pv_update_env pv sid env)
    (\<lambda>_ s'. one_replaced (names sid) (container_replaced (AList.update ''env'' (env_entries env))) (objs (kworld s)) (objs (kworld s')))
    (\<lambda>e s'. objs (kworld s') = objs (kworld s)) s"
  using assms(2) unfolding k8s_provider_def
proof (elim disjE conjE)
  assume "pv = batch_provider c k template api" "names = batch_names"
  then show ?thesis
    by (simp add: batch_provider_def batch_update_env_def)
       (rule wp_mono [OF crd_store.patch_workload_wp [OF assms(1) crd_store.batch_finds [OF assms(1,3)]]],
        auto elim!: one_replaced_mono intro: batch_env_patch_replaces)
next
  assume "pv = agent_provider c k template api" "names = resource_name_candidates api"
  then show ?thesis
    by (simp add: agent_provider_def agent_update_env_def)
       (rule wp_mono [OF crd_store.patch_workload_wp [OF assms(1) crd_store.agent_finds [OF assms(1,3)]]],
        auto elim!: one_replaced_mono intro: agent_env_patch_replaces)
qed



lemma batch_limits_patch_strips:
  assumes "batch_limits_patch limits x = Inr p" and "map_of y ''spec'' = map_of (merge_patch x p) ''spec''"
  shows "\<exists>d. pod_containers ''template'' y = [JObj d] \<and> map fst d = [''name'', ''resources'']"
proof -
  obtain n res where "p = containers_patch ''template'' [(''name'', n), (''resources'', res)]"
    using assms(1) unfolding batch_limits_patch_def bindR_eq_Inr by blast
  with containers_patch_merge assms(2) show ?thesis by auto
qed

text \<open>
  Updating CPU or memory with the BatchSandbox provider leaves a pod template whose only container
  has a name and resources and nothing else: a merge patch replaces lists, so the image, the command and
  the mounts of the sandbox container are lost with it.
\<close>

theorem batch_limits_update_strips_container:
  assumes "crd_store api objs" and "coherent objs s"
    and "batch_update_resource_limits k api sid limits s = (Inr (), s')"
  shows "one_replaced (batch_names sid)
    (\<lambda>x y. \<exists>d. pod_containers ''template'' y = [JObj d] \<and> map fst d = [''name'', ''resources''])
    (objs (kworld s)) (objs (kworld s'))"
proof -
  have "wp (batch_update_resource_limits k api sid limits)
      (\<lambda>_ s'. one_replaced (batch_names sid)
        (\<lambda>x y. \<exists>d. pod_containers ''template'' y = [JObj d] \<and> map fst d = [''name'', ''resources''])
        (objs (kworld s)) (objs (kworld s'))) (\<lambda>_ _. True) s"
    unfolding batch_update_resource_limits_def
    by (rule wp_mono [OF crd_store.patch_workload_wp [OF assms(1) crd_store.batch_finds [OF assms(1,2)]]])
       (auto elim!: one_replaced_mono intro: batch_limits_patch_strips)
  from wp_InrD [OF this assms(3)] show ?thesis .
qed

definition batch_sandbox :: jobj where
  "batch_sandbox =
     [(''metadata'', JObj [(''name'', JStr ''a1'')]),
      (''spec'', JObj [(''template'', JObj [(''spec'', JObj [(''containers'', JList
         [JObj [(''name'', JStr ''sandbox''), (''image'', JStr ''img:1'')]])])])])]"

theorem batch_limits_update_strips_container_witness:
  "one_replaced (batch_names ''a1'')
    (\<lambda>x y. \<exists>d. pod_containers ''template'' y = [JObj d] \<and> map fst d = [''name'', ''resources''])
    (sim_objs (kworld (sim_state [(''a1'', batch_sandbox)])))
    (sim_objs (kworld (snd (batch_update_resource_limits sample_kube_config sim_kube ''a1'' [(''cpu'', ''2'')]
       (sim_state [(''a1'', batch_sandbox)])))))"
proof -
  let ?r = "batch_update_resource_limits sample_kube_config sim_kube ''a1'' [(''cpu'', ''2'')] (sim_state [(''a1'', batch_sandbox)])"
  have "fst ?r = Inr ()" by code_simp
  then have "?r = (Inr (), snd ?r)" by (metis prod.collapse)
  moreover have "coherent sim_objs (sim_state [(''a1'', batch_sandbox)])" by (simp add: coherent_def sim_state_def)
  ultimately show ?thesis using batch_limits_update_strips_container [OF sim.crd_store_axioms] by blast
qed

section \<open>Pools and workspaces\<close>

text \<open>
  A creation that names a pool behaves the same whatever network policy, egress image and token
  it has and whatever the configuration says of a secure runtime: none of them reaches the cluster.
\<close>

theorem pool_creation_ignores_policy:
  assumes "wr_extensions r = Some ext" and "map_of ext ''poolRef'' = Some pool" and "pool \<noteq> []"
  shows "batch_create_workload c k template api
      (r\<lparr>wr_network_policy := np, wr_egress_image := img, wr_egress_token := token, wr_annotations := ann\<rparr>) =
    batch_create_workload c' k' template' api r"
  using assms
  by (simp add: batch_create_workload_def given_def create_workload_from_pool_def batch_pool_manifest_def)

definition pooled_request :: workload_request where
  "pooled_request = \<lparr>wr_sandbox_id = ''a1'', wr_namespace = Some ''ns'', wr_image = \<lparr>image_uri = ''img:1'', image_auth_of = None\<rparr>,
     wr_entrypoint = [''sleep''], wr_env = [], wr_limits = [], wr_labels = [], wr_expires_at = None, wr_execd_image = ''execd:1'',
     wr_extensions = Some [(''poolRef'', ''p'')], wr_network_policy = None, wr_egress_image = None, wr_volumes = None,
     wr_annotations = None, wr_egress_token = None\<rparr>"

theorem pool_creation_ignores_policy_witness:
  "batch_create_workload sample_k8s_config sample_kube_config [] sim_kube
      (pooled_request\<lparr>wr_network_policy := Some \<lparr>default_action = Some ''deny'', egress_rules = []\<rparr>,
         wr_egress_image := Some ''egress:1'', wr_egress_token := Some ''t'', wr_annotations := Some []\<rparr>) =
    batch_create_workload sample_k8s_config sample_kube_config [] sim_kube pooled_request"
  by (rule pool_creation_ignores_policy [where ext = "[(''poolRef'', ''p'')]" and pool = "''p''"])
     (simp_all add: pooled_request_def)

lemma digit_id_resource_name:
  assumes "\<And>v. length (ka_hash8 api v) = 8" and "\<And>v. list_all lower_digit (ka_hash8 api v)"
    and "is_digit (hd sid)"
  shows "resource_name api sid \<noteq> sid"
proof
  assume "resource_name api sid = sid"
  then have "dns1035_ok sid" using to_dns1035_label_ok [of "ka_hash8 api" sid] assms(1,2) by (simp add: resource_name_def)
  then have "is_lower (hd sid)" by (simp add: dns1035_ok_def)
  with assms(3) show False by (simp add: is_lower_def is_digit_def code_def)
qed

text \<open>
  For a sandbox id that starts with a digit the claim that the agent-sandbox provider creates and the
  claim that a storage update looks for have different names, so on a cluster without a claim of the
  second name the update is answered with 404.
\<close>

theorem workspace_claim_not_found:
  assumes "\<And>v. length (ka_hash8 api v) = 8" and "\<And>v. list_all lower_digit (ka_hash8 api v)"
    and "is_digit (hd sid)" and "ka_read_pvc api (''workspace-'' @ sid) (kworld s) = (Inl (ApiException 404), kworld s)"
  shows "pvc_name api sid \<noteq> ''workspace-'' @ sid \<and>
    expand_workspace_storage api sid sz s = (Inl (HTTPException 404 K8S_PVC_EXPAND_FAILED), s)"
  using digit_id_resource_name [OF assms(1-3)] assms(4)
  by (simp add: pvc_name_def expand_workspace_storage_def get_pvc_def some_or_404_def bindS_def catchS_def inK_def
      retS_def raiseS_def)

theorem workspace_claim_not_found_witness:
  "pvc_name sim_kube ''1a2b'' \<noteq> ''workspace-1a2b'' \<and>
   expand_workspace_storage sim_kube ''1a2b'' ''5Gi''
     (kworld_update (cl_pvcs_update (\<lambda>_. [(pvc_name sim_kube ''1a2b'', ''1Gi'')])) two_sandboxes) =
   (Inl (HTTPException 404 K8S_PVC_EXPAND_FAILED),
     kworld_update (cl_pvcs_update (\<lambda>_. [(pvc_name sim_kube ''1a2b'', ''1Gi'')])) two_sandboxes)"
proof -
  let ?s = "kworld_update (cl_pvcs_update (\<lambda>_. [(pvc_name sim_kube ''1a2b'', ''1Gi'')])) two_sandboxes"
  have h: "length (ka_hash8 sim_kube v) = 8" "list_all lower_digit (ka_hash8 sim_kube v)" for v
    by (simp_all add: sim_kube_def lower_digit_def is_lower_def is_digit_def code_def)
  have d: "is_digit (hd ''1a2b'')" by (simp add: is_digit_def code_def)
  have "pvc_name sim_kube ''1a2b'' = ''workspace-sandbox-1a2b''" by code_simp
  then have "ka_read_pvc sim_kube (''workspace-'' @ ''1a2b'') (kworld ?s) = (Inl (ApiException 404), kworld ?s)"
    by (simp add: sim_kube_def)
  from workspace_claim_not_found [OF h d this] show ?thesis by simp
qed

end
