(* ===== verification/Http_Auth.thy ===== *)
theory Http_Auth
  imports Config Py_Regex Json
begin

text \<open>
  Who may call the server: the API-key check (\<open>server/src/middleware/auth.py\<close>), the request identifiers
  (\<open>server/src/middleware/request_id.py\<close>), the tokens of terminal sessions (\<open>server/src/services/terminal_auth.py\<close>),
  and from \<open>server/src/main.py\<close> the shape of errors and the redaction of the configuration. The web framework
  is not modelled; a request is what it hands to the code: a method, a decoded path, a query and headers.
\<close>

section \<open>Requests\<close>

record http_request =
  hr_websocket :: bool
  hr_method :: string
  hr_path :: string
  hr_query :: string
  hr_headers :: "(string \<times> string) list"

text \<open>\<open>headers.get(name)\<close>: names are compared without case, the first one counts.\<close>

definition header_get :: "string \<Rightarrow> (string \<times> string) list \<Rightarrow> string option" where
  "header_get name headers = map_option snd (find (\<lambda>(k, v). lower k = lower name) headers)"

section \<open>The API key\<close>

definition API_KEY_HEADER :: string where
  "API_KEY_HEADER = ''OPEN-SANDBOX-API-KEY''"

definition EXEMPT_PATHS :: "string list" where
  "EXEMPT_PATHS = [''/health'', ''/docs'', ''/redoc'', ''/openapi.json'']"

text \<open>\<open>^(/v1)?/sandboxes/[^/]+/proxy/\d+(/|$)\<close>; \<open>PROXY_PATH_RE\<close> is the part before the last group.\<close>

definition PROXY_PATH_RE :: re where
  "PROXY_PATH_RE =
     RSeq (ROpt (RLit ''/v1'')) (RSeq (RLit ''/sandboxes/'') (RSeq (RPlus (RCls (\<lambda>c. c \<noteq> slash)))
       (RSeq (RLit ''/proxy/'') (RPlus (RCls is_digit)))))"

definition is_proxy_path :: "string \<Rightarrow> bool" where
  "is_proxy_path path =
     (if contains path ''..'' then False
      else match_prefix (RSeq PROXY_PATH_RE (RChar slash)) path \<or> match_dollar PROXY_PATH_RE path)"

definition load_api_keys :: "app_config \<Rightarrow> string list" where
  "load_api_keys c =
     (case srv_api_key (cfg_server c) of
        Some k \<Rightarrow> if k \<noteq> [] \<and> strip k \<noteq> [] then [k] else []
      | None \<Rightarrow> [])"

datatype auth_decision = Forward | Reject int string

definition auth_dispatch :: "string list \<Rightarrow> http_request \<Rightarrow> auth_decision" where
  "auth_dispatch valid_api_keys r =
     (if list_ex (starts_with (hr_path r)) EXEMPT_PATHS then Forward
      else if is_proxy_path (hr_path r) then Forward
      else if valid_api_keys = [] then Forward
      else (case header_get API_KEY_HEADER (hr_headers r) of
              None \<Rightarrow> Reject 401 ''MISSING_API_KEY''
            | Some api_key \<Rightarrow>
                if api_key = [] then Reject 401 ''MISSING_API_KEY''
                else if valid_api_keys \<noteq> [] \<and> api_key \<notin> set valid_api_keys then Reject 401 ''INVALID_API_KEY''
                else Forward))"

text \<open>\<open>__call__\<close>: web sockets are passed on unseen.\<close>

definition auth_call :: "string list \<Rightarrow> http_request \<Rightarrow> auth_decision" where
  "auth_call valid_api_keys r = (if hr_websocket r then Forward else auth_dispatch valid_api_keys r)"

section \<open>Request identifiers\<close>

definition X_REQUEST_ID_HEADER :: string where
  "X_REQUEST_ID_HEADER = ''X-Request-ID''"

text \<open>The identifier of a request; \<open>fresh\<close> is \<open>uuid4().hex\<close>. It is set on the response.\<close>

definition request_id_of :: "string \<Rightarrow> http_request \<Rightarrow> string" where
  "request_id_of fresh r =
     (case header_get X_REQUEST_ID_HEADER (hr_headers r) of
        None \<Rightarrow> fresh
      | Some raw \<Rightarrow> if strip raw = [] then fresh else strip raw)"

definition logged_request_id :: "string option \<Rightarrow> string" where
  "logged_request_id rid = (case rid of None \<Rightarrow> ''-'' | Some i \<Rightarrow> if i = [] then ''-'' else i)"

section \<open>Terminal tokens\<close>

text \<open>
  The library that signs and checks tokens is the record \<open>jwt_api\<close>: \<open>jwt_decode token secret issuer now\<close> is
  \<open>jwt.decode\<close> with the algorithm and the required claims fixed by the code, at the instant \<open>now\<close> in seconds.
\<close>

record jwt_claims =
  claim_sub :: string
  claim_iss :: string
  claim_iat :: int
  claim_exp :: int

datatype jwt_error = ExpiredSignatureError | InvalidIssuerError | DecodeError | InvalidTokenError

record jwt_api =
  jwt_encode :: "jwt_claims \<Rightarrow> string \<Rightarrow> string"
  jwt_decode :: "string \<Rightarrow> string \<Rightarrow> string \<Rightarrow> int \<Rightarrow> jwt_error + jwt_claims"

definition TOKEN_ISSUER :: string where
  "TOKEN_ISSUER = ''supersandbox''"

definition create_terminal_token :: "jwt_api \<Rightarrow> int \<Rightarrow> string \<Rightarrow> string \<Rightarrow> int \<Rightarrow> string \<times> int" where
  "create_terminal_token jwt now secret sandbox_id ttl_seconds =
     (let expires = now + ttl_seconds;
          payload = \<lparr>claim_sub = sandbox_id, claim_iss = TOKEN_ISSUER, claim_iat = now, claim_exp = expires\<rparr>
      in (jwt_encode jwt payload secret, expires))"

text \<open>The reasons of a refusal, \<open>None\<close> for a valid token.\<close>

datatype token_error = Token_Expired | Token_Issuer | Token_Invalid | Token_Failed | Token_Other_Sandbox

definition validate_terminal_token :: "jwt_api \<Rightarrow> int \<Rightarrow> string \<Rightarrow> string \<Rightarrow> string \<Rightarrow> token_error option" where
  "validate_terminal_token jwt now secret token expected_sandbox_id =
     (case jwt_decode jwt token secret TOKEN_ISSUER now of
        Inl ExpiredSignatureError \<Rightarrow> Some Token_Expired
      | Inl InvalidIssuerError \<Rightarrow> Some Token_Issuer
      | Inl DecodeError \<Rightarrow> Some Token_Invalid
      | Inl InvalidTokenError \<Rightarrow> Some Token_Failed
      | Inr payload \<Rightarrow>
          if claim_sub payload \<noteq> expected_sandbox_id then Some Token_Other_Sandbox else None)"

section \<open>Errors and the configuration shown\<close>

definition DEFAULT_ERROR_CODE :: string where
  "DEFAULT_ERROR_CODE = ''GENERAL::UNKNOWN_ERROR''"

definition DEFAULT_ERROR_MESSAGE :: string where
  "DEFAULT_ERROR_MESSAGE = ''An unexpected error occurred.''"

definition or_default :: "json \<Rightarrow> string \<Rightarrow> json" where
  "or_default v d = (if truthy v then v else JStr d)"

definition normalize_error_detail :: "(json \<Rightarrow> string) \<Rightarrow> json \<Rightarrow> (string, json) dict" where
  "normalize_error_detail str detail =
     (case detail of
        JObj d \<Rightarrow> [(''code'', or_default (jget d ''code'') DEFAULT_ERROR_CODE),
                   (''message'', or_default (jget d ''message'') DEFAULT_ERROR_MESSAGE)]
      | _ \<Rightarrow> [(''code'', JStr DEFAULT_ERROR_CODE),
              (''message'', JStr (if truthy detail then str detail else DEFAULT_ERROR_MESSAGE))])"

definition SENSITIVE_KEYS :: "string list" where
  "SENSITIVE_KEYS = [''api_key'', ''kubeconfig_path'', ''password'']"

fun redact :: "json \<Rightarrow> json" where
  "redact (JObj d) = JObj (map (\<lambda>(k, v). (k, if k \<in> set SENSITIVE_KEYS \<and> truthy v then JStr ''******'' else redact v)) d)"
| "redact (JList xs) = JList (map redact xs)"
| "redact v = v"

end
