(* ===== verification/K8s_Tasks.thy ===== *)
theory K8s_Tasks
  imports K8s_Service
begin

text \<open>
  Tasks in a sandbox on Kubernetes: the task and terminal operations of \<open>kubernetes_service.py\<close> and the calls of
  the execd daemon in \<open>client.py\<close>. The server reaches execd by running a Python script in the pod, whose text
  it builds here, and reads what the script prints. Running a command in a pod (\<open>_exec_in_pod\<close>, a call of the
  client library) is the argument \<open>pod_exec\<close>; \<open>literal_eval\<close> of the \<open>ast\<close> module is an argument too.
\<close>

section \<open>Texts\<close>

text \<open>\<open>urllib.parse.quote_plus\<close> on the UTF-8 bytes of a text, and \<open>urlencode\<close>.\<close>

definition utf8_bytes :: "char \<Rightarrow> nat list" where
  "utf8_bytes c = (if code c < 128 then [code c] else [192 + code c div 64, 128 + code c mod 64])"

definition url_safe :: "char \<Rightarrow> bool" where
  "url_safe c \<longleftrightarrow> is_alnum c \<or> c \<in> set ''_.-~''"

definition hex_upper :: "nat \<Rightarrow> char" where
  "hex_upper n = (if n < 10 then char_of (48 + n) else char_of (55 + n))"

definition quote_plus_char :: "char \<Rightarrow> string" where
  "quote_plus_char c =
     (if url_safe c then [c] else if c = CHR '' '' then ''+''
      else concat (map (\<lambda>b. [CHR ''%'', hex_upper (b div 16), hex_upper (b mod 16)]) (utf8_bytes c)))"

definition quote_plus :: "string \<Rightarrow> string" where
  "quote_plus s = concat (map quote_plus_char s)"

definition urlencode :: "(string \<times> string) list \<Rightarrow> string" where
  "urlencode params = join_with (CHR ''&'') (map (\<lambda>(k, v). quote_plus k @ ''='' @ quote_plus v) params)"

text \<open>
  \<open>repr\<close> of a text: single quotes unless the text has some and no double ones; backslashes, the quote itself
  and characters that are not printable are escaped.
\<close>

definition repr_char :: "char \<Rightarrow> char \<Rightarrow> string" where
  "repr_char q c =
     (if c = q \<or> c = CHR 0x5C then [CHR 0x5C, c]
      else if c = CHR 0x0A then [CHR 0x5C, CHR ''n'']
      else if c = CHR 0x0D then [CHR 0x5C, CHR ''r'']
      else if c = CHR 0x09 then [CHR 0x5C, CHR ''t'']
      else if code c < 32 \<or> (127 \<le> code c \<and> code c \<le> 160) \<or> code c = 173
      then [CHR 0x5C, CHR ''x'', hex_digit (code c div 16), hex_digit (code c mod 16)]
      else [c])"

definition repr_quote :: "string \<Rightarrow> char" where
  "repr_quote s = (if squote \<in> set s \<and> dquote \<notin> set s then dquote else squote)"

definition repr_str :: "string \<Rightarrow> string" where
  "repr_str s = [repr_quote s] @ concat (map (repr_char (repr_quote s)) s) @ [repr_quote s]"

section \<open>The scripts\<close>

text \<open>A text in triple quotes that starts and ends with a line break.\<close>

definition script_text :: "string list \<Rightarrow> string" where
  "script_text ls = join_with newline ([[]] @ ls @ [[]])"

definition execd_url :: "string \<Rightarrow> (string \<times> string) list \<Rightarrow> string" where
  "execd_url path params =
     ''http://localhost:44772'' @ path @ (if params = [] then [] else ''?'' @ urlencode params)"

definition get_script :: "string \<Rightarrow> string" where
  \<open>get_script url = script_text
     [''import urllib.request, json, sys'',
      ''try:'',
      ''    resp = urllib.request.urlopen("'' @ url @ ''")'',
      ''    headers = dict(resp.headers)'',
      ''    body = resp.read().decode()'',
      ''    ct = headers.get("Content-Type", "")'',
      ''    if "json" in ct:'',
      ''        body = json.loads(body)'',
      ''    print(json.dumps({"status_code": resp.status, "body": body, "headers": headers}))'',
      ''except urllib.error.HTTPError as e:'',
      ''    print(json.dumps({"status_code": e.code, "body": e.read().decode(), "headers": {}}))'']\<close>

definition delete_script :: "string \<Rightarrow> string" where
  \<open>delete_script url = script_text
     [''import urllib.request, json, sys'',
      ''try:'',
      ''    req = urllib.request.Request("'' @ url @ ''", method="DELETE")'',
      ''    resp = urllib.request.urlopen(req)'',
      ''    print(json.dumps({"status_code": resp.status, "body": resp.read().decode(), "headers": {}}))'',
      ''except urllib.error.HTTPError as e:'',
      ''    print(json.dumps({"status_code": e.code, "body": e.read().decode(), "headers": {}}))'']\<close>

definition post_script :: "string \<Rightarrow> string \<Rightarrow> string" where
  \<open>post_script url body_json = script_text
     [''import urllib.request, json, sys'',
      ''data = '' @ repr_str body_json @ ''.encode()'',
      ''req = urllib.request.Request("'' @ url @ ''", data=data, headers={"Content-Type": "application/json"})'',
      ''try:'',
      ''    resp = urllib.request.urlopen(req)'',
      ''    headers = dict(resp.headers)'',
      ''    body = resp.read().decode()'',
      ''    ct = headers.get("Content-Type", "")'',
      ''    if "json" in ct:'',
      ''        body = json.loads(body)'',
      ''    print(json.dumps({"status_code": resp.status, "body": body, "headers": headers}))'',
      ''except urllib.error.HTTPError as e:'',
      ''    print(json.dumps({"status_code": e.code, "body": e.read().decode(), "headers": {}}))'']\<close>

definition submit_script :: "string \<Rightarrow> string" where
  \<open>submit_script body_json = script_text
     [''import urllib.request, json, sys'',
      ''data = '' @ repr_str body_json @ ''.encode()'',
      ''req = urllib.request.Request("http://localhost:44772/command", data=data, headers={"Content-Type": "application/json"})'',
      ''try:'',
      ''    resp = urllib.request.urlopen(req)'',
      ''    first_line = resp.readline().decode().strip()'',
      ''    if first_line:'',
      ''        event = json.loads(first_line)'',
      ''        if event.get("type") == "init":'',
      ''            print(json.dumps({"status_code": 200, "task_id": event.get("text")}))'',
      ''        else:'',
      ''            print(json.dumps({"status_code": 200, "task_id": None}))'',
      ''    else:'',
      ''        print(json.dumps({"status_code": 200, "task_id": None}))'',
      ''except urllib.error.HTTPError as e:'',
      ''    print(json.dumps({"status_code": e.code, "body": e.read().decode()}))'']\<close>

section \<open>Calls of execd\<close>

datatype execd_method = GET | DELETE | POST "json option"

definition execd_script :: "execd_method \<Rightarrow> string \<Rightarrow> string" where
  "execd_script m url =
     (case m of
        GET \<Rightarrow> get_script url
      | DELETE \<Rightarrow> delete_script url
      | POST body \<Rightarrow> post_script url (case body of Some b \<Rightarrow> if truthy b then json_dumps b else ''{}'' | None \<Rightarrow> ''{}''))"

text \<open>Running a script and reading its output: JSON, or a Python literal. Every failure is the one exception.\<close>

definition run_script ::
    "(string \<Rightarrow> string list \<Rightarrow> ('w kstate, string) io) \<Rightarrow> (string \<Rightarrow> json option) \<Rightarrow> string \<Rightarrow> string \<Rightarrow> string
       \<Rightarrow> ('w kstate, json) io" where
  "run_script pod_exec literal_eval failure pod_nm script =
     catchS (bindS (pod_exec pod_nm [''python3'', ''-c'', script]) (\<lambda>output.
             (case json_loads (strip output) of
                Some v \<Rightarrow> retS v
              | None \<Rightarrow> (case literal_eval (strip output) of Some v \<Rightarrow> retS v | None \<Rightarrow> raiseS ValueError))))
       (\<lambda>e. raiseS (OtherException failure))"

definition call_execd ::
    "(string \<Rightarrow> string list \<Rightarrow> ('w kstate, string) io) \<Rightarrow> (string \<Rightarrow> json option) \<Rightarrow> string \<Rightarrow> execd_method \<Rightarrow> string
       \<Rightarrow> (string \<times> string) list \<Rightarrow> ('w kstate, json) io" where
  "call_execd pod_exec literal_eval pod_nm m path params =
     run_script pod_exec literal_eval ''Failed to call execd'' pod_nm (execd_script m (execd_url path params))"

definition call_execd_submit ::
    "(string \<Rightarrow> string list \<Rightarrow> ('w kstate, string) io) \<Rightarrow> (string \<Rightarrow> json option) \<Rightarrow> string \<Rightarrow> json
       \<Rightarrow> ('w kstate, json) io" where
  "call_execd_submit pod_exec literal_eval pod_nm json_body =
     run_script pod_exec literal_eval ''Failed to submit task'' pod_nm (submit_script (json_dumps json_body))"

section \<open>The task operations\<close>

text \<open>\<open>v[k]\<close> and \<open>v.get(k)\<close> on the value a script printed.\<close>

definition py_index :: "json \<Rightarrow> string \<Rightarrow> json res" where
  "py_index v k = (case v of JObj d \<Rightarrow> jindex d k | _ \<Rightarrow> Inl TypeError)"

definition py_get :: "json \<Rightarrow> string \<Rightarrow> json res" where
  "py_get v k = (case v of JObj d \<Rightarrow> Inr (jget d k) | _ \<Rightarrow> Inl AttributeError)"

definition task_body :: "json \<Rightarrow> json \<Rightarrow> json \<Rightarrow> json \<Rightarrow> json" where
  "task_body command cwd timeout_ms envs =
     JObj ([(''command'', command), (''cwd'', cwd), (''background'', JBool True)]
       @ (if timeout_ms \<noteq> JNull then [(''timeout'', timeout_ms)] else [])
       @ (if truthy envs then [(''envs'', envs)] else []))"

definition submit_task ::
    "kubernetes_config \<Rightarrow> 'w kube_api \<Rightarrow> 'w provider \<Rightarrow> (string \<Rightarrow> string list \<Rightarrow> ('w kstate, string) io)
       \<Rightarrow> (string \<Rightarrow> json option) \<Rightarrow> string \<Rightarrow> json \<Rightarrow> json \<Rightarrow> json \<Rightarrow> json \<Rightarrow> ('w kstate, jobj) io" where
  "submit_task k api pv pod_exec lit sandbox_id command cwd timeout_ms envs =
     bindS (get_sandbox_pod_name k api pv sandbox_id) (\<lambda>pod_nm.
     bindS (call_execd_submit pod_exec lit pod_nm (task_body command cwd timeout_ms envs)) (\<lambda>result.
     bindS (liftR (py_get result ''status_code'')) (\<lambda>code_value.
     if \<not> json_eq_int code_value 200 then raiseS (HTTPException 502 K8S_API_ERROR)
     else bindS (liftR (py_get result ''task_id'')) (\<lambda>task_id.
          retS [(''taskId'', task_id), (''status'', JStr ''running'')]))))"

text \<open>The test for a missing task, after which the result is used.\<close>

definition require_task :: "json \<Rightarrow> unit res" where
  "require_task result =
     bindR (py_index result ''status_code'') (\<lambda>v.
     raise_if (json_eq_int v 404) (HTTPException 404 ''TASK::NOT_FOUND''))"

definition get_task_status ::
    "kubernetes_config \<Rightarrow> 'w kube_api \<Rightarrow> 'w provider \<Rightarrow> (string \<Rightarrow> string list \<Rightarrow> ('w kstate, string) io)
       \<Rightarrow> (string \<Rightarrow> json option) \<Rightarrow> string \<Rightarrow> string \<Rightarrow> ('w kstate, json) io" where
  "get_task_status k api pv pod_exec lit sandbox_id task_id =
     bindS (get_sandbox_pod_name k api pv sandbox_id) (\<lambda>pod_nm.
     bindS (call_execd pod_exec lit pod_nm GET (''/command/status/'' @ task_id) []) (\<lambda>result.
     bindS (liftR (require_task result)) (\<lambda>_. liftR (py_index result ''body''))))"

definition get_task_logs ::
    "kubernetes_config \<Rightarrow> 'w kube_api \<Rightarrow> 'w provider \<Rightarrow> (string \<Rightarrow> string list \<Rightarrow> ('w kstate, string) io)
       \<Rightarrow> (string \<Rightarrow> json option) \<Rightarrow> string \<Rightarrow> string \<Rightarrow> int option \<Rightarrow> ('w kstate, json \<times> json) io" where
  "get_task_logs k api pv pod_exec lit sandbox_id task_id cursor =
     bindS (get_sandbox_pod_name k api pv sandbox_id) (\<lambda>pod_nm.
     bindS (call_execd pod_exec lit pod_nm GET (''/command/'' @ task_id @ ''/logs'')
              (case cursor of None \<Rightarrow> [] | Some n \<Rightarrow> [(''cursor'', str_int n)])) (\<lambda>result.
     bindS (liftR (require_task result)) (\<lambda>_.
     bindS (liftR (py_index result ''body'')) (\<lambda>body.
     bindS (liftR (py_index result ''headers'')) (\<lambda>headers.
     bindS (liftR (py_get headers ''execd-commands-tail-cursor'')) (\<lambda>c1.
     if truthy c1 then retS (body, c1)
     else bindS (liftR (py_get headers ''Execd-Commands-Tail-Cursor'')) (\<lambda>c2. retS (body, c2))))))))"

definition kill_task ::
    "kubernetes_config \<Rightarrow> 'w kube_api \<Rightarrow> 'w provider \<Rightarrow> (string \<Rightarrow> string list \<Rightarrow> ('w kstate, string) io)
       \<Rightarrow> (string \<Rightarrow> json option) \<Rightarrow> string \<Rightarrow> string \<Rightarrow> ('w kstate, unit) io" where
  "kill_task k api pv pod_exec lit sandbox_id task_id =
     bindS (get_sandbox_pod_name k api pv sandbox_id) (\<lambda>pod_nm.
     bindS (call_execd pod_exec lit pod_nm DELETE ''/command'' [(''id'', task_id)]) (\<lambda>result.
     liftR (require_task result)))"

text \<open>The command of a terminal session and the pod it runs in; the stream itself is not modelled.\<close>

definition exec_sandbox_terminal ::
    "kubernetes_config \<Rightarrow> 'w kube_api \<Rightarrow> 'w provider \<Rightarrow> (string \<Rightarrow> string list \<Rightarrow> ('w kstate, 'h) io) \<Rightarrow> string \<Rightarrow> string
       \<Rightarrow> ('w kstate, 'h) io" where
  "exec_sandbox_terminal k api pv exec_interactive sandbox_id command =
     bindS (get_sandbox_pod_name k api pv sandbox_id) (\<lambda>pod_nm. exec_interactive pod_nm [command])"

section \<open>The scripts say what they are meant to\<close>

text \<open>
  A reference reading of a Python string literal in single or double quotes: what it denotes and the text
  after it. Only the escapes that \<open>repr\<close> writes are read.
\<close>

definition escape_value :: "char \<Rightarrow> char option" where
  "escape_value e =
     (if e = CHR ''n'' then Some (CHR 0x0A) else if e = CHR ''r'' then Some (CHR 0x0D)
      else if e = CHR ''t'' then Some (CHR 0x09)
      else if e = CHR 0x5C \<or> e = squote \<or> e = dquote then Some e else None)"

definition hex_char :: "char \<Rightarrow> char \<Rightarrow> char option" where
  "hex_char a b = (case (hex_val a, hex_val b) of (Some m, Some n) \<Rightarrow> Some (char_of (16 * m + n)) | _ \<Rightarrow> None)"

fun read_body :: "char \<Rightarrow> string \<Rightarrow> (string \<times> string) option" where
  "read_body q [] = None"
| "read_body q (c # s) =
     (if c = q then Some ([], s)
      else if c = CHR 0x0A then None
      else if c = CHR 0x5C
      then (case s of
              [] \<Rightarrow> None
            | e # r \<Rightarrow>
                if e = CHR ''x''
                then (case r of
                        a # b # r' \<Rightarrow> (case hex_char a b of None \<Rightarrow> None | Some d \<Rightarrow> map_option (apfst (\<lambda>t. d # t)) (read_body q r'))
                      | _ \<Rightarrow> None)
                else (case escape_value e of None \<Rightarrow> None | Some d \<Rightarrow> map_option (apfst (\<lambda>t. d # t)) (read_body q r)))
      else map_option (apfst (\<lambda>t. c # t)) (read_body q s))"

fun read_literal :: "string \<Rightarrow> (string \<times> string) option" where
  "read_literal [] = None"
| "read_literal (q # s) = (if q = squote \<or> q = dquote then read_body q s else None)"

lemma hex_char_digits: "hex_char (hex_digit (code c div 16)) (hex_digit (code c mod 16)) = Some c"
proof -
  have "code c div 16 < 16" using code_less [of c] by presburger
  then have "hex_val (hex_digit (code c div 16)) = Some (code c div 16)" "hex_val (hex_digit (code c mod 16)) = Some (code c mod 16)"
    by (simp_all add: hex_val_digit)
  then show ?thesis by (simp add: hex_char_def code_def)
qed

lemma read_repr_char:
  assumes "q = squote \<or> q = dquote"
  shows "read_body q (repr_char q c @ s) = map_option (apfst (\<lambda>t. c # t)) (read_body q s)"
proof -
  have q: "q \<noteq> CHR 0x5C" "q \<noteq> CHR 0x0A" using assms by (auto simp: squote_def dquote_def)
  have e: "escape_value (CHR 0x5C) = Some (CHR 0x5C)" "escape_value q = Some q"
    "escape_value (CHR ''n'') = Some (CHR 0x0A)" "escape_value (CHR ''r'') = Some (CHR 0x0D)" "escape_value (CHR ''t'') = Some (CHR 0x09)"
    using assms by (auto simp: escape_value_def squote_def dquote_def)
  have x: "q \<noteq> CHR ''x''" using assms by (auto simp: squote_def dquote_def)
  show ?thesis using q x by (auto simp: repr_char_def e hex_char_digits)
qed

lemma read_repr_body:
  assumes "q = squote \<or> q = dquote"
  shows "read_body q (concat (map (repr_char q) s) @ q # rest) = Some (s, rest)"
  by (induction s) (simp_all add: read_repr_char [OF assms])

lemma read_plain: "list_all (\<lambda>c. c \<noteq> q \<and> c \<noteq> CHR 0x5C \<and> c \<noteq> CHR 0x0A) s \<Longrightarrow> read_body q (s @ q # rest) = Some (s, rest)"
  by (induction s) auto

definition url_char :: "char \<Rightarrow> bool" where
  "url_char c \<longleftrightarrow> url_safe c \<or> c \<in> set ''%+&=:/?''"

lemma hex_upper_alnum: "n < 16 \<Longrightarrow> is_alnum (hex_upper n)"
  by (auto simp: hex_upper_def is_alnum_def is_digit_def is_upper_def code_def)

lemma quote_plus_url: "list_all url_char (quote_plus s)"
proof -
  have "b div 16 < 16 \<and> b mod 16 < 16" if b: "b \<in> set (utf8_bytes c)" for b c
  proof -
    have d: "code c div 64 < 4" using code_less [of c] by (simp add: less_mult_imp_div_less)
    have m: "code c mod 64 < 64" by simp
    have "b = code c \<and> code c < 128 \<or> b = 192 + code c div 64 \<or> b = 128 + code c mod 64"
      using b unfolding utf8_bytes_def by (auto split: if_splits)
    with d m have "b < 256" by (elim disjE conjE) linarith+
    then show ?thesis by (simp add: less_mult_imp_div_less)
  qed
  then have "list_all url_char (quote_plus_char c)" for c
    by (auto simp: quote_plus_char_def list_all_iff url_char_def url_safe_def hex_upper_alnum)
  then show ?thesis by (auto simp: quote_plus_def list_all_iff)
qed

lemma url_char_plain: "url_char c \<Longrightarrow> c \<noteq> dquote \<and> c \<noteq> CHR 0x5C \<and> c \<noteq> CHR 0x0A"
  by (auto simp: url_char_def url_safe_def dquote_def is_alnum_def is_lower_def is_upper_def is_digit_def code_def)

text \<open>A line of a script is a fixed text before and after what is inserted in it.\<close>

lemma join_with_hole: "\<exists>pre post. \<forall>x. join_with c (as @ (p @ x @ q) # bs) = pre @ x @ post"
proof (induction as)
  case Nil
  have "\<forall>x. join_with c ((p @ x @ q) # bs) = p @ x @ (q @ (if bs = [] then [] else c # join_with c bs))"
    by (cases bs) auto
  then show ?case by (metis append_Nil)
next
  case (Cons a as)
  then obtain pre post where "join_with c (as @ (p @ x @ q) # bs) = pre @ x @ post" for x by blast
  then have "join_with c ((a # as) @ (p @ x @ q) # bs) = (a @ c # pre) @ x @ post" for x by (cases as) auto
  then show ?case by blast
qed

lemma script_text_hole:
  assumes "\<And>x. ls x = as @ (p @ h x @ q) # bs"
  shows "\<exists>pre post. \<forall>x. script_text (ls x) = pre @ h x @ post"
proof -
  obtain pre post where "join_with newline (([] # as) @ (p @ x @ q) # bs @ [[]]) = pre @ x @ post" for x
    using join_with_hole [of newline "[] # as" p q "bs @ [[]]"] by blast
  then have "script_text (ls x) = pre @ h x @ post" for x by (simp add: script_text_def assms)
  then show ?thesis by blast
qed

lemma delete_script_shape: "\<exists>pre post. \<forall>url. delete_script url = pre @ ([dquote] @ url @ [dquote]) @ post"
  unfolding delete_script_def
  by (rule script_text_hole [where as = "[''import urllib.request, json, sys'', ''try:'']"
        and p = "''    req = urllib.request.Request(''" and q = \<open>'', method="DELETE")''\<close>])
    (unfold append_Cons append_Nil append_assoc dquote_def, rule refl)

lemma submit_script_shape: "\<exists>pre post. \<forall>body. submit_script body = pre @ repr_str body @ post"
  unfolding submit_script_def
  by (rule script_text_hole [where as = "[''import urllib.request, json, sys'']" and p = "''data = ''" and q = "''.encode()''"])
    (unfold append_Cons append_Nil, rule refl)

lemma kill_url_literal:
  "read_literal ([dquote] @ execd_url ''/command'' [(''id'', task_id)] @ [dquote] @ rest) =
     Some (execd_url ''/command'' [(''id'', task_id)], rest)"
proof -
  have "list_all url_char (execd_url ''/command'' [(''id'', task_id)])"
    using quote_plus_url [of task_id] quote_plus_url [of "''id''"]
    by (simp add: execd_url_def urlencode_def url_char_def url_safe_def is_alnum_def is_lower_def is_upper_def is_digit_def code_def)
  then have "list_all (\<lambda>c. c \<noteq> dquote \<and> c \<noteq> CHR 0x5C \<and> c \<noteq> CHR 0x0A) (execd_url ''/command'' [(''id'', task_id)])"
    using url_char_plain by (auto simp: list_all_iff)
  then show ?thesis using read_plain by simp
qed

lemma repr_literal: "read_literal (repr_str body @ rest) = Some (body, rest)"
proof -
  have "repr_quote s = squote \<or> repr_quote s = dquote" for s by (simp add: repr_quote_def)
  then show ?thesis using read_repr_body by (auto simp: repr_str_def)
qed

text \<open>
  C36. Whatever text a caller gives, the scripts that kill and submit a task contain it as data only: a
  script is a fixed text, one string literal and again a fixed text, and Python reads the literal of the
  kill script as the URL with the task id encoded in it and that of the submit script as the JSON text of the
  request.
\<close>

theorem task_scripts_quote_their_data:
  "(\<exists>pre post. \<forall>task_id. \<exists>lit. execd_script DELETE (execd_url ''/command'' [(''id'', task_id)]) = pre @ lit \<and>
      read_literal lit = Some (execd_url ''/command'' [(''id'', task_id)], post)) \<and>
   (\<exists>pre post. \<forall>command cwd timeout_ms envs. \<exists>lit.
      submit_script (json_dumps (task_body command cwd timeout_ms envs)) = pre @ lit \<and>
      read_literal lit = Some (json_dumps (task_body command cwd timeout_ms envs), post))"
proof
  obtain pre post where "delete_script url = pre @ ([dquote] @ url @ [dquote]) @ post" for url
    using delete_script_shape by blast
  then have "execd_script DELETE url = pre @ ([dquote] @ url @ [dquote] @ post)" for url by (simp add: execd_script_def)
  then show "\<exists>pre post. \<forall>task_id. \<exists>lit. execd_script DELETE (execd_url ''/command'' [(''id'', task_id)]) = pre @ lit \<and>
      read_literal lit = Some (execd_url ''/command'' [(''id'', task_id)], post)"
    using kill_url_literal by blast
  obtain pre post where "submit_script body = pre @ repr_str body @ post" for body using submit_script_shape by blast
  then show "\<exists>pre post. \<forall>command cwd timeout_ms envs. \<exists>lit.
      submit_script (json_dumps (task_body command cwd timeout_ms envs)) = pre @ lit \<and>
      read_literal lit = Some (json_dumps (task_body command cwd timeout_ms envs), post)"
    using repr_literal by blast
qed

text \<open>
  The status and log scripts have no such protection: a task id with a quote ends the literal, and the rest
  of the id is read as code.
\<close>

lemma status_script_breaks_out:
  "read_literal ([dquote] @ execd_url (''/command/status/'' @ dquote # ''); x = ('') [] @ [dquote] @ rest) =
     Some (''http://localhost:44772/command/status/'', ''); x = ('' @ [dquote] @ rest)"
  by (simp add: execd_url_def dquote_def)

end
