(* ===== verification/Lifecycle.thy ===== *)
theory Lifecycle
  imports Http_Auth Docker_Provision K8s_Tasks
begin

text \<open>
  The HTTP handlers (\<open>server/src/api/lifecycle.py\<close>) on top of the abstract service
  (\<open>server/src/services/sandbox_service.py\<close>), the choice of the service (\<open>server/src/services/factory.py\<close>), and the
  way of a request through the key check to its handler. The routing of the web framework, the HTTP client
  of the proxy and the parsing of query strings are parameters. The byte streams of a terminal session and of
  followed logs are not modelled.
\<close>

section \<open>The service\<close>

record 's sandbox_ops =
  so_create :: "create_request \<Rightarrow> ('s, create_response option) io"
  so_create_async :: "create_request \<Rightarrow> ('s, create_response) io"
  so_list :: "list_request \<Rightarrow> ('s, list_response) io"
  so_get :: "string \<Rightarrow> ('s, sandbox) io"
  so_delete :: "string \<Rightarrow> ('s, unit) io"
  so_pause :: "string \<Rightarrow> ('s, unit) io"
  so_resume :: "string \<Rightarrow> ('s, unit) io"
  so_renew :: "string \<Rightarrow> datetime \<Rightarrow> ('s, timestamp) io"
  so_endpoint :: "string \<Rightarrow> int \<Rightarrow> bool \<Rightarrow> ('s, sandbox_endpoint) io"
  so_update_limits :: "string \<Rightarrow> resource_update \<Rightarrow> ('s, limits_response) io"
  so_update_env :: "string \<Rightarrow> (string, string option) dict \<Rightarrow> ('s, (string, string) dict) io"
  so_logs :: "string \<Rightarrow> int \<Rightarrow> bool \<Rightarrow> ('s, string) io"
  so_submit_task :: "string \<Rightarrow> json \<Rightarrow> json \<Rightarrow> json \<Rightarrow> json \<Rightarrow> ('s, jobj) io"
  so_task_status :: "string \<Rightarrow> string \<Rightarrow> ('s, json) io"
  so_task_logs :: "string \<Rightarrow> string \<Rightarrow> int option \<Rightarrow> ('s, json \<times> json) io"
  so_kill_task :: "string \<Rightarrow> string \<Rightarrow> ('s, unit) io"
  so_terminal :: "string \<Rightarrow> string \<Rightarrow> ('s, string) io"
  so_touch :: "string \<Rightarrow> ('s, unit) io"

text \<open>\<open>fuel\<close> bounds the search for ports in the one service and the polling in the other.\<close>

definition docker_ops :: "nat \<Rightarrow> app_config \<Rightarrow> 'w docker_api \<Rightarrow> 'w service sandbox_ops" where
  "docker_ops fuel c dk =
     \<lparr>so_create = (\<lambda>r. bindS (create_sandbox fuel c dk r) (\<lambda>resp. retS (Some resp))),
      so_create_async = (\<lambda>r. bindS (create_sandbox_async c dk r) (\<lambda>(resp, cache). retS resp)),
      so_list = list_sandboxes dk, so_get = get_sandbox dk, so_delete = delete_sandbox dk,
      so_pause = pause_sandbox dk, so_resume = resume_sandbox dk, so_renew = renew_expiration dk,
      so_endpoint = get_endpoint c dk,
      so_update_limits = (\<lambda>sid u. raiseS (HTTPException 501 API_NOT_SUPPORTED)),
      so_update_env = (\<lambda>sid e. raiseS (HTTPException 501 API_NOT_SUPPORTED)),
      so_logs = (\<lambda>sid n f. raiseS NotImplementedError),
      so_submit_task = (\<lambda>sid cmd cwd tmo envs. raiseS NotImplementedError),
      so_task_status = (\<lambda>sid t. raiseS NotImplementedError), so_task_logs = (\<lambda>sid t n. raiseS NotImplementedError),
      so_kill_task = (\<lambda>sid t. raiseS NotImplementedError), so_terminal = (\<lambda>sid cmd. raiseS NotImplementedError),
      so_touch = touch_last_activity dk\<rparr>"

definition k8s_ops ::
    "nat \<Rightarrow> app_config \<Rightarrow> kubernetes_config \<Rightarrow> 'w kube_api \<Rightarrow> 'w provider
       \<Rightarrow> (string \<Rightarrow> string list \<Rightarrow> ('w kstate, string) io) \<Rightarrow> (string \<Rightarrow> string list \<Rightarrow> ('w kstate, string) io)
       \<Rightarrow> (string \<Rightarrow> json option) \<Rightarrow> 'w kstate sandbox_ops" where
  "k8s_ops fuel c k api pv pod_exec exec_interactive lit =
     \<lparr>so_create = create_sandbox_k8s fuel c k api pv, so_create_async = create_sandbox_async_k8s c k api pv,
      so_list = list_sandboxes_k8s api pv, so_get = get_sandbox_k8s api pv, so_delete = delete_sandbox_k8s api pv,
      so_pause = pause_sandbox_k8s pv, so_resume = resume_sandbox_k8s pv, so_renew = renew_expiration_k8s api pv,
      so_endpoint = (\<lambda>sid port internal. get_endpoint_k8s pv sid port),
      so_update_limits = update_resource_limits_k8s api pv, so_update_env = update_env_k8s pv,
      so_logs = get_sandbox_logs k api pv,
      so_submit_task = submit_task k api pv pod_exec lit, so_task_status = get_task_status k api pv pod_exec lit,
      so_task_logs = get_task_logs k api pv pod_exec lit, so_kill_task = kill_task k api pv pod_exec lit,
      so_terminal = exec_sandbox_terminal k api pv exec_interactive, so_touch = touch_last_activity_k8s api pv\<rparr>"

datatype service_class = Docker_Sandbox_Service | Kubernetes_Sandbox_Service

definition SERVICE_IMPLEMENTATIONS :: "(string, service_class) dict" where
  "SERVICE_IMPLEMENTATIONS = [(''docker'', Docker_Sandbox_Service), (''kubernetes'', Kubernetes_Sandbox_Service)]"

definition create_sandbox_service :: "string option \<Rightarrow> app_config \<Rightarrow> service_class res" where
  "create_sandbox_service service_type c =
     (case map_of SERVICE_IMPLEMENTATIONS (lower (str_or service_type (cfg_runtime_type c))) of
        None \<Rightarrow> Inl ValueError | Some cls \<Rightarrow> Inr cls)"

section \<open>Proxied requests\<close>

definition HOP_BY_HOP_HEADERS :: "string list" where
  "HOP_BY_HOP_HEADERS =
     [''connection'', ''keep-alive'', ''proxy-authenticate'', ''proxy-authorization'', ''te'', ''trailer'',
      ''transfer-encoding'', ''upgrade'']"

definition SENSITIVE_HEADERS :: "string list" where
  "SENSITIVE_HEADERS = [''authorization'', ''cookie'']"

definition hop_by_hop_of :: "(string \<times> string) list \<Rightarrow> string list" where
  "hop_by_hop_of headers =
     HOP_BY_HOP_HEADERS @
     (case header_get ''connection'' headers of
        None \<Rightarrow> []
      | Some v \<Rightarrow> map (\<lambda>h. lower (strip h)) (filter (\<lambda>h. strip h \<noteq> []) (split_on (CHR '','') v)))"

definition forward_headers :: "(string \<times> string) list \<Rightarrow> (string, string) dict" where
  "forward_headers headers =
     dict_update [] (filter (\<lambda>(k, v). lower k \<noteq> ''host'' \<and> lower k \<notin> set (hop_by_hop_of headers)
                                   \<and> lower k \<notin> set SENSITIVE_HEADERS) headers)"

definition response_headers_of :: "(string \<times> string) list \<Rightarrow> (string, string) dict" where
  "response_headers_of headers =
     dict_update [] (filter (\<lambda>(k, v). lower k \<notin> set (hop_by_hop_of headers)) headers)"

record proxied_request =
  px_method :: string
  px_url :: string
  px_params :: "string option"
  px_headers :: "(string, string) dict"
  px_has_body :: bool

definition build_proxied_request :: "http_request \<Rightarrow> string \<Rightarrow> string \<Rightarrow> proxied_request" where
  "build_proxied_request r target_host full_path =
     \<lparr>px_method = hr_method r, px_url = ''http://'' @ target_host @ ''/'' @ full_path,
      px_params = (if hr_query r = [] then None else Some (hr_query r)), px_headers = forward_headers (hr_headers r),
      px_has_body = (hr_method r \<in> {''POST'', ''PUT'', ''PATCH'', ''DELETE''})\<rparr>"

text \<open>\<open>_touch_sandbox_activity\<close>\<close>

definition touch_sandbox_activity :: "'s sandbox_ops \<Rightarrow> string \<Rightarrow> ('s, unit) io" where
  "touch_sandbox_activity ops sandbox_id = catchS (so_touch ops sandbox_id) (\<lambda>_. retS ())"

text \<open>
  \<open>send\<close> is the HTTP client: the status and the headers of the answer, whose body is passed through. Its
  \<open>ConnectError\<close> is an exception of that name.
\<close>

definition proxy_sandbox_request ::
    "(proxied_request \<Rightarrow> ('s, int \<times> (string \<times> string) list) io) \<Rightarrow> 's sandbox_ops \<Rightarrow> http_request \<Rightarrow> string \<Rightarrow> int
       \<Rightarrow> string \<Rightarrow> ('s, int \<times> (string, string) dict) io" where
  "proxy_sandbox_request send ops r sandbox_id port full_path =
     bindS (touch_sandbox_activity ops sandbox_id) (\<lambda>_.
     bindS (so_endpoint ops sandbox_id port True) (\<lambda>ep.
     catchS
       (if lower (str_or (header_get ''Upgrade'' (hr_headers r)) []) = ''websocket''
        then raiseS (HTTPException 400 DEFAULT_ERROR_CODE)
        else bindS (send (build_proxied_request r (ep_endpoint ep) full_path)) (\<lambda>(st, hs).
             retS (st, response_headers_of hs)))
       (\<lambda>e. if e = OtherException ''ConnectError'' then raiseS (HTTPException 502 DEFAULT_ERROR_CODE)
            else if is_http_exn e then raiseS e
            else raiseS (HTTPException 500 DEFAULT_ERROR_CODE))))"

section \<open>Terminal sessions\<close>

text \<open>Both services raise for a missing sandbox, so the test for \<open>None\<close> after the look-up never succeeds.\<close>

definition get_terminal_token ::
    "app_config \<Rightarrow> jwt_api \<Rightarrow> int \<Rightarrow> 's sandbox_ops \<Rightarrow> bool \<Rightarrow> string \<Rightarrow> string \<Rightarrow> ('s, string \<times> string \<times> int) io" where
  "get_terminal_token c jwt now ops https netloc sandbox_id =
     bindS (touch_sandbox_activity ops sandbox_id) (\<lambda>_.
     bindS (so_get ops sandbox_id) (\<lambda>sb.
     if \<not> given (srv_terminal_secret (cfg_server c)) then raiseS (HTTPException 500 ''INTERNAL_ERROR'')
     else (case create_terminal_token jwt now (the (srv_terminal_secret (cfg_server c))) sandbox_id
                  (srv_terminal_ttl (cfg_server c)) of
             (token, expires) \<Rightarrow>
               retS ((if https then ''wss'' else ''ws'') @ ''://'' @ netloc @ ''/sandboxes/'' @ sandbox_id
                     @ ''/terminal?token='' @ token, token, expires))))"

datatype handshake = Ws_Close int | Ws_Accept

definition terminal_handshake :: "app_config \<Rightarrow> jwt_api \<Rightarrow> int \<Rightarrow> string \<Rightarrow> string option \<Rightarrow> handshake" where
  "terminal_handshake c jwt now sandbox_id token =
     (if given (srv_terminal_secret (cfg_server c))
      then (if \<not> given token then Ws_Close 1008
            else if validate_terminal_token jwt now (the (srv_terminal_secret (cfg_server c))) (the token) sandbox_id \<noteq> None
            then Ws_Close 1008
            else Ws_Accept)
      else Ws_Accept)"

text \<open>
  The start of a session: what is sent before the streams are connected. A session that does not start is
  closed with 1008 for an HTTP error of the service and with 1011 for any other exception.
\<close>

datatype session = Closed int | Session string

definition sandbox_terminal ::
    "app_config \<Rightarrow> jwt_api \<Rightarrow> int \<Rightarrow> 's sandbox_ops \<Rightarrow> string \<Rightarrow> string option \<Rightarrow> ('s, session) io" where
  "sandbox_terminal c jwt now ops sandbox_id token =
     (case terminal_handshake c jwt now sandbox_id token of
        Ws_Close close_code \<Rightarrow> retS (Closed close_code)
      | Ws_Accept \<Rightarrow>
          bindS (touch_sandbox_activity ops sandbox_id) (\<lambda>_.
          catchS (bindS (so_terminal ops sandbox_id ''/bin/bash'') (\<lambda>client. retS (Session client)))
            (\<lambda>e. retS (Closed (if is_http_exn e then 1008 else 1011)))))"

section \<open>Handlers\<close>

fun remove_text :: "string \<Rightarrow> nat \<Rightarrow> string \<Rightarrow> string" where
  "remove_text p n [] = []"
| "remove_text p (Suc n) (c # s) = remove_text p n s"
| "remove_text p 0 (c # s) = (if p \<noteq> [] \<and> starts_with (c # s) p then remove_text p (length p - 1) s else c # remove_text p 0 s)"

text \<open>The URL handed out for a request through the server's own proxy.\<close>

definition proxy_endpoint_url :: "string \<Rightarrow> string \<Rightarrow> int \<Rightarrow> string" where
  "proxy_endpoint_url base_url sandbox_id port =
     remove_text ''http://'' 0 (remove_text ''https://'' 0 (rstrip_by (\<lambda>c. c = slash) base_url))
     @ ''/sandboxes/'' @ sandbox_id @ ''/proxy/'' @ str_int port"

definition get_sandbox_endpoint ::
    "'s sandbox_ops \<Rightarrow> string \<Rightarrow> int \<Rightarrow> bool \<Rightarrow> string \<Rightarrow> ('s, sandbox_endpoint) io" where
  "get_sandbox_endpoint ops sandbox_id port use_server_proxy base_url =
     bindS (so_endpoint ops sandbox_id port False) (\<lambda>ep.
     retS (if use_server_proxy then ep\<lparr>ep_endpoint := proxy_endpoint_url base_url sandbox_id port\<rparr> else ep))"

text \<open>\<open>parse_qsl\<close> is the library's strict parser of query strings.\<close>

definition list_request_of ::
    "(string \<Rightarrow> (string \<times> string) list res) \<Rightarrow> string list option \<Rightarrow> string option \<Rightarrow> int \<Rightarrow> int \<Rightarrow> list_request res" where
  "list_request_of parse_qsl states metadata pg size_of_page =
     bindR (if \<not> given metadata then Inr []
            else (case parse_qsl (the metadata) of
                    Inl e \<Rightarrow> Inl (HTTPException 400 ''INVALID_METADATA_FORMAT'')
                  | Inr pairs \<Rightarrow> Inr (dict_update [] pairs))) (\<lambda>metadata_dict.
     Inr \<lparr>list_filter = \<lparr>filter_state = states, filter_metadata = (if metadata_dict = [] then None else Some metadata_dict)\<rparr>,
          list_pagination = Some \<lparr>page = pg, page_size = size_of_page\<rparr>\<rparr>)"

text \<open>One constructor per route, with the arguments the framework extracts.\<close>

datatype api_call =
    Create_Sandbox bool create_request
  | List_Sandboxes "string list option" "string option" int int
  | Get_Sandbox string
  | Delete_Sandbox string
  | Update_Limits string resource_update
  | Update_Env string "(string, string option) dict"
  | Pause_Sandbox string
  | Resume_Sandbox string
  | Renew_Expiration string datetime
  | Get_Endpoint string int bool string
  | Proxy_Request string int string
  | Get_Logs string int bool
  | Terminal_Token string bool string
  | Submit_Task string json
  | Task_Status string string
  | Task_Logs string string "int option"
  | Kill_Task string string

datatype api_result =
    R_Created "create_response option"
  | R_List list_response
  | R_Sandbox sandbox
  | R_Done
  | R_Limits limits_response
  | R_Env "(string, string) dict"
  | R_Time timestamp
  | R_Endpoint sandbox_endpoint
  | R_Proxied "(string, string) dict"
  | R_Text string
  | R_Token string string int
  | R_Json json
  | R_Task_Logs string "string option"

text \<open>
  What the handlers use besides the request: the configuration and the clock, the token library, the HTTP
  client of the proxy, the parser of query strings, the text Python gives for a value (\<open>str\<close>), and the service.
\<close>

record 's http_env =
  he_config :: app_config
  he_now :: int
  he_jwt :: jwt_api
  he_send :: "proxied_request \<Rightarrow> ('s, int \<times> (string \<times> string) list) io"
  he_parse_qsl :: "string \<Rightarrow> (string \<times> string) list res"
  he_str :: "json \<Rightarrow> string"
  he_ops :: "'s sandbox_ops"

definition returning :: "int \<Rightarrow> ('a \<Rightarrow> api_result) \<Rightarrow> ('s, 'a) io \<Rightarrow> ('s, int \<times> api_result) io" where
  "returning st f m = bindS m (\<lambda>x. retS (st, f x))"

text \<open>The handlers answer with the status of their decorator and a result.\<close>

definition create_sandbox_route :: "'s sandbox_ops \<Rightarrow> bool \<Rightarrow> create_request \<Rightarrow> ('s, int \<times> api_result) io" where
  "create_sandbox_route ops wait request =
     (if wait then returning 202 R_Created (so_create ops request)
      else returning 202 (\<lambda>x. R_Created (Some x)) (so_create_async ops request))"

definition list_sandboxes_route ::
    "(string \<Rightarrow> (string \<times> string) list res) \<Rightarrow> 's sandbox_ops \<Rightarrow> string list option \<Rightarrow> string option \<Rightarrow> int \<Rightarrow> int
       \<Rightarrow> ('s, int \<times> api_result) io" where
  "list_sandboxes_route qsl ops states metadata pg sz =
     bindS (liftR (list_request_of qsl states metadata pg sz)) (\<lambda>req. returning 200 R_List (so_list ops req))"

definition get_sandbox_route :: "'s sandbox_ops \<Rightarrow> string \<Rightarrow> ('s, int \<times> api_result) io" where
  "get_sandbox_route ops sandbox_id = returning 200 R_Sandbox (so_get ops sandbox_id)"

definition delete_sandbox_route :: "'s sandbox_ops \<Rightarrow> string \<Rightarrow> ('s, int \<times> api_result) io" where
  "delete_sandbox_route ops sandbox_id = returning 204 (\<lambda>_. R_Done) (so_delete ops sandbox_id)"

definition update_sandbox_resource_limits :: "'s sandbox_ops \<Rightarrow> string \<Rightarrow> resource_update \<Rightarrow> ('s, int \<times> api_result) io" where
  "update_sandbox_resource_limits ops sandbox_id request = returning 200 R_Limits (so_update_limits ops sandbox_id request)"

definition update_sandbox_env ::
    "'s sandbox_ops \<Rightarrow> string \<Rightarrow> (string, string option) dict \<Rightarrow> ('s, int \<times> api_result) io" where
  "update_sandbox_env ops sandbox_id env = returning 200 R_Env (so_update_env ops sandbox_id env)"

definition pause_sandbox_route :: "'s sandbox_ops \<Rightarrow> string \<Rightarrow> ('s, int \<times> api_result) io" where
  "pause_sandbox_route ops sandbox_id = returning 202 (\<lambda>_. R_Done) (so_pause ops sandbox_id)"

definition resume_sandbox_route :: "'s sandbox_ops \<Rightarrow> string \<Rightarrow> ('s, int \<times> api_result) io" where
  "resume_sandbox_route ops sandbox_id = returning 202 (\<lambda>_. R_Done) (so_resume ops sandbox_id)"

definition renew_sandbox_expiration :: "'s sandbox_ops \<Rightarrow> string \<Rightarrow> datetime \<Rightarrow> ('s, int \<times> api_result) io" where
  "renew_sandbox_expiration ops sandbox_id t = returning 200 R_Time (so_renew ops sandbox_id t)"

definition get_sandbox_logs_route :: "'s sandbox_ops \<Rightarrow> string \<Rightarrow> int \<Rightarrow> bool \<Rightarrow> ('s, int \<times> api_result) io" where
  "get_sandbox_logs_route ops sandbox_id tail follow = returning 200 R_Text (so_logs ops sandbox_id tail follow)"

definition submit_task_route :: "'s sandbox_ops \<Rightarrow> string \<Rightarrow> json \<Rightarrow> ('s, int \<times> api_result) io" where
  "submit_task_route ops sandbox_id body =
     bindS (touch_sandbox_activity ops sandbox_id) (\<lambda>_.
     (case body of
        JObj d \<Rightarrow>
          if \<not> truthy (jget d ''command'') then raiseS (HTTPException 400 ''TASK::INVALID_REQUEST'')
          else returning 201 (\<lambda>r. R_Json (JObj r))
                 (so_submit_task ops sandbox_id (jget d ''command'') (get_default d ''cwd'' (JStr ''/workspace''))
                    (jget d ''timeout'') (jget d ''envs''))
      | _ \<Rightarrow> raiseS AttributeError))"

definition get_task_status_route :: "'s sandbox_ops \<Rightarrow> string \<Rightarrow> string \<Rightarrow> ('s, int \<times> api_result) io" where
  "get_task_status_route ops sandbox_id task_id =
     bindS (touch_sandbox_activity ops sandbox_id) (\<lambda>_. returning 200 R_Json (so_task_status ops sandbox_id task_id))"

text \<open>The body as text and the header with the cursor.\<close>

definition task_logs_answer :: "(json \<Rightarrow> string) \<Rightarrow> json \<times> json \<Rightarrow> api_result" where
  "task_logs_answer str result =
     (case result of (body, cursor) \<Rightarrow>
        R_Task_Logs (case body of JStr t \<Rightarrow> t | _ \<Rightarrow> str body) (if truthy cursor then Some (str cursor) else None))"

definition get_task_logs_route ::
    "(json \<Rightarrow> string) \<Rightarrow> 's sandbox_ops \<Rightarrow> string \<Rightarrow> string \<Rightarrow> int option \<Rightarrow> ('s, int \<times> api_result) io" where
  "get_task_logs_route str ops sandbox_id task_id cursor =
     bindS (touch_sandbox_activity ops sandbox_id) (\<lambda>_.
     returning 200 (task_logs_answer str) (so_task_logs ops sandbox_id task_id cursor))"

definition kill_task_route :: "'s sandbox_ops \<Rightarrow> string \<Rightarrow> string \<Rightarrow> ('s, int \<times> api_result) io" where
  "kill_task_route ops sandbox_id task_id =
     bindS (touch_sandbox_activity ops sandbox_id) (\<lambda>_. returning 204 (\<lambda>_. R_Done) (so_kill_task ops sandbox_id task_id))"

fun handle :: "'s http_env \<Rightarrow> http_request \<Rightarrow> api_call \<Rightarrow> ('s, int \<times> api_result) io" where
  "handle env r (Create_Sandbox wait q) = create_sandbox_route (he_ops env) wait q"
| "handle env r (List_Sandboxes states metadata pg sz) =
     list_sandboxes_route (he_parse_qsl env) (he_ops env) states metadata pg sz"
| "handle env r (Get_Sandbox sid) = get_sandbox_route (he_ops env) sid"
| "handle env r (Delete_Sandbox sid) = delete_sandbox_route (he_ops env) sid"
| "handle env r (Update_Limits sid u) = update_sandbox_resource_limits (he_ops env) sid u"
| "handle env r (Update_Env sid e) = update_sandbox_env (he_ops env) sid e"
| "handle env r (Pause_Sandbox sid) = pause_sandbox_route (he_ops env) sid"
| "handle env r (Resume_Sandbox sid) = resume_sandbox_route (he_ops env) sid"
| "handle env r (Renew_Expiration sid t) = renew_sandbox_expiration (he_ops env) sid t"
| "handle env r (Get_Endpoint sid port use_proxy base_url) =
     returning 200 R_Endpoint (get_sandbox_endpoint (he_ops env) sid port use_proxy base_url)"
| "handle env r (Proxy_Request sid port full_path) =
     bindS (proxy_sandbox_request (he_send env) (he_ops env) r sid port full_path) (\<lambda>(st, hs). retS (st, R_Proxied hs))"
| "handle env r (Get_Logs sid n follow) = get_sandbox_logs_route (he_ops env) sid n follow"
| "handle env r (Terminal_Token sid https netloc) =
     returning 200 (\<lambda>(url, token, expires). R_Token url token expires)
       (get_terminal_token (he_config env) (he_jwt env) (he_now env) (he_ops env) https netloc sid)"
| "handle env r (Submit_Task sid body) = submit_task_route (he_ops env) sid body"
| "handle env r (Task_Status sid tid) = get_task_status_route (he_ops env) sid tid"
| "handle env r (Task_Logs sid tid cursor) = get_task_logs_route (he_str env) (he_ops env) sid tid cursor"
| "handle env r (Kill_Task sid tid) = kill_task_route (he_ops env) sid tid"

section \<open>A request through the server\<close>

datatype http_answer = Refused int string | No_Route | Answer "exn + int \<times> api_result"

definition serve ::
    "string list \<Rightarrow> (http_request \<Rightarrow> api_call option) \<Rightarrow> 's http_env \<Rightarrow> http_request \<Rightarrow> 's \<Rightarrow> http_answer \<times> 's" where
  "serve keys route env r s =
     (case auth_call keys r of
        Reject st err \<Rightarrow> (Refused st err, s)
      | Forward \<Rightarrow>
          (case route r of
             None \<Rightarrow> (No_Route, s)
           | Some call \<Rightarrow> (case handle env r call s of (res, s') \<Rightarrow> (Answer res, s'))))"

text \<open>
  The segments of the path of a call, as the decorators of the handlers give them. The routes of end points
  and of proxied requests go on after these segments, with a port and a path.
\<close>

fun route_path :: "api_call \<Rightarrow> string list" where
  "route_path (Create_Sandbox wait q) = [''sandboxes'']"
| "route_path (List_Sandboxes states metadata pg sz) = [''sandboxes'']"
| "route_path (Get_Sandbox sid) = [''sandboxes'', sid]"
| "route_path (Delete_Sandbox sid) = [''sandboxes'', sid]"
| "route_path (Update_Limits sid u) = [''sandboxes'', sid]"
| "route_path (Update_Env sid env) = [''sandboxes'', sid, ''env'']"
| "route_path (Pause_Sandbox sid) = [''sandboxes'', sid, ''pause'']"
| "route_path (Resume_Sandbox sid) = [''sandboxes'', sid, ''resume'']"
| "route_path (Renew_Expiration sid t) = [''sandboxes'', sid, ''renew-expiration'']"
| "route_path (Get_Endpoint sid port use_proxy base_url) = [''sandboxes'', sid, ''endpoints'']"
| "route_path (Proxy_Request sid port full_path) = [''sandboxes'', sid, ''proxy'']"
| "route_path (Get_Logs sid n follow) = [''sandboxes'', sid, ''logs'']"
| "route_path (Terminal_Token sid https netloc) = [''sandboxes'', sid, ''terminal'', ''token'']"
| "route_path (Submit_Task sid body) = [''sandboxes'', sid, ''tasks'']"
| "route_path (Task_Status sid tid) = [''sandboxes'', sid, ''tasks'', tid]"
| "route_path (Task_Logs sid tid cursor) = [''sandboxes'', sid, ''tasks'', tid, ''logs'']"
| "route_path (Kill_Task sid tid) = [''sandboxes'', sid, ''tasks'', tid]"

definition open_route :: "api_call \<Rightarrow> bool" where
  "open_route call = (case call of Get_Endpoint _ _ _ _ \<Rightarrow> True | Proxy_Request _ _ _ \<Rightarrow> True | _ \<Rightarrow> False)"

definition is_proxy_call :: "api_call \<Rightarrow> bool" where
  "is_proxy_call call = (case call of Proxy_Request _ _ _ \<Rightarrow> True | _ \<Rightarrow> False)"

text \<open>What is relied on of the framework: a request reaches a handler only on a path of its route.\<close>

definition routed :: "(http_request \<Rightarrow> api_call option) \<Rightarrow> bool" where
  "routed route \<longleftrightarrow> (\<forall>r call. route r = Some call \<longrightarrow>
     (\<exists>rest. split_on slash (hr_path r) = [] # route_path call @ rest \<and> (\<not> open_route call \<longrightarrow> rest = [])))"

end
