(* ===== verification/Http_Safety.thy ===== *)
theory Http_Safety
  imports Lifecycle K8s_Safety
begin

text \<open>
  What stands between a caller and the sandboxes: the key check in front of the handlers, the tokens of
  terminal sessions, the headers a proxied request takes along, and the secrets in the configuration shown.
\<close>

section \<open>The key check\<close>

lemma proxy_re_shape:
  assumes "u \<in> lang PROXY_PATH_RE"
  shows "\<exists>a i d. u = a @ ''/sandboxes/'' @ i @ ''/proxy/'' @ d \<and> a \<in> {''/v1'', []} \<and> slash \<notin> set i"
  using assms unfolding PROXY_PATH_RE_def by (force simp: list_all_iff)

lemma proxy_match_prefix:
  assumes "match_prefix (RSeq re (RChar c)) p \<or> match_dollar re p"
  obtains u v where "p = u @ v" and "u \<in> lang re"
proof -
  have "\<exists>u v. p = u @ v \<and> u \<in> lang re"
  proof (cases "match_dollar re p")
    case True
    then show ?thesis unfolding match_dollar_iff matches_lang by auto
  next
    case False
    then obtain w v where "p = w @ v" "w \<in> lang (RSeq re (RChar c))" using assms unfolding match_prefix_lang by blast
    then obtain u where "p = (u @ [c]) @ v" "u \<in> lang re" by auto
    then show ?thesis by (metis append.assoc)
  qed
  with that show ?thesis by blast
qed

lemma proxy_path_shape:
  assumes "is_proxy_path p"
  shows "\<exists>a i w. p = a @ ''/sandboxes/'' @ i @ ''/proxy/'' @ w \<and> a \<in> {''/v1'', []} \<and> slash \<notin> set i"
proof -
  have "match_prefix (RSeq PROXY_PATH_RE (RChar slash)) p \<or> match_dollar PROXY_PATH_RE p"
    using assms unfolding is_proxy_path_def by (simp split: if_splits)
  then obtain u v where uv: "p = u @ v" "u \<in> lang PROXY_PATH_RE" by (rule proxy_match_prefix)
  obtain a i d where "u = a @ ''/sandboxes/'' @ i @ ''/proxy/'' @ d" "a \<in> {''/v1'', []}" "slash \<notin> set i"
    using proxy_re_shape [OF uv(2)] by blast
  with uv(1) show ?thesis by (intro exI [of _ a] exI [of _ i] exI [of _ "d @ v"]) simp
qed

lemma split_sandboxes:
  assumes "slash \<notin> set i"
  shows "split_on slash (''/sandboxes/'' @ i @ ''/proxy/'' @ w) = [[], ''sandboxes'', i, ''proxy''] @ split_on slash w"
proof -
  have "split_on slash (i @ slash # ''proxy'' @ slash # w) = i # ''proxy'' # split_on slash w"
    using assms split_on_append_sep [of slash i] split_on_append_sep [of slash "''proxy''" w]
    by (simp add: split_on_single)
  then show ?thesis using split_on_append_sep [of slash "''/sandboxes''" "i @ ''/proxy/'' @ w"] by simp
qed

lemma proxy_path_split:
  assumes "is_proxy_path p" and "split_on slash p = [] # ''sandboxes'' # segs"
  shows "\<exists>i rest. segs = i # ''proxy'' # rest"
proof -
  obtain a i w where p: "p = a @ ''/sandboxes/'' @ i @ ''/proxy/'' @ w" "a \<in> {''/v1'', []}" "slash \<notin> set i"
    using proxy_path_shape [OF assms(1)] by blast
  show ?thesis
  proof (cases "a = []")
    case True
    then have "segs = i # ''proxy'' # split_on slash w" using p(1) assms(2) split_sandboxes [OF p(3), of w] by simp
    then show ?thesis by blast
  next
    case False
    then have "p = ''/v1'' @ slash # ''sandboxes/'' @ i @ ''/proxy/'' @ w" using p by simp
    then have "split_on slash p = [[], ''v1''] @ split_on slash (''sandboxes/'' @ i @ ''/proxy/'' @ w)"
      using split_on_append_sep [of slash "''/v1''"] by simp
    then show ?thesis using assms(2) by simp
  qed
qed

lemma not_exempt:
  assumes "split_on slash p = [] # ''sandboxes'' # segs"
  shows "\<not> list_ex (starts_with p) EXEMPT_PATHS"
proof -
  have "p = join_with slash ([] # ''sandboxes'' # segs)" using join_split [of slash p] assms by simp
  then obtain t where "p = ''/sandboxes'' @ t" by (cases segs) auto
  then show ?thesis by (simp add: EXEMPT_PATHS_def starts_with_def)
qed

lemma protected_path:
  assumes "routed route" and "route r = Some call" and "\<not> is_proxy_call call"
  shows "\<not> list_ex (starts_with (hr_path r)) EXEMPT_PATHS" "\<not> is_proxy_path (hr_path r)"
proof -
  obtain rest where rest: "split_on slash (hr_path r) = [] # route_path call @ rest" "\<not> open_route call \<longrightarrow> rest = []"
    using assms(1,2) unfolding routed_def by blast
  then obtain segs where segs: "split_on slash (hr_path r) = [] # ''sandboxes'' # segs" by (cases call) auto
  show "\<not> list_ex (starts_with (hr_path r)) EXEMPT_PATHS" using not_exempt [OF segs] .
  show "\<not> is_proxy_path (hr_path r)"
  proof
    assume "is_proxy_path (hr_path r)"
    then obtain i more where "segs = i # ''proxy'' # more" using proxy_path_split segs by blast
    with rest segs assms(3) show False by (cases call) (auto simp: open_route_def is_proxy_call_def)
  qed
qed


definition sample_route :: "http_request \<Rightarrow> api_call option" where
  "sample_route r =
     (case split_on slash (hr_path r) of
        [a, b, sid] \<Rightarrow> if a = [] \<and> b = ''sandboxes'' \<and> hr_method r = ''DELETE'' then Some (Delete_Sandbox sid) else None
      | _ \<Rightarrow> None)"

lemma sample_routed: "routed sample_route"
  by (auto simp: routed_def sample_route_def open_route_def split: list.splits if_splits)

definition delete_a1 :: http_request where
  "delete_a1 = \<lparr>hr_websocket = False, hr_method = ''DELETE'', hr_path = ''/sandboxes/a1'', hr_query = [],
     hr_headers = [(''open-sandbox-api-key'', ''guess'')]\<rparr>"

definition sample_env :: "cluster kstate http_env" where
  "sample_env = \<lparr>he_config = sample_k8s_config, he_now = 5, he_jwt = \<lparr>jwt_encode = (\<lambda>_ _. []), jwt_decode = (\<lambda>_ _ _ _. Inl DecodeError)\<rparr>,
     he_send = (\<lambda>_. raiseS OSError), he_parse_qsl = (\<lambda>_. Inr []), he_str = (\<lambda>_. []),
     he_ops = k8s_ops 1 sample_k8s_config sample_kube_config sim_kube sample_agent (\<lambda>_ _. raiseS OSError) (\<lambda>_ _. raiseS OSError) (\<lambda>_. None)\<rparr>"


section \<open>Proxied requests\<close>

text \<open>Whether the proxy takes a header of a request along.\<close>

definition forwarded :: "(string \<times> string) list \<Rightarrow> string \<Rightarrow> bool" where
  "forwarded headers k \<longleftrightarrow> lower k \<noteq> ''host'' \<and> lower k \<notin> set HOP_BY_HOP_HEADERS \<and> lower k \<notin> set SENSITIVE_HEADERS \<and>
     (case header_get ''connection'' headers of
        None \<Rightarrow> True
      | Some v \<Rightarrow> \<forall>h \<in> set (split_on (CHR '','') v). strip h = [] \<or> lower k \<noteq> lower (strip h))"

lemma forwarded_iff:
  "forwarded headers k \<longleftrightarrow> lower k \<noteq> ''host'' \<and> lower k \<notin> set (hop_by_hop_of headers) \<and> lower k \<notin> set SENSITIVE_HEADERS"
  by (auto simp: forwarded_def hop_by_hop_of_def split: option.splits)



section \<open>Secrets in the configuration shown\<close>

text \<open>No sensitive key has a value but the stars, at any depth.\<close>

fun secrets_hidden :: "json \<Rightarrow> bool" where
  "secrets_hidden (JObj d) =
     list_all (\<lambda>(k, v). (k \<in> set SENSITIVE_KEYS \<longrightarrow> \<not> truthy v \<or> v = JStr ''******'') \<and> secrets_hidden v) d"
| "secrets_hidden (JList xs) = list_all secrets_hidden xs"
| "secrets_hidden v = True"

lemma redact_truthy: "truthy (redact v) = truthy v"
  by (cases v) auto

lemma redact_hidden: "secrets_hidden (redact v)"
  by (induction v rule: redact.induct) (auto simp: list_all_iff redact_truthy)

lemma redact_idem: "secrets_hidden v \<Longrightarrow> redact v = v"
proof (induction v rule: redact.induct)
  case (1 d)
  then show ?case by (fastforce simp: list_all_iff intro!: map_idI split: prod.splits)
next
  case (2 xs)
  then show ?case by (auto simp: list_all_iff intro!: map_idI)
qed auto

text \<open>
  The configuration a caller can read shows no API key, password or path of a cluster configuration at
  any depth, and redacting again changes nothing. The secret that signs terminal tokens is not among the
  hidden keys and is shown.
\<close>

theorem redact_hides_secrets:
  "secrets_hidden (redact v) \<and> redact (redact v) = redact v \<and>
   redact (JObj [(''server'', JObj [(''terminal_token_secret'', JStr secret)])]) =
     JObj [(''server'', JObj [(''terminal_token_secret'', JStr secret)])]"
  using redact_hidden redact_idem by (simp add: SENSITIVE_KEYS_def)

section \<open>Terminal tokens\<close>

text \<open>
  What is relied on of the token library: a token read with the secret it was made with yields its claims
  while it has not expired, provided the issuer is the expected one and it was not issued in the future; a
  token is not the empty text.
\<close>

definition jwt_lawful :: "jwt_api \<Rightarrow> bool" where
  "jwt_lawful jwt \<longleftrightarrow> (\<forall>claims secret issuer now. jwt_encode jwt claims secret \<noteq> [] \<and>
     (claim_iss claims = issuer \<and> claim_iat claims \<le> now \<longrightarrow>
        jwt_decode jwt (jwt_encode jwt claims secret) secret issuer now =
          (if claim_exp claims \<le> now then Inl ExpiredSignatureError else Inr claims)))"

lemma jwt_lawfulD:
  assumes "jwt_lawful jwt"
  shows "jwt_encode jwt claims secret \<noteq> []"
    "claim_iss claims = issuer \<Longrightarrow> claim_iat claims \<le> now \<Longrightarrow>
       jwt_decode jwt (jwt_encode jwt claims secret) secret issuer now =
         (if claim_exp claims \<le> now then Inl ExpiredSignatureError else Inr claims)"
  using assms unfolding jwt_lawful_def by blast+

text \<open>
  C15. A token handed out for a sandbox opens a terminal exactly of that sandbox and exactly until the
  announced expiry: presented at any later time, the handshake of a terminal session is accepted if and
  only if the sandbox is the same and the expiry has not been reached.
\<close>

theorem terminal_token_scoped:
  assumes "jwt_lawful jwt" and "given (srv_terminal_secret (cfg_server c))"
    and "get_terminal_token c jwt now ops https netloc sid s = (Inr (url, token, expires), s')" and "now \<le> later"
  shows "expires = now + srv_terminal_ttl (cfg_server c) \<and>
    (terminal_handshake c jwt later sid' (Some token) = Ws_Accept \<longleftrightarrow> sid' = sid \<and> later < expires)"
proof -
  let ?secret = "the (srv_terminal_secret (cfg_server c))"
  let ?claims = "\<lparr>claim_sub = sid, claim_iss = TOKEN_ISSUER, claim_iat = now, claim_exp = now + srv_terminal_ttl (cfg_server c)\<rparr>"
  have t: "token = jwt_encode jwt ?claims ?secret" "expires = now + srv_terminal_ttl (cfg_server c)"
    using assms(2,3) by (auto simp: get_terminal_token_def create_terminal_token_def Let_def retS_def elim!: bindS_InrE)
  have "jwt_decode jwt token ?secret TOKEN_ISSUER later =
      (if expires \<le> later then Inl ExpiredSignatureError else Inr ?claims)" and "token \<noteq> []"
    using jwt_lawfulD(1) [OF assms(1)] jwt_lawfulD(2) [OF assms(1), where claims = ?claims and now = later] assms(4)
    unfolding t by simp_all
  then show ?thesis
    using assms(2) t(2) by (auto simp: terminal_handshake_def validate_terminal_token_def given_def)
qed

text \<open>A codec with these laws: the claims and the secret as a JSON list.\<close>

definition sample_encode :: "jwt_claims \<Rightarrow> string \<Rightarrow> string" where
  "sample_encode claims secret = json_dumps_list
     [claim_sub claims, claim_iss claims, sim_iso (claim_iat claims), sim_iso (claim_exp claims), secret]"

definition sample_decode :: "string \<Rightarrow> string \<Rightarrow> string \<Rightarrow> int \<Rightarrow> jwt_error + jwt_claims" where
  "sample_decode token secret issuer now =
     (case json_loads token of
        Some (JList [JStr sub, JStr iss, JStr iat, JStr expiry, JStr key]) \<Rightarrow>
          (case (sim_fromiso iat, sim_fromiso expiry) of
             (Some (Aware i z), Some (Aware e z')) \<Rightarrow>
               (if key \<noteq> secret then Inl DecodeError
                else if e \<le> now then Inl ExpiredSignatureError
                else if iss \<noteq> issuer then Inl InvalidIssuerError
                else if now < i then Inl InvalidTokenError
                else Inr \<lparr>claim_sub = sub, claim_iss = iss, claim_iat = i, claim_exp = e\<rparr>)
           | _ \<Rightarrow> Inl DecodeError)
      | _ \<Rightarrow> Inl DecodeError)"

definition sample_jwt :: jwt_api where
  "sample_jwt = \<lparr>jwt_encode = sample_encode, jwt_decode = sample_decode\<rparr>"

lemma sample_jwt_lawful: "jwt_lawful sample_jwt"
proof -
  have i: "sim_fromiso (sim_iso t) = Some (Aware t 0)" for t
    by (auto simp: sim_iso_def sim_fromiso_def py_int_str_nat)
  have "sample_encode claims secret \<noteq> []" for claims secret
    by (simp add: sample_encode_def json_dumps_list_def)
  moreover have "sample_decode (sample_encode claims secret) secret (claim_iss claims) now =
      (if claim_exp claims \<le> now then Inl ExpiredSignatureError else Inr claims)" if "claim_iat claims \<le> now" for claims secret now
    using that by (simp add: sample_decode_def sample_encode_def json_loads_dumps_list i)
  ultimately show ?thesis by (simp add: jwt_lawful_def sample_jwt_def)
qed

theorem terminal_token_scoped_witness:
  "terminal_handshake (sample_k8s_config\<lparr>cfg_server := (cfg_server sample_k8s_config)\<lparr>srv_terminal_secret := Some ''0123456789abcdef''\<rparr>\<rparr>)
     sample_jwt 6 ''b2'' (Some (sample_encode \<lparr>claim_sub = ''a1'', claim_iss = TOKEN_ISSUER, claim_iat = 5, claim_exp = 305\<rparr> ''0123456789abcdef'')) \<noteq> Ws_Accept"
proof -
  let ?c = "sample_k8s_config\<lparr>cfg_server := (cfg_server sample_k8s_config)\<lparr>srv_terminal_secret := Some ''0123456789abcdef''\<rparr>\<rparr>"
  let ?ops = "k8s_ops 1 sample_k8s_config sample_kube_config sim_kube sample_agent (\<lambda>_ _. raiseS OSError) (\<lambda>_ _. raiseS OSError) (\<lambda>_. None)"
  let ?r = "get_terminal_token ?c sample_jwt 5 ?ops True ''h'' ''a1'' two_sandboxes"
  let ?token = "sample_encode \<lparr>claim_sub = ''a1'', claim_iss = TOKEN_ISSUER, claim_iat = 5, claim_exp = 305\<rparr> ''0123456789abcdef''"
  have "map_sum id snd (fst ?r) = Inr (?token, 305)" by code_simp
  then have "\<exists>url. fst ?r = Inr (url, ?token, 305)" by (cases "fst ?r") auto
  then obtain url where "?r = (Inr (url, ?token, 305), snd ?r)" by (metis prod.collapse)
  from terminal_token_scoped [OF sample_jwt_lawful _ this, of 6 "''b2''"] show ?thesis by (simp add: given_def)
qed

end
