(* ===== verification/Sdk_Http.thy ===== *)
theory Sdk_Http
  imports Http_Auth K8s_Tasks
begin

text \<open>
  The HTTP side of the Python client library (\<open>sdks/sandbox/python/src/opensandbox\<close>): its exceptions
  (\<open>exceptions/sandbox.py\<close>), their conversion (\<open>adapters/converter/exception_converter.py\<close>), the checks on
  responses (\<open>adapters/converter/response_handler.py\<close>) and the frame all generated calls share
  (\<open>api/lifecycle/api/sandboxes\<close>). The HTTP client is the record \<open>httpx_api\<close> of functions over an arbitrary
  world; the texts of messages are left out.
\<close>

section \<open>The HTTP client\<close>

record http_response =
  rs_status :: int
  rs_headers :: "(string \<times> string) list"
  rs_body :: string

text \<open>What a client is constructed with, and one request of it; the parameters of the query are not yet encoded.\<close>

record http_client =
  cl_base_url :: string
  cl_headers :: "(string, string) dict"
  cl_transport :: "nat option"

datatype http_content = No_Content | Json_Content json | Multipart "(string \<times> string \<times> string \<times> string) list"

record http_call =
  hc_method :: string
  hc_url :: string
  hc_params :: "(string \<times> string) list"
  hc_headers :: "(string, string) dict"
  hc_content :: http_content

text \<open>A streamed answer: its status, headers and lines, and the exception that ends it, if one does.\<close>

record http_stream =
  st_status :: int
  st_headers :: "(string \<times> string) list"
  st_lines :: "string list"
  st_failure :: "exn option"

record 'w httpx_api =
  hx_send :: "http_client \<Rightarrow> http_call \<Rightarrow> ('w, http_response) io"
  hx_stream :: "http_client \<Rightarrow> http_call \<Rightarrow> ('w, http_stream) io"
  hx_new_transport :: "('w, nat) io"
  hx_close_transport :: "nat \<Rightarrow> ('w, unit) io"
  hx_time :: "('w, int) io"
  hx_sleep :: "int \<Rightarrow> ('w, unit) io"
  hx_getenv :: "string \<Rightarrow> string option"

section \<open>Exceptions\<close>

text \<open>The error code of each class; \<open>SandboxApiException\<close> takes the one parsed from the answer, if any.\<close>

definition UNEXPECTED_RESPONSE :: string where "UNEXPECTED_RESPONSE = ''UNEXPECTED_RESPONSE''"

fun error_code :: "sandbox_exn \<Rightarrow> string" where
  "error_code SandboxApiException = UNEXPECTED_RESPONSE"
| "error_code SandboxInternalException = ''INTERNAL_UNKNOWN_ERROR''"
| "error_code SandboxUnhealthyException = ''UNHEALTHY''"
| "error_code SandboxReadyTimeoutException = ''READY_TIMEOUT''"
| "error_code InvalidArgumentException = ''INVALID_ARGUMENT''"

definition api_exception :: "int option \<Rightarrow> string option \<Rightarrow> string option \<Rightarrow> exn" where
  "api_exception status_code err request_id =
     SandboxException SandboxApiException (case err of Some c \<Rightarrow> c | None \<Rightarrow> error_code SandboxApiException) status_code request_id"

definition sdk_exception :: "sandbox_exn \<Rightarrow> exn" where
  "sdk_exception cls = SandboxException cls (error_code cls) None None"

definition is_sandbox_exn :: "exn \<Rightarrow> bool" where
  "is_sandbox_exn e = (case e of SandboxException _ _ _ _ \<Rightarrow> True | _ \<Rightarrow> False)"

text \<open>
  \<open>_parse_error_body\<close>, reduced to the code: \<open>None\<close> when there is no usable body. A code that is not a text is kept
  in the exception as it is; here it is rendered by \<open>str\<close>.
\<close>

definition parse_error_body :: "(json \<Rightarrow> string) \<Rightarrow> string \<Rightarrow> string option" where
  "parse_error_body str body =
     (if body = [] then None
      else (case json_loads body of
              None \<Rightarrow> Some UNEXPECTED_RESPONSE
            | Some (JObj d) \<Rightarrow> if truthy (jget d ''code'') then Some (str (jget d ''code'')) else None
            | Some _ \<Rightarrow> None))"

definition extract_request_id :: "(string \<times> string) list \<Rightarrow> string option" where
  "extract_request_id headers =
     (case header_get ''X-Request-ID'' headers of
        None \<Rightarrow> None | Some v \<Rightarrow> if strip v = [] then None else Some (strip v))"

text \<open>\<open>ExceptionConverter.to_sandbox_exception\<close>; \<open>JSONDecodeError\<close> and \<open>ValidationError\<close> are \<open>ValueError\<close>s.\<close>

fun to_sandbox_exception :: "(json \<Rightarrow> string) \<Rightarrow> exn \<Rightarrow> exn" where
  "to_sandbox_exception str (SandboxException cls c st rid) = SandboxException cls c st rid"
| "to_sandbox_exception str (UnexpectedStatus st body) = api_exception (Some st) (parse_error_body str body) None"
| "to_sandbox_exception str (HTTPStatusError st headers body) =
     api_exception (Some st) (parse_error_body str body) (extract_request_id headers)"
| "to_sandbox_exception str OSError = sdk_exception SandboxInternalException"
| "to_sandbox_exception str NetworkError = sdk_exception SandboxInternalException"
| "to_sandbox_exception str ValueError = sdk_exception InvalidArgumentException"
| "to_sandbox_exception str TypeError = sdk_exception InvalidArgumentException"
| "to_sandbox_exception str _ = sdk_exception SandboxInternalException"

text \<open>\<open>try: m; except Exception as e: raise to_sandbox_exception(e)\<close>, the frame of every adapter method.\<close>

definition converting :: "(json \<Rightarrow> string) \<Rightarrow> ('w, 'a) io \<Rightarrow> ('w, 'a) io" where
  "converting str m = catchS m (\<lambda>e. raiseS (to_sandbox_exception str e))"

section \<open>Responses\<close>

text \<open>What a generated call makes of a body: nothing, the model of a success, or an \<open>ErrorResponse\<close>.\<close>

datatype 'a parsed = Parsed_None | Parsed 'a | Parsed_Error json json

record 'a api_response =
  ar_status :: int
  ar_headers :: "(string \<times> string) list"
  ar_parsed :: "'a parsed"

text \<open>
  \<open>d.pop(k)\<close> on \<open>dict(v)\<close>. A value that is no object counts as a \<open>TypeError\<close>; that \<open>dict\<close> also accepts lists of pairs
  is left out.
\<close>

definition jpop :: "json \<Rightarrow> string \<Rightarrow> json res" where
  "jpop v k = (case v of
     JObj d \<Rightarrow> (case map_of d k of None \<Rightarrow> Inl KeyError | Some x \<Rightarrow> Inr x)
   | _ \<Rightarrow> Inl TypeError)"

text \<open>\<open>d.pop(k, UNSET)\<close>\<close>

definition jpop_unset :: "json \<Rightarrow> string \<Rightarrow> json option res" where
  "jpop_unset v k = (case v of JObj d \<Rightarrow> Inr (map_of d k) | _ \<Rightarrow> Inl TypeError)"

definition error_response_from_dict :: "json \<Rightarrow> 'a parsed res" where
  "error_response_from_dict v = bindR (jpop v ''code'') (\<lambda>c. bindR (jpop v ''message'') (\<lambda>m. Inr (Parsed_Error c m)))"

definition response_json :: "http_response \<Rightarrow> json res" where
  "response_json r = (case json_loads (rs_body r) of None \<Rightarrow> Inl ValueError | Some v \<Rightarrow> Inr v)"

text \<open>
  \<open>_parse_response\<close> of a generated call: the status of success with the reader of its model (\<open>None\<close> for a call
  without a result), and the documented statuses of errors. The clients do not ask to raise on other statuses.
\<close>

definition of_json :: "(json \<Rightarrow> 'a res) \<Rightarrow> http_response \<Rightarrow> 'a res" where
  "of_json from_dict r = bindR (response_json r) from_dict"

definition parse_response :: "int \<Rightarrow> (http_response \<Rightarrow> 'a res) option \<Rightarrow> int list \<Rightarrow> http_response \<Rightarrow> 'a parsed res" where
  "parse_response success reader errors r =
     (if rs_status r = success
      then (case reader of None \<Rightarrow> Inr Parsed_None | Some f \<Rightarrow> bindR (f r) (\<lambda>x. Inr (Parsed x)))
      else if rs_status r \<in> set errors then bindR (response_json r) error_response_from_dict
      else Inr Parsed_None)"

text \<open>The members of \<open>http.HTTPStatus\<close>; \<open>HTTPStatus(n)\<close> raises \<open>ValueError\<close> for any other number.\<close>

definition HTTP_STATUSES :: "int list" where
  "HTTP_STATUSES = [100, 101, 102, 103] @ map int [200..<209] @ [226] @ map int [300..<306] @ [307, 308]
     @ map int [400..<419] @ [421, 422, 423, 424, 425, 426, 428, 429, 431, 451] @ map int [500..<509] @ [510, 511]"

definition build_response :: "int \<Rightarrow> (http_response \<Rightarrow> 'a res) option \<Rightarrow> int list \<Rightarrow> http_response \<Rightarrow> 'a api_response res" where
  "build_response success reader errors r =
     (if rs_status r \<notin> set HTTP_STATUSES then Inl ValueError
      else bindR (parse_response success reader errors r) (\<lambda>p.
           Inr \<lparr>ar_status = rs_status r, ar_headers = rs_headers r, ar_parsed = p\<rparr>))"

text \<open>\<open>asyncio_detailed\<close>\<close>

definition detailed ::
    "'w httpx_api \<Rightarrow> http_client \<Rightarrow> int \<Rightarrow> (http_response \<Rightarrow> 'a res) option \<Rightarrow> int list \<Rightarrow> http_call \<Rightarrow> ('w, 'a api_response) io" where
  "detailed hx client success reader errors call =
     bindS (hx_send hx client call) (\<lambda>r. liftR (build_response success reader errors r))"

definition handle_api_error :: "'a api_response \<Rightarrow> unit res" where
  "handle_api_error r =
     (if 300 \<le> ar_status r then Inl (api_exception (Some (ar_status r)) None (extract_request_id (ar_headers r))) else Inr ())"

definition require_parsed :: "'a api_response \<Rightarrow> 'a res" where
  "require_parsed r =
     (case ar_parsed r of
        Parsed x \<Rightarrow> Inr x
      | _ \<Rightarrow> Inl (api_exception (Some (ar_status r)) None (extract_request_id (ar_headers r))))"

text \<open>A call whose result is read with \<open>handle_api_error\<close> and \<open>require_parsed\<close>, and one without a result.\<close>

abbreviation no_reader :: "(http_response \<Rightarrow> unit res) option" where
  "no_reader \<equiv> None"

definition call_parsed :: "('w, 'a api_response) io \<Rightarrow> ('w, 'a) io" where
  "call_parsed m = bindS m (\<lambda>r. bindS (liftR (handle_api_error r)) (\<lambda>_. liftR (require_parsed r)))"

definition call_unit :: "('w, 'a api_response) io \<Rightarrow> ('w, unit) io" where
  "call_unit m = bindS m (\<lambda>r. liftR (handle_api_error r))"

section \<open>Texts in URLs\<close>

text \<open>\<open>urllib.parse.quote(s, safe=...)\<close> and its inverse on bytes.\<close>

definition percent :: "nat \<Rightarrow> string" where
  "percent b = [CHR ''%'', hex_upper (b div 16), hex_upper (b mod 16)]"

definition url_quote :: "string \<Rightarrow> string \<Rightarrow> string" where
  "url_quote safe s = concat (map (\<lambda>c. if url_safe c \<or> c \<in> set safe then [c] else concat (map percent (utf8_bytes c))) s)"

definition simple_call :: "string \<Rightarrow> string \<Rightarrow> http_call" where
  "simple_call m url = \<lparr>hc_method = m, hc_url = url, hc_params = [], hc_headers = [], hc_content = No_Content\<rparr>"

definition json_call :: "string \<Rightarrow> string \<Rightarrow> json \<Rightarrow> http_call" where
  "json_call m url body =
     \<lparr>hc_method = m, hc_url = url, hc_params = [], hc_headers = [(''Content-Type'', ''application/json'')],
      hc_content = Json_Content body\<rparr>"

section \<open>Lemmas\<close>

text \<open>Whatever is caught, a \<open>SandboxException\<close> is raised, and converting twice changes nothing.\<close>

lemma to_sandbox_exception_class [simp]: "is_sandbox_exn (to_sandbox_exception str e)"
  by (cases e) (simp_all add: is_sandbox_exn_def api_exception_def sdk_exception_def)

lemma to_sandbox_exception_idem [simp]: "is_sandbox_exn e \<Longrightarrow> to_sandbox_exception str e = e"
  by (cases e) (simp_all add: is_sandbox_exn_def)

lemma is_sandbox_exn_simps [simp]:
  "is_sandbox_exn (sdk_exception cls)" "is_sandbox_exn (api_exception st err rid)" "is_sandbox_exn (SandboxException cls c st rid)"
  by (simp_all add: is_sandbox_exn_def sdk_exception_def api_exception_def)

lemma converting_raises:
  assumes "converting str m s = (Inl e, s')"
  shows "is_sandbox_exn e"
  using assms by (auto simp: converting_def catchS_def raiseS_def split: prod.splits sum.splits)

lemma converting_InrD: "converting str m s = (Inr x, s') \<Longrightarrow> m s = (Inr x, s')"
  by (auto simp: converting_def catchS_def raiseS_def split: prod.splits sum.splits)

lemma converting_retS [simp]: "converting str (retS x) = retS x"
  by (simp add: converting_def)

text \<open>An error answer with a well-formed body, or with a status that is not documented, is reported as it is.\<close>

definition error_body :: "http_response \<Rightarrow> bool" where
  "error_body r \<longleftrightarrow> (\<exists>d. json_loads (rs_body r) = Some (JObj d) \<and> map_of d ''code'' \<noteq> None \<and> map_of d ''message'' \<noteq> None)"

lemma detailed_errors:
  assumes "hx_send hx client call s = (Inr r, s')" and "rs_status r \<in> set HTTP_STATUSES"
    and "rs_status r \<noteq> success" and "rs_status r \<in> set errors \<Longrightarrow> error_body r"
  shows "\<exists>a. detailed hx client success reader errors call s = (Inr a, s') \<and> ar_status a = rs_status r \<and> ar_headers a = rs_headers r"
  using assms
  by (auto simp: detailed_def build_response_def parse_response_def error_response_from_dict_def jpop_def error_body_def
      response_json_def bindS_def liftR_def)

lemma call_error_status:
  assumes "m s = (Inr a, s')" and "300 \<le> ar_status a"
  shows "call_parsed m s = (Inl (api_exception (Some (ar_status a)) None (extract_request_id (ar_headers a))), s')"
    and "call_unit m s = (Inl (api_exception (Some (ar_status a)) None (extract_request_id (ar_headers a))), s')"
  using assms by (simp_all add: call_parsed_def call_unit_def handle_api_error_def bindS_def liftR_def)

end
