(* ===== verification/Schema_Wire.thy ===== *)
theory Schema_Wire
  imports Validators Json
begin

text \<open>
  How the schema library reads the body of a request into the models of \<open>server/src/api/schema.py\<close>: fields by alias
  or name, missing and null values, types, then the declared constraints. What the library makes of a value of
  another type than the declared one (a number given as a text, say) is an argument; a text field accepts only a
  text. The body is a JSON value, before the mode of the frontend is normalized.
\<close>

section \<open>Fields\<close>

text \<open>
  \<open>isoparse\<close> of the date library reads a text as a time; \<open>lax_time\<close>, \<open>lax_int\<close> and \<open>lax_bool\<close> are what the schema
  library makes of values that are no times, numbers or truth values.
\<close>

record time_parsers =
  isoparse :: "string \<Rightarrow> datetime option"
  lax_time :: "json \<Rightarrow> datetime option"
  lax_int :: "json \<Rightarrow> int option"
  lax_bool :: "json \<Rightarrow> bool option"

definition or_value_error :: "'a option \<Rightarrow> 'a res" where
  "or_value_error v = (case v of None \<Rightarrow> Inl ValueError | Some x \<Rightarrow> Inr x)"

text \<open>Fields of the types of the models.\<close>

definition field_str :: "json \<Rightarrow> string res" where
  "field_str v = or_value_error (as_str v)"

definition field_int :: "time_parsers \<Rightarrow> json \<Rightarrow> int res" where
  "field_int tp v = (case v of JInt n \<Rightarrow> Inr n | _ \<Rightarrow> or_value_error (lax_int tp v))"

definition field_bool :: "time_parsers \<Rightarrow> json \<Rightarrow> bool res" where
  "field_bool tp v = (case v of JBool b \<Rightarrow> Inr b | _ \<Rightarrow> or_value_error (lax_bool tp v))"

definition field_strs :: "json \<Rightarrow> string list res" where
  "field_strs v = (case v of JList xs \<Rightarrow> collect_each field_str xs | _ \<Rightarrow> Inl ValueError)"

definition field_str_dict :: "json \<Rightarrow> (string, string) dict res" where
  "field_str_dict v = (case v of
     JObj d \<Rightarrow> collect_each (\<lambda>(k, x). bindR (field_str x) (\<lambda>t. Inr (k, t))) d | _ \<Rightarrow> Inl ValueError)"

text \<open>A field with an alias, where the name is accepted too; required fields, fields that may be missing or null, and defaults.\<close>

definition aliased :: "(string, json) dict \<Rightarrow> string \<Rightarrow> string \<Rightarrow> json option" where
  "aliased d alias name = (case map_of d alias of None \<Rightarrow> map_of d name | v \<Rightarrow> v)"

definition required :: "json option \<Rightarrow> (json \<Rightarrow> 'a res) \<Rightarrow> 'a res" where
  "required v f = (case v of None \<Rightarrow> Inl ValueError | Some x \<Rightarrow> f x)"

definition optional :: "json option \<Rightarrow> (json \<Rightarrow> 'a res) \<Rightarrow> 'a option res" where
  "optional v f = (case v of None \<Rightarrow> Inr None | Some x \<Rightarrow> if x = JNull then Inr None else bindR (f x) (\<lambda>y. Inr (Some y)))"

definition defaulted :: "json option \<Rightarrow> 'a \<Rightarrow> (json \<Rightarrow> 'a res) \<Rightarrow> 'a res" where
  "defaulted v d f = (case v of None \<Rightarrow> Inr d | Some x \<Rightarrow> f x)"

definition obj :: "((string, json) dict \<Rightarrow> 'a res) \<Rightarrow> json \<Rightarrow> 'a res" where
  "obj f v = (case v of JObj d \<Rightarrow> f d | _ \<Rightarrow> Inl ValueError)"

definition list_of :: "(json \<Rightarrow> 'a res) \<Rightarrow> json \<Rightarrow> 'a list res" where
  "list_of f v = (case v of JList xs \<Rightarrow> collect_each f xs | _ \<Rightarrow> Inl ValueError)"

definition field_opt_str_dict :: "json \<Rightarrow> (string, string option) dict res" where
  "field_opt_str_dict = obj (collect_each (\<lambda>(k, x). bindR (optional (Some x) field_str) (\<lambda>t. Inr (k, t))))"

section \<open>The models of a creation\<close>

definition read_image_auth :: "json \<Rightarrow> image_auth res" where
  "read_image_auth = obj (\<lambda>d.
     bindR (required (map_of d ''username'') field_str) (\<lambda>u. bindR (required (map_of d ''password'') field_str) (\<lambda>p.
     Inr \<lparr>auth_username = u, auth_password = p\<rparr>)))"

definition read_image_spec :: "json \<Rightarrow> image_spec res" where
  "read_image_spec = obj (\<lambda>d.
     bindR (required (map_of d ''uri'') field_str) (\<lambda>u. bindR (optional (map_of d ''auth'') read_image_auth) (\<lambda>a.
     Inr \<lparr>image_uri = u, image_auth_of = a\<rparr>)))"

definition read_network_rule :: "json \<Rightarrow> network_rule res" where
  "read_network_rule = obj (\<lambda>d.
     bindR (required (map_of d ''action'') field_str) (\<lambda>a. bindR (required (map_of d ''target'') field_str) (\<lambda>t.
     Inr \<lparr>rule_action = a, rule_target = t\<rparr>)))"

definition read_network_policy :: "json \<Rightarrow> network_policy res" where
  "read_network_policy = obj (\<lambda>d.
     bindR (optional (aliased d ''defaultAction'' ''default_action'') field_str) (\<lambda>a.
     bindR (defaulted (map_of d ''egress'') [] (list_of read_network_rule)) (\<lambda>e.
     Inr \<lparr>default_action = a, egress_rules = e\<rparr>)))"

definition read_ossfs :: "json \<Rightarrow> ossfs res" where
  "read_ossfs = obj (\<lambda>d.
     bindR (required (map_of d ''bucket'') field_str) (\<lambda>b. bindR (required (map_of d ''endpoint'') field_str) (\<lambda>e.
     bindR (defaulted (map_of d ''version'') ''2.0'' field_str) (\<lambda>v.
     bindR (optional (map_of d ''options'') field_strs) (\<lambda>os.
     bindR (optional (aliased d ''accessKeyId'' ''access_key_id'') field_str) (\<lambda>i.
     bindR (optional (aliased d ''accessKeySecret'' ''access_key_secret'') field_str) (\<lambda>s.
     Inr \<lparr>bucket = b, endpoint = e, version = v, ossfs_options = os, access_key_id = i, access_key_secret = s\<rparr>)))))))"

definition read_volume :: "time_parsers \<Rightarrow> json \<Rightarrow> volume res" where
  "read_volume tp = obj (\<lambda>d.
     bindR (required (map_of d ''name'') field_str) (\<lambda>n.
     bindR (optional (map_of d ''host'') (obj (\<lambda>h. required (map_of h ''path'') field_str))) (\<lambda>h.
     bindR (optional (map_of d ''pvc'') (obj (\<lambda>p. required (aliased p ''claimName'' ''claim_name'') field_str))) (\<lambda>p.
     bindR (optional (map_of d ''ossfs'') read_ossfs) (\<lambda>o1.
     bindR (required (aliased d ''mountPath'' ''mount_path'') field_str) (\<lambda>m.
     bindR (defaulted (aliased d ''readOnly'' ''read_only'') False (field_bool tp)) (\<lambda>ro.
     bindR (optional (aliased d ''subPath'' ''sub_path'') field_str) (\<lambda>s.
     Inr \<lparr>vol_name = n, host_path = h, pvc_claim = p, ossfs_of = o1, mount_path = m, read_only = ro, sub_path = s\<rparr>))))))))"

text \<open>A creation: the payload is normalized, its fields are read and the constraints checked.\<close>

definition read_create_fields :: "time_parsers \<Rightarrow> json \<Rightarrow> create_request res" where
  "read_create_fields tp = obj (\<lambda>d.
     bindR (required (map_of d ''image'') read_image_spec) (\<lambda>i.
     bindR (optional (map_of d ''timeout'') (field_int tp)) (\<lambda>t.
     bindR (required (aliased d ''resourceLimits'' ''resource_limits'') field_str_dict) (\<lambda>r.
     bindR (optional (map_of d ''env'') field_opt_str_dict) (\<lambda>e.
     bindR (optional (map_of d ''metadata'') field_str_dict) (\<lambda>m.
     bindR (required (map_of d ''entrypoint'') field_strs) (\<lambda>c.
     bindR (optional (aliased d ''networkPolicy'' ''network_policy'') read_network_policy) (\<lambda>n.
     bindR (optional (map_of d ''volumes'') (list_of (read_volume tp))) (\<lambda>v.
     bindR (optional (map_of d ''extensions'') field_str_dict) (\<lambda>x.
     Inr \<lparr>req_image = i, req_timeout = t, req_resource_limits = r, req_env = e, req_metadata = m, req_entrypoint = c,
          req_network_policy = n, req_volumes = v, req_extensions = x\<rparr>))))))))))"

definition read_create_request :: "time_parsers \<Rightarrow> (json \<Rightarrow> string) \<Rightarrow> json \<Rightarrow> create_request res" where
  "read_create_request tp render body =
     bindR (read_create_fields tp (normalize_frontend_payload render body)) (\<lambda>r.
     if create_request_fields_ok r then Inr r else Inl ValueError)"

end
