(* ===== verification/Sdk_Models.thy ===== *)
theory Sdk_Models
  imports Sdk_Http Schema_Wire
begin

text \<open>
  The data of the client library: the models of \<open>models/sandboxes.py\<close> with their validators, and their conversion
  to and from the bodies of requests (\<open>adapters/converter/sandbox_model_converter.py\<close> with the generated models in
  \<open>api/lifecycle/models\<close>). Models of the same shape as those of the server share its records; the validators are
  the client's own. A duration is a number of microseconds.
\<close>

section \<open>Models of a creation\<close>

definition image_auth_ok :: "image_auth \<Rightarrow> bool" where
  "image_auth_ok a \<longleftrightarrow> strip (auth_username a) \<noteq> [] \<and> strip (auth_password a) \<noteq> []"

definition image_ok :: "image_spec \<Rightarrow> bool" where
  "image_ok i \<longleftrightarrow> strip (image_uri i) \<noteq> [] \<and> (case image_auth_of i of None \<Rightarrow> True | Some a \<Rightarrow> image_auth_ok a)"

definition sdk_rule_ok :: "network_rule \<Rightarrow> bool" where
  "sdk_rule_ok r \<longleftrightarrow> rule_action r \<in> {''allow'', ''deny''} \<and> strip (rule_target r) \<noteq> []"

record sdk_policy =
  sp_default_action :: "string option"
  sp_egress :: "network_rule list option"

definition sdk_policy_ok :: "sdk_policy \<Rightarrow> bool" where
  "sdk_policy_ok p \<longleftrightarrow> sp_default_action p \<in> {None, Some ''allow'', Some ''deny''}
     \<and> (case sp_egress p of None \<Rightarrow> True | Some rs \<Rightarrow> list_all sdk_rule_ok rs)"

definition sdk_ossfs_ok :: "ossfs \<Rightarrow> bool" where
  "sdk_ossfs_ok o1 \<longleftrightarrow> version o1 \<in> {''1.0'', ''2.0''} \<and> given (access_key_id o1) \<and> given (access_key_secret o1)"

definition sdk_volume_ok :: "volume \<Rightarrow> bool" where
  "sdk_volume_ok v \<longleftrightarrow> strip (vol_name v) \<noteq> [] \<and> starts_with (mount_path v) ''/''
     \<and> (case host_path v of None \<Rightarrow> True | Some p \<Rightarrow> starts_with p ''/'')
     \<and> (case pvc_claim v of None \<Rightarrow> True | Some c \<Rightarrow> strip c \<noteq> [])
     \<and> (case ossfs_of v of None \<Rightarrow> True | Some o1 \<Rightarrow> sdk_ossfs_ok o1)
     \<and> validate_exactly_one_backend v = Inr v"

text \<open>The arguments of a creation after the defaults of \<open>Sandbox.create\<close>.\<close>

record sdk_create =
  cr_image :: image_spec
  cr_entrypoint :: "string list"
  cr_env :: "(string, string) dict"
  cr_metadata :: "(string, string) dict"
  cr_timeout :: "int option"
  cr_resource :: "(string, string) dict"
  cr_policy :: "sdk_policy option"
  cr_extensions :: "(string, string) dict"
  cr_volumes :: "volume list option"

section \<open>Bodies of requests\<close>

definition str_dict :: "(string, string) dict \<Rightarrow> json" where
  "str_dict d = JObj (map (\<lambda>(k, v). (k, JStr v)) d)"

text \<open>A field of a body that is left out when it is unset.\<close>

definition field :: "string \<Rightarrow> json option \<Rightarrow> (string \<times> json) list" where
  "field k v = (case v of None \<Rightarrow> [] | Some x \<Rightarrow> [(k, x)])"

definition to_api_image_spec :: "image_spec \<Rightarrow> json" where
  "to_api_image_spec spec =
     JObj ([(''uri'', JStr (image_uri spec))] @
           field ''auth'' (map_option (\<lambda>a. JObj [(''username'', JStr (auth_username a)), (''password'', JStr (auth_password a))])
             (image_auth_of spec)))"

definition to_api_ossfs :: "ossfs \<Rightarrow> json option" where
  "to_api_ossfs o1 =
     (case (access_key_id o1, access_key_secret o1) of
        (Some i, Some s) \<Rightarrow>
          Some (JObj ([(''bucket'', JStr (bucket o1)), (''endpoint'', JStr (endpoint o1)), (''accessKeyId'', JStr i),
                       (''accessKeySecret'', JStr s), (''version'', JStr (version o1))] @
                      field ''options'' (map_option (\<lambda>xs. JList (map JStr xs)) (ossfs_options o1))))
      | _ \<Rightarrow> None)"

definition to_api_volume :: "volume \<Rightarrow> json" where
  "to_api_volume v =
     JObj ([(''name'', JStr (vol_name v)), (''mountPath'', JStr (mount_path v))] @
           field ''host'' (map_option (\<lambda>p. JObj [(''path'', JStr p)]) (host_path v)) @
           field ''pvc'' (map_option (\<lambda>c. JObj [(''claimName'', JStr c)]) (pvc_claim v)) @
           field ''ossfs'' (Option.bind (ossfs_of v) to_api_ossfs) @
           [(''readOnly'', JBool (read_only v))] @
           field ''subPath'' (map_option JStr (sub_path v)))"

definition to_api_network_rules :: "network_rule list \<Rightarrow> json" where
  "to_api_network_rules rules =
     JList (map (\<lambda>r. JObj [(''action'', JStr (rule_action r)), (''target'', JStr (rule_target r))]) rules)"

definition to_api_network_policy :: "sdk_policy \<Rightarrow> json" where
  "to_api_network_policy p =
     JObj (field ''defaultAction'' (case sp_default_action p of Some a \<Rightarrow> if a = [] then None else Some (JStr a) | None \<Rightarrow> None) @
           field ''egress'' (map_option to_api_network_rules (sp_egress p)))"

text \<open>\<open>int(timeout.total_seconds())\<close>: the fraction is cut off towards zero.\<close>

definition whole_seconds :: "int \<Rightarrow> int" where
  "whole_seconds us = (if 0 \<le> us then us div 1000000 else - ((- us) div 1000000))"

definition nonempty :: "(string, string) dict \<Rightarrow> json option" where
  "nonempty d = (if d = [] then None else Some (str_dict d))"

definition to_api_create_sandbox_request :: "sdk_create \<Rightarrow> json" where
  "to_api_create_sandbox_request c =
     JObj ([(''image'', to_api_image_spec (cr_image c)), (''resourceLimits'', str_dict (cr_resource c)),
            (''entrypoint'', JList (map JStr (cr_entrypoint c)))] @
           field ''timeout'' (map_option (\<lambda>t. JInt (whole_seconds t)) (cr_timeout c)) @
           field ''env'' (nonempty (cr_env c)) @
           field ''metadata'' (nonempty (cr_metadata c)) @
           field ''networkPolicy'' (map_option to_api_network_policy (cr_policy c)) @
           field ''volumes'' (case cr_volumes c of
              Some (v # vs) \<Rightarrow> Some (JList (map to_api_volume (v # vs))) | _ \<Rightarrow> None) @
           field ''extensions'' (nonempty (cr_extensions c)))"

text \<open>\<open>isoformat\<close> renders a time with its offset. A naive time counts as UTC.\<close>

definition to_api_renew_request :: "(datetime \<Rightarrow> string) \<Rightarrow> datetime \<Rightarrow> json" where
  "to_api_renew_request isoformat t =
     JObj [(''expiresAt'', JStr (isoformat (case t of Naive n \<Rightarrow> Aware n 0 | Aware n off \<Rightarrow> Aware n off)))]"

section \<open>Models of answers\<close>

record sdk_status =
  ss_state :: string
  ss_reason :: "string option"
  ss_message :: "string option"
  ss_last_transition_at :: "datetime option"

record sdk_info =
  si_id :: string
  si_status :: sdk_status
  si_entrypoint :: "string list"
  si_expires_at :: "datetime option"
  si_created_at :: datetime
  si_image :: image_spec
  si_metadata :: "(string, string) dict"

record sdk_page =
  pg_page :: int
  pg_page_size :: int
  pg_total_items :: int
  pg_total_pages :: int
  pg_has_next :: bool

record sdk_endpoint =
  se_endpoint :: string
  se_headers :: "(string, string) dict"

record sdk_filter =
  sf_states :: "string list option"
  sf_metadata :: "(string, string) dict option"
  sf_page_size :: "int option"
  sf_page :: "int option"

definition sdk_filter_ok :: "sdk_filter \<Rightarrow> bool" where
  "sdk_filter_ok f \<longleftrightarrow> (case sf_page_size f of None \<Rightarrow> True | Some n \<Rightarrow> 0 < n) \<and> (case sf_page f of None \<Rightarrow> True | Some n \<Rightarrow> 0 \<le> n)"

definition iso_field :: "time_parsers \<Rightarrow> json \<Rightarrow> datetime res" where
  "iso_field tp v = (case v of JStr t \<Rightarrow> or_value_error (isoparse tp t) | _ \<Rightarrow> Inl TypeError)"

text \<open>A text, or nothing for a value of another type (\<open>isinstance(v, str)\<close>).\<close>

definition str_or_none :: "json option \<Rightarrow> string option" where
  "str_or_none v = Option.bind v as_str"

definition status_from_dict :: "time_parsers \<Rightarrow> json \<Rightarrow> sdk_status res" where
  "status_from_dict tp v =
     bindR (jpop v ''state'') (\<lambda>st. bindR (jpop_unset v ''reason'') (\<lambda>re. bindR (jpop_unset v ''message'') (\<lambda>me.
     bindR (jpop_unset v ''lastTransitionAt'') (\<lambda>la.
     bindR (case la of None \<Rightarrow> Inr None | Some JNull \<Rightarrow> Inr None | Some x \<Rightarrow> bindR (iso_field tp x) (\<lambda>t. Inr (Some t))) (\<lambda>t.
     bindR (field_str st) (\<lambda>state.
     Inr \<lparr>ss_state = state, ss_reason = str_or_none re, ss_message = str_or_none me, ss_last_transition_at = t\<rparr>))))))"

definition image_from_dict :: "json \<Rightarrow> image_spec res" where
  "image_from_dict v =
     bindR (jpop v ''uri'') (\<lambda>u. bindR (jpop_unset v ''auth'') (\<lambda>a.
     bindR (field_str u) (\<lambda>uri.
     bindR (case a of
              None \<Rightarrow> Inr None | Some JNull \<Rightarrow> Inr None
            | Some x \<Rightarrow> bindR (jpop_unset x ''username'') (\<lambda>un. bindR (jpop_unset x ''password'') (\<lambda>pw.
                (case (str_or_none un, str_or_none pw) of
                   (Some n, Some p) \<Rightarrow>
                     (if image_auth_ok \<lparr>auth_username = n, auth_password = p\<rparr>
                      then Inr (Some \<lparr>auth_username = n, auth_password = p\<rparr>) else Inl ValueError)
                 | _ \<Rightarrow> Inr None)))) (\<lambda>auth.
     if image_ok \<lparr>image_uri = uri, image_auth_of = auth\<rparr> then Inr \<lparr>image_uri = uri, image_auth_of = auth\<rparr> else Inl ValueError))))"

text \<open>\<open>expiresAt\<close>: a text that is no time is kept and left to the model library.\<close>

definition expires_field :: "time_parsers \<Rightarrow> json option \<Rightarrow> datetime option res" where
  "expires_field tp v =
     (case v of
        None \<Rightarrow> Inr None
      | Some JNull \<Rightarrow> Inr None
      | Some x \<Rightarrow> (case iso_field tp x of
                    Inr t \<Rightarrow> Inr (Some t)
                  | Inl _ \<Rightarrow> bindR (or_value_error (lax_time tp x)) (\<lambda>t. Inr (Some t))))"

text \<open>\<open>Sandbox.from_dict\<close> followed by \<open>to_sandbox_info\<close>.\<close>

definition to_sandbox_info :: "time_parsers \<Rightarrow> json \<Rightarrow> sdk_info res" where
  "to_sandbox_info tp v =
     bindR (jpop v ''id'') (\<lambda>i. bindR (bindR (jpop v ''image'') image_from_dict) (\<lambda>image.
     bindR (bindR (jpop v ''status'') (status_from_dict tp)) (\<lambda>st.
     bindR (jpop v ''entrypoint'') (\<lambda>ep. bindR (bindR (jpop v ''createdAt'') (iso_field tp)) (\<lambda>created.
     bindR (jpop_unset v ''metadata'') (\<lambda>me. bindR (jpop_unset v ''expiresAt'') (\<lambda>ex.
     bindR (field_str i) (\<lambda>sid. bindR (expires_field tp ex) (\<lambda>expires. bindR (field_strs ep) (\<lambda>entry.
     bindR (case me of None \<Rightarrow> Inr [] | Some JNull \<Rightarrow> Inr [] | Some d \<Rightarrow> field_str_dict d) (\<lambda>metadata.
     Inr \<lparr>si_id = sid, si_status = st, si_entrypoint = entry, si_expires_at = expires, si_created_at = created,
          si_image = image, si_metadata = metadata\<rparr>)))))))))))"

text \<open>\<open>CreateSandboxResponse.from_dict\<close> followed by \<open>to_sandbox_create_response\<close>; \<open>str\<close> renders an identifier that is no text.\<close>

definition to_sandbox_create_response :: "time_parsers \<Rightarrow> (json \<Rightarrow> string) \<Rightarrow> json \<Rightarrow> string res" where
  "to_sandbox_create_response tp str v =
     bindR (jpop v ''id'') (\<lambda>i. bindR (bindR (jpop v ''status'') (status_from_dict tp)) (\<lambda>_.
     bindR (bindR (jpop v ''createdAt'') (iso_field tp)) (\<lambda>_. bindR (jpop v ''entrypoint'') (\<lambda>_.
     Inr (case i of JStr s \<Rightarrow> s | _ \<Rightarrow> str i)))))"

text \<open>\<open>v or default\<close> on the numbers of a page.\<close>

definition int_or :: "int \<Rightarrow> int \<Rightarrow> int" where
  "int_or n d = (if n = 0 then d else n)"

definition convert_pagination_info :: "time_parsers \<Rightarrow> json \<Rightarrow> sdk_page res" where
  "convert_pagination_info tp v =
     bindR (bindR (jpop v ''page'') (field_int tp)) (\<lambda>p. bindR (bindR (jpop v ''pageSize'') (field_int tp)) (\<lambda>ps.
     bindR (bindR (jpop v ''totalItems'') (field_int tp)) (\<lambda>ti. bindR (bindR (jpop v ''totalPages'') (field_int tp)) (\<lambda>tpg.
     bindR (bindR (jpop v ''hasNextPage'') (field_bool tp)) (\<lambda>hn.
     Inr \<lparr>pg_page = int_or p 1, pg_page_size = int_or ps 10, pg_total_items = ti, pg_total_pages = tpg, pg_has_next = hn\<rparr>)))))"

definition to_paged_sandbox_infos :: "time_parsers \<Rightarrow> json \<Rightarrow> (sdk_info list \<times> sdk_page) res" where
  "to_paged_sandbox_infos tp v =
     bindR (jpop v ''items'') (\<lambda>items.
     bindR (case items of JList xs \<Rightarrow> collect_each (to_sandbox_info tp) xs | _ \<Rightarrow> Inl TypeError) (\<lambda>infos.
     bindR (bindR (jpop v ''pagination'') (convert_pagination_info tp)) (\<lambda>pg. Inr (infos, pg))))"

definition to_sandbox_endpoint :: "json \<Rightarrow> sdk_endpoint res" where
  "to_sandbox_endpoint v =
     bindR (jpop v ''endpoint'') (\<lambda>e. bindR (jpop_unset v ''headers'') (\<lambda>h.
     bindR (field_str e) (\<lambda>ep.
     bindR (case h of None \<Rightarrow> Inr [] | Some (JObj d) \<Rightarrow> field_str_dict (JObj d) | Some _ \<Rightarrow> Inl TypeError) (\<lambda>hs.
     Inr \<lparr>se_endpoint = ep, se_headers = hs\<rparr>))))"

definition to_sandbox_renew_response :: "time_parsers \<Rightarrow> json \<Rightarrow> datetime res" where
  "to_sandbox_renew_response tp v = bindR (jpop v ''expiresAt'') (iso_field tp)"

end
