(* ===== verification/Sdk_Api.thy ===== *)
theory Sdk_Api
  imports Sdk_Models
begin

text \<open>
  The generated calls the adapters use, one definition per end point: \<open>_get_kwargs\<close>, \<open>_parse_response\<close> and
  \<open>asyncio_detailed\<close> of each file below \<open>api/lifecycle/api\<close>, \<open>api/execd/api\<close> and \<open>api/egress/api\<close>. The argument
  \<open>reader\<close> reads the body of a success: the \<open>from_dict\<close> of the generated model and the conversion of the adapter.
\<close>

definition with_params :: "(string \<times> string) list \<Rightarrow> http_call \<Rightarrow> http_call" where
  "with_params ps call = call\<lparr>hc_params := ps\<rparr>"

section \<open>Lifecycle\<close>

text \<open>The path of a sandbox, with its identifier quoted.\<close>

definition sandbox_url :: "string \<Rightarrow> string \<Rightarrow> string" where
  "sandbox_url sandbox_id rest = ''/sandboxes/'' @ url_quote [] sandbox_id @ rest"

definition post_sandboxes where
  "post_sandboxes hx client reader body =
     detailed hx client 202 (Some reader) [400, 401, 409, 500] (json_call ''post'' ''/sandboxes'' body)"

definition get_sandboxes where
  "get_sandboxes hx client reader params =
     detailed hx client 200 (Some reader) [400, 401, 500] (with_params params (simple_call ''get'' ''/sandboxes''))"

definition get_sandboxes_sandbox_id where
  "get_sandboxes_sandbox_id hx client reader sandbox_id =
     detailed hx client 200 (Some reader) [401, 403, 404, 500] (simple_call ''get'' (sandbox_url sandbox_id []))"

definition get_sandboxes_sandbox_id_endpoints_port where
  "get_sandboxes_sandbox_id_endpoints_port hx client reader sandbox_id port use_server_proxy =
     detailed hx client 200 (Some reader) [401, 403, 404, 500]
       (with_params [(''use_server_proxy'', if use_server_proxy then ''true'' else ''false'')]
         (simple_call ''get'' (sandbox_url sandbox_id (''/endpoints/'' @ url_quote [] (str_int port)))))"

definition post_sandboxes_sandbox_id_pause where
  "post_sandboxes_sandbox_id_pause hx client sandbox_id =
     detailed hx client 202 no_reader [401, 403, 404, 409, 500] (simple_call ''post'' (sandbox_url sandbox_id ''/pause''))"

definition post_sandboxes_sandbox_id_resume where
  "post_sandboxes_sandbox_id_resume hx client sandbox_id =
     detailed hx client 202 no_reader [401, 403, 404, 409, 500] (simple_call ''post'' (sandbox_url sandbox_id ''/resume''))"

definition post_sandboxes_sandbox_id_renew_expiration where
  "post_sandboxes_sandbox_id_renew_expiration hx client reader sandbox_id body =
     detailed hx client 200 (Some reader) [400, 401, 403, 404, 409, 500]
       (json_call ''post'' (sandbox_url sandbox_id ''/renew-expiration'') body)"

definition delete_sandboxes_sandbox_id where
  "delete_sandboxes_sandbox_id hx client sandbox_id =
     detailed hx client 204 no_reader [401, 403, 404, 409, 500] (simple_call ''delete'' (sandbox_url sandbox_id []))"

section \<open>Execd\<close>

definition interrupt_command where
  "interrupt_command hx client execution_id =
     detailed hx client 200 no_reader [400, 500] (with_params [(''id'', execution_id)] (simple_call ''delete'' ''/command''))"

definition api_command_status where
  "api_command_status hx client reader execution_id =
     detailed hx client 200 (Some reader) [400, 404, 500] (simple_call ''get'' (''/command/status/'' @ url_quote [] execution_id))"

definition api_command_logs where
  "api_command_logs hx client execution_id cursor =
     detailed hx client 200 (Some (\<lambda>r. Inr (rs_body r))) [400, 404, 500]
       (with_params (case cursor of None \<Rightarrow> [] | Some n \<Rightarrow> [(''cursor'', str_int n)])
         (simple_call ''get'' (''/command/'' @ url_quote [] execution_id @ ''/logs'')))"

definition path_params :: "string list \<Rightarrow> (string \<times> string) list" where
  "path_params paths = map (\<lambda>p. (''path'', p)) paths"

definition make_dirs where
  "make_dirs hx client body = detailed hx client 200 no_reader [400, 500] (json_call ''post'' ''/directories'' body)"

definition remove_dirs where
  "remove_dirs hx client paths =
     detailed hx client 200 no_reader [500] (with_params (path_params paths) (simple_call ''delete'' ''/directories''))"

definition remove_files where
  "remove_files hx client paths =
     detailed hx client 200 no_reader [500] (with_params (path_params paths) (simple_call ''delete'' ''/files''))"

definition rename_files where
  "rename_files hx client body = detailed hx client 200 no_reader [400, 404, 500] (json_call ''post'' ''/files/mv'' body)"

definition chmod_files where
  "chmod_files hx client body = detailed hx client 200 no_reader [400, 500] (json_call ''post'' ''/files/permissions'' body)"

definition replace_content where
  "replace_content hx client body = detailed hx client 200 no_reader [400, 500] (json_call ''post'' ''/files/replace'' body)"

definition search_files where
  "search_files hx client reader path pattern =
     detailed hx client 200 (Some reader) [400, 404, 500]
       (with_params [(''path'', path), (''pattern'', pattern)] (simple_call ''get'' ''/files/search''))"

definition get_files_info where
  "get_files_info hx client reader paths =
     detailed hx client 200 (Some reader) [404, 500] (with_params (path_params paths) (simple_call ''get'' ''/files/info''))"

definition api_ping where
  "api_ping hx client = detailed hx client 200 no_reader [] (simple_call ''get'' ''/ping'')"

definition api_get_metrics where
  "api_get_metrics hx client reader = detailed hx client 200 (Some reader) [500] (simple_call ''get'' ''/metrics'')"

section \<open>Egress\<close>

text \<open>The texts of the documented errors are not used: the status is checked first.\<close>

definition api_get_policy where
  "api_get_policy hx client reader = detailed hx client 200 (Some reader) [] (simple_call ''get'' ''/policy'')"

definition api_patch_policy where
  "api_patch_policy hx client reader body = detailed hx client 200 (Some reader) [] (json_call ''patch'' ''/policy'' body)"

end
