(* ===== verification/Sdk_Client.thy ===== *)
theory Sdk_Client
  imports Sdk_Api
begin

text \<open>
  The connection of the client library (\<open>config/connection.py\<close>) and its access to the lifecycle API
  (\<open>adapters/sandboxes_adapter.py\<close> with the generated calls in \<open>api/lifecycle/api/sandboxes\<close>). The service interface
  \<open>services/sandbox.py\<close> is the record \<open>sandboxes\<close>; \<open>sandboxes_adapter\<close> is its implementation.
\<close>

section \<open>Connection\<close>

record connection_config =
  cc_api_key :: "string option"
  cc_domain :: "string option"
  cc_protocol :: string
  cc_user_agent :: string
  cc_headers :: "(string, string) dict"
  cc_transport :: "nat option"
  cc_owns_transport :: bool
  cc_use_server_proxy :: bool

text \<open>The field validator of \<open>protocol\<close> and what the constructor notes of an explicitly given transport.\<close>

definition protocol_must_be_valid :: "string \<Rightarrow> string res" where
  "protocol_must_be_valid v = (if lower v \<in> {''http'', ''https''} then Inr (lower v) else Inl ValueError)"

definition DEFAULT_USER_AGENT :: string where "DEFAULT_USER_AGENT = ''OpenSandbox-Python-SDK/0.1.5''"

text \<open>\<open>transport = Some t\<close> means that the argument was passed, with \<open>t\<close> the transport or \<open>None\<close>.\<close>

definition connection_config_init ::
    "string option \<Rightarrow> string option \<Rightarrow> string \<Rightarrow> (string, string) dict \<Rightarrow> nat option option \<Rightarrow> bool \<Rightarrow> connection_config res" where
  "connection_config_init api_key domain protocol headers transport use_server_proxy =
     bindR (protocol_must_be_valid protocol) (\<lambda>p.
     Inr \<lparr>cc_api_key = api_key, cc_domain = domain, cc_protocol = p, cc_user_agent = DEFAULT_USER_AGENT, cc_headers = headers,
          cc_transport = (case transport of None \<Rightarrow> None | Some t \<Rightarrow> t), cc_owns_transport = (transport = None),
          cc_use_server_proxy = use_server_proxy\<rparr>)"

definition with_transport_if_missing :: "'w httpx_api \<Rightarrow> connection_config \<Rightarrow> ('w, connection_config) io" where
  "with_transport_if_missing hx c =
     (if cc_transport c \<noteq> None then retS c
      else bindS (hx_new_transport hx) (\<lambda>t. retS (c\<lparr>cc_transport := Some t, cc_owns_transport := True\<rparr>)))"

definition close_transport_if_owned :: "'w httpx_api \<Rightarrow> connection_config \<Rightarrow> ('w, unit) io" where
  "close_transport_if_owned hx c =
     (case cc_transport c of
        None \<Rightarrow> retS ()
      | Some t \<Rightarrow> if \<not> cc_owns_transport c then retS () else catchS (hx_close_transport hx t) (\<lambda>_. retS ()))"

definition get_api_key :: "'w httpx_api \<Rightarrow> connection_config \<Rightarrow> string" where
  "get_api_key hx c = str_or (cc_api_key c) (case hx_getenv hx ''OPEN_SANDBOX_API_KEY'' of None \<Rightarrow> [] | Some v \<Rightarrow> v)"

definition get_domain :: "'w httpx_api \<Rightarrow> connection_config \<Rightarrow> string" where
  "get_domain hx c =
     str_or (cc_domain c) (case hx_getenv hx ''OPEN_SANDBOX_DOMAIN'' of None \<Rightarrow> ''localhost:8080'' | Some v \<Rightarrow> v)"

definition get_base_url :: "'w httpx_api \<Rightarrow> connection_config \<Rightarrow> string" where
  "get_base_url hx c =
     (let domain = get_domain hx c in
      if starts_with domain ''http://'' \<or> starts_with domain ''https://'' then domain @ ''/v1''
      else cc_protocol c @ ''://'' @ domain @ ''/v1'')"

text \<open>The clients of the lifecycle API, with the key, and of a service in a sandbox, without it.\<close>

definition lifecycle_client :: "'w httpx_api \<Rightarrow> connection_config \<Rightarrow> http_client" where
  "lifecycle_client hx c =
     \<lparr>cl_base_url = get_base_url hx c,
      cl_headers = (let hs = dict_update [(''User-Agent'', cc_user_agent c)] (cc_headers c) in
                    if get_api_key hx c = [] then hs else AList.update API_KEY_HEADER (get_api_key hx c) hs),
      cl_transport = cc_transport c\<rparr>"

definition endpoint_client :: "connection_config \<Rightarrow> sdk_endpoint \<Rightarrow> http_client" where
  "endpoint_client c ep =
     \<lparr>cl_base_url = cc_protocol c @ ''://'' @ se_endpoint ep,
      cl_headers = dict_update (dict_update [(''User-Agent'', cc_user_agent c)] (cc_headers c)) (se_headers ep),
      cl_transport = cc_transport c\<rparr>"

section \<open>The lifecycle API\<close>

record 'w sandboxes =
  sv_create :: "sdk_create \<Rightarrow> ('w, string) io"
  sv_info :: "string \<Rightarrow> ('w, sdk_info) io"
  sv_list :: "sdk_filter \<Rightarrow> ('w, sdk_info list \<times> sdk_page) io"
  sv_endpoint :: "string \<Rightarrow> int \<Rightarrow> bool \<Rightarrow> ('w, sdk_endpoint) io"
  sv_pause :: "string \<Rightarrow> ('w, unit) io"
  sv_resume :: "string \<Rightarrow> ('w, unit) io"
  sv_renew :: "string \<Rightarrow> datetime \<Rightarrow> ('w, datetime) io"
  sv_kill :: "string \<Rightarrow> ('w, unit) io"

text \<open>The libraries an adapter uses besides the HTTP client: times as texts and back, and \<open>str\<close> of a value.\<close>

record sdk_libs =
  lib_times :: time_parsers
  lib_isoformat :: "datetime \<Rightarrow> string"
  lib_str :: "json \<Rightarrow> string"

definition adapter_create_sandbox ::
    "'w httpx_api \<Rightarrow> sdk_libs \<Rightarrow> connection_config \<Rightarrow> sdk_create \<Rightarrow> ('w, string) io" where
  "adapter_create_sandbox hx lib c args =
     converting (lib_str lib)
       (call_parsed (post_sandboxes hx (lifecycle_client hx c)
          (of_json (to_sandbox_create_response (lib_times lib) (lib_str lib))) (to_api_create_sandbox_request args)))"

definition adapter_get_sandbox_info ::
    "'w httpx_api \<Rightarrow> sdk_libs \<Rightarrow> connection_config \<Rightarrow> string \<Rightarrow> ('w, sdk_info) io" where
  "adapter_get_sandbox_info hx lib c sandbox_id =
     converting (lib_str lib)
       (call_parsed (get_sandboxes_sandbox_id hx (lifecycle_client hx c) (of_json (to_sandbox_info (lib_times lib))) sandbox_id))"

text \<open>The query of a listing: the metadata of the filter as one text of unescaped pairs.\<close>

definition metadata_param :: "(string, string) dict \<Rightarrow> string" where
  "metadata_param d = join_with (CHR ''&'') (map (\<lambda>(k, v). k @ ''='' @ v) d)"

definition list_params :: "sdk_filter \<Rightarrow> (string \<times> string) list" where
  "list_params f =
     (case sf_states f of None \<Rightarrow> [] | Some xs \<Rightarrow> map (\<lambda>x. (''state'', x)) xs) @
     (case sf_metadata f of None \<Rightarrow> [] | Some [] \<Rightarrow> [] | Some d \<Rightarrow> [(''metadata'', metadata_param d)]) @
     (case sf_page f of None \<Rightarrow> [] | Some n \<Rightarrow> [(''page'', str_int n)]) @
     (case sf_page_size f of None \<Rightarrow> [] | Some n \<Rightarrow> [(''pageSize'', str_int n)])"

definition adapter_list_sandboxes ::
    "'w httpx_api \<Rightarrow> sdk_libs \<Rightarrow> connection_config \<Rightarrow> sdk_filter \<Rightarrow> ('w, sdk_info list \<times> sdk_page) io" where
  "adapter_list_sandboxes hx lib c f =
     converting (lib_str lib)
       (call_parsed (get_sandboxes hx (lifecycle_client hx c) (of_json (to_paged_sandbox_infos (lib_times lib))) (list_params f)))"

definition adapter_get_sandbox_endpoint ::
    "'w httpx_api \<Rightarrow> sdk_libs \<Rightarrow> connection_config \<Rightarrow> string \<Rightarrow> int \<Rightarrow> bool \<Rightarrow> ('w, sdk_endpoint) io" where
  "adapter_get_sandbox_endpoint hx lib c sandbox_id port use_server_proxy =
     converting (lib_str lib)
       (call_parsed (get_sandboxes_sandbox_id_endpoints_port hx (lifecycle_client hx c) (of_json to_sandbox_endpoint)
          sandbox_id port use_server_proxy))"

definition adapter_pause_sandbox :: "'w httpx_api \<Rightarrow> sdk_libs \<Rightarrow> connection_config \<Rightarrow> string \<Rightarrow> ('w, unit) io" where
  "adapter_pause_sandbox hx lib c sandbox_id =
     converting (lib_str lib)
       (call_unit (post_sandboxes_sandbox_id_pause hx (lifecycle_client hx c) sandbox_id))"

definition adapter_resume_sandbox :: "'w httpx_api \<Rightarrow> sdk_libs \<Rightarrow> connection_config \<Rightarrow> string \<Rightarrow> ('w, unit) io" where
  "adapter_resume_sandbox hx lib c sandbox_id =
     converting (lib_str lib)
       (call_unit (post_sandboxes_sandbox_id_resume hx (lifecycle_client hx c) sandbox_id))"

definition adapter_renew_sandbox_expiration ::
    "'w httpx_api \<Rightarrow> sdk_libs \<Rightarrow> connection_config \<Rightarrow> string \<Rightarrow> datetime \<Rightarrow> ('w, datetime) io" where
  "adapter_renew_sandbox_expiration hx lib c sandbox_id t =
     converting (lib_str lib)
       (call_parsed (post_sandboxes_sandbox_id_renew_expiration hx (lifecycle_client hx c)
          (of_json (to_sandbox_renew_response (lib_times lib))) sandbox_id (to_api_renew_request (lib_isoformat lib) t)))"

definition adapter_kill_sandbox :: "'w httpx_api \<Rightarrow> sdk_libs \<Rightarrow> connection_config \<Rightarrow> string \<Rightarrow> ('w, unit) io" where
  "adapter_kill_sandbox hx lib c sandbox_id =
     converting (lib_str lib)
       (call_unit (delete_sandboxes_sandbox_id hx (lifecycle_client hx c) sandbox_id))"

definition sandboxes_adapter :: "'w httpx_api \<Rightarrow> sdk_libs \<Rightarrow> connection_config \<Rightarrow> 'w sandboxes" where
  "sandboxes_adapter hx lib c =
     \<lparr>sv_create = adapter_create_sandbox hx lib c, sv_info = adapter_get_sandbox_info hx lib c,
      sv_list = adapter_list_sandboxes hx lib c, sv_endpoint = adapter_get_sandbox_endpoint hx lib c,
      sv_pause = adapter_pause_sandbox hx lib c, sv_resume = adapter_resume_sandbox hx lib c,
      sv_renew = adapter_renew_sandbox_expiration hx lib c, sv_kill = adapter_kill_sandbox hx lib c\<rparr>"

end
