(* ===== verification/Sdk_Commands.thy ===== *)
theory Sdk_Commands
  imports Sdk_Client
begin

text \<open>
  Commands in a sandbox, as the client library runs them: the execution model (\<open>models/execd.py\<close>), the events of the
  stream of execd (\<open>adapters/converter/event_node.py\<close>), their dispatch
  (\<open>adapters/converter/execution_event_dispatcher.py\<close>), the bodies of requests
  (\<open>adapters/converter/execution_converter.py\<close>) and the adapter (\<open>adapters/command_adapter.py\<close>).
\<close>

section \<open>Executions\<close>

record output_message =
  om_text :: string
  om_timestamp :: int
  om_is_error :: bool

record execution_result =
  er_text :: string
  er_timestamp :: int

record execution_error =
  ee_name :: string
  ee_value :: string
  ee_timestamp :: int
  ee_traceback :: "string list"

record execution =
  ex_id :: "string option"
  ex_count :: "int option"
  ex_result :: "execution_result list"
  ex_error :: "execution_error option"
  ex_stdout :: "output_message list"
  ex_stderr :: "output_message list"

definition new_execution :: execution where
  "new_execution = \<lparr>ex_id = None, ex_count = None, ex_result = [], ex_error = None, ex_stdout = [], ex_stderr = []\<rparr>"

definition rstrip_newlines :: "string \<Rightarrow> string" where
  "rstrip_newlines s = rstrip_by (\<lambda>c. c = newline) s"

definition execution_text :: "execution \<Rightarrow> string" where
  "execution_text x =
     join_with newline (map (\<lambda>m. rstrip_newlines (om_text m)) (ex_stdout x) @
                        map (\<lambda>r. rstrip_newlines (er_text r)) (filter (\<lambda>r. er_text r \<noteq> []) (ex_result x)))"

definition execution_str :: "execution \<Rightarrow> string" where
  "execution_str x =
     join_with newline
       ((if ex_stdout x \<noteq> [] \<or> ex_result x \<noteq> [] then [execution_text x] else []) @
        (if ex_stderr x \<noteq> [] then [''[stderr]'' @ [newline] @ join_with newline (map (\<lambda>m. rstrip_newlines (om_text m)) (ex_stderr x))] else []) @
        (case ex_error x of None \<Rightarrow> [] | Some e \<Rightarrow> [''[error] '' @ ee_name e @ '': '' @ ee_value e]))"

section \<open>Events\<close>

record event_error =
  ev_ename :: "string option"
  ev_evalue :: "string option"
  ev_traceback :: "string list"

record event_node =
  en_type :: string
  en_text :: "string option"
  en_count :: "int option"
  en_millis :: "int option"
  en_timestamp :: int
  en_results :: "string option option"
  en_error :: "event_error option"

definition event_error_of :: "json \<Rightarrow> event_error res" where
  "event_error_of v =
     (case v of
        JObj d \<Rightarrow>
          bindR (optional (map_of d ''ename'') field_str) (\<lambda>n. bindR (optional (map_of d ''evalue'') field_str) (\<lambda>w.
          bindR (case map_of d ''traceback'' of None \<Rightarrow> Inr [] | Some t \<Rightarrow> field_strs t) (\<lambda>tb.
          Inr \<lparr>ev_ename = n, ev_evalue = w, ev_traceback = tb\<rparr>)))
      | _ \<Rightarrow> Inl ValueError)"

definition event_results_of :: "json \<Rightarrow> string option res" where
  "event_results_of v = (case v of JObj d \<Rightarrow> optional (map_of d ''text'') field_str | _ \<Rightarrow> Inl ValueError)"

text \<open>\<open>EventNode(**event_dict)\<close>\<close>

definition event_of :: "time_parsers \<Rightarrow> json \<Rightarrow> event_node res" where
  "event_of tp v =
     (case v of
        JObj d \<Rightarrow>
          bindR (required (map_of d ''type'') field_str) (\<lambda>ty. bindR (optional (map_of d ''text'') field_str) (\<lambda>tx.
          bindR (optional (map_of d ''execution_count'') (field_int tp)) (\<lambda>ec. bindR (optional (map_of d ''execution_time'') (field_int tp)) (\<lambda>et.
          bindR (required (map_of d ''timestamp'') (field_int tp)) (\<lambda>ts. bindR (optional (map_of d ''results'') event_results_of) (\<lambda>rs.
          bindR (optional (map_of d ''error'') event_error_of) (\<lambda>er.
          Inr \<lparr>en_type = ty, en_text = tx, en_count = ec, en_millis = et, en_timestamp = ts, en_results = rs, en_error = er\<rparr>)))))))
      | _ \<Rightarrow> Inl TypeError)"

section \<open>Dispatch\<close>

text \<open>The optional callbacks of a caller; they may raise.\<close>

record 'w handlers =
  on_init :: "(string \<times> int \<Rightarrow> ('w, unit) io) option"
  on_stdout :: "(output_message \<Rightarrow> ('w, unit) io) option"
  on_stderr :: "(output_message \<Rightarrow> ('w, unit) io) option"
  on_result :: "(execution_result \<Rightarrow> ('w, unit) io) option"
  on_error :: "(execution_error \<Rightarrow> ('w, unit) io) option"
  on_complete :: "(int \<times> int \<Rightarrow> ('w, unit) io) option"

text \<open>The state during a run: the world and the execution that the dispatcher fills.\<close>

definition in_world :: "('w, 'a) io \<Rightarrow> ('w \<times> 'x, 'a) io" where
  "in_world m = (\<lambda>(w, x). case m w of (r, w') \<Rightarrow> (r, (w', x)))"

definition on_execution :: "('x \<Rightarrow> 'x) \<Rightarrow> ('w \<times> 'x, unit) io" where
  "on_execution f = modifyS (\<lambda>(w, x). (w, f x))"

definition notify :: "('a \<Rightarrow> ('w, unit) io) option \<Rightarrow> 'a \<Rightarrow> ('w \<times> 'x, unit) io" where
  "notify h a = (case h of None \<Rightarrow> retS () | Some f \<Rightarrow> in_world (f a))"

abbreviation str0 :: "string option \<Rightarrow> string" where
  "str0 v \<equiv> str_or v []"

definition handle_init :: "'w handlers \<Rightarrow> event_node \<Rightarrow> ('w \<times> execution, unit) io" where
  "handle_init h e =
     bindS (on_execution (\<lambda>x. x\<lparr>ex_id := Some (str0 (en_text e))\<rparr>)) (\<lambda>_. notify (on_init h) (str0 (en_text e), en_timestamp e))"

definition message_of :: "bool \<Rightarrow> event_node \<Rightarrow> output_message" where
  "message_of err e = \<lparr>om_text = str0 (en_text e), om_timestamp = en_timestamp e, om_is_error = err\<rparr>"

definition handle_stdout :: "'w handlers \<Rightarrow> event_node \<Rightarrow> ('w \<times> execution, unit) io" where
  "handle_stdout h e =
     bindS (on_execution (\<lambda>x. x\<lparr>ex_stdout := ex_stdout x @ [message_of False e]\<rparr>)) (\<lambda>_. notify (on_stdout h) (message_of False e))"

definition handle_stderr :: "'w handlers \<Rightarrow> event_node \<Rightarrow> ('w \<times> execution, unit) io" where
  "handle_stderr h e =
     bindS (on_execution (\<lambda>x. x\<lparr>ex_stderr := ex_stderr x @ [message_of True e]\<rparr>)) (\<lambda>_. notify (on_stderr h) (message_of True e))"

definition result_of :: "event_node \<Rightarrow> execution_result" where
  "result_of e = \<lparr>er_text = (case en_results e of None \<Rightarrow> [] | Some t \<Rightarrow> str0 t), er_timestamp = en_timestamp e\<rparr>"

definition handle_result :: "'w handlers \<Rightarrow> event_node \<Rightarrow> ('w \<times> execution, unit) io" where
  "handle_result h e =
     bindS (on_execution (\<lambda>x. x\<lparr>ex_result := ex_result x @ [result_of e]\<rparr>)) (\<lambda>_. notify (on_result h) (result_of e))"

definition error_of :: "event_node \<Rightarrow> event_error \<Rightarrow> execution_error" where
  "error_of e d =
     \<lparr>ee_name = str0 (ev_ename d), ee_value = str0 (ev_evalue d), ee_timestamp = en_timestamp e, ee_traceback = ev_traceback d\<rparr>"

definition handle_error :: "'w handlers \<Rightarrow> event_node \<Rightarrow> ('w \<times> execution, unit) io" where
  "handle_error h e =
     (case en_error e of
        None \<Rightarrow> retS ()
      | Some d \<Rightarrow> bindS (on_execution (\<lambda>x. x\<lparr>ex_error := Some (error_of e d)\<rparr>)) (\<lambda>_. notify (on_error h) (error_of e d)))"

definition handle_execution_complete :: "'w handlers \<Rightarrow> event_node \<Rightarrow> ('w \<times> execution, unit) io" where
  "handle_execution_complete h e =
     notify (on_complete h) (en_timestamp e, case en_millis e of None \<Rightarrow> 0 | Some n \<Rightarrow> n)"

definition dispatch :: "'w handlers \<Rightarrow> event_node \<Rightarrow> ('w \<times> execution, unit) io" where
  "dispatch h e =
     (if en_type e = ''stdout'' then handle_stdout h e
      else if en_type e = ''stderr'' then handle_stderr h e
      else if en_type e = ''result'' then handle_result h e
      else if en_type e = ''error'' then handle_error h e
      else if en_type e = ''execution_complete'' then handle_execution_complete h e
      else if en_type e = ''init'' then handle_init h e
      else if en_type e = ''execution_count''
      then (case en_count e of None \<Rightarrow> retS () | Some n \<Rightarrow> on_execution (\<lambda>x. x\<lparr>ex_count := Some n\<rparr>))
      else retS ())"

section \<open>Requests\<close>

record run_opts =
  ro_background :: bool
  ro_working_directory :: "string option"
  ro_timeout :: "int option"
  ro_uid :: "int option"
  ro_gid :: "int option"
  ro_envs :: "(string, string) dict option"

definition default_opts :: run_opts where
  "default_opts = \<lparr>ro_background = False, ro_working_directory = None, ro_timeout = None, ro_uid = None, ro_gid = None, ro_envs = None\<rparr>"

definition run_opts_ok :: "run_opts \<Rightarrow> bool" where
  "run_opts_ok p \<longleftrightarrow> (case ro_uid p of None \<Rightarrow> True | Some n \<Rightarrow> 0 \<le> n) \<and> (case ro_gid p of None \<Rightarrow> True | Some n \<Rightarrow> 0 \<le> n)
     \<and> (ro_gid p \<noteq> None \<longrightarrow> ro_uid p \<noteq> None)"

text \<open>\<open>int(timeout.total_seconds() * 1000)\<close> of a number of microseconds.\<close>

definition whole_millis :: "int \<Rightarrow> int" where
  "whole_millis us = (if 0 \<le> us then us div 1000 else - ((- us) div 1000))"

text \<open>The field order is that of the generated \<open>to_dict\<close>.\<close>

definition to_api_run_command_json :: "string \<Rightarrow> run_opts \<Rightarrow> json" where
  "to_api_run_command_json command p =
     JObj ([(''command'', JStr command)] @
           field ''cwd'' (if given (ro_working_directory p) then map_option JStr (ro_working_directory p) else None) @
           field ''background'' (if ro_background p then Some (JBool True) else None) @
           field ''timeout'' (map_option (\<lambda>t. JInt (whole_millis t)) (ro_timeout p)) @
           field ''uid'' (map_option JInt (ro_uid p)) @
           field ''gid'' (map_option JInt (ro_gid p)) @
           field ''envs'' (map_option (\<lambda>d. str_dict (dict_update [] d)) (ro_envs p)))"

section \<open>The adapter\<close>

text \<open>One line of the stream; whatever goes wrong with it is logged and the next line is read.\<close>

definition sse_data :: "string \<Rightarrow> string" where
  "sse_data line = (if starts_with line ''data:'' then strip (drop 5 line) else line)"

definition read_event :: "time_parsers \<Rightarrow> string \<Rightarrow> event_node res" where
  "read_event tp line =
     (case json_loads (sse_data line) of None \<Rightarrow> Inl ValueError | Some v \<Rightarrow> event_of tp v)"

definition handle_line :: "time_parsers \<Rightarrow> 'w handlers \<Rightarrow> string \<Rightarrow> ('w \<times> execution, unit) io" where
  "handle_line tp h line =
     (if strip line = [] then retS ()
      else catchS (bindS (liftR (read_event tp line)) (dispatch h)) (\<lambda>_. retS ()))"

definition run_stream :: "time_parsers \<Rightarrow> 'w handlers \<Rightarrow> http_stream \<Rightarrow> ('w, execution) io" where
  "run_stream tp h st = (\<lambda>w.
     case bindS (for_eachS (handle_line tp h) (st_lines st)) (\<lambda>_.
          case st_failure st of None \<Rightarrow> retS () | Some e \<Rightarrow> raiseS e) (w, new_execution) of
       (Inl e, (w', x)) \<Rightarrow> (Inl e, w') | (Inr _, (w', x)) \<Rightarrow> (Inr x, w'))"

definition sse_client :: "http_client \<Rightarrow> http_client" where
  "sse_client c = c\<lparr>cl_base_url := [], cl_headers := AList.update ''Cache-Control'' ''no-cache'' (AList.update ''Accept'' ''text/event-stream'' (cl_headers c))\<rparr>"

definition execd_path_url :: "connection_config \<Rightarrow> sdk_endpoint \<Rightarrow> string \<Rightarrow> string" where
  "execd_path_url c ep path = cc_protocol c @ ''://'' @ se_endpoint ep @ path"

definition command_run ::
    "'w httpx_api \<Rightarrow> sdk_libs \<Rightarrow> connection_config \<Rightarrow> sdk_endpoint \<Rightarrow> string \<Rightarrow> run_opts option \<Rightarrow> 'w handlers \<Rightarrow> ('w, execution) io" where
  "command_run hx lib c ep command opts h =
     (if strip command = [] then raiseS (sdk_exception InvalidArgumentException)
      else converting (lib_str lib)
        (bindS (hx_stream hx (sse_client (endpoint_client c ep))
           (json_call ''POST'' (execd_path_url c ep ''/command'')
              (to_api_run_command_json command (case opts of None \<Rightarrow> default_opts | Some p \<Rightarrow> p)))) (\<lambda>st.
         if st_status st \<noteq> 200
         then raiseS (api_exception (Some (st_status st)) None (extract_request_id (st_headers st)))
         else run_stream (lib_times lib) h st)))"

definition command_interrupt ::
    "'w httpx_api \<Rightarrow> sdk_libs \<Rightarrow> connection_config \<Rightarrow> sdk_endpoint \<Rightarrow> string \<Rightarrow> ('w, unit) io" where
  "command_interrupt hx lib c ep execution_id =
     converting (lib_str lib)
       (call_unit (interrupt_command hx (endpoint_client c ep) execution_id))"

record command_status =
  cs_id :: "string option"
  cs_content :: "string option"
  cs_running :: "bool option"
  cs_exit_code :: "int option"
  cs_error :: "string option"
  cs_started_at :: "datetime option"
  cs_finished_at :: "datetime option"

text \<open>\<open>CommandStatusResponse.from_dict\<close> and \<open>to_command_status\<close>: a start that is there must be a time, also when it is null.\<close>

definition to_command_status :: "time_parsers \<Rightarrow> json \<Rightarrow> command_status res" where
  "to_command_status tp v =
     bindR (jpop_unset v ''id'') (\<lambda>i. bindR (jpop_unset v ''content'') (\<lambda>co. bindR (jpop_unset v ''running'') (\<lambda>ru.
     bindR (jpop_unset v ''exit_code'') (\<lambda>ec. bindR (jpop_unset v ''error'') (\<lambda>er. bindR (jpop_unset v ''started_at'') (\<lambda>sa.
     bindR (case sa of None \<Rightarrow> Inr None | Some x \<Rightarrow> bindR (iso_field tp x) (\<lambda>t. Inr (Some t))) (\<lambda>started.
     bindR (jpop_unset v ''finished_at'') (\<lambda>fa.
     bindR (optional i field_str) (\<lambda>i. bindR (optional co field_str) (\<lambda>co. bindR (optional ru (field_bool tp)) (\<lambda>ru.
     bindR (optional ec (field_int tp)) (\<lambda>ec. bindR (optional er field_str) (\<lambda>er. bindR (expires_field tp fa) (\<lambda>finished.
     Inr \<lparr>cs_id = i, cs_content = co, cs_running = ru, cs_exit_code = ec, cs_error = er, cs_started_at = started,
          cs_finished_at = finished\<rparr>))))))))))))))"

definition get_command_status ::
    "'w httpx_api \<Rightarrow> sdk_libs \<Rightarrow> connection_config \<Rightarrow> sdk_endpoint \<Rightarrow> string \<Rightarrow> ('w, command_status) io" where
  "get_command_status hx lib c ep execution_id =
     converting (lib_str lib)
       (call_parsed (api_command_status hx (endpoint_client c ep) (of_json (to_command_status (lib_times lib))) execution_id))"

text \<open>The text of the logs, and the cursor for the next read when the header is a number.\<close>

definition get_background_command_logs ::
    "'w httpx_api \<Rightarrow> sdk_libs \<Rightarrow> connection_config \<Rightarrow> sdk_endpoint \<Rightarrow> string \<Rightarrow> int option \<Rightarrow> ('w, string \<times> int option) io" where
  "get_background_command_logs hx lib c ep execution_id cursor =
     converting (lib_str lib)
       (bindS (api_command_logs hx (endpoint_client c ep) execution_id cursor) (\<lambda>r.
        bindS (liftR (handle_api_error r)) (\<lambda>_. bindS (liftR (require_parsed r)) (\<lambda>content.
        retS (content, Option.bind (header_get ''EXECD-COMMANDS-TAIL-CURSOR'' (ar_headers r)) py_int)))))"

record 'w commands =
  cm_run :: "string \<Rightarrow> run_opts option \<Rightarrow> 'w handlers \<Rightarrow> ('w, execution) io"
  cm_interrupt :: "string \<Rightarrow> ('w, unit) io"
  cm_status :: "string \<Rightarrow> ('w, command_status) io"
  cm_logs :: "string \<Rightarrow> int option \<Rightarrow> ('w, string \<times> int option) io"

definition commands_adapter :: "'w httpx_api \<Rightarrow> sdk_libs \<Rightarrow> connection_config \<Rightarrow> sdk_endpoint \<Rightarrow> 'w commands" where
  "commands_adapter hx lib c ep =
     \<lparr>cm_run = command_run hx lib c ep, cm_interrupt = command_interrupt hx lib c ep,
      cm_status = get_command_status hx lib c ep, cm_logs = get_background_command_logs hx lib c ep\<rparr>"

end
