(* ===== verification/Sdk_Files.thy ===== *)
theory Sdk_Files
  imports Sdk_Commands
begin

text \<open>
  Files, health, metrics and the egress policy of a sandbox: \<open>models/filesystem.py\<close>,
  \<open>adapters/converter/filesystem_model_converter.py\<close>, \<open>adapters/filesystem_adapter.py\<close>, \<open>adapters/health_adapter.py\<close>,
  \<open>adapters/metrics_adapter.py\<close> and \<open>adapters/egress_adapter.py\<close>. Contents are texts of bytes; the decoding of a read
  text is an argument. Streams of bytes are not modelled.
\<close>

section \<open>Models\<close>

datatype file_data = Data_Bytes string | Data_Str string | Data_Binary_Stream string | Data_Text_Stream | Data_None | Data_Other

record write_entry =
  we_path :: string
  we_data :: file_data
  we_mode :: int
  we_owner :: "string option"
  we_group :: "string option"
  we_encoding :: string

definition write_entry_ok :: "write_entry \<Rightarrow> bool" where
  "write_entry_ok e \<longleftrightarrow> strip (we_path e) \<noteq> [] \<and> 0 \<le> we_mode e \<and> strip (we_encoding e) \<noteq> []"

record permission_entry =
  pe_path :: string
  pe_owner :: "string option"
  pe_group :: "string option"
  pe_mode :: int

definition permission_entry_ok :: "permission_entry \<Rightarrow> bool" where
  "permission_entry_ok e \<longleftrightarrow> strip (pe_path e) \<noteq> [] \<and> 0 \<le> pe_mode e"

definition move_entry_ok :: "string \<times> string \<Rightarrow> bool" where
  "move_entry_ok e \<longleftrightarrow> strip (fst e) \<noteq> [] \<and> strip (snd e) \<noteq> []"

record replace_entry =
  re_path :: string
  re_old :: string
  re_new :: string

definition replace_entry_ok :: "replace_entry \<Rightarrow> bool" where
  "replace_entry_ok e \<longleftrightarrow> strip (re_path e) \<noteq> []"

definition search_entry_ok :: "string \<times> string \<Rightarrow> bool" where
  "search_entry_ok e \<longleftrightarrow> strip (fst e) \<noteq> [] \<and> strip (snd e) \<noteq> []"

record entry_info =
  ei_path :: string
  ei_mode :: int
  ei_owner :: string
  ei_group :: string
  ei_size :: int
  ei_modified_at :: datetime
  ei_created_at :: datetime

section \<open>Conversion\<close>

text \<open>\<open>FileInfo.from_dict\<close> and \<open>to_entry_info\<close>\<close>

definition to_entry_info :: "time_parsers \<Rightarrow> json \<Rightarrow> entry_info res" where
  "to_entry_info tp v =
     bindR (jpop v ''path'') (\<lambda>p. bindR (jpop v ''size'') (\<lambda>sz. bindR (bindR (jpop v ''modified_at'') (iso_field tp)) (\<lambda>m.
     bindR (bindR (jpop v ''created_at'') (iso_field tp)) (\<lambda>c. bindR (jpop v ''owner'') (\<lambda>o1. bindR (jpop v ''group'') (\<lambda>g.
     bindR (jpop v ''mode'') (\<lambda>md.
     bindR (field_str p) (\<lambda>path. bindR (field_int tp md) (\<lambda>mode. bindR (field_str o1) (\<lambda>owner. bindR (field_str g) (\<lambda>grp.
     bindR (field_int tp sz) (\<lambda>size.
     Inr \<lparr>ei_path = path, ei_mode = mode, ei_owner = owner, ei_group = grp, ei_size = size, ei_modified_at = m,
          ei_created_at = c\<rparr>))))))))))))"

definition to_entry_info_list :: "time_parsers \<Rightarrow> json \<Rightarrow> entry_info list res" where
  "to_entry_info_list tp v = (case v of JList xs \<Rightarrow> collect_each (to_entry_info tp) xs | _ \<Rightarrow> Inl TypeError)"

definition to_entry_info_map :: "time_parsers \<Rightarrow> json \<Rightarrow> (string, entry_info) dict res" where
  "to_entry_info_map tp v =
     (case v of
        JObj d \<Rightarrow> collect_each (\<lambda>(k, x). bindR (to_entry_info tp x) (\<lambda>i. Inr (k, i))) d
      | _ \<Rightarrow> Inl TypeError)"

definition opt_str :: "string option \<Rightarrow> json" where
  "opt_str v = (case v of None \<Rightarrow> JNull | Some s \<Rightarrow> JStr s)"

definition permission_json :: "int \<Rightarrow> string option \<Rightarrow> string option \<Rightarrow> json" where
  "permission_json mode owner grp = JObj [(''mode'', JInt mode), (''owner'', opt_str owner), (''group'', opt_str grp)]"

text \<open>The bodies are dictionaries by path: of two entries for one path the later one counts.\<close>

definition to_api_make_dirs_body :: "write_entry list \<Rightarrow> json" where
  "to_api_make_dirs_body es =
     JObj (dict_update [] (map (\<lambda>e. (we_path e, permission_json (we_mode e) (we_owner e) (we_group e))) es))"

definition to_api_chmod_files_body :: "permission_entry list \<Rightarrow> json" where
  "to_api_chmod_files_body es =
     JObj (dict_update [] (map (\<lambda>e. (pe_path e, permission_json (pe_mode e) (pe_owner e) (pe_group e))) es))"

definition to_api_replace_content_body :: "replace_entry list \<Rightarrow> json" where
  "to_api_replace_content_body es =
     JObj (dict_update [] (map (\<lambda>e. (re_path e, JObj [(''old'', JStr (re_old e)), (''new'', JStr (re_new e))])) es))"

definition to_api_rename_file_items :: "(string \<times> string) list \<Rightarrow> json" where
  "to_api_rename_file_items es = JList (map (\<lambda>(s, d). JObj [(''src'', JStr s), (''dest'', JStr d)]) es)"

section \<open>Files\<close>

text \<open>\<open>raise_for_status\<close> of the HTTP library raises for redirections and errors.\<close>

definition raise_for_status :: "http_response \<Rightarrow> http_response res" where
  "raise_for_status r =
     (if 200 \<le> rs_status r \<and> rs_status r < 300 then Inr r else Inl (HTTPStatusError (rs_status r) (rs_headers r) (rs_body r)))"

definition build_download_request :: "connection_config \<Rightarrow> sdk_endpoint \<Rightarrow> string \<Rightarrow> string option \<Rightarrow> http_call" where
  "build_download_request c ep path range_header =
     (simple_call ''GET'' (execd_path_url c ep ''/files/download'' @ ''?path='' @ url_quote ''/'' path))
       \<lparr>hc_headers := (if given range_header then [(''Range'', the range_header)] else [])\<rparr>"

definition read_bytes ::
    "'w httpx_api \<Rightarrow> sdk_libs \<Rightarrow> connection_config \<Rightarrow> sdk_endpoint \<Rightarrow> string \<Rightarrow> string option \<Rightarrow> ('w, string) io" where
  "read_bytes hx lib c ep path range_header =
     converting (lib_str lib)
       (bindS (hx_send hx (endpoint_client c ep) (build_download_request c ep path range_header)) (\<lambda>r.
        bindS (liftR (raise_for_status r)) (\<lambda>r. retS (rs_body r))))"

text \<open>\<open>decode\<close> is \<open>bytes.decode(encoding)\<close>; its exceptions are not converted.\<close>

definition read_file ::
    "'w httpx_api \<Rightarrow> sdk_libs \<Rightarrow> connection_config \<Rightarrow> sdk_endpoint \<Rightarrow> (string \<Rightarrow> string res) \<Rightarrow> string \<Rightarrow> string option \<Rightarrow> ('w, string) io" where
  "read_file hx lib c ep decode path range_header =
     bindS (read_bytes hx lib c ep path range_header) (\<lambda>b. liftR (decode b))"

text \<open>The streaming variant returns the open answer; what the caller reads of it later is its own business.\<close>

definition read_bytes_stream ::
    "'w httpx_api \<Rightarrow> sdk_libs \<Rightarrow> connection_config \<Rightarrow> sdk_endpoint \<Rightarrow> string \<Rightarrow> string option \<Rightarrow> ('w, http_stream) io" where
  "read_bytes_stream hx lib c ep path range_header =
     converting (lib_str lib)
       (bindS (hx_stream hx (endpoint_client c ep) (build_download_request c ep path range_header)) (\<lambda>st.
        if 300 \<le> st_status st
        then raiseS (api_exception (Some (st_status st)) None (extract_request_id (st_headers st)))
        else retS st))"

definition write_metadata :: "write_entry \<Rightarrow> json" where
  "write_metadata e =
     JObj [(''path'', JStr (we_path e)), (''owner'', opt_str (we_owner e)), (''group'', opt_str (we_group e)), (''mode'', JInt (we_mode e))]"

text \<open>The two parts of an upload for one entry: (field, file name, content, content type).\<close>

definition multipart_parts :: "write_entry \<Rightarrow> (string \<times> string \<times> string \<times> string) list res" where
  "multipart_parts e =
     (let meta = (''metadata'', ''metadata'', json_dumps (write_metadata e), ''application/json'');
          part = (\<lambda>content ty. Inr [meta, (''file'', we_path e, content, ty)])
      in if we_path e = [] then Inl (sdk_exception InvalidArgumentException)
         else (case we_data e of
                 Data_None \<Rightarrow> Inl (sdk_exception InvalidArgumentException)
               | Data_Bytes b \<Rightarrow> part b ''application/octet-stream''
               | Data_Str t \<Rightarrow> part t (''text/plain; charset='' @ (if we_encoding e = [] then ''utf-8'' else we_encoding e))
               | Data_Binary_Stream b \<Rightarrow> part b ''application/octet-stream''
               | Data_Text_Stream \<Rightarrow> Inl (sdk_exception InvalidArgumentException)
               | Data_Other \<Rightarrow> Inl (sdk_exception InvalidArgumentException)))"

definition write_files ::
    "'w httpx_api \<Rightarrow> sdk_libs \<Rightarrow> connection_config \<Rightarrow> sdk_endpoint \<Rightarrow> write_entry list \<Rightarrow> ('w, unit) io" where
  "write_files hx lib c ep entries =
     (if entries = [] then retS ()
      else converting (lib_str lib)
        (bindS (liftR (collect_each multipart_parts entries)) (\<lambda>parts.
         bindS (hx_send hx (endpoint_client c ep)
           ((simple_call ''POST'' (execd_path_url c ep ''/files/upload''))\<lparr>hc_content := Multipart (concat parts)\<rparr>)) (\<lambda>r.
         bindS (liftR (raise_for_status r)) (\<lambda>_. retS ())))))"

text \<open>The entry is validated before the adapter is entered, so the \<open>ValidationError\<close> is not converted.\<close>

definition write_file ::
    "'w httpx_api \<Rightarrow> sdk_libs \<Rightarrow> connection_config \<Rightarrow> sdk_endpoint \<Rightarrow> write_entry \<Rightarrow> ('w, unit) io" where
  "write_file hx lib c ep e = (if write_entry_ok e then write_files hx lib c ep [e] else raiseS ValueError)"

definition create_directories ::
    "'w httpx_api \<Rightarrow> sdk_libs \<Rightarrow> connection_config \<Rightarrow> sdk_endpoint \<Rightarrow> write_entry list \<Rightarrow> ('w, unit) io" where
  "create_directories hx lib c ep es =
     converting (lib_str lib)
       (call_unit (make_dirs hx (endpoint_client c ep) (to_api_make_dirs_body es)))"

definition delete_files ::
    "'w httpx_api \<Rightarrow> sdk_libs \<Rightarrow> connection_config \<Rightarrow> sdk_endpoint \<Rightarrow> string list \<Rightarrow> ('w, unit) io" where
  "delete_files hx lib c ep paths =
     converting (lib_str lib)
       (call_unit (remove_files hx (endpoint_client c ep) paths))"

definition delete_directories ::
    "'w httpx_api \<Rightarrow> sdk_libs \<Rightarrow> connection_config \<Rightarrow> sdk_endpoint \<Rightarrow> string list \<Rightarrow> ('w, unit) io" where
  "delete_directories hx lib c ep paths =
     converting (lib_str lib)
       (call_unit (remove_dirs hx (endpoint_client c ep) paths))"

definition move_files ::
    "'w httpx_api \<Rightarrow> sdk_libs \<Rightarrow> connection_config \<Rightarrow> sdk_endpoint \<Rightarrow> (string \<times> string) list \<Rightarrow> ('w, unit) io" where
  "move_files hx lib c ep es =
     converting (lib_str lib)
       (call_unit (rename_files hx (endpoint_client c ep) (to_api_rename_file_items es)))"

definition set_permissions ::
    "'w httpx_api \<Rightarrow> sdk_libs \<Rightarrow> connection_config \<Rightarrow> sdk_endpoint \<Rightarrow> permission_entry list \<Rightarrow> ('w, unit) io" where
  "set_permissions hx lib c ep es =
     converting (lib_str lib)
       (call_unit (chmod_files hx (endpoint_client c ep) (to_api_chmod_files_body es)))"

definition replace_contents ::
    "'w httpx_api \<Rightarrow> sdk_libs \<Rightarrow> connection_config \<Rightarrow> sdk_endpoint \<Rightarrow> replace_entry list \<Rightarrow> ('w, unit) io" where
  "replace_contents hx lib c ep es =
     converting (lib_str lib)
       (call_unit (replace_content hx (endpoint_client c ep) (to_api_replace_content_body es)))"

text \<open>A call whose answer may be empty: nothing parsed counts as the empty result.\<close>

definition call_or_empty :: "('w, 'a list api_response) io \<Rightarrow> ('w, 'a list) io" where
  "call_or_empty m =
     bindS m (\<lambda>r. bindS (liftR (handle_api_error r)) (\<lambda>_. retS (case ar_parsed r of Parsed xs \<Rightarrow> xs | _ \<Rightarrow> [])))"

definition file_search ::
    "'w httpx_api \<Rightarrow> sdk_libs \<Rightarrow> connection_config \<Rightarrow> sdk_endpoint \<Rightarrow> string \<times> string \<Rightarrow> ('w, entry_info list) io" where
  "file_search hx lib c ep e =
     converting (lib_str lib)
       (call_or_empty (search_files hx (endpoint_client c ep) (of_json (to_entry_info_list (lib_times lib))) (fst e) (snd e)))"

definition get_file_info ::
    "'w httpx_api \<Rightarrow> sdk_libs \<Rightarrow> connection_config \<Rightarrow> sdk_endpoint \<Rightarrow> string list \<Rightarrow> ('w, (string, entry_info) dict) io" where
  "get_file_info hx lib c ep paths =
     converting (lib_str lib)
       (call_or_empty (get_files_info hx (endpoint_client c ep) (of_json (to_entry_info_map (lib_times lib))) paths))"

section \<open>Health, metrics, egress\<close>

text \<open>A failing check is an unhealthy sandbox.\<close>

definition health_ping :: "'w httpx_api \<Rightarrow> connection_config \<Rightarrow> sdk_endpoint \<Rightarrow> ('w, bool) io" where
  "health_ping hx c ep =
     catchS (bindS (call_unit (api_ping hx (endpoint_client c ep))) (\<lambda>_. retS True)) (\<lambda>_. retS False)"

record sandbox_metrics =
  sm_cpu_count :: json
  sm_cpu_used_percentage :: json
  sm_memory_total_in_mib :: json
  sm_memory_used_in_mib :: json
  sm_timestamp :: int

definition field_number :: "(json \<Rightarrow> json option) \<Rightarrow> json \<Rightarrow> json res" where
  "field_number lax v = (case v of JInt n \<Rightarrow> Inr (JInt n) | JFloat r \<Rightarrow> Inr (JFloat r) | _ \<Rightarrow> or_value_error (lax v))"

text \<open>\<open>Metrics.from_dict\<close> and \<open>to_sandbox_metrics\<close>; \<open>lax\<close> is the model library on values that are no numbers.\<close>

definition to_sandbox_metrics :: "time_parsers \<Rightarrow> (json \<Rightarrow> json option) \<Rightarrow> json \<Rightarrow> sandbox_metrics res" where
  "to_sandbox_metrics tp lax v =
     bindR (jpop v ''cpu_count'') (\<lambda>a. bindR (jpop v ''cpu_used_pct'') (\<lambda>b. bindR (jpop v ''mem_total_mib'') (\<lambda>c.
     bindR (jpop v ''mem_used_mib'') (\<lambda>d. bindR (jpop v ''timestamp'') (\<lambda>t.
     bindR (field_number lax a) (\<lambda>a. bindR (field_number lax b) (\<lambda>b. bindR (field_number lax c) (\<lambda>c. bindR (field_number lax d) (\<lambda>d.
     bindR (field_int tp t) (\<lambda>t.
     Inr \<lparr>sm_cpu_count = a, sm_cpu_used_percentage = b, sm_memory_total_in_mib = c, sm_memory_used_in_mib = d, sm_timestamp = t\<rparr>))))))))))"

definition get_metrics ::
    "'w httpx_api \<Rightarrow> sdk_libs \<Rightarrow> (json \<Rightarrow> json option) \<Rightarrow> connection_config \<Rightarrow> sdk_endpoint \<Rightarrow> ('w, sandbox_metrics) io" where
  "get_metrics hx lib lax c ep =
     converting (lib_str lib)
       (call_parsed (api_get_metrics hx (endpoint_client c ep) (of_json (to_sandbox_metrics (lib_times lib) lax))))"

text \<open>
  The policy of the side car as the client reads it. The generated model rejects other actions than \<open>allow\<close> and \<open>deny\<close>
  with a \<open>ValueError\<close>; a missing default action is \<open>deny\<close>.
\<close>

definition rule_from_dict :: "json \<Rightarrow> network_rule res" where
  "rule_from_dict v =
     bindR (jpop v ''action'') (\<lambda>a. bindR (jpop v ''target'') (\<lambda>t.
     bindR (field_str a) (\<lambda>act. bindR (field_str t) (\<lambda>target.
     if sdk_rule_ok \<lparr>rule_action = act, rule_target = target\<rparr> then Inr \<lparr>rule_action = act, rule_target = target\<rparr> else Inl ValueError))))"

definition policy_from_dict :: "json \<Rightarrow> sdk_policy res" where
  "policy_from_dict v =
     bindR (jpop_unset v ''defaultAction'') (\<lambda>a. bindR (jpop_unset v ''egress'') (\<lambda>e.
     bindR (case a of None \<Rightarrow> Inr (Some ''deny'')
                    | Some x \<Rightarrow> bindR (field_str x) (\<lambda>s. if s \<in> {''allow'', ''deny''} then Inr (Some s) else Inl ValueError)) (\<lambda>action.
     bindR (case e of None \<Rightarrow> Inr None
                    | Some (JList xs) \<Rightarrow> bindR (collect_each rule_from_dict xs) (\<lambda>rs. Inr (Some rs))
                    | Some _ \<Rightarrow> Inl TypeError) (\<lambda>rules.
     Inr \<lparr>sp_default_action = action, sp_egress = rules\<rparr>))))"

definition policy_status_from_dict :: "json \<Rightarrow> sdk_policy option res" where
  "policy_status_from_dict v =
     bindR (jpop_unset v ''policy'') (\<lambda>p. case p of None \<Rightarrow> Inr None | Some x \<Rightarrow> bindR (policy_from_dict x) (\<lambda>q. Inr (Some q)))"

definition egress_get_policy :: "'w httpx_api \<Rightarrow> sdk_libs \<Rightarrow> connection_config \<Rightarrow> sdk_endpoint \<Rightarrow> ('w, sdk_policy) io" where
  "egress_get_policy hx lib c ep =
     converting (lib_str lib)
       (bindS (call_parsed (api_get_policy hx (endpoint_client c ep) (of_json policy_status_from_dict))) (\<lambda>p. liftR (or_value_error p)))"

definition egress_patch_rules ::
    "'w httpx_api \<Rightarrow> sdk_libs \<Rightarrow> connection_config \<Rightarrow> sdk_endpoint \<Rightarrow> network_rule list \<Rightarrow> ('w, unit) io" where
  "egress_patch_rules hx lib c ep rules =
     converting (lib_str lib)
       (call_unit (api_patch_policy hx (endpoint_client c ep) (of_json policy_status_from_dict) (to_api_network_rules rules)))"

end
