(* ===== verification/Sdk_Sandbox.thy ===== *)
theory Sdk_Sandbox
  imports Sdk_Files
begin

text \<open>
  The entry points of the client library: \<open>Sandbox\<close> (\<open>sandbox.py\<close>), with creation, connection, resumption and the wait
  for readiness, and \<open>SandboxManager\<close> (\<open>manager.py\<close>). The adapters of a sandbox (\<open>adapters/factory.py\<close>) are determined by
  the configuration and the end points. The number of polls of a wait is bounded by \<open>fuel\<close>; \<open>None\<close> is a wait that has
  not ended within it.
\<close>

definition DEFAULT_EXECD_PORT :: int where "DEFAULT_EXECD_PORT = 44772"
definition DEFAULT_EGRESS_PORT :: int where "DEFAULT_EGRESS_PORT = 18080"

section \<open>A sandbox\<close>

text \<open>\<open>sc_health\<close> is the caller's own health check, applied to this sandbox.\<close>

record 'w sandbox_client =
  sc_id :: string
  sc_config :: connection_config
  sc_execd :: sdk_endpoint
  sc_egress :: sdk_endpoint
  sc_health :: "('w, bool) io option"

definition service_of :: "'w httpx_api \<Rightarrow> sdk_libs \<Rightarrow> 'w sandbox_client \<Rightarrow> 'w sandboxes" where
  "service_of hx lib sb = sandboxes_adapter hx lib (sc_config sb)"

definition sandbox_get_info :: "'w httpx_api \<Rightarrow> sdk_libs \<Rightarrow> 'w sandbox_client \<Rightarrow> ('w, sdk_info) io" where
  "sandbox_get_info hx lib sb = sv_info (service_of hx lib sb) (sc_id sb)"

definition sandbox_get_endpoint :: "'w httpx_api \<Rightarrow> sdk_libs \<Rightarrow> 'w sandbox_client \<Rightarrow> int \<Rightarrow> ('w, sdk_endpoint) io" where
  "sandbox_get_endpoint hx lib sb port = sv_endpoint (service_of hx lib sb) (sc_id sb) port (cc_use_server_proxy (sc_config sb))"

definition sandbox_get_metrics ::
    "'w httpx_api \<Rightarrow> sdk_libs \<Rightarrow> (json \<Rightarrow> json option) \<Rightarrow> 'w sandbox_client \<Rightarrow> ('w, sandbox_metrics) io" where
  "sandbox_get_metrics hx lib lax sb = get_metrics hx lib lax (sc_config sb) (sc_execd sb)"

text \<open>\<open>now\<close> is \<open>datetime.now(timezone.utc)\<close>.\<close>

definition sandbox_renew :: "'w httpx_api \<Rightarrow> sdk_libs \<Rightarrow> 'w sandbox_client \<Rightarrow> int \<Rightarrow> ('w, datetime) io" where
  "sandbox_renew hx lib sb timeout =
     bindS (hx_time hx) (\<lambda>now. sv_renew (service_of hx lib sb) (sc_id sb) (Aware (now + timeout) 0))"

definition get_egress_policy :: "'w httpx_api \<Rightarrow> sdk_libs \<Rightarrow> 'w sandbox_client \<Rightarrow> ('w, sdk_policy) io" where
  "get_egress_policy hx lib sb = egress_get_policy hx lib (sc_config sb) (sc_egress sb)"

definition patch_egress_rules :: "'w httpx_api \<Rightarrow> sdk_libs \<Rightarrow> 'w sandbox_client \<Rightarrow> network_rule list \<Rightarrow> ('w, unit) io" where
  "patch_egress_rules hx lib sb rules = egress_patch_rules hx lib (sc_config sb) (sc_egress sb) rules"

definition sandbox_pause :: "'w httpx_api \<Rightarrow> sdk_libs \<Rightarrow> 'w sandbox_client \<Rightarrow> ('w, unit) io" where
  "sandbox_pause hx lib sb = sv_pause (service_of hx lib sb) (sc_id sb)"

definition sandbox_kill :: "'w httpx_api \<Rightarrow> sdk_libs \<Rightarrow> 'w sandbox_client \<Rightarrow> ('w, unit) io" where
  "sandbox_kill hx lib sb = sv_kill (service_of hx lib sb) (sc_id sb)"

definition sandbox_close :: "'w httpx_api \<Rightarrow> 'w sandbox_client \<Rightarrow> ('w, unit) io" where
  "sandbox_close hx sb = catchS (close_transport_if_owned hx (sc_config sb)) (\<lambda>_. retS ())"

definition sandbox_ping :: "'w httpx_api \<Rightarrow> 'w sandbox_client \<Rightarrow> ('w, bool) io" where
  "sandbox_ping hx sb = catchS (health_ping hx (sc_config sb) (sc_execd sb)) (\<lambda>_. retS False)"

definition is_healthy :: "'w httpx_api \<Rightarrow> 'w sandbox_client \<Rightarrow> ('w, bool) io" where
  "is_healthy hx sb = (case sc_health sb of Some check \<Rightarrow> check | None \<Rightarrow> sandbox_ping hx sb)"

section \<open>Readiness\<close>

text \<open>The loop of \<open>check_ready\<close>: an exception of the health check counts as not healthy.\<close>

fun ready_loop :: "nat \<Rightarrow> 'w httpx_api \<Rightarrow> 'w sandbox_client \<Rightarrow> int \<Rightarrow> int \<Rightarrow> ('w, unit option) io" where
  "ready_loop 0 hx sb deadline interval = retS None"
| "ready_loop (Suc fuel) hx sb deadline interval =
     bindS (hx_time hx) (\<lambda>now.
     if now < deadline
     then bindS (catchS (is_healthy hx sb) (\<lambda>_. retS False)) (\<lambda>healthy.
          if healthy then retS (Some ())
          else bindS (hx_sleep hx interval) (\<lambda>_. ready_loop fuel hx sb deadline interval))
     else raiseS (sdk_exception SandboxReadyTimeoutException))"

definition check_ready :: "nat \<Rightarrow> 'w httpx_api \<Rightarrow> 'w sandbox_client \<Rightarrow> int \<Rightarrow> int \<Rightarrow> ('w, unit option) io" where
  "check_ready fuel hx sb timeout interval =
     bindS (hx_time hx) (\<lambda>now. ready_loop fuel hx sb (now + timeout) interval)"

section \<open>Creation, connection, resumption\<close>

record ready_opts =
  rd_timeout :: int
  rd_interval :: int
  rd_skip :: bool

text \<open>The end points of execd and the egress side car, the sandbox over them, and the wait.\<close>

definition attach ::
    "nat \<Rightarrow> 'w httpx_api \<Rightarrow> sdk_libs \<Rightarrow> connection_config \<Rightarrow> (string \<Rightarrow> ('w, bool) io) option \<Rightarrow> ready_opts \<Rightarrow> string
       \<Rightarrow> ('w, 'w sandbox_client option) io" where
  "attach fuel hx lib config health rd sandbox_id =
     bindS (sv_endpoint (sandboxes_adapter hx lib config) sandbox_id DEFAULT_EXECD_PORT (cc_use_server_proxy config)) (\<lambda>execd.
     bindS (sv_endpoint (sandboxes_adapter hx lib config) sandbox_id DEFAULT_EGRESS_PORT (cc_use_server_proxy config)) (\<lambda>egress.
     let sb = \<lparr>sc_id = sandbox_id, sc_config = config, sc_execd = execd, sc_egress = egress,
               sc_health = map_option (\<lambda>f. f sandbox_id) health\<rparr>
     in if rd_skip rd then retS (Some sb)
        else bindS (check_ready fuel hx sb (rd_timeout rd) (rd_interval rd)) (\<lambda>r. retS (map_option (\<lambda>_. sb) r))))"

text \<open>The end of every \<open>except\<close> block: the transport is closed and a \<open>SandboxException\<close> raised.\<close>

definition fail_with :: "'w httpx_api \<Rightarrow> connection_config \<Rightarrow> exn \<Rightarrow> ('w, 'a) io" where
  "fail_with hx config e =
     bindS (close_transport_if_owned hx config) (\<lambda>_.
     raiseS (if is_sandbox_exn e then e else sdk_exception SandboxInternalException))"

definition default_resource :: "(string, string) dict" where
  "default_resource = [(''cpu'', ''1''), (''memory'', ''2Gi'')]"

text \<open>The arguments of \<open>create\<close> with its defaults; an image may be given as a text.\<close>

record create_args =
  ca_image :: "string + image_spec"
  ca_timeout :: "int option"
  ca_env :: "(string, string) dict option"
  ca_metadata :: "(string, string) dict option"
  ca_resource :: "(string, string) dict option"
  ca_policy :: "sdk_policy option"
  ca_extensions :: "(string, string) dict option"
  ca_entrypoint :: "string list option"
  ca_volumes :: "volume list option"

definition list_or :: "'a list option \<Rightarrow> 'a list \<Rightarrow> 'a list" where
  "list_or v d = (case v of None \<Rightarrow> d | Some xs \<Rightarrow> if xs = [] then d else xs)"

definition create_defaults :: "create_args \<Rightarrow> sdk_create res" where
  "create_defaults a =
     bindR (case ca_image a of
              Inl s \<Rightarrow> if image_ok \<lparr>image_uri = s, image_auth_of = None\<rparr> then Inr \<lparr>image_uri = s, image_auth_of = None\<rparr> else Inl ValueError
            | Inr spec \<Rightarrow> Inr spec) (\<lambda>image.
     Inr \<lparr>cr_image = image, cr_entrypoint = list_or (ca_entrypoint a) [''tail'', ''-f'', ''/dev/null''], cr_env = list_or (ca_env a) [],
          cr_metadata = list_or (ca_metadata a) [], cr_timeout = ca_timeout a, cr_resource = list_or (ca_resource a) default_resource,
          cr_policy = ca_policy a, cr_extensions = list_or (ca_extensions a) [], cr_volumes = ca_volumes a\<rparr>)"

text \<open>
  \<open>Sandbox.create\<close>. When a step after the creation raises, the sandbox is killed first; a failure of that is only
  logged. The kill is left out for an empty identifier.
\<close>

definition kill_quietly :: "'w sandboxes \<Rightarrow> string \<Rightarrow> ('w, unit) io" where
  "kill_quietly svc sandbox_id = (if sandbox_id = [] then retS () else catchS (sv_kill svc sandbox_id) (\<lambda>_. retS ()))"

definition sandbox_create ::
    "nat \<Rightarrow> 'w httpx_api \<Rightarrow> sdk_libs \<Rightarrow> connection_config \<Rightarrow> (string \<Rightarrow> ('w, bool) io) option \<Rightarrow> ready_opts \<Rightarrow> create_args
       \<Rightarrow> ('w, 'w sandbox_client option) io" where
  "sandbox_create fuel hx lib conf health rd args =
     bindS (with_transport_if_missing hx conf) (\<lambda>config.
     bindS (liftR (create_defaults args)) (\<lambda>cr.
     let svc = sandboxes_adapter hx lib config in
     catchS (bindS (sv_create svc cr) (\<lambda>sandbox_id.
             catchS (attach fuel hx lib config health rd sandbox_id)
               (\<lambda>e. bindS (kill_quietly svc sandbox_id) (\<lambda>_. raiseS e))))
       (fail_with hx config)))"

definition sandbox_connect ::
    "nat \<Rightarrow> 'w httpx_api \<Rightarrow> sdk_libs \<Rightarrow> connection_config \<Rightarrow> (string \<Rightarrow> ('w, bool) io) option \<Rightarrow> ready_opts \<Rightarrow> string
       \<Rightarrow> ('w, 'w sandbox_client option) io" where
  "sandbox_connect fuel hx lib conf health rd sandbox_id =
     (if sandbox_id = [] then raiseS (sdk_exception InvalidArgumentException)
      else bindS (with_transport_if_missing hx conf) (\<lambda>config.
           catchS (attach fuel hx lib config health rd sandbox_id) (fail_with hx config)))"

definition sandbox_resume ::
    "nat \<Rightarrow> 'w httpx_api \<Rightarrow> sdk_libs \<Rightarrow> connection_config \<Rightarrow> (string \<Rightarrow> ('w, bool) io) option \<Rightarrow> ready_opts \<Rightarrow> string
       \<Rightarrow> ('w, 'w sandbox_client option) io" where
  "sandbox_resume fuel hx lib conf health rd sandbox_id =
     (if sandbox_id = [] then raiseS (sdk_exception InvalidArgumentException)
      else bindS (with_transport_if_missing hx conf) (\<lambda>config.
           catchS (bindS (sv_resume (sandboxes_adapter hx lib config) sandbox_id) (\<lambda>_.
                   attach fuel hx lib config health rd sandbox_id)) (fail_with hx config)))"

section \<open>The manager\<close>

text \<open>A manager is its configuration; its operations are those of the lifecycle service.\<close>

definition manager_create :: "'w httpx_api \<Rightarrow> connection_config \<Rightarrow> ('w, connection_config) io" where
  "manager_create hx conf = with_transport_if_missing hx conf"

definition manager_list :: "'w httpx_api \<Rightarrow> sdk_libs \<Rightarrow> connection_config \<Rightarrow> sdk_filter \<Rightarrow> ('w, sdk_info list \<times> sdk_page) io" where
  "manager_list hx lib m f = sv_list (sandboxes_adapter hx lib m) f"

definition manager_info :: "'w httpx_api \<Rightarrow> sdk_libs \<Rightarrow> connection_config \<Rightarrow> string \<Rightarrow> ('w, sdk_info) io" where
  "manager_info hx lib m sandbox_id = sv_info (sandboxes_adapter hx lib m) sandbox_id"

definition manager_kill :: "'w httpx_api \<Rightarrow> sdk_libs \<Rightarrow> connection_config \<Rightarrow> string \<Rightarrow> ('w, unit) io" where
  "manager_kill hx lib m sandbox_id = sv_kill (sandboxes_adapter hx lib m) sandbox_id"

definition manager_renew :: "'w httpx_api \<Rightarrow> sdk_libs \<Rightarrow> connection_config \<Rightarrow> string \<Rightarrow> int \<Rightarrow> ('w, datetime) io" where
  "manager_renew hx lib m sandbox_id timeout =
     bindS (hx_time hx) (\<lambda>now. sv_renew (sandboxes_adapter hx lib m) sandbox_id (Aware (now + timeout) 0))"

definition manager_pause :: "'w httpx_api \<Rightarrow> sdk_libs \<Rightarrow> connection_config \<Rightarrow> string \<Rightarrow> ('w, unit) io" where
  "manager_pause hx lib m sandbox_id = sv_pause (sandboxes_adapter hx lib m) sandbox_id"

definition manager_resume :: "'w httpx_api \<Rightarrow> sdk_libs \<Rightarrow> connection_config \<Rightarrow> string \<Rightarrow> ('w, unit) io" where
  "manager_resume hx lib m sandbox_id = sv_resume (sandboxes_adapter hx lib m) sandbox_id"

definition manager_close :: "'w httpx_api \<Rightarrow> connection_config \<Rightarrow> ('w, unit) io" where
  "manager_close hx m = catchS (close_transport_if_owned hx m) (\<lambda>_. retS ())"

end
