(* ===== verification/Sdk_Sim.thy ===== *)
theory Sdk_Sim
  imports Sdk_Sandbox
begin

text \<open>
  A small web for examples: a server that creates, deletes and locates sandboxes, execd in them that answers from a
  given time on, and a clock that only a sleep moves.
\<close>

text \<open>The decimal text of a number, computed on integers.\<close>

function str_pos :: "int \<Rightarrow> string" where
  "str_pos z = (if z < 10 then [char_of (48 + z)] else str_pos (z div 10) @ [char_of (48 + z mod 10)])"
  by auto
termination by (relation "measure nat") auto

declare str_pos.simps [simp del]

lemma str_pos_str_nat: "str_pos (int n) = str_nat n"
proof (induction n rule: str_nat.induct)
  case (1 n)
  have c: "char_of (48 + int m) = char_of (48 + m)" for m
    using char_of_nat [of "48 + m"] by simp
  show ?case
  proof (cases "n < 10")
    case True
    then show ?thesis by (simp add: str_pos.simps [of "int n"] str_nat.simps [of n] c)
  next
    case False
    moreover have "char_of (48 + int n mod 10) = char_of (48 + n mod 10)" using c [of "n mod 10"] by (simp add: zmod_int)
    ultimately show ?thesis using 1 by (simp add: str_pos.simps [of "int n"] str_nat.simps [of n] zdiv_int)
  qed
qed

lemma str_int_code [code]: "str_int z = (if z < 0 then ''-'' @ str_pos (- z) else str_pos z)"
  by (cases "z < 0") (simp_all add: str_int_def str_pos_str_nat [symmetric])

record sim_web =
  wb_clock :: int
  wb_ready :: int
  wb_sandboxes :: "string list"
  wb_transports :: nat

definition web_answer :: "int \<Rightarrow> json \<Rightarrow> http_response" where
  "web_answer st v = \<lparr>rs_status = st, rs_headers = [(''x-request-id'', ''r1'')], rs_body = json_dumps v\<rparr>"

definition web_error :: "int \<Rightarrow> http_response" where
  "web_error st = web_answer st (JObj [(''code'', JStr ''E''), (''message'', JStr ''failed'')])"

definition web_created :: json where
  "web_created = JObj [(''id'', JStr ''s1''), (''status'', JObj [(''state'', JStr ''Pending'')]), (''createdAt'', JStr ''t''), (''entrypoint'', JList [])]"

definition web_send :: "http_client \<Rightarrow> http_call \<Rightarrow> (sim_web, http_response) io" where
  "web_send client call = (\<lambda>w.
     let path = split_on slash (hc_url call); m = hc_method call in
     if m = ''post'' \<and> path = [[], ''sandboxes''] then (Inr (web_answer 202 web_created), w\<lparr>wb_sandboxes := ''s1'' # wb_sandboxes w\<rparr>)
     else if m = ''delete'' \<and> length path = 3 \<and> path ! 2 \<in> set (wb_sandboxes w)
     then (Inr (web_answer 204 JNull), w\<lparr>wb_sandboxes := removeAll (path ! 2) (wb_sandboxes w)\<rparr>)
     else if m = ''get'' \<and> length path = 5 \<and> path ! 2 \<in> set (wb_sandboxes w)
     then (Inr (web_answer 200 (JObj [(''endpoint'', JStr ''10.0.0.1:80'')])), w)
     else if m = ''get'' \<and> path = [[], ''ping''] \<and> wb_ready w \<le> wb_clock w then (Inr (web_answer 200 JNull), w)
     else (Inr (web_error 404), w))"

definition web_hx :: "sim_web httpx_api" where
  "web_hx =
     \<lparr>hx_send = web_send, hx_stream = (\<lambda>_ _. raiseS NetworkError),
      hx_new_transport = (\<lambda>w. (Inr (wb_transports w), w\<lparr>wb_transports := wb_transports w + 1\<rparr>)),
      hx_close_transport = (\<lambda>_. retS ()), hx_time = getS wb_clock,
      hx_sleep = (\<lambda>d. modifyS (\<lambda>w. w\<lparr>wb_clock := wb_clock w + d\<rparr>)), hx_getenv = (\<lambda>_. None)\<rparr>"

definition web_libs :: sdk_libs where
  "web_libs =
     \<lparr>lib_times = \<lparr>isoparse = \<lambda>_. Some (Aware 0 0), lax_time = \<lambda>_. None, lax_int = \<lambda>_. None, lax_bool = \<lambda>_. None\<rparr>,
      lib_isoformat = (\<lambda>_. ''t''), lib_str = (\<lambda>_. ''v'')\<rparr>"

definition web_config :: connection_config where
  "web_config =
     \<lparr>cc_api_key = Some ''secret'', cc_domain = Some ''localhost:8080'', cc_protocol = ''http'', cc_user_agent = DEFAULT_USER_AGENT,
      cc_headers = [], cc_transport = None, cc_owns_transport = True, cc_use_server_proxy = False\<rparr>"

definition web_args :: create_args where
  "web_args =
     \<lparr>ca_image = Inl ''python:3.12'', ca_timeout = Some 600000000, ca_env = None, ca_metadata = None, ca_resource = None,
      ca_policy = None, ca_extensions = None, ca_entrypoint = None, ca_volumes = None\<rparr>"

definition web_start :: "int \<Rightarrow> sim_web" where
  "web_start ready = \<lparr>wb_clock = 0, wb_ready = ready, wb_sandboxes = [], wb_transports = 0\<rparr>"

definition web_wait :: ready_opts where
  "web_wait = \<lparr>rd_timeout = 1000000, rd_interval = 1000000, rd_skip = False\<rparr>"

end
