(* ===== verification/Sdk_Outcomes.thy ===== *)
theory Sdk_Outcomes
  imports Sdk_Sim Wp
begin

text \<open>
  What the operations of the client library achieve: the execution a stream of events stands for, the end of the wait
  for readiness, the clean-up after a creation that failed, and the exceptions a caller can see.
\<close>

lemma fst_converting:
  "fst (converting str m s) = (case fst (m s) of Inl e \<Rightarrow> Inl (to_sandbox_exception str e) | Inr x \<Rightarrow> Inr x)"
  by (simp add: converting_def catchS_def raiseS_def split: prod.splits sum.splits)

lemma fst_bindS: "fst (bindS m k s) = (case m s of (Inl e, s') \<Rightarrow> Inl e | (Inr x, s') \<Rightarrow> fst (k x s'))"
  by (simp add: bindS_def split: prod.splits sum.splits)

lemma catchS_InlD: "catchS m h s = (Inl e, s') \<Longrightarrow> \<exists>e0 s0. m s = (Inl e0, s0) \<and> h e0 s0 = (Inl e, s')"
  by (auto simp: catchS_def split: prod.splits sum.splits)

section \<open>Streams\<close>

text \<open>The events of a stream: blank lines and lines that are no events are left out.\<close>

definition line_event :: "time_parsers \<Rightarrow> string \<Rightarrow> event_node list" where
  "line_event tp l = (if strip l = [] then [] else (case read_event tp l of Inl _ \<Rightarrow> [] | Inr e \<Rightarrow> [e]))"

definition stream_events :: "time_parsers \<Rightarrow> string list \<Rightarrow> event_node list" where
  "stream_events tp ls = concat (map (line_event tp) ls)"

definition latest :: "'a list \<Rightarrow> 'a option" where
  "latest xs = (if xs = [] then None else Some (last xs))"

definition of_type :: "string \<Rightarrow> event_node list \<Rightarrow> event_node list" where
  "of_type t evs = filter (\<lambda>e. en_type e = t) evs"

definition some_of :: "('a \<Rightarrow> 'b option) \<Rightarrow> 'a list \<Rightarrow> 'b list" where
  "some_of f xs = concat (map (\<lambda>x. case f x of None \<Rightarrow> [] | Some y \<Rightarrow> [y]) xs)"

text \<open>The execution the events stand for: outputs in their order, and the last identifier, count and error.\<close>

definition execution_of :: "event_node list \<Rightarrow> execution" where
  "execution_of evs =
     \<lparr>ex_id = latest (map (\<lambda>e. str0 (en_text e)) (of_type ''init'' evs)),
      ex_count = latest (some_of en_count (of_type ''execution_count'' evs)),
      ex_result = map result_of (of_type ''result'' evs),
      ex_error = latest (some_of (\<lambda>e. map_option (error_of e) (en_error e)) (of_type ''error'' evs)),
      ex_stdout = map (message_of False) (of_type ''stdout'' evs),
      ex_stderr = map (message_of True) (of_type ''stderr'' evs)\<rparr>"

lemma latest_simps [simp]: "latest [] = None" "latest (xs @ [x]) = Some x"
  by (simp_all add: latest_def)

lemma of_type_snoc [simp]: "of_type t (evs @ [e]) = of_type t evs @ (if en_type e = t then [e] else [])"
  by (simp add: of_type_def)

lemma some_of_simps [simp]:
  "some_of f [] = []" "some_of f (xs @ ys) = some_of f xs @ some_of f ys"
  "some_of f [x] = (case f x of None \<Rightarrow> [] | Some y \<Rightarrow> [y])"
  by (simp_all add: some_of_def)

lemma notify_execution: "\<exists>r w'. notify f a (w, x) = (r, (w', x))"
  by (simp add: notify_def in_world_def retS_def split: option.splits prod.splits)

text \<open>Whatever the callbacks do, one event extends the execution as the specification says.\<close>

lemma dispatch_execution:
  "\<exists>r w'. dispatch h e (w, execution_of evs) = (r, (w', execution_of (evs @ [e])))"
proof -
  note simps = dispatch_def bindS_def on_execution_def modifyS_def execution_of_def
  consider "en_type e = ''stdout''" | "en_type e = ''stderr''" | "en_type e = ''result''" | "en_type e = ''error''"
    | "en_type e = ''execution_complete''" | "en_type e = ''init''" | "en_type e = ''execution_count''"
    | "en_type e \<notin> {''stdout'', ''stderr'', ''result'', ''error'', ''execution_complete'', ''init'', ''execution_count''}"
    by blast
  then show ?thesis
  proof cases
    case 1
    then show ?thesis using notify_execution by (simp add: simps handle_stdout_def)
  next
    case 2
    then show ?thesis using notify_execution by (simp add: simps handle_stderr_def)
  next
    case 3
    then show ?thesis using notify_execution by (simp add: simps handle_result_def)
  next
    case 4
    then show ?thesis using notify_execution by (cases "en_error e") (simp_all add: simps handle_error_def retS_def)
  next
    case 5
    then show ?thesis using notify_execution by (simp add: simps handle_execution_complete_def)
  next
    case 6
    then show ?thesis using notify_execution by (simp add: simps handle_init_def)
  next
    case 7
    then show ?thesis by (cases "en_count e") (simp_all add: simps retS_def)
  next
    case 8
    then show ?thesis by (simp add: simps retS_def)
  qed
qed

lemma handle_line_execution:
  "\<exists>w'. handle_line tp h l (w, execution_of evs) = (Inr (), (w', execution_of (evs @ line_event tp l)))"
proof (cases "strip l = [] \<or> (\<exists>e. read_event tp l = Inl e)")
  case True
  then show ?thesis by (auto simp: handle_line_def line_event_def catchS_def bindS_def liftR_def retS_def)
next
  case False
  then obtain e where e: "read_event tp l = Inr e" by (metis old.sum.exhaust)
  obtain r w' where "dispatch h e (w, execution_of evs) = (r, (w', execution_of (evs @ [e])))"
    using dispatch_execution [of h e w evs] by auto
  then show ?thesis using False e
    by (cases r) (auto simp: handle_line_def line_event_def catchS_def bindS_def liftR_def retS_def)
qed

lemma for_each_line:
  "\<exists>w'. for_eachS (handle_line tp h) ls (w, execution_of evs) = (Inr (), (w', execution_of (evs @ stream_events tp ls)))"
proof (induction ls arbitrary: w evs)
  case (Cons l ls)
  obtain w1 where "handle_line tp h l (w, execution_of evs) = (Inr (), (w1, execution_of (evs @ line_event tp l)))"
    using handle_line_execution [of tp h l w evs] by auto
  with Cons [of w1 "evs @ line_event tp l"] show ?case by (simp add: bindS_def stream_events_def)
qed (simp add: retS_def stream_events_def)

lemma run_stream_result:
  "fst (run_stream tp h st w) =
     (case st_failure st of Some e \<Rightarrow> Inl e | None \<Rightarrow> Inr (execution_of (stream_events tp (st_lines st))))"
proof -
  have "new_execution = execution_of []" by (simp add: new_execution_def execution_of_def of_type_def)
  moreover obtain w' where "for_eachS (handle_line tp h) (st_lines st) (w, execution_of []) =
      (Inr (), (w', execution_of (stream_events tp (st_lines st))))"
    using for_each_line [of tp h "st_lines st" w "[]"] by auto
  ultimately show ?thesis by (auto simp: run_stream_def bindS_def retS_def raiseS_def split: option.splits)
qed

text \<open>
  C17. A command that is run gives the execution its stream of events stands for: outputs in order, malformed lines and
  failing callbacks without effect. A blank command is refused without a request, an answer other than 200 is raised with
  its status and request identifier, and a stream that breaks off is raised.
\<close>

theorem command_run_collects:
  "fst (command_run hx lib c ep command opts h w) =
     (if strip command = [] then Inl (sdk_exception InvalidArgumentException)
      else (case hx_stream hx (sse_client (endpoint_client c ep))
                   (json_call ''POST'' (execd_path_url c ep ''/command'')
                      (to_api_run_command_json command (case opts of None \<Rightarrow> default_opts | Some p \<Rightarrow> p))) w of
              (Inl e, _) \<Rightarrow> Inl (to_sandbox_exception (lib_str lib) e)
            | (Inr st, _) \<Rightarrow>
                if st_status st \<noteq> 200
                then Inl (api_exception (Some (st_status st)) None (extract_request_id (st_headers st)))
                else (case st_failure st of
                        Some e \<Rightarrow> Inl (to_sandbox_exception (lib_str lib) e)
                      | None \<Rightarrow> Inr (execution_of (stream_events (lib_times lib) (st_lines st))))))"
  by (simp add: command_run_def fst_converting fst_bindS raiseS_def run_stream_result split: prod.split sum.split option.split)

section \<open>Readiness\<close>

text \<open>
  What the wait needs of the clock: it never goes back, neither on its own nor during a health check, and a sleep of
  \<open>p\<close> microseconds advances it by at least that much.
\<close>

locale sdk_clock =
  fixes hx :: "'w httpx_api" and sb :: "'w sandbox_client" and clk :: "'w \<Rightarrow> int"
  assumes time_law: "wp (hx_time hx) (\<lambda>now s'. clk s \<le> now \<and> now \<le> clk s') (\<lambda>e s'. False) s"
    and sleep_law: "wp (hx_sleep hx p) (\<lambda>_ s'. clk s + p \<le> clk s') (\<lambda>e s'. False) s"
    and health_forward: "always (is_healthy hx sb) (\<lambda>s'. clk s \<le> clk s') s"
begin

lemma ready_loop_ends:
  "deadline - clk s \<le> int fuel * interval \<Longrightarrow>
     wp (ready_loop (Suc fuel) hx sb deadline interval) (\<lambda>r s'. r = Some ())
       (\<lambda>e s'. e = sdk_exception SandboxReadyTimeoutException \<and> deadline \<le> clk s') s"
proof (induction fuel arbitrary: s)
  case 0
  then show ?case
    unfolding ready_loop.simps wp_bindS by (intro wp_mono [OF time_law]) (auto simp: wp_simps)
next
  case (Suc n)
  have again: "wp (bindS (hx_sleep hx interval) (\<lambda>_. ready_loop (Suc n) hx sb deadline interval)) (\<lambda>r s'. r = Some ())
      (\<lambda>e s'. e = sdk_exception SandboxReadyTimeoutException \<and> deadline \<le> clk s') t" if "clk s \<le> clk t" for t
    unfolding wp_bindS
    by (rule wp_mono [OF sleep_law], rule Suc.IH) (use that Suc.prems in \<open>auto simp: algebra_simps\<close>)
  show ?case
    unfolding ready_loop.simps(2) [of "Suc n"] wp_bindS
  proof (rule wp_mono [OF time_law], goal_cases)
    case (1 now t)
    have "wp (catchS (is_healthy hx sb) (\<lambda>_. retS False)) (\<lambda>_ s'. clk s \<le> clk s') (\<lambda>_ _. False) t"
      unfolding wp_catchS by (rule wp_mono [OF health_forward]) (use 1 in \<open>auto simp: wp_simps\<close>)
    then have "wp (catchS (is_healthy hx sb) (\<lambda>_. retS False)) (\<lambda>healthy. wp (if healthy then retS (Some ())
          else bindS (hx_sleep hx interval) (\<lambda>_. ready_loop (Suc n) hx sb deadline interval)) (\<lambda>r s'. r = Some ())
        (\<lambda>e s'. e = sdk_exception SandboxReadyTimeoutException \<and> deadline \<le> clk s'))
        (\<lambda>e s'. e = sdk_exception SandboxReadyTimeoutException \<and> deadline \<le> clk s') t"
      by (rule wp_mono) (use again in \<open>auto simp: wp_retS wp_if\<close>)
    then show ?case using 1 by (simp add: wp_if wp_bindS wp_raiseS)
  qed simp
qed

lemma check_ready_wp:
  assumes "timeout \<le> int fuel * interval"
  shows "wp (check_ready (Suc fuel) hx sb timeout interval) (\<lambda>r s'. r = Some ())
    (\<lambda>e s'. e = sdk_exception SandboxReadyTimeoutException \<and> clk s + timeout \<le> clk s') s"
  unfolding check_ready_def wp_bindS
proof (rule wp_mono [OF time_law], goal_cases)
  case (1 now t)
  have "wp (ready_loop (Suc fuel) hx sb (now + timeout) interval) (\<lambda>r s'. r = Some ())
    (\<lambda>e s'. e = sdk_exception SandboxReadyTimeoutException \<and> now + timeout \<le> clk s') t"
    by (rule ready_loop_ends) (use 1 assms in simp)
  then show ?case by (rule wp_mono) (use 1 in auto)
qed simp

end

text \<open>
  C20. The wait for readiness ends within \<open>fuel + 1\<close> polls when \<open>fuel\<close> intervals cover the time-out: the sandbox is ready, or
  the time-out has passed and is reported. Exceptions of the health check do not escape.
\<close>

theorem check_ready_ends:
  assumes "sdk_clock hx sb clk" and "timeout \<le> int fuel * interval"
    and "check_ready (Suc fuel) hx sb timeout interval w = (r, w')"
  shows "r = Inr (Some ()) \<or> (r = Inl (sdk_exception SandboxReadyTimeoutException) \<and> clk w + timeout \<le> clk w')"
  using sdk_clock.check_ready_wp [OF assms(1,2), of w] assms(3)
  by (cases r) (auto dest: wp_InrD wp_InlD)

section \<open>Creation\<close>

text \<open>The HTTP client with a record of what it was asked to do.\<close>

datatype http_event = Sent http_client http_call | Opened nat | Closed nat

definition logging :: "('a, 'b) io \<Rightarrow> http_event \<Rightarrow> ('a \<times> http_event list, 'b) io" where
  "logging m ev = (\<lambda>(w, l). case m w of (r, w') \<Rightarrow> (r, (w', l @ [ev])))"

definition traced :: "'w httpx_api \<Rightarrow> ('w \<times> http_event list) httpx_api" where
  "traced hx =
     \<lparr>hx_send = (\<lambda>cl call. logging (hx_send hx cl call) (Sent cl call)),
      hx_stream = (\<lambda>cl call. logging (hx_stream hx cl call) (Sent cl call)),
      hx_new_transport = (\<lambda>(w, l). case hx_new_transport hx w of
         (Inl e, w') \<Rightarrow> (Inl e, (w', l)) | (Inr t, w') \<Rightarrow> (Inr t, (w', l @ [Opened t]))),
      hx_close_transport = (\<lambda>t. logging (hx_close_transport hx t) (Closed t)),
      hx_time = in_world (hx_time hx), hx_sleep = (\<lambda>d. in_world (hx_sleep hx d)), hx_getenv = hx_getenv hx\<rparr>"

text \<open>The request that deletes a sandbox, and the closing of a transport that the configuration owns.\<close>

definition delete_request :: "'w httpx_api \<Rightarrow> connection_config \<Rightarrow> string \<Rightarrow> http_event" where
  "delete_request hx c sandbox_id = Sent (lifecycle_client hx c) (simple_call ''delete'' (sandbox_url sandbox_id []))"

definition closing :: "connection_config \<Rightarrow> http_event list" where
  "closing c = (case cc_transport c of None \<Rightarrow> [] | Some t \<Rightarrow> if cc_owns_transport c then [Closed t] else [])"

lemma traced_simps:
  "hx_getenv (traced hx) = hx_getenv hx" "hx_send (traced hx) cl call = logging (hx_send hx cl call) (Sent cl call)"
  "hx_close_transport (traced hx) t = logging (hx_close_transport hx t) (Closed t)"
  by (simp_all add: traced_def)

lemma get_traced [simp]:
  "get_api_key (traced hx) c = get_api_key hx c" "get_base_url (traced hx) c = get_base_url hx c"
  by (simp_all add: get_api_key_def get_base_url_def get_domain_def traced_simps)

lemma lifecycle_client_traced [simp]: "lifecycle_client (traced hx) c = lifecycle_client hx c"
  by (simp add: lifecycle_client_def Let_def)

lemma close_traced: "\<exists>w'. close_transport_if_owned (traced hx) c (w, l) = (Inr (), (w', l @ closing c))"
  by (auto simp: close_transport_if_owned_def closing_def traced_simps logging_def catchS_def retS_def
      split: option.splits prod.splits sum.splits)

lemma kill_traced:
  "\<exists>r w'. sv_kill (sandboxes_adapter (traced hx) lib c) sandbox_id (w, l) = (r, (w', l @ [delete_request hx c sandbox_id]))"
  by (auto simp: sandboxes_adapter_def adapter_kill_sandbox_def converting_def call_unit_def delete_sandboxes_sandbox_id_def
      detailed_def bindS_def liftR_def catchS_def raiseS_def traced_simps logging_def delete_request_def
      split: prod.splits sum.splits)

lemma try_fail_traced:
  assumes "catchS m (fail_with (traced hx) c) s = (Inl e, (w', l))"
  shows "\<exists>e0 w0 l0. m s = (Inl e0, (w0, l0)) \<and> e = (if is_sandbox_exn e0 then e0 else sdk_exception SandboxInternalException) \<and> l = l0 @ closing c"
proof -
  obtain e0 w0 l0 where "m s = (Inl e0, (w0, l0))" using catchS_InlD [OF assms] by auto
  with assms close_traced [of hx c w0 l0] show ?thesis by (auto simp: catchS_def fail_with_def bindS_def raiseS_def)
qed

lemma kill_quietly_traced:
  "sandbox_id \<noteq> [] \<Longrightarrow> \<exists>w'. kill_quietly (sandboxes_adapter (traced hx) lib c) sandbox_id (w, l) =
     (Inr (), (w', l @ [delete_request hx c sandbox_id]))"
  using kill_traced [of hx lib c sandbox_id w l] by (auto simp: kill_quietly_def catchS_def retS_def split: sum.splits)

lemma killed_traced:
  assumes "catchS m (\<lambda>e. bindS (kill_quietly (sandboxes_adapter (traced hx) lib c) sandbox_id) (\<lambda>_. raiseS e)) s = (Inl e, (w', l))"
    and "sandbox_id \<noteq> []"
  shows "\<exists>l3. l = l3 @ [delete_request hx c sandbox_id]"
proof -
  obtain e0 w0 l0 where "m s = (Inl e0, (w0, l0))" using catchS_InlD [OF assms(1)] by auto
  with assms kill_quietly_traced [OF assms(2), of hx lib c w0 l0] show ?thesis by (auto simp: catchS_def bindS_def raiseS_def)
qed


text \<open>A creation that succeeds returns the sandbox the server created, healthy unless the check was skipped.\<close>

lemma ready_loop_healthy:
  "ready_loop fuel hx sb deadline interval w = (Inr (Some u), w') \<Longrightarrow> \<exists>v. is_healthy hx sb v = (Inr True, w')"
proof (induction fuel arbitrary: w)
  case (Suc n)
  then show ?case
    by (auto simp: bindS_def catchS_def retS_def raiseS_def split: prod.splits sum.splits if_splits)
qed (simp add: retS_def)

lemma attach_ready:
  assumes "attach fuel hx lib config health rd sandbox_id w = (Inr (Some sb), w')"
  shows "sc_id sb = sandbox_id \<and> sc_config sb = config \<and> (rd_skip rd \<or> (\<exists>v. is_healthy hx sb v = (Inr True, w')))"
  using assms
  by (auto simp: attach_def bindS_def retS_def check_ready_def Let_def split: prod.splits sum.splits if_splits
      dest: ready_loop_healthy)

lemma created_steps:
  assumes "sandbox_create fuel hx lib conf health rd args w = (Inr (Some sb), w')"
  shows "\<exists>config cr w1 sandbox_id w2. with_transport_if_missing hx conf w = (Inr config, w1) \<and> create_defaults args = Inr cr
    \<and> sv_create (sandboxes_adapter hx lib config) cr w1 = (Inr sandbox_id, w2)
    \<and> attach fuel hx lib config health rd sandbox_id w2 = (Inr (Some sb), w')"
proof -
  obtain config w1 where t: "with_transport_if_missing hx conf w = (Inr config, w1)"
    using assms by (auto simp: sandbox_create_def bindS_def split: prod.splits sum.splits)
  moreover obtain cr where d: "create_defaults args = Inr cr"
    using assms t by (auto simp: sandbox_create_def bindS_def liftR_def split: prod.splits sum.splits)
  moreover obtain sandbox_id w2 where c: "sv_create (sandboxes_adapter hx lib config) cr w1 = (Inr sandbox_id, w2)"
    using assms t d
    by (auto simp: sandbox_create_def bindS_def liftR_def catchS_def fail_with_def raiseS_def Let_def split: prod.splits sum.splits)
  moreover have "attach fuel hx lib config health rd sandbox_id w2 = (Inr (Some sb), w')"
    using assms t d c
    by (auto simp: sandbox_create_def bindS_def liftR_def catchS_def fail_with_def raiseS_def Let_def split: prod.splits sum.splits)
  ultimately show ?thesis by blast
qed

text \<open>
  A creation that returns a sandbox returns the one the server created with the defaults filled in, over the
  configuration with its transport, and unless the wait was skipped its last step was a health check that succeeded.
\<close>

theorem created_sandbox_ready:
  assumes "sandbox_create fuel hx lib conf health rd args w = (Inr (Some sb), w')"
  shows "\<exists>cr w1 w2. create_defaults args = Inr cr \<and> with_transport_if_missing hx conf w = (Inr (sc_config sb), w1)
    \<and> sv_create (sandboxes_adapter hx lib (sc_config sb)) cr w1 = (Inr (sc_id sb), w2)
    \<and> (rd_skip rd \<or> (\<exists>v. is_healthy hx sb v = (Inr True, w')))"
  using created_steps [OF assms] attach_ready by fastforce

section \<open>Errors\<close>

lemma converting_Inl: "m s = (Inl e, s') \<Longrightarrow> is_sandbox_exn e \<Longrightarrow> converting str m s = (Inl e, s')"
  by (simp add: converting_def catchS_def raiseS_def)

definition answer_exn :: "http_response \<Rightarrow> exn" where
  "answer_exn r = api_exception (Some (rs_status r)) None (extract_request_id (rs_headers r))"

lemma answered_error:
  assumes "hx_send hx client call s = (Inr r, s')" and "300 \<le> rs_status r" and "rs_status r \<in> set HTTP_STATUSES"
    and "rs_status r \<in> set errors \<Longrightarrow> error_body r" and "success < 300"
  shows "converting str (call_parsed (detailed hx client success reader errors call)) s = (Inl (answer_exn r), s')"
    and "converting str (call_unit (detailed hx client success reader errors call)) s = (Inl (answer_exn r), s')"
proof -
  obtain a where a: "detailed hx client success reader errors call s = (Inr a, s')" "ar_status a = rs_status r" "ar_headers a = rs_headers r"
    using detailed_errors [OF assms(1,3)] assms(2,4,5) by (metis not_le)
  show "converting str (call_parsed (detailed hx client success reader errors call)) s = (Inl (answer_exn r), s')"
    and "converting str (call_unit (detailed hx client success reader errors call)) s = (Inl (answer_exn r), s')"
    using call_error_status [where m = "detailed hx client success reader errors call", OF a(1)] assms(2) a(2,3) by (auto simp: answer_exn_def intro: converting_Inl)
qed

section \<open>Examples\<close>

lemma web_keeps_clock: "web_send client call w = (r, w') \<Longrightarrow> wb_clock w \<le> wb_clock w'"
  by (auto simp: web_send_def Let_def split: if_splits)

definition web_client :: "sim_web sandbox_client" where
  "web_client =
     \<lparr>sc_id = ''s1'', sc_config = web_config, sc_execd = \<lparr>se_endpoint = ''10.0.0.1:80'', se_headers = []\<rparr>,
      sc_egress = \<lparr>se_endpoint = ''10.0.0.1:80'', se_headers = []\<rparr>, sc_health = None\<rparr>"

interpretation web: sdk_clock web_hx web_client wb_clock
proof (unfold_locales, goal_cases)
  case (3 s)
  then show ?case
    by (auto simp: wp_def is_healthy_def web_client_def sandbox_ping_def health_ping_def call_unit_def api_ping_def detailed_def
        web_hx_def catchS_def bindS_def liftR_def retS_def split: prod.splits sum.splits dest: web_keeps_clock)
qed (simp_all add: web_hx_def wp_simps)

theorem check_ready_ends_witness:
  "fst (check_ready 3 web_hx web_client 1000000 500000 (web_start 400000)) = Inr (Some ())
   \<and> fst (check_ready 3 web_hx web_client 1000000 500000 (web_start 9000000)) = Inl (sdk_exception SandboxReadyTimeoutException)"
proof -
  let ?run = "\<lambda>t. check_ready 3 web_hx web_client 1000000 500000 (web_start t)"
  have "fst (?run 400000) = Inr (Some ()) \<or> fst (?run 400000) = Inl (sdk_exception SandboxReadyTimeoutException)"
    "fst (?run 9000000) = Inr (Some ()) \<or> fst (?run 9000000) = Inl (sdk_exception SandboxReadyTimeoutException)"
    using check_ready_ends [OF web.sdk_clock_axioms, of 1000000 2 500000, OF _ surjective_pairing] by (auto simp: numeral_3_eq_3)
  moreover have "\<not> isl (fst (?run 400000))" "isl (fst (?run 9000000))" by code_simp+
  ultimately show ?thesis by auto
qed

definition web_attached :: connection_config where
  "web_attached = web_config\<lparr>cc_transport := Some 0\<rparr>"


theorem created_sandbox_ready_witness:
  "\<exists>sb w' v. sandbox_create 2 web_hx web_libs web_config None web_wait web_args (web_start 0) = (Inr (Some sb), w')
     \<and> sc_id sb = ''s1'' \<and> is_healthy web_hx sb v = (Inr True, w')"
proof -
  let ?run = "sandbox_create 2 web_hx web_libs web_config None web_wait web_args (web_start 0)"
  have "(case fst ?run of Inl _ \<Rightarrow> None | Inr x \<Rightarrow> map_option sc_id x) = Some ''s1''" by code_simp
  then obtain sb w' where run: "?run = (Inr (Some sb), w')" and i: "sc_id sb = ''s1''"
    by (cases ?run) (auto split: sum.splits)
  from created_sandbox_ready [OF run] have "\<exists>v. is_healthy web_hx sb v = (Inr True, w')" by (auto simp: web_wait_def)
  with run i show ?thesis by blast
qed

end
