(* ===== verification/Sdk_Sync.thy ===== *)
theory Sdk_Sync
  imports Sdk_Outcomes
begin

text \<open>
  The synchronous client (\<open>sync/sandbox.py\<close>, \<open>sync/adapters\<close>, \<open>config/connection_sync.py\<close>) is a second text of the
  asynchronous one. Its adapters make the same generated calls with the same conversions, so the definitions of
  \<open>Sdk_Client\<close>, \<open>Sdk_Files\<close> and the record \<open>connection_config\<close> stand for both; the parts that are written
  differently are modelled here as they are written, and compared. The one adapter operation that differs is the listing.
\<close>

section \<open>Commands\<close>

definition sync_handle_line :: "time_parsers \<Rightarrow> 'w handlers \<Rightarrow> string \<Rightarrow> ('w \<times> execution, unit) io" where
  "sync_handle_line tp h line =
     (if line = [] \<or> strip line = [] then retS ()
      else catchS
        (bindS (liftR (or_value_error (json_loads (sse_data line)))) (\<lambda>v. bindS (liftR (event_of tp v)) (dispatch h)))
        (\<lambda>_. retS ()))"

text \<open>The dispatcher is made before the request; it has no effect until the first event.\<close>

definition sync_command_run ::
    "'w httpx_api \<Rightarrow> sdk_libs \<Rightarrow> connection_config \<Rightarrow> sdk_endpoint \<Rightarrow> string \<Rightarrow> run_opts option \<Rightarrow> 'w handlers \<Rightarrow> ('w, execution) io" where
  "sync_command_run hx lib c ep command opts h =
     (if strip command = [] then raiseS (sdk_exception InvalidArgumentException)
      else converting (lib_str lib) (\<lambda>w.
        case bindS (in_world (hx_stream hx (sse_client (endpoint_client c ep))
               (json_call ''POST'' (execd_path_url c ep ''/command'')
                  (to_api_run_command_json command (case opts of None \<Rightarrow> default_opts | Some p \<Rightarrow> p))))) (\<lambda>st.
             if st_status st \<noteq> 200
             then raiseS (api_exception (Some (st_status st)) None (extract_request_id (st_headers st)))
             else bindS (for_eachS (sync_handle_line (lib_times lib) h) (st_lines st)) (\<lambda>_.
                  case st_failure st of None \<Rightarrow> retS () | Some e \<Rightarrow> raiseS e)) (w, new_execution) of
          (Inl e, (w', x)) \<Rightarrow> (Inl e, w') | (Inr _, (w', x)) \<Rightarrow> (Inr x, w')))"

section \<open>Listings\<close>

definition sync_metadata_param :: "(string, string) dict \<Rightarrow> string" where
  "sync_metadata_param d =
     join_with (CHR ''&'') (map (\<lambda>(k, v). url_quote [] (url_quote [] k) @ ''='' @ url_quote [] (url_quote [] v)) d)"

definition sync_list_params :: "sdk_filter \<Rightarrow> (string \<times> string) list" where
  "sync_list_params f =
     (case sf_states f of None \<Rightarrow> [] | Some xs \<Rightarrow> map (\<lambda>x. (''state'', x)) xs) @
     (case sf_metadata f of None \<Rightarrow> [] | Some d \<Rightarrow> if d = [] then [] else [(''metadata'', sync_metadata_param d)]) @
     (case sf_page f of None \<Rightarrow> [] | Some n \<Rightarrow> [(''page'', str_int n)]) @
     (case sf_page_size f of None \<Rightarrow> [] | Some n \<Rightarrow> [(''pageSize'', str_int n)])"

definition sync_list_sandboxes ::
    "'w httpx_api \<Rightarrow> sdk_libs \<Rightarrow> connection_config \<Rightarrow> sdk_filter \<Rightarrow> ('w, sdk_info list \<times> sdk_page) io" where
  "sync_list_sandboxes hx lib c f =
     converting (lib_str lib)
       (call_parsed (get_sandboxes hx (lifecycle_client hx c) (of_json (to_paged_sandbox_infos (lib_times lib))) (sync_list_params f)))"

definition sync_manager_list ::
    "'w httpx_api \<Rightarrow> sdk_libs \<Rightarrow> connection_config \<Rightarrow> sdk_filter \<Rightarrow> ('w, sdk_info list \<times> sdk_page) io" where
  "sync_manager_list hx lib m f = sync_list_sandboxes hx lib m f"

section \<open>Files\<close>

text \<open>The streaming download is outside of every \<open>try\<close>.\<close>

definition sync_read_bytes_stream ::
    "'w httpx_api \<Rightarrow> connection_config \<Rightarrow> sdk_endpoint \<Rightarrow> string \<Rightarrow> string option \<Rightarrow> ('w, http_stream) io" where
  "sync_read_bytes_stream hx c ep path range_header =
     bindS (hx_stream hx (endpoint_client c ep) (build_download_request c ep path range_header)) (\<lambda>st.
     if 300 \<le> st_status st
     then raiseS (api_exception (Some (st_status st)) None (extract_request_id (st_headers st)))
     else retS st)"

section \<open>Sandboxes\<close>

definition sync_is_healthy :: "'w httpx_api \<Rightarrow> 'w sandbox_client \<Rightarrow> ('w, bool) io" where
  "sync_is_healthy hx sb =
     (case sc_health sb of
        Some check \<Rightarrow> check
      | None \<Rightarrow> catchS (health_ping hx (sc_config sb) (sc_execd sb)) (\<lambda>_. retS False))"

text \<open>The loop returns from inside the \<open>try\<close> and sleeps whenever it did not.\<close>

fun sync_ready_loop :: "nat \<Rightarrow> 'w httpx_api \<Rightarrow> 'w sandbox_client \<Rightarrow> int \<Rightarrow> int \<Rightarrow> ('w, unit option) io" where
  "sync_ready_loop 0 hx sb deadline interval = retS None"
| "sync_ready_loop (Suc fuel) hx sb deadline interval =
     bindS (hx_time hx) (\<lambda>now.
     if now < deadline
     then bindS (catchS (bindS (sync_is_healthy hx sb) (\<lambda>b. retS (if b then Some () else None))) (\<lambda>_. retS None)) (\<lambda>returned.
          case returned of
            Some u \<Rightarrow> retS (Some u)
          | None \<Rightarrow> bindS (hx_sleep hx interval) (\<lambda>_. sync_ready_loop fuel hx sb deadline interval))
     else raiseS (sdk_exception SandboxReadyTimeoutException))"

definition sync_check_ready :: "nat \<Rightarrow> 'w httpx_api \<Rightarrow> 'w sandbox_client \<Rightarrow> int \<Rightarrow> int \<Rightarrow> ('w, unit option) io" where
  "sync_check_ready fuel hx sb timeout interval =
     bindS (hx_time hx) (\<lambda>now. sync_ready_loop fuel hx sb (now + timeout) interval)"

text \<open>
  Creation with the local variable \<open>sandbox_id\<close> of the function, which its \<open>except\<close> block looks at: it is the second
  part of the state while the body runs.
\<close>

definition sync_new_sandbox :: "connection_config \<Rightarrow> (string \<Rightarrow> ('w, bool) io) option \<Rightarrow> string \<Rightarrow> sdk_endpoint \<Rightarrow> sdk_endpoint \<Rightarrow> 'w sandbox_client" where
  "sync_new_sandbox config health sandbox_id execd egress =
     \<lparr>sc_id = sandbox_id, sc_config = config, sc_execd = execd, sc_egress = egress, sc_health = map_option (\<lambda>f. f sandbox_id) health\<rparr>"

definition sync_create_body ::
    "nat \<Rightarrow> 'w httpx_api \<Rightarrow> sdk_libs \<Rightarrow> connection_config \<Rightarrow> (string \<Rightarrow> ('w, bool) io) option \<Rightarrow> ready_opts \<Rightarrow> sdk_create
       \<Rightarrow> ('w \<times> string option, 'w sandbox_client option) io" where
  "sync_create_body fuel hx lib config health rd cr =
     (let svc = sandboxes_adapter hx lib config in
      bindS (in_world (sv_create svc cr)) (\<lambda>response_id.
      bindS (on_execution (\<lambda>_. Some response_id)) (\<lambda>_.
      bindS (in_world (sv_endpoint svc response_id DEFAULT_EXECD_PORT (cc_use_server_proxy config))) (\<lambda>execd.
      bindS (in_world (sv_endpoint svc response_id DEFAULT_EGRESS_PORT (cc_use_server_proxy config))) (\<lambda>egress.
      let sb = sync_new_sandbox config health response_id execd egress
      in if \<not> rd_skip rd
         then bindS (in_world (sync_check_ready fuel hx sb (rd_timeout rd) (rd_interval rd))) (\<lambda>r. retS (map_option (\<lambda>_. sb) r))
         else retS (Some sb))))))"

definition sync_create ::
    "nat \<Rightarrow> 'w httpx_api \<Rightarrow> sdk_libs \<Rightarrow> connection_config \<Rightarrow> (string \<Rightarrow> ('w, bool) io) option \<Rightarrow> ready_opts \<Rightarrow> create_args
       \<Rightarrow> ('w, 'w sandbox_client option) io" where
  "sync_create fuel hx lib conf health rd args =
     bindS (with_transport_if_missing hx conf) (\<lambda>config.
     bindS (liftR (create_defaults args)) (\<lambda>cr. \<lambda>w.
     case sync_create_body fuel hx lib config health rd cr (w, None) of
       (Inr sb, (w', sandbox_id)) \<Rightarrow> (Inr sb, w')
     | (Inl e, (w', sandbox_id)) \<Rightarrow>
         bindS (if given sandbox_id then catchS (sv_kill (sandboxes_adapter hx lib config) (the sandbox_id)) (\<lambda>_. retS ()) else retS ()) (\<lambda>_.
         bindS (close_transport_if_owned hx config) (\<lambda>_.
         raiseS (if is_sandbox_exn e then e else sdk_exception SandboxInternalException))) w'))"

definition sync_attach ::
    "nat \<Rightarrow> 'w httpx_api \<Rightarrow> sdk_libs \<Rightarrow> connection_config \<Rightarrow> (string \<Rightarrow> ('w, bool) io) option \<Rightarrow> ready_opts \<Rightarrow> string
       \<Rightarrow> ('w, 'w sandbox_client option) io" where
  "sync_attach fuel hx lib config health rd sandbox_id =
     (let svc = sandboxes_adapter hx lib config in
      bindS (sv_endpoint svc sandbox_id DEFAULT_EXECD_PORT (cc_use_server_proxy config)) (\<lambda>execd.
      bindS (sv_endpoint svc sandbox_id DEFAULT_EGRESS_PORT (cc_use_server_proxy config)) (\<lambda>egress.
      let sb = sync_new_sandbox config health sandbox_id execd egress
      in if \<not> rd_skip rd
         then bindS (sync_check_ready fuel hx sb (rd_timeout rd) (rd_interval rd)) (\<lambda>r. retS (map_option (\<lambda>_. sb) r))
         else retS (Some sb))))"

definition sync_connect ::
    "nat \<Rightarrow> 'w httpx_api \<Rightarrow> sdk_libs \<Rightarrow> connection_config \<Rightarrow> (string \<Rightarrow> ('w, bool) io) option \<Rightarrow> ready_opts \<Rightarrow> string
       \<Rightarrow> ('w, 'w sandbox_client option) io" where
  "sync_connect fuel hx lib conf health rd sandbox_id =
     (if sandbox_id = [] then raiseS (sdk_exception InvalidArgumentException)
      else bindS (with_transport_if_missing hx conf) (\<lambda>config.
           catchS (sync_attach fuel hx lib config health rd sandbox_id) (\<lambda>e.
           bindS (close_transport_if_owned hx config) (\<lambda>_.
           raiseS (if is_sandbox_exn e then e else sdk_exception SandboxInternalException)))))"

definition sync_resume ::
    "nat \<Rightarrow> 'w httpx_api \<Rightarrow> sdk_libs \<Rightarrow> connection_config \<Rightarrow> (string \<Rightarrow> ('w, bool) io) option \<Rightarrow> ready_opts \<Rightarrow> string
       \<Rightarrow> ('w, 'w sandbox_client option) io" where
  "sync_resume fuel hx lib conf health rd sandbox_id =
     (if sandbox_id = [] then raiseS (sdk_exception InvalidArgumentException)
      else bindS (with_transport_if_missing hx conf) (\<lambda>config.
           catchS (bindS (sv_resume (sandboxes_adapter hx lib config) sandbox_id) (\<lambda>_.
                   sync_attach fuel hx lib config health rd sandbox_id)) (\<lambda>e.
           bindS (close_transport_if_owned hx config) (\<lambda>_.
           raiseS (if is_sandbox_exn e then e else sdk_exception SandboxInternalException)))))"

section \<open>Both clients agree\<close>

lemma strip_Nil [simp]: "strip [] = []"
  by code_simp

lemma sync_handle_line_same: "sync_handle_line tp h = handle_line tp h"
  by (rule ext, rule ext)
    (auto simp: sync_handle_line_def handle_line_def read_event_def or_value_error_def bindS_def liftR_def catchS_def split: option.splits)

lemma run_in_local_state:
  "(\<lambda>w. case bindS (in_world m) (\<lambda>st. if b st then raiseS (f st) else g st) (w, x0) of
      (Inl e, (w', x)) \<Rightarrow> (Inl e, w') | (Inr _, (w', x)) \<Rightarrow> (Inr x, w')) =
   bindS m (\<lambda>st. if b st then raiseS (f st) else (\<lambda>w. case g st (w, x0) of
      (Inl e, (w', x)) \<Rightarrow> (Inl e, w') | (Inr _, (w', x)) \<Rightarrow> (Inr x, w')))"
  by (rule ext) (auto simp: bindS_def in_world_def raiseS_def split: prod.splits sum.splits)

lemma sync_command_run_same: "sync_command_run hx lib c ep command opts h = command_run hx lib c ep command opts h"
  unfolding sync_command_run_def command_run_def run_stream_def sync_handle_line_same run_in_local_state ..

lemma sync_is_healthy_same: "sync_is_healthy hx sb = is_healthy hx sb"
  unfolding sync_is_healthy_def is_healthy_def sandbox_ping_def ..

lemma healthy_or_none:
  "bindS (catchS (bindS m (\<lambda>b. retS (if b then Some () else None))) (\<lambda>_. retS None)) (\<lambda>returned.
     case returned of Some u \<Rightarrow> retS (Some u) | None \<Rightarrow> k) =
   bindS (catchS m (\<lambda>_. retS False)) (\<lambda>b. if b then retS (Some ()) else k)"
  by (rule ext) (auto simp: bindS_def catchS_def retS_def split: prod.splits sum.splits)

lemma sync_ready_loop_same: "sync_ready_loop fuel hx sb deadline interval = ready_loop fuel hx sb deadline interval"
  by (induction fuel) (simp_all only: sync_ready_loop.simps ready_loop.simps healthy_or_none sync_is_healthy_same)

lemma sync_check_ready_same: "sync_check_ready = check_ready"
  by (intro ext) (simp add: sync_check_ready_def check_ready_def sync_ready_loop_same)

lemma sync_attach_same: "sync_attach fuel hx lib config health rd sandbox_id = attach fuel hx lib config health rd sandbox_id"
  unfolding sync_attach_def attach_def sync_check_ready_same Let_def sync_new_sandbox_def
  by (cases "rd_skip rd") simp_all

lemma in_world_attach:
  "sync_create_body fuel hx lib config health rd cr (w, None) =
     (case sv_create (sandboxes_adapter hx lib config) cr w of
        (Inl e, w1) \<Rightarrow> (Inl e, (w1, None))
      | (Inr i, w1) \<Rightarrow> (case attach fuel hx lib config health rd i w1 of (r, w2) \<Rightarrow> (r, (w2, Some i))))"
  unfolding sync_attach_same [symmetric]
  by (auto simp: sync_create_body_def sync_attach_def Let_def bindS_def in_world_def on_execution_def modifyS_def retS_def
      split: prod.splits sum.splits)

lemma sync_create_same: "sync_create fuel hx lib conf health rd args = sandbox_create fuel hx lib conf health rd args"
proof -
  have "(\<lambda>w. case sync_create_body fuel hx lib config health rd cr (w, None) of
       (Inr sb, (w', sandbox_id)) \<Rightarrow> (Inr sb, w')
     | (Inl e, (w', sandbox_id)) \<Rightarrow>
         bindS (if given sandbox_id then catchS (sv_kill (sandboxes_adapter hx lib config) (the sandbox_id)) (\<lambda>_. retS ()) else retS ()) (\<lambda>_.
         bindS (close_transport_if_owned hx config) (\<lambda>_.
         raiseS (if is_sandbox_exn e then e else sdk_exception SandboxInternalException))) w') =
    (let svc = sandboxes_adapter hx lib config in
     catchS (bindS (sv_create svc cr) (\<lambda>sandbox_id.
             catchS (attach fuel hx lib config health rd sandbox_id)
               (\<lambda>e. bindS (kill_quietly svc sandbox_id) (\<lambda>_. raiseS e))))
       (fail_with hx config))" for config cr
    unfolding in_world_attach
    by (rule ext) (auto simp: Let_def catchS_def bindS_def raiseS_def retS_def kill_quietly_def fail_with_def given_def split: prod.splits sum.splits)
  then show ?thesis unfolding sync_create_def sandbox_create_def by presburger
qed

lemma sync_connect_same: "sync_connect fuel hx lib conf health rd sandbox_id = sandbox_connect fuel hx lib conf health rd sandbox_id"
  unfolding sync_connect_def sandbox_connect_def sync_attach_same fail_with_def ..

lemma sync_resume_same: "sync_resume fuel hx lib conf health rd sandbox_id = sandbox_resume fuel hx lib conf health rd sandbox_id"
  unfolding sync_resume_def sandbox_resume_def sync_attach_same fail_with_def ..

text \<open>
  C21. The synchronous client behaves as the asynchronous one: creation with its clean-up, connection, resumption with the
  wait for readiness, and the running of commands are the same functions of the world.
\<close>

theorem sync_client_agrees:
  "sync_create fuel hx lib conf health rd args = sandbox_create fuel hx lib conf health rd args
   \<and> sync_connect fuel hx lib conf health rd sandbox_id = sandbox_connect fuel hx lib conf health rd sandbox_id
   \<and> sync_resume fuel hx lib conf health rd sandbox_id = sandbox_resume fuel hx lib conf health rd sandbox_id
   \<and> sync_command_run hx lib c ep command opts h = command_run hx lib c ep command opts h"
  by (simp only: sync_create_same sync_connect_same sync_resume_same sync_command_run_same)

text \<open>They differ in the streaming download: the synchronous one lets the exceptions of the HTTP library through.\<close>

lemma sync_stream_unconverted:
  assumes "hx_stream hx (endpoint_client c ep) (build_download_request c ep path range_header) w = (Inl e, w')"
  shows "sync_read_bytes_stream hx c ep path range_header w = (Inl e, w')"
    and "read_bytes_stream hx lib c ep path range_header w = (Inl (to_sandbox_exception (lib_str lib) e), w')"
  using assms by (simp_all add: sync_read_bytes_stream_def read_bytes_stream_def converting_def catchS_def bindS_def raiseS_def)

end
