(* ===== verification/Json_Round.thy ===== *)
theory Json_Round
  imports K8s_Manifest
begin

text \<open>
  \<open>json.loads\<close> reads back what \<open>json.dumps\<close> writes, for every value without floats whose dictionaries have distinct
  keys. Values that cross a process boundary as JSON text (requests, upload metadata, the policy in the environment of
  the side car) are of this kind.
\<close>

fun json_plain :: "json \<Rightarrow> bool" where
  "json_plain (JFloat r) = False"
| "json_plain (JList xs) = list_all json_plain xs"
| "json_plain (JObj d) = (distinct (map fst d) \<and> list_all (\<lambda>(k, v). json_plain v) d)"
| "json_plain _ = True"

text \<open>What may follow a value: nothing, a separator or a closing bracket.\<close>

definition ends_value :: "string \<Rightarrow> bool" where
  "ends_value r = (case r of [] \<Rightarrow> True | c # _ \<Rightarrow> c \<in> {CHR '','', CHR '']'', CHR ''}''})"

section \<open>Numbers\<close>

lemma digit_split:
  assumes "list_all is_digit ds" and "ends_value r"
  shows "takeWhile is_digit (ds @ r) = ds" and "dropWhile is_digit (ds @ r) = r"
proof -
  have "\<not> is_digit c" if "r = c # t" for c t
    using assms(2) that by (auto simp: ends_value_def is_digit_def code_def)
  then have "takeWhile is_digit r = []" "dropWhile is_digit r = r" by (cases r; simp)+
  then show "takeWhile is_digit (ds @ r) = ds" "dropWhile is_digit (ds @ r) = r"
    using assms(1) by (induction ds) auto
qed

lemma str_nat_list_all_digit: "list_all is_digit (str_nat n)"
  using str_nat_digits by (auto simp: list_all_iff)

lemma str_nat_Cons: "\<exists>c t. str_nat n = c # t \<and> is_digit c"
  using str_nat_list_all_digit [of n] by (cases "str_nat n") auto

lemma str_nat_no_leading_zero: "starts_with (str_nat n) ''0'' \<Longrightarrow> str_nat n = ''0''"
proof (induction n rule: str_nat.induct)
  case (1 n)
  show ?case
  proof (cases "n < 10")
    case True
    then show ?thesis using 1(2) by (subst (asm) str_nat.simps, subst str_nat.simps) (auto simp: starts_with_def)
  next
    case False
    have "starts_with (str_nat (n div 10)) ''0''"
      using 1(2) False by (subst (asm) str_nat.simps) (cases "str_nat (n div 10)"; auto simp: starts_with_def)
    moreover have "str_nat 0 = ''0''" by code_simp
    ultimately have "str_nat (n div 10) = str_nat 0" using 1(1) False by simp
    then show ?thesis using False by (simp add: str_nat_inject)
  qed
qed

lemma ends_value_simps:
  assumes "ends_value r"
  shows "\<not> starts_with r ''.''" "\<not> starts_with r ''e''" "\<not> starts_with r ''E''"
  using assms by (auto simp: ends_value_def starts_with_def split: list.splits)

lemma read_number_str_int:
  assumes "ends_value r"
  shows "read_number (str_int z @ r) = Some (JInt z, r)"
proof -
  let ?ds = "str_nat (nat (if z < 0 then - z else z))"
  let ?s = "str_int z @ r"
  have s: "?s = (if z < 0 then ''-'' else []) @ ?ds @ r" by (simp add: str_int_def)
  have d0: "?ds \<noteq> []" and d1: "list_all is_digit ?ds" by (simp_all add: str_nat_list_all_digit)
  have neg: "starts_with ?s ''-'' \<longleftrightarrow> z < 0"
    using d0 d1 by (cases ?ds) (auto simp: s starts_with_def is_digit_def code_def)
  have t: "(if z < 0 then drop 1 ?s else ?s) = ?ds @ r" by (simp add: s)
  have lead: "(if starts_with ?ds ''0'' then ''0'' else ?ds) = ?ds"
    using str_nat_no_leading_zero [of "nat (if z < 0 then - z else z)"] by argo
  show ?thesis
    unfolding read_number_def Let_def neg t digit_split [OF d1 assms]
    using ends_value_simps [OF assms] lead
    by (simp add: digits_val_str_nat)
qed

lemma read_word_str_int:
  assumes "ends_value r"
  shows "read_word (str_int z @ r) = Some (JInt z, r)"
proof -
  obtain c t where c: "str_nat (nat (if z < 0 then - z else z)) = c # t" "is_digit c"
    using str_nat_Cons by blast
  then have "\<not> starts_with (str_int z @ r) w" if "w \<in> {''null'', ''true'', ''false'', ''NaN'', ''Infinity'', ''-Infinity''}" for w
    using that by (auto simp: str_int_def starts_with_def is_digit_def code_def split: if_splits)
  then show ?thesis
    by (simp add: read_word_def read_number_str_int assms)
qed

section \<open>Values\<close>

lemma dumps_starts:
  assumes "json_plain v"
  shows "\<exists>c t. json_dumps v = c # t \<and> \<not> json_ws c \<and> c \<notin> {CHR '']'', CHR ''}''}"
proof (cases v)
  case (JInt z)
  obtain c t where "str_nat (nat (if z < 0 then - z else z)) = c # t" "is_digit c"
    using str_nat_Cons by blast
  then show ?thesis using JInt by (auto simp: str_int_def json_ws_def is_digit_def code_def split: if_splits)
qed (use assms in \<open>auto simp: json_ws_def code_def dumps_string_def\<close>)

lemma skip_dumps [simp]: "json_plain v \<Longrightarrow> skip_ws (json_dumps v @ r) = json_dumps v @ r"
  using dumps_starts [of v] by (auto simp: skip_ws_def)

abbreviation member_text :: "string \<times> json \<Rightarrow> string" where
  "member_text \<equiv> \<lambda>(k, v). dumps_string k @ '': '' @ json_dumps v"

text \<open>The statement for one value: any bound of twice its length is enough.\<close>

definition reads_back :: "json \<Rightarrow> bool" where
  "reads_back v \<longleftrightarrow> (\<forall>n r. 2 * length (json_dumps v) \<le> n \<longrightarrow> ends_value r \<longrightarrow> read_value n (json_dumps v @ r) = Some (v, r))"

lemma skip_ws_space [simp]: "skip_ws (CHR '' '' # r) = skip_ws r"
  by (simp add: skip_ws_def json_ws_def code_def)

lemma skip_ws_brace [simp]: "skip_ws (CHR ''}'' # r) = CHR ''}'' # r" "skip_ws (CHR '':'' # r) = CHR '':'' # r"
  by (simp_all add: skip_ws_def json_ws_def code_def)

lemma ends_value_intros [simp]: "ends_value (CHR '','' # r)" "ends_value (CHR '']'' # r)" "ends_value (CHR ''}'' # r)" "ends_value []"
  by (simp_all add: ends_value_def)

lemma reads_elem:
  assumes "reads_back v" and "json_plain v" and "2 * length (json_dumps v) \<le> n"
  shows "read_elems (Suc n) (json_dumps v @ CHR '']'' # r) = Some ([v], r)"
    and "read_elems (Suc n) (json_dumps v @ CHR '','' # r) = map_option (\<lambda>(xs, u). (v # xs, u)) (read_elems n r)"
  using assms by (simp_all add: reads_back_def skip_ws_simps del: read_value.simps)

lemma read_elems_space: "read_elems n (CHR '' '' # r) = read_elems n r"
  by (cases n) simp_all

lemma reads_elems:
  assumes "xs \<noteq> []" and "list_all reads_back xs" and "list_all json_plain xs"
    and "2 * length (comma_join (map json_dumps xs)) < n"
  shows "read_elems n (comma_join (map json_dumps xs) @ CHR '']'' # r) = Some (xs, r)"
  using assms
proof (induction xs arbitrary: n rule: induct_list012)
  case (2 v)
  then obtain m where "n = Suc m" "2 * length (json_dumps v) \<le> m" by (cases n) auto
  with 2 show ?case by (simp add: reads_elem del: read_elems.simps)
next
  case (3 v w ws)
  then obtain m where m: "n = Suc m" "2 * length (json_dumps v) \<le> m"
    "2 * length (comma_join (map json_dumps (w # ws))) < m" by (cases n) auto
  have "read_elems m (comma_join (map json_dumps (w # ws)) @ CHR '']'' # r) = Some (w # ws, r)"
    using 3(2) [OF _ _ _ m(3)] 3(4,5) by simp
  with 3(4,5) m(2) show ?case by (simp add: m(1) reads_elem read_elems_space del: read_elems.simps)
qed simp

lemma reads_member:
  assumes "reads_back v" and "json_plain v" and "2 * length (json_dumps v) \<le> n"
  shows "read_members (Suc n) (member_text (k, v) @ CHR ''}'' # r) = Some ([(k, v)], r)"
    and "read_members (Suc n) (member_text (k, v) @ CHR '','' # r) = map_option (\<lambda>(xs, u). ((k, v) # xs, u)) (read_members n r)"
  using assms by (simp_all add: reads_back_def dumps_string_def read_dumps_string skip_ws_simps del: read_value.simps read_string.simps)

lemma read_members_space: "read_members n (CHR '' '' # r) = read_members n r"
  by (cases n) simp_all

lemma reads_members:
  assumes "d \<noteq> []" and "list_all (\<lambda>(k, v). reads_back v) d" and "list_all (\<lambda>(k, v). json_plain v) d"
    and "2 * length (comma_join (map member_text d)) < n"
  shows "read_members n (comma_join (map member_text d) @ CHR ''}'' # r) = Some (d, r)"
  using assms
proof (induction d arbitrary: n rule: induct_list012)
  case (2 p)
  obtain k v where p: "p = (k, v)" by (cases p)
  from 2 obtain m where "n = Suc m" "2 * length (json_dumps v) \<le> m" by (cases n) (auto simp: p)
  with 2 show ?case using reads_member(1) [of v m k r] by (simp add: p del: read_members.simps)
next
  case (3 p q ps)
  obtain k v where p: "p = (k, v)" by (cases p)
  from 3 obtain m where m: "n = Suc m" "2 * length (json_dumps v) \<le> m"
    "2 * length (comma_join (map member_text (q # ps))) < m" by (cases n) (auto simp: p)
  have "read_members m (comma_join (map member_text (q # ps)) @ CHR ''}'' # r) = Some (q # ps, r)"
    using 3(2) [OF _ _ _ m(3)] 3(4,5) by simp
  with 3(4,5) m(2) show ?case
    using reads_member(2) [of v m k "CHR '' '' # comma_join (map member_text (q # ps)) @ CHR ''}'' # r"]
    by (simp add: m(1) p read_members_space del: read_members.simps)
qed simp

lemma read_value_list:
  assumes "xs \<noteq> []" and "read_elems m (comma_join (map json_dumps xs) @ CHR '']'' # r) = Some (xs, r)" and "json_plain (hd xs)"
  shows "read_value (Suc m) (json_dumps (JList xs) @ r) = Some (JList xs, r)"
proof -
  obtain x ys where xs: "xs = x # ys" using assms(1) by (cases xs) auto
  obtain c t where "json_dumps x = c # t" "\<not> json_ws c" "c \<noteq> CHR '']''" using dumps_starts [of x] assms(3) xs by auto
  then obtain u where "comma_join (map json_dumps xs) = c # u" by (cases ys) (auto simp: xs)
  with assms(2) \<open>\<not> json_ws c\<close> \<open>c \<noteq> CHR '']''\<close> show ?thesis by (simp add: skip_ws_def)
qed

lemma read_value_obj:
  assumes "d \<noteq> []" and "read_members m (comma_join (map member_text d) @ CHR ''}'' # r) = Some (d, r)" and "distinct (map fst d)"
  shows "read_value (Suc m) (json_dumps (JObj d) @ r) = Some (JObj d, r)"
proof -
  obtain u where "comma_join (map member_text d) = quote # u"
    using assms(1) by (cases d; cases "tl d") (auto simp: dumps_string_def)
  with assms(2) show ?thesis using dict_update_append [of d "[]"] assms(3) by (simp add: skip_ws_simps)
qed

lemma str_int_Cons: "\<exists>c t. str_int z = c # t \<and> c \<notin> {quote, CHR ''['', CHR ''{''}"
proof -
  obtain c t where "str_nat (nat (if z < 0 then - z else z)) = c # t" "is_digit c"
    using str_nat_Cons by blast
  moreover have "c \<notin> {quote, CHR ''['', CHR ''{''}" using calculation(2) by (auto simp: is_digit_def code_def)
  ultimately show ?thesis by (cases "z < 0") (auto simp: str_int_def)
qed

lemma dumps_fuel:
  assumes "2 * length (json_dumps v) \<le> n" and "json_plain v"
  obtains m where "n = Suc m"
  using assms dumps_starts [of v] by (cases n) auto

lemma reads_back_atom:
  assumes "json_plain v" and "\<And>m r. ends_value r \<Longrightarrow> read_value (Suc m) (json_dumps v @ r) = Some (v, r)"
  shows "reads_back v"
  unfolding reads_back_def by (metis assms dumps_fuel)

lemma plain_reads_back: "json_plain v \<Longrightarrow> reads_back v"
proof (induction v)
  case (JInt z)
  then show ?case
    using str_int_Cons [of z] by (intro reads_back_atom) (auto dest: read_word_str_int [where z = z])
next
  case (JList xs)
  have all: "list_all reads_back xs" "list_all json_plain xs" using JList by (simp_all add: list_all_iff)
  have "read_value n (json_dumps (JList xs) @ r) = Some (JList xs, r)" if n: "2 * length (json_dumps (JList xs)) \<le> n" for n r
  proof (cases "xs = []")
    case False
    obtain m where m: "n = Suc m" by (rule dumps_fuel [OF n JList.prems])
    have "read_elems m (comma_join (map json_dumps xs) @ CHR '']'' # r) = Some (xs, r)"
      by (rule reads_elems [OF False all]) (use n m in simp)
    then show ?thesis unfolding m using False all(2) by (intro read_value_list) (cases xs; simp)+
  qed (use n in \<open>cases n; simp add: skip_ws_simps\<close>)
  then show ?case by (simp add: reads_back_def)
next
  case (JObj d)
  have all: "list_all (\<lambda>(k, v). reads_back v) d" "list_all (\<lambda>(k, v). json_plain v) d" "distinct (map fst d)"
    using JObj by (auto simp: list_all_iff)
  have "read_value n (json_dumps (JObj d) @ r) = Some (JObj d, r)" if n: "2 * length (json_dumps (JObj d)) \<le> n" for n r
  proof (cases "d = []")
    case False
    obtain m where m: "n = Suc m" by (rule dumps_fuel [OF n JObj.prems])
    have "read_members m (comma_join (map member_text d) @ CHR ''}'' # r) = Some (d, r)"
      by (rule reads_members [OF False all(1,2)]) (use n m in simp)
    then show ?thesis unfolding m by (intro read_value_obj False all(3))
  qed (use n in \<open>cases n; simp add: skip_ws_simps\<close>)
  then show ?case by (simp add: reads_back_def)
next
  case (JStr t)
  then show ?case by (intro reads_back_atom) (simp_all add: read_value_dumps_string del: read_value.simps)
next
  case JNull
  then show ?case by (intro reads_back_atom) (simp_all add: read_word_def starts_with_def)
next
  case (JBool b)
  then show ?case by (intro reads_back_atom) (simp_all add: read_word_def starts_with_def)
qed simp

theorem json_loads_dumps:
  assumes "json_plain v"
  shows "json_loads (json_dumps v) = Some v"
proof -
  have "read_value (2 * length (json_dumps v) + 2) (json_dumps v @ []) = Some (v, [])"
    using plain_reads_back [OF assms] unfolding reads_back_def by (meson ends_value_intros(4) le_add1)
  then show ?thesis
    using skip_dumps [OF assms, of "[]"] by (simp add: json_loads_def skip_ws_simps del: read_value.simps)
qed

end
