(* ===== verification/Sdk_Wire.thy ===== *)
theory Sdk_Wire
  imports Sdk_Models Json_Round
begin

text \<open>
  Client and server agree on the body of a creation: what the server reads from the body the client sends is what
  the caller asked for.
\<close>

section \<open>Reading what was written\<close>

lemma collect_each_map: "(\<And>x. x \<in> set xs \<Longrightarrow> f (g x) = Inr (h x)) \<Longrightarrow> collect_each f (map g xs) = Inr (map h xs)"
  by (induction xs) auto

lemma field_str_JStr [simp]: "field_str (JStr s) = Inr s"
  by (simp add: field_str_def or_value_error_def)

lemma field_int_JInt [simp]: "field_int tp (JInt n) = Inr n"
  by (simp add: field_int_def)

lemma field_bool_JBool [simp]: "field_bool tp (JBool b) = Inr b"
  by (simp add: field_bool_def)

lemma field_strs_written [simp]: "field_strs (JList (map JStr xs)) = Inr xs"
  using collect_each_map [of xs field_str JStr id] by (simp add: field_strs_def)

lemma field_str_dict_written [simp]: "field_str_dict (str_dict d) = Inr d"
  using collect_each_map [of d "\<lambda>(k, x). bindR (field_str x) (\<lambda>t. Inr (k, t))" "\<lambda>(k, v). (k, JStr v)" id]
  by (auto simp: field_str_dict_def str_dict_def)

lemma field_opt_str_dict_written [simp]: "field_opt_str_dict (str_dict d) = Inr (map (\<lambda>(k, v). (k, Some v)) d)"
  using collect_each_map [of d "\<lambda>(k, x). bindR (optional (Some x) field_str) (\<lambda>t. Inr (k, t))" "\<lambda>(k, v). (k, JStr v)" "\<lambda>(k, v). (k, Some v)"]
  by (auto simp: field_opt_str_dict_def str_dict_def obj_def optional_def)

lemma list_of_written: "(\<And>x. x \<in> set xs \<Longrightarrow> f (g x) = Inr (h x)) \<Longrightarrow> list_of f (JList (map g xs)) = Inr (map h xs)"
  using collect_each_map [of xs f g h] by (simp add: list_of_def)

lemma map_of_field:
  "k \<noteq> k' \<Longrightarrow> map_of (field k v @ d) k' = map_of d k'"
  "map_of d k = None \<Longrightarrow> map_of (field k v @ d) k = v"
  by (simp_all add: field_def split: option.splits)

lemma map_of_field_only: "map_of (field k v) k' = (if k = k' then v else None)"
  by (simp add: field_def split: option.splits)

lemma map_of_empty_append: "map_of ([] @ d) k = map_of d k"
  by simp

lemma aliased_only: "map_of d name = None \<Longrightarrow> aliased d alias name = map_of d alias"
  by (simp add: aliased_def split: option.splits)

lemmas wire_simps = map_of_field map_of_field_only map_of_empty_append aliased_only required_def defaulted_def obj_def

lemma optional_map [simp]:
  "(\<And>x. g x \<noteq> JNull) \<Longrightarrow> (\<And>x. f (g x) = Inr (h x)) \<Longrightarrow> optional (map_option g v) f = Inr (map_option h v)"
  by (auto simp: optional_def split: option.splits)

lemma optional_None [simp]: "optional None f = Inr None"
  by (simp add: optional_def)

lemma optional_Some [simp]: "x \<noteq> JNull \<Longrightarrow> optional (Some x) f = bindR (f x) (\<lambda>y. Inr (Some y))"
  by (simp add: optional_def)

section \<open>The parts of a creation\<close>

lemma read_image_spec_written [simp]: "read_image_spec (to_api_image_spec i) = Inr i"
  by (cases i; cases "image_auth_of i")
    (auto simp: read_image_spec_def to_api_image_spec_def read_image_auth_def wire_simps)

lemma to_api_network_policy_not_null [simp]: "to_api_network_policy p \<noteq> JNull"
  by (simp add: to_api_network_policy_def)

lemma to_api_network_rules_not_null [simp]: "to_api_network_rules rs \<noteq> JNull"
  by (simp add: to_api_network_rules_def)

lemma read_network_rules_written [simp]: "list_of read_network_rule (to_api_network_rules rs) = Inr rs"
  using list_of_written [of rs read_network_rule "\<lambda>r. JObj [(''action'', JStr (rule_action r)), (''target'', JStr (rule_target r))]" id]
  by (simp add: to_api_network_rules_def read_network_rule_def wire_simps)

definition policy_request :: "sdk_policy \<Rightarrow> network_policy" where
  "policy_request p =
     \<lparr>default_action = (if given (sp_default_action p) then sp_default_action p else None),
      egress_rules = (case sp_egress p of None \<Rightarrow> [] | Some rs \<Rightarrow> rs)\<rparr>"

lemma read_network_policy_written [simp]: "read_network_policy (to_api_network_policy p) = Inr (policy_request p)"
  by (cases "sp_default_action p"; cases "sp_egress p")
    (simp_all add: read_network_policy_def to_api_network_policy_def policy_request_def given_def wire_simps
      read_network_rules_written del: map_of_append)

lemma read_ossfs_written:
  assumes "access_key_id o1 \<noteq> None" and "access_key_secret o1 \<noteq> None"
  shows "\<exists>j. to_api_ossfs o1 = Some j \<and> j \<noteq> JNull \<and> read_ossfs j = Inr o1"
  using assms
  by (cases o1; cases "ossfs_options o1")
    (auto simp: to_api_ossfs_def read_ossfs_def wire_simps)

lemma read_volume_written [simp]:
  assumes "sdk_volume_ok v"
  shows "read_volume tp (to_api_volume v) = Inr v"
proof -
  have "optional (Option.bind (ossfs_of v) to_api_ossfs) read_ossfs = Inr (ossfs_of v)"
  proof (cases "ossfs_of v")
    case (Some o1)
    then have "access_key_id o1 \<noteq> None" "access_key_secret o1 \<noteq> None"
      using assms by (auto simp: sdk_volume_ok_def sdk_ossfs_ok_def given_def)
    with Some show ?thesis using read_ossfs_written by fastforce
  qed simp
  then show ?thesis
    by (cases v) (simp add: read_volume_def to_api_volume_def wire_simps option.map_ident del: map_of_append)
qed

section \<open>The request\<close>

text \<open>The request that a creation of the client stands for.\<close>

definition some_if :: "('a \<Rightarrow> 'b) \<Rightarrow> 'a list \<Rightarrow> 'b list option" where
  "some_if f xs = (if xs = [] then None else Some (map f xs))"

definition request_of :: "sdk_create \<Rightarrow> create_request" where
  "request_of c =
     \<lparr>req_image = cr_image c, req_timeout = map_option whole_seconds (cr_timeout c), req_resource_limits = cr_resource c,
      req_env = some_if (\<lambda>(k, v). (k, Some v)) (cr_env c), req_metadata = some_if id (cr_metadata c),
      req_entrypoint = cr_entrypoint c, req_network_policy = map_option policy_request (cr_policy c),
      req_volumes = Option.bind (cr_volumes c) (some_if id), req_extensions = some_if id (cr_extensions c)\<rparr>"

lemma nonempty_read [simp]:
  "optional (nonempty d) field_str_dict = Inr (some_if id d)"
  "optional (nonempty d) field_opt_str_dict = Inr (some_if (\<lambda>(k, v). (k, Some v)) d)"
  by (auto simp: nonempty_def some_if_def optional_def) (simp_all add: str_dict_def)

lemma to_api_volume_not_null [simp]: "to_api_volume v \<noteq> JNull"
  by (simp add: to_api_volume_def)

lemma read_create_fields_written:
  assumes "\<And>vs. cr_volumes c = Some vs \<Longrightarrow> list_all sdk_volume_ok vs"
  shows "read_create_fields tp (to_api_create_sandbox_request c) = Inr (request_of c)"
proof -
  have "optional (case cr_volumes c of Some (v # vs) \<Rightarrow> Some (JList (map to_api_volume (v # vs))) | _ \<Rightarrow> None)
          (list_of (read_volume tp)) = Inr (Option.bind (cr_volumes c) (some_if id))"
  proof (cases "cr_volumes c")
    case (Some vs)
    then have "list_of (read_volume tp) (JList (map to_api_volume vs)) = Inr (map id vs)"
      using assms [OF Some] by (intro list_of_written) (auto simp: list_all_iff)
    with Some show ?thesis by (cases vs) (simp_all add: some_if_def)
  qed simp
  moreover have "optional (map_option (\<lambda>t. JInt (whole_seconds t)) (cr_timeout c)) (field_int tp) = Inr (map_option whole_seconds (cr_timeout c))"
    by simp
  moreover have "optional (map_option to_api_network_policy (cr_policy c)) read_network_policy = Inr (map_option policy_request (cr_policy c))"
    by (rule optional_map) simp_all
  ultimately show ?thesis
    by (simp add: read_create_fields_def to_api_create_sandbox_request_def wire_simps request_of_def
        del: map_of_append)
qed

text \<open>The body has none of the keys of the frontend's format, so normalization leaves it.\<close>

lemma normalize_other_keys:
  assumes "map_of d ''labels'' = None" and "map_of d ''envVariables'' = None" and "map_of d ''blockAllNetwork'' = None"
  shows "normalize_frontend_payload render (JObj d) = JObj d"
  using assms by (simp add: normalize_frontend_payload_def map_pairs_def block_network_def jget_def)

lemma normalize_written [simp]:
  "normalize_frontend_payload render (to_api_create_sandbox_request c) = to_api_create_sandbox_request c"
  unfolding to_api_create_sandbox_request_def by (rule normalize_other_keys) (simp_all add: wire_simps del: map_of_append)

section \<open>The body as a text\<close>

lemma fst_field: "fst ` set (field k v) = (if v = None then {} else {k})"
  by (auto simp: field_def split: option.splits)

lemma distinct_field: "distinct (map fst (field k v))"
  by (simp add: field_def split: option.splits)

lemma plain_field [simp]: "list_all (\<lambda>(k, v). json_plain v) (field k v) = (\<forall>x. v = Some x \<longrightarrow> json_plain x)"
  by (auto simp: field_def split: option.splits)

lemma plain_strs [simp]: "list_all (json_plain \<circ> JStr) xs"
  by (simp add: list_all_iff)

lemma plain_str_dict [simp]: "json_plain (str_dict d) = dict_ok d"
  by (induction d) (auto simp: str_dict_def dict_ok_def image_iff)

lemma plain_nonempty: "nonempty d = Some x \<Longrightarrow> dict_ok d \<Longrightarrow> json_plain x"
  by (auto simp: nonempty_def split: if_splits)

lemmas plain_simps = fst_field distinct_field list_all_append list.pred_map image_Un

lemma plain_image_spec [simp]: "json_plain (to_api_image_spec i)"
  by (auto simp: to_api_image_spec_def plain_simps)

lemma plain_volume [simp]: "json_plain (to_api_volume v)"
proof -
  have "json_plain x" if "to_api_ossfs o1 = Some x" for o1 x
    using that by (auto simp: to_api_ossfs_def plain_simps split: option.splits)
  then show ?thesis by (auto simp: to_api_volume_def plain_simps bind_eq_Some_conv)
qed

lemma plain_network_rules [simp]: "json_plain (to_api_network_rules rs)"
  by (simp add: to_api_network_rules_def list_all_iff)

lemma plain_network_policy [simp]: "json_plain (to_api_network_policy p)"
  by (auto simp: to_api_network_policy_def plain_simps split: option.splits if_splits)

lemma plain_create_request:
  assumes "dict_ok (cr_resource c)" "dict_ok (cr_env c)" "dict_ok (cr_metadata c)" "dict_ok (cr_extensions c)"
  shows "json_plain (to_api_create_sandbox_request c)"
proof -
  have "json_plain x" if "(case cr_volumes c of Some (v # vs) \<Rightarrow> Some (JList (map to_api_volume (v # vs))) | _ \<Rightarrow> None) = Some x" for x
    using that by (auto simp: list_all_iff split: option.splits list.splits)
  then show ?thesis
    using assms by (auto simp: to_api_create_sandbox_request_def plain_simps intro: plain_nonempty)
qed

section \<open>Properties\<close>

text \<open>
  C6. The server reads from the body of a creation what the caller of the client library asked for, with times in whole
  seconds, and accepts it exactly if the declared constraints hold of it. \<open>encode\<close> is the JSON writer of the HTTP
  library. The hypotheses are that the writer is read back by \<open>json.loads\<close>, that the dictionaries are
  Python dictionaries, and that the volumes passed the validators of the client.
\<close>

theorem create_request_read_back:
  assumes "\<forall>v. json_plain v \<longrightarrow> json_loads (encode v) = Some v"
    and "dict_ok (cr_resource c)" and "dict_ok (cr_env c)" and "dict_ok (cr_metadata c)" and "dict_ok (cr_extensions c)"
    and "\<forall>vs. cr_volumes c = Some vs \<longrightarrow> list_all sdk_volume_ok vs"
  shows "bindR (or_value_error (json_loads (encode (to_api_create_sandbox_request c)))) (read_create_request tp render) =
           (if create_request_fields_ok (request_of c) then Inr (request_of c) else Inl ValueError)"
  using assms plain_create_request [of c]
  by (simp add: or_value_error_def read_create_request_def read_create_fields_written)

definition sample_create :: sdk_create where
  "sample_create =
     \<lparr>cr_image = \<lparr>image_uri = ''python:3.12'', image_auth_of = Some \<lparr>auth_username = ''u'', auth_password = ''p''\<rparr>\<rparr>,
      cr_entrypoint = [''sleep'', ''60''], cr_env = [(''A'', ''1'')], cr_metadata = [], cr_timeout = Some 90500000,
      cr_resource = [(''cpu'', ''1'')], cr_policy = Some \<lparr>sp_default_action = Some ''deny'', sp_egress = Some [\<lparr>rule_action = ''allow'', rule_target = ''pypi.org''\<rparr>]\<rparr>,
      cr_extensions = [],
      cr_volumes = Some [\<lparr>vol_name = ''data'', host_path = Some ''/srv'', pvc_claim = None, ossfs_of = None, mount_path = ''/mnt'', read_only = True, sub_path = None\<rparr>]\<rparr>"

theorem create_request_read_back_witness:
  "bindR (or_value_error (json_loads (json_dumps (to_api_create_sandbox_request sample_create))))
     (read_create_request \<lparr>isoparse = \<lambda>_. None, lax_time = \<lambda>_. None, lax_int = \<lambda>_. None, lax_bool = \<lambda>_. None\<rparr> (\<lambda>_. [])) = Inr (request_of sample_create)
   \<and> req_timeout (request_of sample_create) = Some 90"
proof -
  have "list_all sdk_volume_ok (the (cr_volumes sample_create))" "create_request_fields_ok (request_of sample_create)"
    "req_timeout (request_of sample_create) = Some 90" by code_simp+
  moreover have "dict_ok (cr_resource sample_create)" "dict_ok (cr_env sample_create)" "dict_ok (cr_metadata sample_create)"
    "dict_ok (cr_extensions sample_create)" by (simp_all add: sample_create_def dict_ok_def)
  moreover have "\<forall>vs. cr_volumes sample_create = Some vs \<longrightarrow> list_all sdk_volume_ok vs" using calculation(1) by auto
  ultimately show ?thesis
    using create_request_read_back [of json_dumps sample_create] json_loads_dumps by simp
qed

end
