(* ===== verification/Sdk_Server.thy ===== *)
theory Sdk_Server
  imports Sdk_Outcomes Sdk_Wire Http_Safety
begin

text \<open>
  The client library against the server of this repository: the key it sends, the paths it asks for and the errors it
  reports.
\<close>

section \<open>Errors of the server\<close>

text \<open>The body the server's handler makes of an error is one the client reads.\<close>

lemma plain_jget: "json_plain (JObj d) \<Longrightarrow> json_plain (jget d k)"
  by (auto simp: jget_def list_all_iff dest!: map_of_SomeD split: option.splits)

lemma plain_error_detail: "json_plain detail \<Longrightarrow> json_plain (JObj (normalize_error_detail str detail))"
  using plain_jget by (cases detail) (auto simp: normalize_error_detail_def or_default_def)

lemma error_body_normalized:
  assumes "\<forall>v. json_plain v \<longrightarrow> json_loads (encode v) = Some v" and "json_plain detail"
    and "rs_body r = encode (JObj (normalize_error_detail str detail))"
  shows "error_body r"
  using assms plain_error_detail [OF assms(2), of str]
  by (auto simp: error_body_def normalize_error_detail_def split: json.splits)


definition refusing :: "unit httpx_api" where
  "refusing =
     \<lparr>hx_send = (\<lambda>_ _ w. (Inr \<lparr>rs_status = 409, rs_headers = [(''x-request-id'', '' r7 '')],
        rs_body = json_dumps (JObj (normalize_error_detail (\<lambda>_. []) (JObj [(''code'', JStr ''BUSY'')])))\<rparr>, w)),
      hx_stream = (\<lambda>_ _. raiseS NetworkError), hx_new_transport = retS 0, hx_close_transport = (\<lambda>_. retS ()),
      hx_time = retS 0, hx_sleep = (\<lambda>_. retS ()), hx_getenv = (\<lambda>_. None)\<rparr>"


section \<open>Requests\<close>

text \<open>What the server sees of a call: the path of the merged URL, and the headers of client and call.\<close>

definition received :: "string \<Rightarrow> http_client \<Rightarrow> http_call \<Rightarrow> http_request" where
  "received host client call =
     \<lparr>hr_websocket = False, hr_method = hc_method call, hr_path = drop (length host) (cl_base_url client @ hc_url call),
      hr_query = [], hr_headers = cl_headers client @ hc_headers call\<rparr>"

lemma split_v1: "split_on slash (''/v1/'' @ p) = [] # ''v1'' # split_on slash p"
  by simp

lemma v1_no_route:
  assumes "routed route" and "hr_path r = ''/v1/'' @ p"
  shows "route r = None"
proof (rule ccontr)
  assume "route r \<noteq> None"
  then obtain call where "route r = Some call" by auto
  with assms obtain rest where "[] # ''v1'' # split_on slash p = [] # route_path call @ rest"
    unfolding routed_def by (metis split_v1)
  then show False by (cases call) auto
qed

lemma find_key_update:
  "(\<forall>k \<in> fst ` set d. lower k \<noteq> lower key) \<Longrightarrow> find (\<lambda>(k, v). lower k = lower key) (AList.update key x d @ e) = Some (key, x)"
  by (induction d) auto

lemma keys_dict_update: "fst ` set (dict_update d e) \<subseteq> fst ` set d \<union> fst ` set e"
proof (induction e arbitrary: d)
  case (Cons p e)
  have "fst ` set (dict_update (AList.update (fst p) (snd p) d) e) \<subseteq> insert (fst p) (fst ` set d) \<union> fst ` set e"
    using Cons [of "AList.update (fst p) (snd p) d"] by (simp add: dom_update)
  then show ?case by (simp add: dict_update_def case_prod_beta)
qed (simp add: dict_update_def)

lemma client_sends_key:
  assumes "get_api_key hx c \<noteq> []" and "\<forall>k \<in> fst ` set (cc_headers c). lower k \<noteq> lower API_KEY_HEADER"
  shows "header_get API_KEY_HEADER (cl_headers (lifecycle_client hx c) @ e) = Some (get_api_key hx c)"
proof -
  have "lower ''User-Agent'' \<noteq> lower API_KEY_HEADER" by code_simp
  then have "\<forall>k \<in> fst ` set (dict_update [(''User-Agent'', cc_user_agent c)] (cc_headers c)). lower k \<noteq> lower API_KEY_HEADER"
    using assms(2) keys_dict_update [of "[(''User-Agent'', cc_user_agent c)]" "cc_headers c"] by fastforce
  then show ?thesis
    using assms(1) by (simp add: lifecycle_client_def header_get_def find_key_update Let_def)
qed

text \<open>
  C19. The paths of the client library start with \<open>/v1\<close>, those of the server do not: a request of the client that carries
  the key the server asks for is let through and then finds no route.
\<close>

theorem sdk_requests_have_no_route:
  assumes "routed route" and "load_api_keys cfg = [get_api_key hx c]"
    and "\<forall>k \<in> fst ` set (cc_headers c). lower k \<noteq> lower API_KEY_HEADER"
    and "\<not> starts_with (get_domain hx c) ''http://''" and "\<not> starts_with (get_domain hx c) ''https://''"
    and "starts_with (hc_url call) ''/''"
  shows "serve (load_api_keys cfg) route env
           (received (cc_protocol c @ ''://'' @ get_domain hx c) (lifecycle_client hx c) call) s = (No_Route, s)"
proof -
  let ?r = "received (cc_protocol c @ ''://'' @ get_domain hx c) (lifecycle_client hx c) call"
  obtain p where p: "hc_url call = slash # p" using assms(6) by (cases "hc_url call") (auto simp: starts_with_def)
  have "cl_base_url (lifecycle_client hx c) = (cc_protocol c @ ''://'' @ get_domain hx c) @ ''/v1''"
    using assms(4,5) by (simp add: lifecycle_client_def get_base_url_def Let_def)
  moreover have "drop (length h) ((h @ ''/v1'') @ slash # p) = ''/v1/'' @ p" for h by simp
  ultimately have path: "hr_path ?r = ''/v1/'' @ p" by (simp only: received_def p http_request.simps)
  have "get_api_key hx c \<noteq> []" using assms(2) by (auto simp: load_api_keys_def split: option.splits if_splits)
  then have "auth_call (load_api_keys cfg) ?r = Forward"
    using client_sends_key [OF _ assms(3), where hx = hx and e = "hc_headers call"] assms(2)
    by (simp add: auth_call_def auth_dispatch_def received_def)
  moreover have "route ?r = None" by (rule v1_no_route [OF assms(1) path])
  ultimately show ?thesis by (simp add: serve_def)
qed

theorem sdk_requests_have_no_route_witness:
  "serve (load_api_keys sample_config) sample_route sample_env
     (received ''http://localhost:8080'' (lifecycle_client web_hx web_config) (simple_call ''DELETE'' ''/sandboxes/a1'')) two_sandboxes
   = (No_Route, two_sandboxes)"
proof -
  have k: "load_api_keys sample_config = [get_api_key web_hx web_config]" by code_simp
  have d: "\<not> starts_with (get_domain web_hx web_config) ''http://''" "\<not> starts_with (get_domain web_hx web_config) ''https://''"
    "cc_protocol web_config @ ''://'' @ get_domain web_hx web_config = ''http://localhost:8080''" by code_simp+
  have h: "\<forall>k \<in> fst ` set (cc_headers web_config). lower k \<noteq> lower API_KEY_HEADER" by (simp add: web_config_def)
  have u: "starts_with (hc_url (simple_call ''DELETE'' ''/sandboxes/a1'')) ''/''" by code_simp
  show ?thesis
    using sdk_requests_have_no_route [OF sample_routed k h d(1,2) u, of sample_env two_sandboxes] by (simp only: d(3))
qed

end
