(* ===== verification/Sdk_Filter.thy ===== *)
theory Sdk_Filter
  imports Sdk_Sync Sdk_Server
begin

text \<open>
  The metadata filter of a listing on its way from a client to the server. The asynchronous client joins the pairs as they
  are, the synchronous one (\<open>sync/adapters/sandboxes_adapter.py\<close>) quotes keys and values twice, and the server reads the
  parameter with \<open>parse_qsl\<close>, which is modelled here. The HTTP library quotes the parameter for the URL and the web
  framework undoes it, so the server reads the text the client made.
\<close>

section \<open>Query strings\<close>

text \<open>
  \<open>urllib.parse.unquote\<close>: runs of ASCII characters are turned to bytes, a percent sign with two hexadecimal digits to one
  byte, and decoded as UTF-8. The result is \<open>None\<close> if it is no Latin-1 text.
\<close>

definition hex_value :: "char \<Rightarrow> nat option" where
  "hex_value c =
     (if is_digit c then Some (code c - 48)
      else if 65 \<le> code c \<and> code c \<le> 70 then Some (code c - 55)
      else if 97 \<le> code c \<and> code c \<le> 102 then Some (code c - 87)
      else None)"

definition percent_byte :: "string \<Rightarrow> nat option" where
  "percent_byte s = (case s of
     p # a # b # _ \<Rightarrow> if p \<noteq> CHR ''%'' then None
                     else (case (hex_value a, hex_value b) of (Some x, Some y) \<Rightarrow> Some (16 * x + y) | _ \<Rightarrow> None)
   | _ \<Rightarrow> None)"

function unquote_to_bytes :: "string \<Rightarrow> nat list" where
  "unquote_to_bytes [] = []"
| "unquote_to_bytes (c # s) =
     (case percent_byte (c # s) of
        Some b \<Rightarrow> b # unquote_to_bytes (drop 2 s)
      | None \<Rightarrow> code c # unquote_to_bytes s)"
  by pat_completeness auto
termination by (relation "measure length") auto

fun utf8_decode :: "nat list \<Rightarrow> string option" where
  "utf8_decode [] = Some []"
| "utf8_decode [b] = (if b < 128 then Some [char_of b] else None)"
| "utf8_decode (b # d # bs) =
     (if b < 128 then map_option ((#) (char_of b)) (utf8_decode (d # bs))
      else if b \<in> {194, 195} \<and> 128 \<le> d \<and> d < 192
      then map_option ((#) (char_of (64 * (b - 192) + (d - 128)))) (utf8_decode bs)
      else None)"

abbreviation ascii :: "char \<Rightarrow> bool" where
  "ascii c \<equiv> code c < 128"

function unquote :: "string \<Rightarrow> string option" where
  "unquote [] = Some []"
| "unquote (c # s) =
     (if ascii c
      then (case (utf8_decode (unquote_to_bytes (takeWhile ascii (c # s))), unquote (dropWhile ascii (c # s))) of
              (Some a, Some b) \<Rightarrow> Some (a @ b)
            | _ \<Rightarrow> None)
      else map_option ((#) c) (unquote s))"
  by pat_completeness auto
termination by (relation "measure length") (auto simp: le_imp_less_Suc length_dropWhile_le)

text \<open>
  \<open>parse_qsl(qs, keep_blank_values=True, strict_parsing=True)\<close> of a text that is not empty. Texts outside Latin-1 are not
  modelled.
\<close>

definition unquote_plus :: "string \<Rightarrow> string res" where
  "unquote_plus s =
     (case unquote (map (\<lambda>c. if c = CHR ''+'' then CHR '' '' else c) s) of
        Some t \<Rightarrow> Inr t | None \<Rightarrow> Inl (OtherException ''not Latin-1''))"

definition parse_pair :: "string \<Rightarrow> (string \<times> string) res" where
  "parse_pair s =
     (if CHR ''='' \<notin> set s then Inl ValueError
      else case split_first (CHR ''='') s of (k, v) \<Rightarrow>
           bindR (unquote_plus k) (\<lambda>k'. bindR (unquote_plus v) (\<lambda>v'. Inr (k', v'))))"

definition parse_qsl :: "string \<Rightarrow> (string \<times> string) list res" where
  "parse_qsl qs = collect_each parse_pair (split_on (CHR ''&'') qs)"

section \<open>Quoting and reading\<close>

lemma hex_value_upper: "n < 16 \<Longrightarrow> hex_value (hex_upper n) = Some n"
  by (auto simp: hex_value_def hex_upper_def is_digit_def code_def)

lemma percent_byte_percent: "b < 256 \<Longrightarrow> percent_byte (percent b @ s) = Some b"
  by (simp add: percent_byte_def percent_def hex_value_upper)

lemma unquote_percent: "b < 256 \<Longrightarrow> unquote_to_bytes (percent b @ s) = b # unquote_to_bytes s"
  using percent_byte_percent [of b s] by (simp add: percent_def)

lemma utf8_bytes_small: "b \<in> set (utf8_bytes c) \<Longrightarrow> b < 256"
proof -
  have "code c div 64 < 4" using code_less [of c] by (simp add: less_mult_imp_div_less)
  moreover have "code c mod 64 < 64" by simp
  ultimately show "b \<in> set (utf8_bytes c) \<Longrightarrow> b < 256" using code_less [of c] by (fastforce simp: utf8_bytes_def split: if_splits)
qed

lemma unquote_percents: "(\<And>b. b \<in> set bs \<Longrightarrow> b < 256) \<Longrightarrow> unquote_to_bytes (concat (map percent bs) @ s) = bs @ unquote_to_bytes s"
  by (induction bs) (simp_all add: unquote_percent)

lemma url_safe_ascii: "url_safe c \<Longrightarrow> ascii c \<and> c \<noteq> CHR ''%'' \<and> c \<noteq> CHR ''&'' \<and> c \<noteq> CHR ''='' \<and> c \<noteq> CHR ''+''"
  by (auto simp: url_safe_def is_alnum_def is_digit_def is_upper_def is_lower_def code_def)

lemma unquote_quote_bytes: "unquote_to_bytes (url_quote [] s) = concat (map utf8_bytes s)"
proof (induction s)
  case (Cons c s)
  show ?case
  proof (cases "url_safe c")
    case True
    then have "percent_byte (c # t) = None" for t
      using url_safe_ascii [OF True] by (cases t rule: remdups_adj.cases) (simp_all add: percent_byte_def)
    then show ?thesis using True Cons url_safe_ascii [OF True] by (simp add: url_quote_def utf8_bytes_def)
  next
    case False
    then show ?thesis using Cons unquote_percents [of "utf8_bytes c"] utf8_bytes_small by (simp add: url_quote_def)
  qed
qed (simp add: url_quote_def)

lemma utf8_decode_bytes: "utf8_decode (utf8_bytes c @ bs) = map_option ((#) c) (utf8_decode bs)"
proof (cases "ascii c")
  case True
  then show ?thesis by (cases bs) (simp_all add: utf8_bytes_def code_def)
next
  case False
  have "code c div 64 < 4" using code_less [of c] by (simp add: less_mult_imp_div_less)
  moreover have "2 \<le> code c div 64" using div_le_mono [of 128 "code c" 64] False by simp
  ultimately have "code c div 64 \<in> {2, 3}" by auto
  moreover have "64 * (code c div 64) + code c mod 64 = code c" by simp
  moreover have "char_of (code c) = c" by (simp add: code_def)
  ultimately show ?thesis using False by (auto simp: utf8_bytes_def)
qed

lemma utf8_decode_text: "utf8_decode (concat (map utf8_bytes s)) = Some s"
  by (induction s) (simp_all add: utf8_decode_bytes)

lemma hex_upper_ascii: "n < 16 \<Longrightarrow> url_safe (hex_upper n)"
  by (simp add: url_safe_def hex_upper_alnum)

lemma url_quote_chars: "c \<in> set (url_quote [] s) \<Longrightarrow> url_safe c \<or> c = CHR ''%''"
  using utf8_bytes_small
  by (fastforce simp: url_quote_def percent_def intro!: hex_upper_ascii split: if_splits)

lemma url_quote_no_special [simp]:
  "CHR ''&'' \<notin> set (url_quote [] s)" "CHR ''='' \<notin> set (url_quote [] s)" "CHR ''+'' \<notin> set (url_quote [] s)"
  using url_quote_chars [of _ s] url_safe_ascii by blast+

lemma unquote_ascii: "list_all ascii s \<Longrightarrow> unquote s = utf8_decode (unquote_to_bytes s)"
proof (cases s)
  case (Cons c t)
  assume "list_all ascii s"
  then have "takeWhile ascii (c # t) = c # t" "dropWhile ascii (c # t) = []" "ascii c" unfolding Cons by (simp_all add: list_all_iff)
  then have "unquote (c # t) = (case utf8_decode (unquote_to_bytes (c # t)) of Some a \<Rightarrow> Some (a @ []) | None \<Rightarrow> None)"
    by (simp only: unquote.simps if_True option.case prod.case split: option.split)
  then show ?thesis using Cons by (simp split: option.splits)
qed simp

lemma url_quote_ascii: "list_all ascii (url_quote [] s)"
  using url_quote_chars [of _ s] url_safe_ascii by (fastforce simp: list_all_iff code_def)

lemma unquote_url_quote: "unquote (url_quote [] s) = Some s"
  by (simp add: unquote_ascii url_quote_ascii unquote_quote_bytes utf8_decode_text)

lemma unquote_plus_url_quote: "unquote_plus (url_quote [] s) = Inr s"
proof -
  have "map (\<lambda>c. if c = CHR ''+'' then CHR '' '' else c) (url_quote [] s) = url_quote [] s"
    using url_quote_no_special(3) [of s] by (intro map_idI) auto
  then show ?thesis by (simp add: unquote_plus_def unquote_url_quote)
qed

lemma split_first_sep: "c \<notin> set a \<Longrightarrow> split_first c (a @ c # b) = (a, b)"
  by (induction a) (auto simp: split_first_def)

lemma parse_pair_quoted: "parse_pair (url_quote [] k @ CHR ''='' # url_quote [] v) = Inr (k, v)"
  using split_first_sep [of "CHR ''=''" "url_quote [] k" "url_quote [] v"] by (simp add: parse_pair_def unquote_plus_url_quote)

lemma parse_quoted_pairs:
  assumes "d \<noteq> []"
  shows "parse_qsl (join_with (CHR ''&'') (map (\<lambda>(k, v). url_quote [] k @ ''='' @ url_quote [] v) d)) = Inr d"
proof -
  have "split_on (CHR ''&'') (join_with (CHR ''&'') (map (\<lambda>(k, v). url_quote [] k @ ''='' @ url_quote [] v) d)) =
      map (\<lambda>(k, v). url_quote [] k @ ''='' @ url_quote [] v) d"
    using assms by (intro split_join) auto
  then show ?thesis unfolding parse_qsl_def using collect_each_map [of d parse_pair _ id] by (auto simp: parse_pair_quoted)
qed

section \<open>What the server reads\<close>

definition plain :: "string \<Rightarrow> bool" where
  "plain s \<longleftrightarrow> list_all url_safe s"

lemma url_quote_plain: "plain s \<Longrightarrow> url_quote [] s = s"
  by (induction s) (simp_all add: plain_def url_quote_def)

lemma percent_in_quote: "\<not> plain s \<Longrightarrow> CHR ''%'' \<in> set (url_quote [] s)"
  by (induction s) (auto simp: plain_def url_quote_def percent_def utf8_bytes_def)

lemma sync_param_read:
  "d \<noteq> [] \<Longrightarrow> parse_qsl (sync_metadata_param d) = Inr (map (\<lambda>(k, v). (url_quote [] k, url_quote [] v)) d)"
  using parse_quoted_pairs [of "map (\<lambda>(k, v). (url_quote [] k, url_quote [] v)) d"]
  by (simp add: sync_metadata_param_def comp_def case_prod_unfold)

lemma plain_param_read:
  assumes "d \<noteq> []" and "\<And>k v. (k, v) \<in> set d \<Longrightarrow> plain k \<and> plain v"
  shows "parse_qsl (metadata_param d) = Inr d"
proof -
  have "map (\<lambda>(k, v). k @ ''='' @ v) d = map (\<lambda>(k, v). url_quote [] k @ ''='' @ url_quote [] v) d"
    using assms(2) by (auto simp: url_quote_plain)
  then show ?thesis using parse_quoted_pairs [OF assms(1)] by (simp only: metadata_param_def)
qed

text \<open>No label that the server accepts contains a percent sign.\<close>

fun avoids :: "char \<Rightarrow> re \<Rightarrow> bool" where
  "avoids c REmpty = True"
| "avoids c REps = True"
| "avoids c (RCls p) = (\<not> p c)"
| "avoids c (RSeq r s) = (avoids c r \<and> avoids c s)"
| "avoids c (RAlt r s) = (avoids c r \<and> avoids c s)"
| "avoids c (RStar r) = avoids c r"

lemma star_avoids: "s \<in> star_lang A \<Longrightarrow> (\<And>u. u \<in> A \<Longrightarrow> c \<notin> set u) \<Longrightarrow> c \<notin> set s"
  by (induction rule: star_lang.induct) auto

lemma lang_avoids: "avoids c r \<Longrightarrow> s \<in> lang r \<Longrightarrow> c \<notin> set s"
  by (induction r arbitrary: s) (auto dest: star_avoids)

lemma match_avoids: "avoids c r \<Longrightarrow> c \<noteq> newline \<Longrightarrow> match_dollar r s \<Longrightarrow> c \<notin> set s"
  using lang_avoids [of c r] by (auto simp: match_dollar_iff matches_lang)

lemma labels_avoid_percent:
  "avoids (CHR ''%'') LABEL_NAME_RE" "avoids (CHR ''%'') LABEL_VALUE_RE" "avoids (CHR ''%'') DNS_SUBDOMAIN_RE"
  by code_simp+

lemma no_percent:
  "is_valid_label_name s \<Longrightarrow> CHR ''%'' \<notin> set s" "is_valid_label_value s \<Longrightarrow> CHR ''%'' \<notin> set s"
  "match_dollar DNS_SUBDOMAIN_RE s \<Longrightarrow> CHR ''%'' \<notin> set s"
  using match_avoids [OF labels_avoid_percent(1)] match_avoids [OF labels_avoid_percent(2)] match_avoids [OF labels_avoid_percent(3)]
  by (auto simp: is_valid_label_name_def is_valid_label_value_def split: if_splits)

lemma contains_char: "contains s [c] \<longleftrightarrow> c \<in> set s"
  by (auto simp: contains_sublist sublist_def in_set_conv_decomp)

lemma valid_key_no_percent: "is_valid_label_key k \<Longrightarrow> CHR ''%'' \<notin> set k"
proof (cases "slash \<in> set k")
  case True
  assume v: "is_valid_label_key k"
  obtain a b where k: "k = a @ slash # b" "slash \<notin> set a" using split_list_first [OF True] by blast
  have "contains k ''/''" using True by (simp add: contains_char)
  then show ?thesis using v k no_percent(1,3) split_first_sep [OF k(2), of b]
    by (auto simp: is_valid_label_key_def split: if_splits)
next
  case False
  assume "is_valid_label_key k"
  then show ?thesis using False no_percent(1,3) by (auto simp: is_valid_label_key_def contains_char split: if_splits)
qed

lemma accepted_metadata_no_percent:
  assumes "ensure_metadata_labels (Some m) = ok" and "(k, v) \<in> set m"
  shows "CHR ''%'' \<notin> set k \<and> CHR ''%'' \<notin> set v"
  using assms
proof (induction m)
  case (Cons kv m)
  obtain k0 v0 where kv: "kv = (k0, v0)" by (rule prod.exhaust)
  then have h: "is_valid_label_key k0" "is_valid_label_value v0" "ensure_metadata_labels (Some m) = ok"
    using Cons.prems(1) by (auto simp: ensure_metadata_labels_def ensure_metadata_label_def raise_if_def split: if_splits)
  show ?case
  proof (cases "(k, v) \<in> set m")
    case True
    then show ?thesis using Cons.IH h(3) by simp
  next
    case False
    then show ?thesis using Cons.prems(2) kv valid_key_no_percent [OF h(1)] no_percent(2) [OF h(2)] by simp
  qed
qed simp

lemma dict_update_Nil: "dict_ok d \<Longrightarrow> dict_update [] d = d"
  using dict_update_append [of d "[]"] by (simp add: dict_ok_def)

lemma inj_url_quote: "url_quote [] s = url_quote [] t \<Longrightarrow> s = t"
  by (metis option.inject unquote_url_quote)

lemma dict_ok_quoted:
  assumes "dict_ok d"
  shows "dict_ok (map (\<lambda>(k, v). (url_quote [] k, url_quote [] v)) d)"
proof -
  have "map fst (map (\<lambda>(k, v). (url_quote [] k, url_quote [] v)) d) = map (url_quote []) (map fst d)" by auto
  then show ?thesis
    using assms inj_url_quote unfolding dict_ok_def by (metis distinct_map inj_onI)
qed

lemma list_request_read:
  assumes "p \<noteq> []" and "parse_qsl p = Inr e" and "dict_ok e" and "e \<noteq> []"
  shows "list_request_of parse_qsl states (Some p) pg sz =
    Inr \<lparr>list_filter = \<lparr>filter_state = states, filter_metadata = Some e\<rparr>, list_pagination = Some \<lparr>page = pg, page_size = sz\<rparr>\<rparr>"
  using assms by (simp add: list_request_of_def given_def dict_update_Nil)

lemma params_not_empty: "d \<noteq> [] \<Longrightarrow> metadata_param d \<noteq> []" "d \<noteq> [] \<Longrightarrow> sync_metadata_param d \<noteq> []"
  by (cases d rule: list.exhaust; cases "tl d"; auto simp: metadata_param_def sync_metadata_param_def)+

lemma unmatched_by_percent:
  assumes "(k, v) \<in> set e" and "CHR ''%'' \<in> set k \<or> CHR ''%'' \<in> set v" and "ensure_metadata_labels (sbx_metadata sb) = ok"
  shows "\<not> matches_filter sb (Some \<lparr>filter_state = states, filter_metadata = Some e\<rparr>)"
proof
  assume "matches_filter sb (Some \<lparr>filter_state = states, filter_metadata = Some e\<rparr>)"
  then have "map_of (case sbx_metadata sb of None \<Rightarrow> [] | Some m \<Rightarrow> m) k = Some v"
    using assms(1) by (auto simp: matches_filter_def list_all_iff)
  then obtain m where "sbx_metadata sb = Some m" "(k, v) \<in> set m"
    by (auto split: option.splits dest: map_of_SomeD)
  then show False using accepted_metadata_no_percent [of m k v] assms(2,3) by simp
qed

text \<open>
  C23. A metadata filter of unreserved characters is read by the server as the caller gave it, from either client. A filter with any
  other character, such as the slash of a prefixed label key, that the synchronous client sends selects no sandbox at all:
  the server unquotes once what was quoted twice, and no metadata it accepted contains the percent signs that remain.
\<close>

theorem metadata_filter_over_the_wire:
  assumes "d \<noteq> []" and "dict_ok d"
  shows "((\<forall>k v. (k, v) \<in> set d \<longrightarrow> plain k \<and> plain v) \<longrightarrow>
      (\<forall>p \<in> {metadata_param d, sync_metadata_param d}. list_request_of parse_qsl states (Some p) pg sz =
        Inr \<lparr>list_filter = \<lparr>filter_state = states, filter_metadata = Some d\<rparr>, list_pagination = Some \<lparr>page = pg, page_size = sz\<rparr>\<rparr>))
    \<and> ((\<exists>k v. (k, v) \<in> set d \<and> \<not> (plain k \<and> plain v)) \<longrightarrow>
      (\<exists>req. list_request_of parse_qsl states (Some (sync_metadata_param d)) pg sz = Inr req
         \<and> (\<forall>sb. ensure_metadata_labels (sbx_metadata sb) = ok \<longrightarrow> \<not> matches_filter sb (Some (list_filter req)))))"
proof -
  let ?q = "map (\<lambda>(k, v). (url_quote [] k, url_quote [] v)) d"
  note sync_read = list_request_read [OF params_not_empty(2) [OF assms(1)] sync_param_read [OF assms(1)] dict_ok_quoted [OF assms(2)]]
  have plain_case: "list_request_of parse_qsl states (Some p) pg sz =
      Inr \<lparr>list_filter = \<lparr>filter_state = states, filter_metadata = Some d\<rparr>, list_pagination = Some \<lparr>page = pg, page_size = sz\<rparr>\<rparr>"
    if pl: "\<And>k v. (k, v) \<in> set d \<Longrightarrow> plain k \<and> plain v" and p: "p \<in> {metadata_param d, sync_metadata_param d}" for p
  proof -
    have "?q = d" using pl by (intro map_idI) (auto simp: url_quote_plain)
    then show ?thesis
      using p sync_read list_request_read [OF params_not_empty(1) plain_param_read] assms pl by auto
  qed
  moreover have "\<not> matches_filter sb (Some \<lparr>filter_state = states, filter_metadata = Some ?q\<rparr>)"
    if "(k, v) \<in> set d" "\<not> (plain k \<and> plain v)" "ensure_metadata_labels (sbx_metadata sb) = ok" for k v sb
    using that percent_in_quote [of k] percent_in_quote [of v]
    by (intro unmatched_by_percent [of "url_quote [] k" "url_quote [] v"]) auto
  ultimately show ?thesis using sync_read assms(1) by auto
qed

definition prefixed_filter :: "(string, string) dict" where
  "prefixed_filter = [(''example.com/team'', ''a'')]"

definition team_sandbox :: sandbox where
  "team_sandbox =
     \<lparr>sbx_id = ''s1'', sbx_image = ''i'', sbx_status = \<lparr>state = ''Running'', reason = None, last_transition_at = None\<rparr>,
      sbx_metadata = Some prefixed_filter, sbx_entrypoint = [], sbx_expires_at = None, sbx_created_at = 0, sbx_last_activity_at = None\<rparr>"

theorem metadata_filter_over_the_wire_witness:
  "list_request_of parse_qsl None (Some (metadata_param [(''team'', ''a'')])) 1 20 =
       Inr \<lparr>list_filter = \<lparr>filter_state = None, filter_metadata = Some [(''team'', ''a'')]\<rparr>,
            list_pagination = Some \<lparr>page = 1, page_size = 20\<rparr>\<rparr>
   \<and> (\<exists>req. list_request_of parse_qsl None (Some (sync_metadata_param prefixed_filter)) 1 20 = Inr req
        \<and> \<not> matches_filter team_sandbox (Some (list_filter req)))"
proof -
  have "plain ''team''" "plain ''a''" "\<not> plain ''example.com/team''" by code_simp+
  moreover have "ensure_metadata_labels (sbx_metadata team_sandbox) = ok" by code_simp
  ultimately show ?thesis
    using metadata_filter_over_the_wire [of "[(''team'', ''a'')]" None 1 20] metadata_filter_over_the_wire [of prefixed_filter None 1 20]
    by (auto simp: prefixed_filter_def dict_ok_def)
qed

end
