(* ===== verification/Mcp_Server.thy ===== *)
theory Mcp_Server
  imports Sdk_Sandbox
begin

text \<open>
  The tool server for language models (\<open>sdks/mcp/sandbox/python/src/opensandbox_mcp/server.py\<close>): a registry of sandboxes
  over the client library. The state is the world and the registry; the configuration of the server is an argument of
  the tools. Every access of the registry is under its lock and so one step. The registration of the tools with the
  protocol library and progress reports are left out.
\<close>

type_synonym 'w registry = "(string, 'w sandbox_client) dict"

section \<open>The registry\<close>

definition state_add :: "'w sandbox_client \<Rightarrow> ('w \<times> 'w registry, unit) io" where
  "state_add sb = modifyS (\<lambda>(w, reg). (w, AList.update (sc_id sb) sb reg))"

definition state_get :: "string \<Rightarrow> ('w \<times> 'w registry, 'w sandbox_client option) io" where
  "state_get sandbox_id = getS (\<lambda>(w, reg). map_of reg sandbox_id)"

definition state_remove :: "string \<Rightarrow> ('w \<times> 'w registry, 'w sandbox_client option) io" where
  "state_remove sandbox_id =
     bindS (state_get sandbox_id) (\<lambda>r. bindS (modifyS (\<lambda>(w, reg). (w, AList.delete sandbox_id reg))) (\<lambda>_. retS r))"

text \<open>What the tools share: the client library and the configuration that \<open>register_tools\<close> prepared.\<close>

record 'w mcp_env =
  me_hx :: "'w httpx_api"
  me_lib :: sdk_libs
  me_fuel :: nat
  me_config :: connection_config

definition register_tools :: "'w httpx_api \<Rightarrow> sdk_libs \<Rightarrow> nat \<Rightarrow> connection_config \<Rightarrow> ('w, 'w mcp_env) io" where
  "register_tools hx lib fuel conf =
     bindS (with_transport_if_missing hx conf) (\<lambda>c. retS \<lparr>me_hx = hx, me_lib = lib, me_fuel = fuel, me_config = c\<rparr>)"

definition default_ready :: ready_opts where
  "default_ready = \<lparr>rd_timeout = 30000000, rd_interval = 200000, rd_skip = False\<rparr>"

text \<open>A wait that does not end keeps the tool waiting: \<open>None\<close>.\<close>

definition bind_opt :: "('s, 'a option) io \<Rightarrow> ('a \<Rightarrow> ('s, 'b option) io) \<Rightarrow> ('s, 'b option) io" where
  "bind_opt m k = bindS m (\<lambda>r. case r of None \<Rightarrow> retS None | Some x \<Rightarrow> k x)"

definition get_or_connect_sandbox :: "'w mcp_env \<Rightarrow> bool \<Rightarrow> string \<Rightarrow> ('w \<times> 'w registry, 'w sandbox_client option) io" where
  "get_or_connect_sandbox env connect_if_missing sandbox_id =
     bindS (state_get sandbox_id) (\<lambda>r.
     case r of
       Some sb \<Rightarrow> retS (Some sb)
     | None \<Rightarrow>
         if \<not> connect_if_missing then raiseS ValueError
         else bind_opt (in_world (sandbox_connect (me_fuel env) (me_hx env) (me_lib env) (me_config env) None default_ready sandbox_id))
                (\<lambda>sb. bindS (state_add sb) (\<lambda>_. retS (Some sb))))"

section \<open>Lifecycle tools\<close>

text \<open>\<open>not v\<close> on optional texts; both or neither of the two credentials must be given.\<close>

definition image_auth_arg :: "string option \<Rightarrow> string option \<Rightarrow> image_auth option res" where
  "image_auth_arg username password =
     (if given username \<or> given password
      then (if \<not> given username \<or> \<not> given password then Inl ValueError
            else if image_auth_ok \<lparr>auth_username = the username, auth_password = the password\<rparr>
            then Inr (Some \<lparr>auth_username = the username, auth_password = the password\<rparr>) else Inl ValueError)
      else Inr None)"

definition image_arg :: "string \<Rightarrow> image_auth option \<Rightarrow> image_spec res" where
  "image_arg image_ref auth =
     (if image_ok \<lparr>image_uri = image_ref, image_auth_of = auth\<rparr> then Inr \<lparr>image_uri = image_ref, image_auth_of = auth\<rparr> else Inl ValueError)"

definition tool_sandbox_create ::
    "'w mcp_env \<Rightarrow> string \<Rightarrow> string option \<Rightarrow> string option \<Rightarrow> ready_opts \<Rightarrow> create_args
       \<Rightarrow> ('w \<times> 'w registry, (string \<times> sdk_info) option) io" where
  "tool_sandbox_create env image_ref username password rd args =
     bindS (liftR (bindR (image_auth_arg username password) (image_arg image_ref))) (\<lambda>spec.
     bind_opt (in_world (sandbox_create (me_fuel env) (me_hx env) (me_lib env) (me_config env) None rd (args\<lparr>ca_image := Inr spec\<rparr>))) (\<lambda>sb.
     bindS (state_add sb) (\<lambda>_. bindS (in_world (sandbox_get_info (me_hx env) (me_lib env) sb)) (\<lambda>info.
     retS (Some (sc_id sb, info))))))"

definition tool_sandbox_connect ::
    "'w mcp_env \<Rightarrow> ready_opts \<Rightarrow> string \<Rightarrow> ('w \<times> 'w registry, (string \<times> sdk_info) option) io" where
  "tool_sandbox_connect env rd sandbox_id =
     bind_opt (in_world (sandbox_connect (me_fuel env) (me_hx env) (me_lib env) (me_config env) None rd sandbox_id)) (\<lambda>sb.
     bindS (state_add sb) (\<lambda>_. bindS (in_world (sandbox_get_info (me_hx env) (me_lib env) sb)) (\<lambda>info.
     retS (Some (sc_id sb, info)))))"

text \<open>A manager of its own for a sandbox that is not registered; it is closed in any case.\<close>

definition with_manager :: "'w mcp_env \<Rightarrow> (connection_config \<Rightarrow> ('w, 'a) io) \<Rightarrow> ('w, 'a) io" where
  "with_manager env f =
     bindS (manager_create (me_hx env) (me_config env)) (\<lambda>m. finallyS (f m) (manager_close (me_hx env) m))"

definition tool_sandbox_kill :: "'w mcp_env \<Rightarrow> string \<Rightarrow> ('w \<times> 'w registry, unit) io" where
  "tool_sandbox_kill env sandbox_id =
     bindS (state_remove sandbox_id) (\<lambda>r.
     case r of
       None \<Rightarrow> in_world (with_manager env (\<lambda>m. manager_kill (me_hx env) (me_lib env) m sandbox_id))
     | Some sb \<Rightarrow> in_world (finallyS (sandbox_kill (me_hx env) (me_lib env) sb) (sandbox_close (me_hx env) sb)))"

definition tool_sandbox_get_info :: "'w mcp_env \<Rightarrow> string \<Rightarrow> ('w \<times> 'w registry, sdk_info) io" where
  "tool_sandbox_get_info env sandbox_id =
     bindS (state_get sandbox_id) (\<lambda>r.
     case r of
       Some sb \<Rightarrow> in_world (sandbox_get_info (me_hx env) (me_lib env) sb)
     | None \<Rightarrow> in_world (with_manager env (\<lambda>m. manager_info (me_hx env) (me_lib env) m sandbox_id)))"

definition no_filter :: sdk_filter where
  "no_filter = \<lparr>sf_states = None, sf_metadata = None, sf_page_size = None, sf_page = None\<rparr>"

definition tool_sandbox_list :: "'w mcp_env \<Rightarrow> sdk_filter option \<Rightarrow> ('w \<times> 'w registry, sdk_info list \<times> sdk_page) io" where
  "tool_sandbox_list env f =
     in_world (with_manager env (\<lambda>m. manager_list (me_hx env) (me_lib env) m (case f of None \<Rightarrow> no_filter | Some x \<Rightarrow> x)))"

definition tool_sandbox_renew :: "'w mcp_env \<Rightarrow> string \<Rightarrow> int \<Rightarrow> ('w \<times> 'w registry, datetime) io" where
  "tool_sandbox_renew env sandbox_id timeout =
     bindS (state_get sandbox_id) (\<lambda>r.
     case r of
       None \<Rightarrow> in_world (with_manager env (\<lambda>m. manager_renew (me_hx env) (me_lib env) m sandbox_id timeout))
     | Some sb \<Rightarrow> in_world (sandbox_renew (me_hx env) (me_lib env) sb timeout))"

section \<open>Tools on one sandbox\<close>

text \<open>The other tools look the sandbox up, connecting if asked to, and call one method of it.\<close>

definition with_sandbox ::
    "'w mcp_env \<Rightarrow> bool \<Rightarrow> string \<Rightarrow> ('w sandbox_client \<Rightarrow> ('w, 'a) io) \<Rightarrow> ('w \<times> 'w registry, 'a option) io" where
  "with_sandbox env connect_if_missing sandbox_id f =
     bind_opt (get_or_connect_sandbox env connect_if_missing sandbox_id) (\<lambda>sb. bindS (in_world (f sb)) (\<lambda>x. retS (Some x)))"

definition tool_sandbox_get_metrics where
  "tool_sandbox_get_metrics env lax sandbox_id conn =
     with_sandbox env conn sandbox_id (sandbox_get_metrics (me_hx env) (me_lib env) lax)"

definition tool_sandbox_healthcheck where
  "tool_sandbox_healthcheck env sandbox_id conn = with_sandbox env conn sandbox_id (is_healthy (me_hx env))"

definition no_handlers :: "'w handlers" where
  "no_handlers = \<lparr>on_init = None, on_stdout = None, on_stderr = None, on_result = None, on_error = None, on_complete = None\<rparr>"

definition tool_command_run where
  "tool_command_run env sandbox_id command background working_directory conn =
     with_sandbox env conn sandbox_id (\<lambda>sb.
       cm_run (commands_adapter (me_hx env) (me_lib env) (sc_config sb) (sc_execd sb)) command
         (Some (default_opts\<lparr>ro_background := background, ro_working_directory := working_directory\<rparr>)) no_handlers)"

definition tool_command_interrupt where
  "tool_command_interrupt env sandbox_id execution_id conn =
     with_sandbox env conn sandbox_id (\<lambda>sb.
       cm_interrupt (commands_adapter (me_hx env) (me_lib env) (sc_config sb) (sc_execd sb)) execution_id)"

definition tool_file_read where
  "tool_file_read env decode sandbox_id path range_header conn =
     with_sandbox env conn sandbox_id (\<lambda>sb.
       bindS (read_file (me_hx env) (me_lib env) (sc_config sb) (sc_execd sb) decode path range_header) (\<lambda>t. retS (path, t)))"

definition tool_file_write where
  "tool_file_write env sandbox_id path content encoding mode owner grp conn =
     with_sandbox env conn sandbox_id (\<lambda>sb.
       write_file (me_hx env) (me_lib env) (sc_config sb) (sc_execd sb)
         \<lparr>we_path = path, we_data = Data_Str content, we_mode = mode, we_owner = owner, we_group = grp, we_encoding = encoding\<rparr>)"

definition tool_file_delete where
  "tool_file_delete env sandbox_id paths conn =
     with_sandbox env conn sandbox_id (\<lambda>sb. delete_files (me_hx env) (me_lib env) (sc_config sb) (sc_execd sb) paths)"

definition tool_file_search where
  "tool_file_search env sandbox_id path pattern conn =
     with_sandbox env conn sandbox_id (\<lambda>sb.
       if search_entry_ok (path, pattern) then file_search (me_hx env) (me_lib env) (sc_config sb) (sc_execd sb) (path, pattern)
       else raiseS ValueError)"

text \<open>The input of a directory has no data and the default encoding.\<close>

definition directory_entry :: "string \<times> int \<times> string option \<times> string option \<Rightarrow> write_entry" where
  "directory_entry e = (case e of (path, mode, owner, grp) \<Rightarrow>
     \<lparr>we_path = path, we_data = Data_None, we_mode = mode, we_owner = owner, we_group = grp, we_encoding = ''utf-8''\<rparr>)"

definition tool_file_create_directories where
  "tool_file_create_directories env sandbox_id entries conn =
     with_sandbox env conn sandbox_id (\<lambda>sb.
       if list_all (\<lambda>e. write_entry_ok (directory_entry e)) entries
       then create_directories (me_hx env) (me_lib env) (sc_config sb) (sc_execd sb) (map directory_entry entries)
       else raiseS ValueError)"

definition tool_file_delete_directories where
  "tool_file_delete_directories env sandbox_id paths conn =
     with_sandbox env conn sandbox_id (\<lambda>sb. delete_directories (me_hx env) (me_lib env) (sc_config sb) (sc_execd sb) paths)"

definition tool_file_move where
  "tool_file_move env sandbox_id entries conn =
     with_sandbox env conn sandbox_id (\<lambda>sb. move_files (me_hx env) (me_lib env) (sc_config sb) (sc_execd sb) entries)"

definition tool_file_replace_contents where
  "tool_file_replace_contents env sandbox_id entries conn =
     with_sandbox env conn sandbox_id (\<lambda>sb.
       if list_all replace_entry_ok entries then replace_contents (me_hx env) (me_lib env) (sc_config sb) (sc_execd sb) entries
       else raiseS ValueError)"

definition tool_sandbox_get_endpoint where
  "tool_sandbox_get_endpoint env sandbox_id port conn =
     with_sandbox env conn sandbox_id (\<lambda>sb. sandbox_get_endpoint (me_hx env) (me_lib env) sb port)"

end
