(* ===== verification/Mcp_Safety.thy ===== *)
theory Mcp_Safety
  imports Mcp_Server Sdk_Outcomes
begin

text \<open>
  The registry of the tool server: every tool keeps it consistent, a killed sandbox leaves it, and all its sandboxes
  share the transport that \<open>register_tools\<close> made.
\<close>

section \<open>Steps\<close>

text \<open>
  A run of the server: the tools in any order with any arguments, and whatever happens outside between them.
\<close>

inductive mcp_step :: "'w mcp_env \<Rightarrow> 'w \<times> 'w registry \<Rightarrow> 'w \<times> 'w registry \<Rightarrow> bool" for env where
  do_outside: "mcp_step env (w, reg) (w', reg)"
| do_create: "tool_sandbox_create env image_ref username password rd args s = (r, s') \<Longrightarrow> mcp_step env s s'"
| do_connect: "tool_sandbox_connect env rd sid s = (r, s') \<Longrightarrow> mcp_step env s s'"
| do_kill: "tool_sandbox_kill env sid s = (r, s') \<Longrightarrow> mcp_step env s s'"
| do_get_info: "tool_sandbox_get_info env sid s = (r, s') \<Longrightarrow> mcp_step env s s'"
| do_list: "tool_sandbox_list env f s = (r, s') \<Longrightarrow> mcp_step env s s'"
| do_renew: "tool_sandbox_renew env sid timeout s = (r, s') \<Longrightarrow> mcp_step env s s'"
| do_get_metrics: "tool_sandbox_get_metrics env lax sid conn s = (r, s') \<Longrightarrow> mcp_step env s s'"
| do_healthcheck: "tool_sandbox_healthcheck env sid conn s = (r, s') \<Longrightarrow> mcp_step env s s'"
| do_run: "tool_command_run env sid command bg wd conn s = (r, s') \<Longrightarrow> mcp_step env s s'"
| do_interrupt: "tool_command_interrupt env sid execution_id conn s = (r, s') \<Longrightarrow> mcp_step env s s'"
| do_read: "tool_file_read env decode sid path rng conn s = (r, s') \<Longrightarrow> mcp_step env s s'"
| do_write: "tool_file_write env sid path content enc md owner grp conn s = (r, s') \<Longrightarrow> mcp_step env s s'"
| do_delete: "tool_file_delete env sid paths conn s = (r, s') \<Longrightarrow> mcp_step env s s'"
| do_search: "tool_file_search env sid path pattern conn s = (r, s') \<Longrightarrow> mcp_step env s s'"
| do_create_dirs: "tool_file_create_directories env sid dirs conn s = (r, s') \<Longrightarrow> mcp_step env s s'"
| do_delete_dirs: "tool_file_delete_directories env sid paths conn s = (r, s') \<Longrightarrow> mcp_step env s s'"
| do_move: "tool_file_move env sid moves conn s = (r, s') \<Longrightarrow> mcp_step env s s'"
| do_replace: "tool_file_replace_contents env sid reps conn s = (r, s') \<Longrightarrow> mcp_step env s s'"
| do_get_endpoint: "tool_sandbox_get_endpoint env sid port conn s = (r, s') \<Longrightarrow> mcp_step env s s'"

section \<open>The invariant\<close>

definition registry_ok :: "'w mcp_env \<Rightarrow> 'w registry \<Rightarrow> bool" where
  "registry_ok env reg \<longleftrightarrow> dict_ok reg \<and> (\<forall>k sb. map_of reg k = Some sb \<longrightarrow> sc_id sb = k \<and> sc_config sb = me_config env)"

abbreviation reg_inv :: "'w mcp_env \<Rightarrow> 'w \<times> 'w registry \<Rightarrow> bool" where
  "reg_inv env s \<equiv> registry_ok env (snd s)"

lemma wp_in_world [wp_simps]: "wp (in_world m) Q E s = wp m (\<lambda>r w'. Q r (w', snd s)) (\<lambda>e w'. E e (w', snd s)) (fst s)"
  by (cases s) (auto simp: wp_def in_world_def split: prod.splits sum.splits)

lemma in_world_snd: "P (snd s) \<Longrightarrow> always (in_world m) (\<lambda>s'. P (snd s')) s"
  by (cases s) (auto simp: wp_def in_world_def split: prod.splits sum.splits)

lemma in_world_inv: "reg_inv env s \<Longrightarrow> always (in_world m) (reg_inv env) s"
  by (rule in_world_snd)

lemma same_transport: "cc_transport c \<noteq> None \<Longrightarrow> with_transport_if_missing hx c = retS c"
  by (simp add: with_transport_if_missing_def)

lemma attach_config:
  "wp (attach fuel hx lib c health rd sid) (\<lambda>r w'. \<forall>sb. r = Some sb \<longrightarrow> sc_config sb = c) (\<lambda>_ _. True) w"
  by (rule wpI) (auto dest: attach_ready)

lemma create_config:
  assumes "cc_transport c \<noteq> None"
  shows "wp (sandbox_create fuel hx lib c health rd args) (\<lambda>r w'. \<forall>sb. r = Some sb \<longrightarrow> sc_config sb = c) (\<lambda>_ _. True) w"
  by (rule wpI) (use assms in \<open>auto simp: same_transport retS_def dest!: created_steps attach_ready\<close>)

lemma connect_config:
  assumes "cc_transport c \<noteq> None"
  shows "wp (sandbox_connect fuel hx lib c health rd sid) (\<lambda>r w'. \<forall>sb. r = Some sb \<longrightarrow> sc_config sb = c) (\<lambda>_ _. True) w"
  by (rule wpI) (use assms in \<open>auto simp: sandbox_connect_def same_transport retS_def bindS_def catchS_def fail_with_def raiseS_def
      dest!: attach_ready split: if_splits prod.splits sum.splits\<close>)

text \<open>Adding a sandbox with the shared configuration, and removing one.\<close>

lemma registry_ok_add:
  "registry_ok env reg \<Longrightarrow> sc_config sb = me_config env \<Longrightarrow> registry_ok env (AList.update (sc_id sb) sb reg)"
  by (auto simp: registry_ok_def dict_ok_update)

lemma registry_ok_delete: "registry_ok env reg \<Longrightarrow> registry_ok env (AList.delete sid reg)"
  by (auto simp: registry_ok_def dict_ok_def distinct_delete delete_conv')

lemma state_add_inv: "sc_config sb = me_config env \<Longrightarrow> reg_inv env s \<Longrightarrow> always (state_add sb) (reg_inv env) s"
  by (cases s) (simp add: state_add_def wp_simps registry_ok_add)

lemma state_remove_inv:
  "reg_inv env s \<Longrightarrow> wp (state_remove sid) (\<lambda>r s'. reg_inv env s' \<and> map_of (snd s') sid = None) (\<lambda>_ _. False) s"
  by (cases s) (simp add: state_remove_def state_get_def wp_simps registry_ok_delete delete_conv')

text \<open>A step that puts a new sandbox into the registry and goes on.\<close>

lemma add_then_inv:
  assumes "\<And>w. wp m (\<lambda>r w'. \<forall>sb. r = Some sb \<longrightarrow> sc_config sb = me_config env) (\<lambda>_ _. True) w"
    and "\<And>sb s. reg_inv env s \<Longrightarrow> always (k sb) (reg_inv env) s" and "reg_inv env s"
  shows "always (bind_opt (in_world m) (\<lambda>sb. bindS (state_add sb) (\<lambda>_. k sb))) (reg_inv env) s"
  unfolding bind_opt_def wp_bindS wp_in_world
  by (rule wp_mono [OF assms(1)])
    (use assms(2,3) in \<open>auto simp: wp_simps state_add_def registry_ok_add split: option.splits\<close>)

lemma get_or_connect_inv:
  assumes "cc_transport (me_config env) \<noteq> None" and "reg_inv env s"
  shows "always (get_or_connect_sandbox env conn sid) (reg_inv env) s"
  unfolding get_or_connect_sandbox_def state_get_def wp_bindS wp_getS
  using assms add_then_inv [OF connect_config [OF assms(1)], where k = "\<lambda>sb. retS (Some sb)" and s = s]
  by (auto simp: wp_retS wp_raiseS split: option.splits)

lemma with_sandbox_inv:
  assumes "cc_transport (me_config env) \<noteq> None" and "reg_inv env s"
  shows "always (with_sandbox env conn sid f) (reg_inv env) s"
  unfolding with_sandbox_def bind_opt_def wp_bindS
  by (rule wp_mono [OF get_or_connect_inv [OF assms]])
    (auto simp: wp_retS wp_bindS split: option.splits intro: wp_mono [OF in_world_inv])

lemma then_in_world_inv: "reg_inv env s \<Longrightarrow> always (bindS (in_world m) (\<lambda>x. retS (g x))) (reg_inv env) s"
  unfolding wp_bindS wp_retS by (rule in_world_inv)

lemma create_connect_inv:
  assumes "cc_transport (me_config env) \<noteq> None" and "reg_inv env s"
  shows "always (tool_sandbox_create env image_ref username password rd args) (reg_inv env) s"
    and "always (tool_sandbox_connect env rd sid) (reg_inv env) s"
proof -
  show "always (tool_sandbox_connect env rd sid) (reg_inv env) s"
    unfolding tool_sandbox_connect_def
    by (rule add_then_inv [OF connect_config [OF assms(1)]]) (use assms(2) in \<open>auto intro!: then_in_world_inv\<close>)
  have "always (bind_opt (in_world (sandbox_create (me_fuel env) (me_hx env) (me_lib env) (me_config env) None rd args)) (\<lambda>sb.
     bindS (state_add sb) (\<lambda>_. bindS (in_world (sandbox_get_info (me_hx env) (me_lib env) sb)) (\<lambda>info.
     retS (Some (sc_id sb, info)))))) (reg_inv env) s" for args
    by (rule add_then_inv [OF create_config [OF assms(1)]]) (use assms(2) in \<open>auto intro!: then_in_world_inv\<close>)
  then show "always (tool_sandbox_create env image_ref username password rd args) (reg_inv env) s"
    unfolding tool_sandbox_create_def wp_bindS wp_liftR using assms(2) by (auto split: sum.splits)
qed

lemma lookup_then_inv:
  assumes "reg_inv env s"
  shows "always (bindS (state_get sid) (\<lambda>r. case r of None \<Rightarrow> in_world m | Some sb \<Rightarrow> in_world (f sb))) (reg_inv env) s"
  unfolding wp_bindS state_get_def wp_getS using in_world_inv [OF assms] by (auto split: option.splits)

lemma lookup_tools_inv:
  assumes "reg_inv env s"
  shows "always (tool_sandbox_get_info env sid) (reg_inv env) s" and "always (tool_sandbox_renew env sid timeout) (reg_inv env) s"
  unfolding tool_sandbox_get_info_def tool_sandbox_renew_def by (rule lookup_then_inv [OF assms])+

lemma kill_inv:
  assumes "reg_inv env s"
  shows "always (tool_sandbox_kill env sid) (\<lambda>s'. reg_inv env s' \<and> map_of (snd s') sid = None) s"
proof -
  have "always (in_world m) (\<lambda>s'. reg_inv env s' \<and> map_of (snd s') sid = None) t"
    if "reg_inv env t \<and> map_of (snd t) sid = None" for t and m :: "('a, unit) io"
    using that by (rule in_world_snd [of "\<lambda>reg. registry_ok env reg \<and> map_of reg sid = None"])
  then show ?thesis
    unfolding tool_sandbox_kill_def wp_bindS
    by (intro wp_mono [OF state_remove_inv [OF assms]]) (auto split: option.splits)
qed

lemmas tool_defs = tool_sandbox_get_metrics_def tool_sandbox_healthcheck_def tool_command_run_def tool_command_interrupt_def
  tool_file_read_def tool_file_write_def tool_file_delete_def tool_file_search_def tool_file_create_directories_def
  tool_file_delete_directories_def tool_file_move_def tool_file_replace_contents_def tool_sandbox_get_endpoint_def

lemma alwaysD: "always m P s \<Longrightarrow> m s = (r, s') \<Longrightarrow> P s'"
  by (cases r) (auto simp: wp_def)

lemma mcp_step_inv:
  assumes "mcp_step env s s'" and "cc_transport (me_config env) \<noteq> None" and "reg_inv env s"
  shows "reg_inv env s'"
  using assms(1)
proof cases
  case (do_create image_ref username password rd args r)
  then show ?thesis using alwaysD [OF create_connect_inv(1) [OF assms(2,3)]] by blast
next
  case (do_connect rd sid r)
  then show ?thesis using alwaysD [OF create_connect_inv(2) [OF assms(2,3)]] by blast
next
  case (do_kill sid r)
  then show ?thesis using alwaysD [OF kill_inv [OF assms(3)]] by blast
next
  case (do_get_info sid r)
  then show ?thesis using alwaysD [OF lookup_tools_inv(1) [OF assms(3)]] by blast
next
  case (do_list f r)
  then show ?thesis using alwaysD [OF in_world_inv [OF assms(3)]] unfolding tool_sandbox_list_def by blast
next
  case (do_renew sid timeout r)
  then show ?thesis using alwaysD [OF lookup_tools_inv(2) [OF assms(3)]] by blast
qed (use assms(3) in \<open>auto simp only: tool_defs snd_conv intro: alwaysD [OF with_sandbox_inv [OF assms(2,3)]]\<close>)

lemma reachable_inv:
  assumes "(mcp_step env)\<^sup>*\<^sup>* s s'" and "cc_transport (me_config env) \<noteq> None" and "reg_inv env s"
  shows "reg_inv env s'"
  using assms(1,3) by (induction rule: rtranclp_induct) (auto intro: mcp_step_inv [OF _ assms(2)])

lemma registered_transport:
  "register_tools hx lib fuel conf w = (Inr env, w1) \<Longrightarrow> cc_transport (me_config env) \<noteq> None"
  by (auto simp: register_tools_def with_transport_if_missing_def bindS_def retS_def split: prod.splits sum.splits if_splits)

section \<open>Properties\<close>

text \<open>
  C26. In every run of the tool server, with any tools in any order, the registry has one entry per sandbox, each entry is
  the sandbox of its key, and all of them work over the configuration that was prepared at the start.
\<close>

theorem mcp_registry_invariant:
  assumes "register_tools hx lib fuel conf w0 = (Inr env, w1)" and "(mcp_step env)\<^sup>*\<^sup>* (w1, []) (w, reg)"
  shows "distinct (map fst reg) \<and> (\<forall>k sb. map_of reg k = Some sb \<longrightarrow> sc_id sb = k \<and> sc_config sb = me_config env)"
  using reachable_inv [OF assms(2) registered_transport [OF assms(1)]] by (simp add: registry_ok_def dict_ok_def)

lemma with_manager_closes:
  assumes "me_hx env = traced hx" and "cc_transport (me_config env) \<noteq> None"
    and "with_manager env m (w, l) = (r, (w', l'))"
  shows "\<exists>before. l' = before @ closing (me_config env)"
proof -
  obtain r1 w1 l1 where m: "m (me_config env) (w, l) = (r1, (w1, l1))" by (rule prod_cases3)
  then show ?thesis
    using assms close_traced [of hx "me_config env" w1 l1]
    by (auto simp: with_manager_def manager_create_def manager_close_def same_transport retS_def bindS_def finallyS_def catchS_def
        split: sum.splits)
qed

text \<open>
  C27. A listing closes the transport that every registered sandbox works over: when no transport was configured, the one
  made at the start counts as owned by every manager the tools create.
\<close>

theorem sandbox_list_closes_shared_transport:
  assumes "register_tools (traced hx) lib fuel conf s0 = (Inr env, s1)" and "cc_transport conf = None"
    and "(mcp_step env)\<^sup>*\<^sup>* (s1, []) ((w, l), reg)" and "map_of reg sid = Some sb"
    and "tool_sandbox_list env f ((w, l), reg) = (r, ((w', l'), reg'))"
  shows "\<exists>t before. cc_transport (sc_config sb) = Some t \<and> l' = before @ [Closed t] \<and> map_of reg' sid = Some sb"
proof -
  have c: "sc_config sb = me_config env"
    using reachable_inv [OF assms(3) registered_transport [OF assms(1)]] assms(4) by (simp add: registry_ok_def dict_ok_def)
  obtain t where t: "cc_transport (me_config env) = Some t" "cc_owns_transport (me_config env)" "me_hx env = traced hx"
    using assms(1,2) by (auto simp: register_tools_def with_transport_if_missing_def bindS_def retS_def split: prod.splits sum.splits)
  have "reg' = reg" and "with_manager env (\<lambda>m. manager_list (me_hx env) (me_lib env) m (case f of None \<Rightarrow> no_filter | Some x \<Rightarrow> x)) (w, l) = (r, (w', l'))"
    using assms(5) by (auto simp: tool_sandbox_list_def in_world_def split: prod.splits)
  with with_manager_closes [OF t(3) _ this(2)] t c assms(4) show ?thesis by (auto simp: closing_def)
qed

text \<open>A sandbox that is killed is no longer registered, also when the kill fails.\<close>

theorem killed_sandbox_unregistered:
  assumes "register_tools hx lib fuel conf w0 = (Inr env, w1)" and "(mcp_step env)\<^sup>*\<^sup>* (w1, []) s"
    and "tool_sandbox_kill env sid s = (r, s')"
  shows "map_of (snd s') sid = None"
proof -
  have "reg_inv env s"
    by (rule reachable_inv [OF assms(2) registered_transport [OF assms(1)]]) (simp add: registry_ok_def dict_ok_def)
  from alwaysD [OF kill_inv [OF this] assms(3)] show ?thesis by simp
qed

section \<open>Examples\<close>

text \<open>A server that registered one sandbox and is then asked to list and to kill.\<close>

abbreviation web_hx0 :: "(sim_web \<times> http_event list) httpx_api" where
  "web_hx0 \<equiv> traced web_hx"

definition web_env :: "(sim_web \<times> http_event list) mcp_env" where
  "web_env = \<lparr>me_hx = web_hx0, me_lib = web_libs, me_fuel = 2, me_config = web_attached\<rparr>"

definition mcp_start :: "sim_web \<times> http_event list" where
  "mcp_start = ((web_start 0)\<lparr>wb_sandboxes := [''s1''], wb_transports := 1\<rparr>, [Opened 0])"

lemma web_registered:
  "register_tools web_hx0 web_libs 2 web_config ((web_start 0)\<lparr>wb_sandboxes := [''s1'']\<rparr>, []) = (Inr web_env, mcp_start)"
  by (simp add: register_tools_def with_transport_if_missing_def traced_def web_hx_def web_config_def web_attached_def web_env_def
      mcp_start_def web_start_def bindS_def retS_def)

lemma web_connected:
  obtains sb s' where "(mcp_step web_env)\<^sup>*\<^sup>* (mcp_start, []) (s', [(''s1'', sb)])"
proof -
  let ?run = "tool_sandbox_healthcheck web_env ''s1'' True (mcp_start, [])"
  have "map (\<lambda>(k, sb). k) (snd (snd ?run)) = [''s1'']" by code_simp
  then obtain sb where "snd (snd ?run) = [(''s1'', sb)]" by (auto simp: map_eq_Cons_conv)
  moreover have "mcp_step web_env (mcp_start, []) (snd ?run)" by (rule do_healthcheck [OF surjective_pairing])
  ultimately show ?thesis using that [of "fst (snd ?run)" sb] by (metis prod.collapse r_into_rtranclp)
qed

theorem mcp_registry_invariant_witness:
  "\<exists>w reg sb. (mcp_step web_env)\<^sup>*\<^sup>* (mcp_start, []) (w, reg) \<and> map_of reg ''s1'' = Some sb \<and> sc_id sb = ''s1''
     \<and> sc_config sb = me_config web_env"
proof -
  obtain sb s' where "(mcp_step web_env)\<^sup>*\<^sup>* (mcp_start, []) (s', [(''s1'', sb)])" by (rule web_connected)
  moreover from mcp_registry_invariant [OF web_registered this] have "sc_id sb = ''s1'' \<and> sc_config sb = me_config web_env" by simp
  ultimately show ?thesis by (intro exI [of _ s'] exI [of _ "[(''s1'', sb)]"] exI [of _ sb]) simp
qed

theorem sandbox_list_closes_shared_transport_witness:
  "\<exists>sb s before. (mcp_step web_env)\<^sup>*\<^sup>* (mcp_start, []) (s, [(''s1'', sb)]) \<and> cc_transport (sc_config sb) = Some 0
     \<and> snd (fst (snd (tool_sandbox_list web_env None (s, [(''s1'', sb)])))) = before @ [Closed 0]"
proof -
  obtain sb s' where r: "(mcp_step web_env)\<^sup>*\<^sup>* (mcp_start, []) (s', [(''s1'', sb)])" by (rule web_connected)
  obtain w l where s': "s' = (w, l)" by (rule prod.exhaust)
  obtain r1 w' l' reg' where t: "tool_sandbox_list web_env None ((w, l), [(''s1'', sb)]) = (r1, ((w', l'), reg'))"
    by (metis prod.exhaust)
  have "cc_transport web_config = None" by (simp add: web_config_def)
  from sandbox_list_closes_shared_transport [OF web_registered this r [unfolded s'] _ t, of "''s1''" sb]
  obtain t0 before where "cc_transport (sc_config sb) = Some t0" "l' = before @ [Closed t0]" by auto
  moreover have "sc_config sb = web_attached"
    using reachable_inv [OF r registered_transport [OF web_registered]] by (simp add: registry_ok_def dict_ok_def web_env_def)
  ultimately show ?thesis
    using r t s' by (intro exI [of _ sb] exI [of _ s'] exI [of _ before]) (simp add: web_attached_def)
qed

theorem killed_sandbox_unregistered_witness:
  "\<exists>sb s. (mcp_step web_env)\<^sup>*\<^sup>* (mcp_start, []) (s, [(''s1'', sb)])
     \<and> map_of (snd (snd (tool_sandbox_kill web_env ''s1'' (s, [(''s1'', sb)])))) ''s1'' = None"
proof -
  obtain sb s' where r: "(mcp_step web_env)\<^sup>*\<^sup>* (mcp_start, []) (s', [(''s1'', sb)])" by (rule web_connected)
  from killed_sandbox_unregistered [OF web_registered r surjective_pairing] r show ?thesis by blast
qed

end
