(* ===== verification/Code_Interpreter.thy ===== *)
theory Code_Interpreter
  imports Sdk_Outcomes
begin

text \<open>
  The code interpreter (\<open>sdks/code-interpreter/python/src/code_interpreter\<close>): contexts and their conversion
  (\<open>models/code.py\<close>, \<open>adapters/converter/code_execution_converter.py\<close>), the adapter (\<open>adapters/code_adapter.py\<close> over the
  generated calls in \<open>api/execd/api/code_interpreting\<close>) and the entry point (\<open>code_interpreter.py\<close>). Running code fills
  an execution from a stream like running a command does, but an error object of execd in the stream becomes an event.
\<close>

section \<open>Contexts\<close>

record code_context =
  ctx_id :: "string option"
  ctx_language :: string

definition code_context_ok :: "code_context \<Rightarrow> bool" where
  "code_context_ok c \<longleftrightarrow> strip (ctx_language c) \<noteq> []"

definition SUPPORTED_PYTHON :: string where "SUPPORTED_PYTHON = ''python''"

definition to_api_code_context :: "code_context \<Rightarrow> json" where
  "to_api_code_context c =
     JObj ([(''language'', JStr (ctx_language c))] @ field ''id'' (if given (ctx_id c) then map_option JStr (ctx_id c) else None))"

definition to_api_run_code_request :: "string \<Rightarrow> code_context option \<Rightarrow> json" where
  "to_api_run_code_request src context =
     JObj ([(''code'', JStr src)] @ field ''context'' (map_option to_api_code_context context))"

definition from_api_code_context :: "json \<Rightarrow> code_context res" where
  "from_api_code_context v =
     bindR (jpop v ''language'') (\<lambda>l. bindR (jpop_unset v ''id'') (\<lambda>i.
     bindR (optional i field_str) (\<lambda>cid. bindR (field_str l) (\<lambda>lang.
     if code_context_ok \<lparr>ctx_id = cid, ctx_language = lang\<rparr> then Inr \<lparr>ctx_id = cid, ctx_language = lang\<rparr> else Inl ValueError))))"

section \<open>Generated calls\<close>

definition create_code_context where
  "create_code_context hx client reader body = detailed hx client 200 (Some reader) [400, 500] (json_call ''post'' ''/code/context'' body)"

definition api_get_context where
  "api_get_context hx client reader context_id =
     detailed hx client 200 (Some reader) [404, 500] (simple_call ''get'' (''/code/contexts/'' @ url_quote [] context_id))"

definition api_list_contexts where
  "api_list_contexts hx client reader language =
     detailed hx client 200 (Some reader) [400, 500] (with_params [(''language'', language)] (simple_call ''get'' ''/code/contexts''))"

definition api_delete_context where
  "api_delete_context hx client context_id =
     detailed hx client 200 no_reader [400, 404, 500] (simple_call ''delete'' (''/code/contexts/'' @ url_quote [] context_id))"

definition delete_contexts_by_language where
  "delete_contexts_by_language hx client language =
     detailed hx client 200 no_reader [400, 500] (with_params [(''language'', language)] (simple_call ''delete'' ''/code/contexts''))"

definition interrupt_code where
  "interrupt_code hx client execution_id =
     detailed hx client 200 no_reader [400, 500] (with_params [(''id'', execution_id)] (simple_call ''delete'' ''/code''))"

section \<open>The adapter\<close>

definition create_context ::
    "'w httpx_api \<Rightarrow> sdk_libs \<Rightarrow> connection_config \<Rightarrow> sdk_endpoint \<Rightarrow> string \<Rightarrow> ('w, code_context) io" where
  "create_context hx lib c ep language =
     converting (lib_str lib)
       (call_parsed (create_code_context hx (endpoint_client c ep) (of_json from_api_code_context) (JObj [(''language'', JStr language)])))"

definition get_context ::
    "'w httpx_api \<Rightarrow> sdk_libs \<Rightarrow> connection_config \<Rightarrow> sdk_endpoint \<Rightarrow> string \<Rightarrow> ('w, code_context) io" where
  "get_context hx lib c ep context_id =
     converting (lib_str lib) (call_parsed (api_get_context hx (endpoint_client c ep) (of_json from_api_code_context) context_id))"

definition list_contexts ::
    "'w httpx_api \<Rightarrow> sdk_libs \<Rightarrow> connection_config \<Rightarrow> sdk_endpoint \<Rightarrow> string \<Rightarrow> ('w, code_context list) io" where
  "list_contexts hx lib c ep language =
     converting (lib_str lib)
       (call_parsed (api_list_contexts hx (endpoint_client c ep)
          (of_json (\<lambda>v. case v of JList xs \<Rightarrow> collect_each from_api_code_context xs | _ \<Rightarrow> Inl TypeError)) language))"

definition delete_context ::
    "'w httpx_api \<Rightarrow> sdk_libs \<Rightarrow> connection_config \<Rightarrow> sdk_endpoint \<Rightarrow> string \<Rightarrow> ('w, unit) io" where
  "delete_context hx lib c ep context_id =
     converting (lib_str lib) (call_unit (api_delete_context hx (endpoint_client c ep) context_id))"

definition delete_contexts ::
    "'w httpx_api \<Rightarrow> sdk_libs \<Rightarrow> connection_config \<Rightarrow> sdk_endpoint \<Rightarrow> string \<Rightarrow> ('w, unit) io" where
  "delete_contexts hx lib c ep language =
     converting (lib_str lib) (call_unit (delete_contexts_by_language hx (endpoint_client c ep) language))"

definition code_interrupt ::
    "'w httpx_api \<Rightarrow> sdk_libs \<Rightarrow> connection_config \<Rightarrow> sdk_endpoint \<Rightarrow> string \<Rightarrow> ('w, unit) io" where
  "code_interrupt hx lib c ep execution_id =
     converting (lib_str lib) (call_unit (interrupt_code hx (endpoint_client c ep) execution_id))"

text \<open>
  \<open>_normalize_sse_event\<close>: an object with a code and a message and no type or no timestamp is an error of execd. The clock
  is read for it alone. A value that is no object is left to fail as an event.
\<close>

definition is_error_object :: "json \<Rightarrow> bool" where
  "is_error_object v = (case v of
     JObj d \<Rightarrow> \<not> (map_of d ''type'' \<noteq> None \<and> map_of d ''timestamp'' \<noteq> None)
              \<and> map_of d ''code'' \<noteq> None \<and> map_of d ''message'' \<noteq> None
   | _ \<Rightarrow> False)"

definition error_event :: "(json \<Rightarrow> string) \<Rightarrow> int \<Rightarrow> json \<Rightarrow> json" where
  "error_event render now v = (case v of
     JObj d \<Rightarrow> JObj [(''type'', JStr ''error''), (''timestamp'', JInt (now div 1000)),
       (''error'', JObj [(''ename'', JStr (str_json render (jget d ''code''))), (''evalue'', JStr (str_json render (jget d ''message''))),
                         (''traceback'', JList [])])]
   | _ \<Rightarrow> v)"

definition normalize_sse_event :: "'w httpx_api \<Rightarrow> sdk_libs \<Rightarrow> json \<Rightarrow> ('w, json) io" where
  "normalize_sse_event hx lib v =
     (if is_error_object v then bindS (hx_time hx) (\<lambda>now. retS (error_event (lib_str lib) now v)) else retS v)"

definition handle_code_line :: "'w httpx_api \<Rightarrow> sdk_libs \<Rightarrow> 'w handlers \<Rightarrow> string \<Rightarrow> ('w \<times> execution, unit) io" where
  "handle_code_line hx lib h line =
     (if strip line = [] then retS ()
      else catchS
        (bindS (liftR (or_value_error (json_loads (sse_data line)))) (\<lambda>v.
         bindS (in_world (normalize_sse_event hx lib v)) (\<lambda>e.
         bindS (liftR (event_of (lib_times lib) e)) (dispatch h)))) (\<lambda>_. retS ()))"

definition run_code_stream :: "'w httpx_api \<Rightarrow> sdk_libs \<Rightarrow> 'w handlers \<Rightarrow> http_stream \<Rightarrow> ('w, execution) io" where
  "run_code_stream hx lib h st = (\<lambda>w.
     case bindS (for_eachS (handle_code_line hx lib h) (st_lines st)) (\<lambda>_.
          case st_failure st of None \<Rightarrow> retS () | Some e \<Rightarrow> raiseS e) (w, new_execution) of
       (Inl e, (w', x)) \<Rightarrow> (Inl e, w') | (Inr _, (w', x)) \<Rightarrow> (Inr x, w'))"

text \<open>The context of a run: the given one, whose language must agree, or the default context of a language.\<close>

definition run_context :: "string option \<Rightarrow> code_context option \<Rightarrow> code_context res" where
  "run_context language context =
     (case context of
        Some c \<Rightarrow> if language \<noteq> None \<and> ctx_language c \<noteq> the language then Inl (sdk_exception InvalidArgumentException) else Inr c
      | None \<Rightarrow> let c = \<lparr>ctx_id = None, ctx_language = str_or language SUPPORTED_PYTHON\<rparr>
                in if code_context_ok c then Inr c else Inl ValueError)"

definition code_run ::
    "'w httpx_api \<Rightarrow> sdk_libs \<Rightarrow> connection_config \<Rightarrow> sdk_endpoint \<Rightarrow> string \<Rightarrow> string option \<Rightarrow> code_context option \<Rightarrow> 'w handlers
       \<Rightarrow> ('w, execution) io" where
  "code_run hx lib c ep src language context h =
     (if strip src = [] then raiseS (sdk_exception InvalidArgumentException)
      else converting (lib_str lib)
        (bindS (liftR (run_context language context)) (\<lambda>ctx.
         bindS (hx_stream hx (sse_client (endpoint_client c ep))
           (json_call ''POST'' (execd_path_url c ep ''/code'') (to_api_run_code_request src (Some ctx)))) (\<lambda>st.
         if st_status st \<noteq> 200
         then raiseS (api_exception (Some (st_status st)) None (extract_request_id (st_headers st)))
         else run_code_stream hx lib h st))))"

section \<open>The interpreter\<close>

record 'w code_interpreter =
  ci_sandbox :: "'w sandbox_client"
  ci_endpoint :: sdk_endpoint

definition code_interpreter_create ::
    "'w httpx_api \<Rightarrow> sdk_libs \<Rightarrow> 'w sandbox_client option \<Rightarrow> ('w, 'w code_interpreter) io" where
  "code_interpreter_create hx lib sandbox =
     (case sandbox of
        None \<Rightarrow> raiseS (sdk_exception InvalidArgumentException)
      | Some sb \<Rightarrow>
          catchS (bindS (sandbox_get_endpoint hx lib sb DEFAULT_EXECD_PORT) (\<lambda>ep. retS \<lparr>ci_sandbox = sb, ci_endpoint = ep\<rparr>))
            (\<lambda>e. raiseS (if is_sandbox_exn e then e else sdk_exception SandboxInternalException)))"

section \<open>Runs\<close>

text \<open>The events a line stands for: none, its own, or the error event of an error object at the time of its arrival.\<close>

definition code_line_event :: "sdk_libs \<Rightarrow> string \<Rightarrow> event_node list \<Rightarrow> bool" where
  "code_line_event lib line evs \<longleftrightarrow>
     (case (if strip line = [] then None else json_loads (sse_data line)) of
        None \<Rightarrow> evs = []
      | Some v \<Rightarrow>
          if is_error_object v
          then \<exists>now e. event_of (lib_times lib) (error_event (lib_str lib) now v) = Inr e \<and> evs = [e]
          else evs = (case event_of (lib_times lib) v of Inl _ \<Rightarrow> [] | Inr e \<Rightarrow> [e]))"

lemma event_of_error_event:
  "is_error_object v \<Longrightarrow> \<exists>d. v = JObj d \<and> event_of tp (error_event render now v) =
     Inr \<lparr>en_type = ''error'', en_text = None, en_count = None, en_millis = None, en_timestamp = now div 1000, en_results = None,
          en_error = Some \<lparr>ev_ename = Some (str_json render (jget d ''code'')), ev_evalue = Some (str_json render (jget d ''message'')), ev_traceback = []\<rparr>\<rparr>"
  by (cases v) (auto simp: is_error_object_def error_event_def event_of_def event_error_of_def required_def optional_def
      field_str_def field_int_def field_strs_def or_value_error_def)

lemma error_event_read:
  "is_error_object v \<Longrightarrow> \<exists>e. event_of tp (error_event render now v) = Inr e \<and> en_type e = ''error'' \<and> en_error e \<noteq> None"
  using event_of_error_event [of v tp render now] by auto

lemma handle_code_line_execution:
  assumes "\<forall>w. \<exists>t w'. hx_time hx w = (Inr t, w')"
  shows "\<exists>w' evs. handle_code_line hx lib h l (w, execution_of es) = (Inr (), (w', execution_of (es @ evs))) \<and> code_line_event lib l evs"
proof (cases "if strip l = [] then None else json_loads (sse_data l)")
  case None
  then show ?thesis
    by (intro exI [of _ w] exI [of _ "[]"])
      (auto simp: handle_code_line_def code_line_event_def or_value_error_def catchS_def bindS_def liftR_def retS_def split: if_splits)
next
  case (Some v)
  then have l: "strip l \<noteq> []" "json_loads (sse_data l) = Some v" by (auto split: if_splits)
  obtain t w0 where t: "hx_time hx w = (Inr t, w0)" using assms by blast
  define j where "j = (if is_error_object v then error_event (lib_str lib) t v else v)"
  define w1 where "w1 = (if is_error_object v then w0 else w)"
  have n: "normalize_sse_event hx lib v w = (Inr j, w1)"
    using t by (simp add: normalize_sse_event_def bindS_def retS_def j_def w1_def)
  have j: "j = v \<and> \<not> is_error_object v \<or> (\<exists>now. j = error_event (lib_str lib) now v \<and> is_error_object v)"
    by (auto simp: j_def)
  have run: "handle_code_line hx lib h l (w, execution_of es) =
      catchS (bindS (liftR (event_of (lib_times lib) j)) (dispatch h)) (\<lambda>_. retS ()) (w1, execution_of es)"
    using l n by (simp add: handle_code_line_def or_value_error_def catchS_def bindS_def liftR_def in_world_def)
  show ?thesis
  proof (cases "event_of (lib_times lib) j")
    case (Inl e)
    then have "\<not> is_error_object v" "j = v"
      using error_event_read [of v "lib_times lib" "lib_str lib" t] by (auto simp: j_def split: if_splits)
    with Inl l show ?thesis
      by (intro exI [of _ w1] exI [of _ "[]"]) (simp add: run code_line_event_def catchS_def bindS_def liftR_def retS_def)
  next
    case (Inr e)
    obtain r w2 where "dispatch h e (w1, execution_of es) = (r, (w2, execution_of (es @ [e])))"
      using dispatch_execution [of h e w1 es] by auto
    with Inr j l show ?thesis
      by (intro exI [of _ w2] exI [of _ "[e]"], cases r)
        (auto simp: run code_line_event_def catchS_def bindS_def liftR_def retS_def)
  qed
qed

lemma for_each_code_line:
  assumes "\<forall>w. \<exists>t w'. hx_time hx w = (Inr t, w')"
  shows "\<exists>w' evss. for_eachS (handle_code_line hx lib h) ls (w, execution_of es) = (Inr (), (w', execution_of (es @ concat evss)))
    \<and> list_all2 (code_line_event lib) ls evss"
proof (induction ls arbitrary: w es)
  case (Cons l ls)
  obtain w1 evs where 1: "handle_code_line hx lib h l (w, execution_of es) = (Inr (), (w1, execution_of (es @ evs)))" "code_line_event lib l evs"
    using handle_code_line_execution [OF assms, of lib h l w es] by auto
  obtain w2 evss where "for_eachS (handle_code_line hx lib h) ls (w1, execution_of (es @ evs)) = (Inr (), (w2, execution_of ((es @ evs) @ concat evss)))"
    "list_all2 (code_line_event lib) ls evss" using Cons [of w1 "es @ evs"] by auto
  with 1 show ?case by (intro exI [of _ w2] exI [of _ "evs # evss"]) (simp add: bindS_def)
qed (simp add: retS_def)

lemma some_of_error: "e \<in> set evs \<Longrightarrow> en_type e = ''error'' \<Longrightarrow> en_error e \<noteq> None \<Longrightarrow> ex_error (execution_of evs) \<noteq> None"
  by (auto simp: execution_of_def latest_def some_of_def of_type_def)

lemma error_line_event:
  assumes "code_line_event lib l evs" and "strip l \<noteq> []" and "json_loads (sse_data l) = Some v" and "is_error_object v"
  shows "\<exists>e \<in> set evs. en_type e = ''error'' \<and> en_error e \<noteq> None"
proof -
  obtain now e where "event_of (lib_times lib) (error_event (lib_str lib) now v) = Inr e" "evs = [e]"
    using assms by (auto simp: code_line_event_def)
  then show ?thesis using error_event_read [OF assms(4), of "lib_times lib" "lib_str lib" now] by auto
qed

text \<open>
  C22. Running code through the interpreter gives the execution of the events in the stream, where an error object of execd
  counts as an error event: it is never lost among the lines that are skipped. The clock can be read.
\<close>

theorem code_run_reports_errors:
  assumes "\<forall>w. \<exists>t w'. hx_time hx w = (Inr t, w')" and "strip src \<noteq> []" and "run_context language context = Inr ctx"
    and "hx_stream hx (sse_client (endpoint_client c ep))
      (json_call ''POST'' (execd_path_url c ep ''/code'') (to_api_run_code_request src (Some ctx))) w = (Inr st, w1)"
    and "st_status st = 200" and "st_failure st = None"
  shows "\<exists>evss. fst (code_run hx lib c ep src language context h w) = Inr (execution_of (concat evss))
    \<and> list_all2 (code_line_event lib) (st_lines st) evss
    \<and> ((\<exists>l v. l \<in> set (st_lines st) \<and> strip l \<noteq> [] \<and> json_loads (sse_data l) = Some v \<and> is_error_object v)
         \<longrightarrow> ex_error (execution_of (concat evss)) \<noteq> None)"
proof -
  have "new_execution = execution_of []" by (simp add: new_execution_def execution_of_def of_type_def)
  moreover obtain w2 evss where f: "for_eachS (handle_code_line hx lib h) (st_lines st) (w1, execution_of []) = (Inr (), (w2, execution_of (concat evss)))"
    and e: "list_all2 (code_line_event lib) (st_lines st) evss"
    using for_each_code_line [OF assms(1), of lib h "st_lines st" w1 "[]"] by auto
  ultimately have "fst (code_run hx lib c ep src language context h w) = Inr (execution_of (concat evss))"
    using assms(2-6) by (simp add: code_run_def fst_converting fst_bindS liftR_def run_code_stream_def bindS_def retS_def)
  moreover have "ex_error (execution_of (concat evss)) \<noteq> None"
    if l: "l \<in> set (st_lines st)" "strip l \<noteq> []" "json_loads (sse_data l) = Some v" "is_error_object v" for l v
  proof -
    obtain evs where "evs \<in> set evss" "code_line_event lib l evs"
      using e l(1) by (metis in_set_conv_nth list_all2_conv_all_nth)
    then obtain ev where "ev \<in> set (concat evss)" "en_type ev = ''error''" "en_error ev \<noteq> None"
      using error_line_event [OF _ l(2-4)] by fastforce
    then show ?thesis by (rule some_of_error)
  qed
  ultimately show ?thesis using e by blast
qed

definition erring :: "unit httpx_api" where
  "erring =
     \<lparr>hx_send = (\<lambda>_ _. raiseS NetworkError),
      hx_stream = (\<lambda>_ _ w. (Inr \<lparr>st_status = 200, st_headers = [],
        st_lines = [''data: not json'', ''{\"code\": \"E1\", \"message\": \"no kernel\"}''], st_failure = None\<rparr>, w)),
      hx_new_transport = retS 0, hx_close_transport = (\<lambda>_. retS ()), hx_time = retS 5000, hx_sleep = (\<lambda>_. retS ()), hx_getenv = (\<lambda>_. None)\<rparr>"

definition silent :: "unit handlers" where
  "silent = \<lparr>on_init = None, on_stdout = None, on_stderr = None, on_result = None, on_error = None, on_complete = None\<rparr>"

theorem code_run_reports_errors_witness:
  "\<exists>x. fst (code_run erring web_libs web_config \<lparr>se_endpoint = ''h'', se_headers = []\<rparr> ''1+1'' None None silent ()) = Inr x \<and> ex_error x \<noteq> None"
proof -
  let ?l = "''{\"code\": \"E1\", \"message\": \"no kernel\"}''"
  have "strip ?l \<noteq> []" "json_loads (sse_data ?l) = Some (JObj [(''code'', JStr ''E1''), (''message'', JStr ''no kernel'')])"
    "is_error_object (JObj [(''code'', JStr ''E1''), (''message'', JStr ''no kernel'')])" by code_simp+
  moreover have r: "strip ''1+1'' \<noteq> []" "run_context None None = Inr \<lparr>ctx_id = None, ctx_language = ''python''\<rparr>" by code_simp+
  moreover have "\<forall>w. \<exists>t w'. hx_time erring w = (Inr t, w')" by (simp add: erring_def retS_def)
  ultimately show ?thesis
    using code_run_reports_errors [of erring "''1+1''" None None, OF _ r, where st = "\<lparr>st_status = 200, st_headers = [],
        st_lines = [''data: not json'', ?l], st_failure = None\<rparr>" and c = web_config and ep = "\<lparr>se_endpoint = ''h'', se_headers = []\<rparr>"
        and lib = web_libs and h = silent and w = "()"]
    by (fastforce simp: erring_def)
qed

end
