(* ===== verification/Cli_Config.thy ===== *)
theory Cli_Config
  imports Mcp_Server Sdk_Sync Code_Interpreter Batch_Provider
begin

text \<open>
  The command line client (\<open>cli/src/opensandbox_cli\<close>), first part: \<open>utils.py\<close> (durations, pairs), \<open>config.py\<close> (where the
  settings come from) and the editing of the configuration file in \<open>commands/config_cmd.py\<close>. Options are parsed by the
  click library, whose exceptions are \<open>BadParameter\<close> and \<open>ClickException\<close>; \<open>Exit_1\<close> is \<open>sys.exit(1)\<close>. Durations are in
  microseconds.
\<close>

abbreviation BadParameter :: exn where "BadParameter \<equiv> OtherException ''BadParameter''"
abbreviation ClickException :: exn where "ClickException \<equiv> OtherException ''ClickException''"
abbreviation Exit_1 :: exn where "Exit_1 \<equiv> OtherException ''SystemExit''"
abbreviation FileExistsError :: exn where "FileExistsError \<equiv> OtherException ''FileExistsError''"
abbreviation OverflowError :: exn where "OverflowError \<equiv> OtherException ''OverflowError''"

section \<open>Durations\<close>

text \<open>
  \<open>str.isdigit\<close> also holds of the three superscript digits of Latin-1, which \<open>int\<close> refuses. A \<open>timedelta\<close> has at most
  999999999 days.
\<close>

definition py_isdigit :: "string \<Rightarrow> bool" where
  "py_isdigit s \<longleftrightarrow> s \<noteq> [] \<and> list_all (\<lambda>c. is_digit c \<or> code c \<in> {178, 179, 185}) s"

definition timedelta_seconds :: "int \<Rightarrow> int res" where
  "timedelta_seconds n = (if \<bar>n div 86400\<bar> \<le> 999999999 then Inr (n * 1000000) else Inl OverflowError)"

text \<open>
  One optional group \<open>(?:(\d+)u)?\<close> of the pattern: its number and what is left. A group that can match does: no later group
  begins with the digits and the unit of an earlier one.
\<close>

definition duration_group :: "char \<Rightarrow> string \<Rightarrow> int \<times> string" where
  "duration_group u s =
     (let ds = takeWhile is_digit s; rest = dropWhile is_digit s
      in if ds \<noteq> [] \<and> rest \<noteq> [] \<and> hd rest = u then (int (digits_val ds), tl rest) else (0, s))"

text \<open>The value is stripped and not empty, so the match is not empty, and \<open>$\<close> is the end of the text.\<close>

definition parse_duration :: "string \<Rightarrow> int res" where
  "parse_duration text_value =
     (let v = strip text_value in
      if v = [] then Inl BadParameter
      else if py_isdigit v then (case py_int v of None \<Rightarrow> Inl ValueError | Some n \<Rightarrow> timedelta_seconds n)
      else case duration_group (CHR ''h'') v of (h, r1) \<Rightarrow>
           case duration_group (CHR ''m'') r1 of (m, r2) \<Rightarrow>
           case duration_group (CHR ''s'') r2 of (s, r3) \<Rightarrow>
           if r3 \<noteq> [] then Inl BadParameter else timedelta_seconds (3600 * h + 60 * m + s))"

text \<open>\<open>KeyValueType.convert\<close>\<close>

definition key_value :: "string \<Rightarrow> (string \<times> string) res" where
  "key_value v = (if CHR ''='' \<notin> set v then Inl BadParameter else Inr (split_first (CHR ''='') v))"

section \<open>Settings\<close>

text \<open>
  The machine the command runs on: files, the standard streams, and the panels and tables of \<open>output.py\<close>, of which only
  the data they show is kept.
\<close>

datatype shown =
    Shown_Created string string
  | Shown_Infos "sdk_info list"
  | Shown_Info sdk_info
  | Shown_Done string
  | Shown_Renewed string datetime
  | Shown_Endpoint sdk_endpoint
  | Shown_Health string bool
  | Shown_Metrics sandbox_metrics
  | Shown_Started "string option" string
  | Shown_Status command_status
  | Shown_Logs "string \<times> int option"
  | Shown_Files "entry_info list"
  | Shown_File string entry_info
  | Shown_Context "string option" string
  | Shown_Settings "(string, json) dict"
  | Shown_Error exn
  | Shown_Failure execution_error
  | Shown_Warning

record 'w local_os =
  os_exists :: "string \<Rightarrow> ('w, bool) io"
  os_toml :: "string \<Rightarrow> ('w, (string, json) dict) io"
  os_read_text :: "string \<Rightarrow> ('w, string) io"
  os_write_text :: "string \<Rightarrow> string \<Rightarrow> ('w, unit) io"
  os_read_bytes :: "string \<Rightarrow> ('w, string) io"
  os_write_bytes :: "string \<Rightarrow> string \<Rightarrow> ('w, unit) io"
  os_make_parent :: "string \<Rightarrow> ('w, unit) io"
  os_stdin :: "('w, string) io"
  os_stdout :: "string \<Rightarrow> ('w, unit) io"
  os_stderr :: "string \<Rightarrow> ('w, unit) io"
  os_show :: "shown \<Rightarrow> ('w, unit) io"
  os_getenv :: "string \<Rightarrow> string option"
  os_home :: string

definition DEFAULT_CONFIG_PATH :: "'w local_os \<Rightarrow> string" where
  "DEFAULT_CONFIG_PATH os = os_home os @ ''/.opensandbox/config.toml''"

definition load_config_file :: "'w local_os \<Rightarrow> string option \<Rightarrow> ('w, (string, json) dict) io" where
  "load_config_file os config_path =
     (let path = (case config_path of None \<Rightarrow> DEFAULT_CONFIG_PATH os | Some p \<Rightarrow> p) in
      bindS (os_exists os path) (\<lambda>there. if there then os_toml os path else retS []))"

definition int_or_none :: "string option \<Rightarrow> int option" where
  "int_or_none value = Option.bind value py_int"

record cli_flags =
  fl_api_key :: "string option"
  fl_domain :: "string option"
  fl_protocol :: "string option"
  fl_timeout :: "int option"
  fl_output :: "string option"
  fl_config :: "string option"

text \<open>\<open>a or b\<close> on values, with \<open>None\<close> for a missing one.\<close>

definition jor :: "json \<Rightarrow> json \<Rightarrow> json" where
  "jor a b = (if truthy a then a else b)"

definition json_of_str :: "string option \<Rightarrow> json" where
  "json_of_str v = (case v of None \<Rightarrow> JNull | Some s \<Rightarrow> JStr s)"

definition json_of_int :: "int option \<Rightarrow> json" where
  "json_of_int v = (case v of None \<Rightarrow> JNull | Some n \<Rightarrow> JInt n)"

definition resolve_config :: "'w local_os \<Rightarrow> cli_flags \<Rightarrow> ('w, (string, json) dict) io" where
  "resolve_config os fl =
     bindS (load_config_file os (fl_config fl)) (\<lambda>file_cfg.
     bindS (liftR (get_obj file_cfg ''connection'')) (\<lambda>conn.
     bindS (liftR (get_obj file_cfg ''output'')) (\<lambda>output_cfg.
     bindS (liftR (get_obj file_cfg ''defaults'')) (\<lambda>defaults.
     retS
      [(''api_key'', jor (json_of_str (fl_api_key fl)) (jor (json_of_str (os_getenv os ''OPEN_SANDBOX_API_KEY'')) (jget conn ''api_key''))),
       (''domain'', jor (json_of_str (fl_domain fl)) (jor (json_of_str (os_getenv os ''OPEN_SANDBOX_DOMAIN'')) (jget conn ''domain''))),
       (''protocol'', jor (json_of_str (fl_protocol fl)) (jor (json_of_str (os_getenv os ''OPEN_SANDBOX_PROTOCOL''))
          (jor (jget conn ''protocol'') (JStr ''http'')))),
       (''request_timeout'', jor (json_of_int (fl_timeout fl))
          (jor (json_of_int (int_or_none (os_getenv os ''OPEN_SANDBOX_REQUEST_TIMEOUT'')))
          (jor (jget conn ''request_timeout'') (JInt 30)))),
       (''output_format'', jor (json_of_str (fl_output fl)) (jor (json_of_str (os_getenv os ''OPEN_SANDBOX_OUTPUT''))
          (jor (jget output_cfg ''format'') (JStr ''table'')))),
       (''color'', case map_of output_cfg ''color'' of None \<Rightarrow> JBool True | Some v \<Rightarrow> v),
       (''default_image'', jget defaults ''image''),
       (''default_timeout'', jget defaults ''timeout'')]))))"

section \<open>The configuration file\<close>

definition init_config_file :: "'w local_os \<Rightarrow> string \<Rightarrow> string option \<Rightarrow> bool \<Rightarrow> ('w, string) io" where
  "init_config_file os template config_path force =
     (let path = (case config_path of None \<Rightarrow> DEFAULT_CONFIG_PATH os | Some p \<Rightarrow> p) in
      bindS (os_exists os path) (\<lambda>there.
      if there \<and> \<not> force then raiseS FileExistsError
      else bindS (os_make_parent os path) (\<lambda>_. bindS (os_write_text os path template) (\<lambda>_. retS path))))"

text \<open>\<open>float(raw)\<close> accepts: a sign, a decimal number with an exponent, infinity or no number, in either case.\<close>

definition RDigits :: re where
  "RDigits = RSeq (RCls is_digit) (RStar (RSeq (ROpt (RChar (CHR ''_''))) (RCls is_digit)))"

definition FLOAT_RE :: re where
  "FLOAT_RE =
     RSeq (ROpt (RCls (\<lambda>c. c \<in> {CHR ''+'', CHR ''-''})))
       (RAlt (RAlt (RLit ''inf'') (RAlt (RLit ''infinity'') (RLit ''nan'')))
             (RSeq (RAlt (RSeq RDigits (ROpt (RSeq (RChar (CHR ''.'')) (ROpt RDigits)))) (RSeq (RChar (CHR ''.'')) RDigits))
                   (ROpt (RSeq (RChar (CHR ''e'')) (RSeq (ROpt (RCls (\<lambda>c. c \<in> {CHR ''+'', CHR ''-''}))) RDigits)))))"

definition float_ok :: "string \<Rightarrow> bool" where
  "float_ok raw \<longleftrightarrow> matches FLOAT_RE (lower (strip raw))"

definition toml_value :: "string \<Rightarrow> string" where
  "toml_value raw =
     (if lower raw \<in> {''true'', ''false''} then lower raw
      else if py_int raw \<noteq> None then raw
      else if float_ok raw then raw
      else [CHR 0x22] @ raw @ [CHR 0x22])"

text \<open>
  The two searches of \<open>config_set\<close>. A section starts at the first \<open>[section]\<close> of the text and ends before the next line
  that begins with a bracket, or with the text: \<open>(\[section\].*?)(?=\n\[|\Z)\<close>.
\<close>

fun find_sub :: "string \<Rightarrow> string \<Rightarrow> (string \<times> string) option" where
  "find_sub p [] = (if p = [] then Some ([], []) else None)"
| "find_sub p (c # s) =
     (if starts_with (c # s) p then Some ([], c # s) else map_option (\<lambda>(a, b). (c # a, b)) (find_sub p s))"

fun section_end :: "string \<Rightarrow> string \<times> string" where
  "section_end [] = ([], [])"
| "section_end (c # s) =
     (if starts_with (c # s) [newline, CHR ''[''] then ([], c # s) else case section_end s of (a, b) \<Rightarrow> (c # a, b))"

definition find_section :: "string \<Rightarrow> string \<Rightarrow> (string \<times> string \<times> string) option" where
  "find_section name content =
     (let head = ''['' @ name @ '']'' in
      case find_sub head content of
        None \<Rightarrow> None
      | Some (before, s) \<Rightarrow> (case section_end (drop (length head) s) of (body, after) \<Rightarrow> Some (before, head @ body, after)))"

text \<open>
  A line of the field, \<open>^(#?\s*field\s*=\s*).*$\<close>: the text behind the match at the beginning of a line. White space may run
  over line ends. The white space in front of the field is taken as far as possible first.
\<close>

fun space_suffixes :: "string \<Rightarrow> string list" where
  "space_suffixes [] = [[]]"
| "space_suffixes (c # s) = (if is_space c then space_suffixes s @ [c # s] else [c # s])"

definition after_field :: "string \<Rightarrow> string \<Rightarrow> string option" where
  "after_field field_name s =
     (if starts_with s field_name
      then (case dropWhile is_space (drop (length field_name) s) of
              c # t \<Rightarrow> if c = CHR ''='' then Some (dropWhile (\<lambda>x. x \<noteq> newline) (dropWhile is_space t)) else None
            | [] \<Rightarrow> None)
      else None)"

fun first_some :: "('a \<Rightarrow> 'b option) \<Rightarrow> 'a list \<Rightarrow> 'b option" where
  "first_some f [] = None"
| "first_some f (x # xs) = (case f x of Some y \<Rightarrow> Some y | None \<Rightarrow> first_some f xs)"

definition field_at :: "string \<Rightarrow> string \<Rightarrow> string option" where
  "field_at field_name s =
     first_some (after_field field_name)
       ((if s \<noteq> [] \<and> hd s = CHR ''#'' then space_suffixes (tl s) else []) @ space_suffixes s)"

fun find_field :: "string \<Rightarrow> bool \<Rightarrow> string \<Rightarrow> (string \<times> string) option" where
  "find_field field_name line_start [] = None"
| "find_field field_name line_start (c # s) =
     (case (if line_start then field_at field_name (c # s) else None) of
        Some rest \<Rightarrow> Some ([], rest)
      | None \<Rightarrow> map_option (\<lambda>(a, b). (c # a, b)) (find_field field_name (c = newline) s))"

definition set_in_text :: "string \<Rightarrow> string \<Rightarrow> string \<Rightarrow> string \<Rightarrow> string" where
  "set_in_text section_name field_name value content =
     (let line = field_name @ '' = '' @ toml_value value in
      case find_section section_name content of
        Some (before, section_text, after) \<Rightarrow>
          (case find_field field_name True section_text of
             Some (a, rest) \<Rightarrow> before @ (a @ line @ rest) @ after
           | None \<Rightarrow> (before @ section_text) @ [newline] @ line @ after)
      | None \<Rightarrow> content @ [newline] @ ''['' @ section_name @ '']'' @ [newline] @ line @ [newline])"

text \<open>The panels of a missing file and of a malformed key are shown and nothing is written.\<close>

definition config_set :: "'w local_os \<Rightarrow> string \<Rightarrow> string \<Rightarrow> string option \<Rightarrow> ('w, unit) io" where
  "config_set os key value config_path =
     (let path = (case config_path of None \<Rightarrow> DEFAULT_CONFIG_PATH os | Some p \<Rightarrow> p) in
      bindS (os_exists os path) (\<lambda>there.
      if \<not> there then os_show os Shown_Warning
      else bindS (os_read_text os path) (\<lambda>content.
           if CHR ''.'' \<notin> set key then os_show os Shown_Warning
           else case split_first (CHR ''.'') key of (section_name, field_name) \<Rightarrow>
                bindS (os_write_text os path (set_in_text section_name field_name value content)) (\<lambda>_. os_show os (Shown_Done key)))))"

definition config_init :: "'w local_os \<Rightarrow> string \<Rightarrow> bool \<Rightarrow> string option \<Rightarrow> ('w, unit) io" where
  "config_init os template force config_path =
     catchS (bindS (init_config_file os template config_path force) (\<lambda>path. os_show os (Shown_Done path)))
       (\<lambda>e. if e = FileExistsError then os_show os Shown_Warning else raiseS e)"

end
