(* ===== verification/Code_Sync.thy ===== *)
theory Code_Sync
  imports Code_Interpreter Sdk_Sync
begin

text \<open>
  The synchronous code interpreter (\<open>sync/code_interpreter.py\<close>, \<open>sync/adapters/code_adapter.py\<close>), as it is written. Its HTTP
  clients are made without the headers of the end point, which the asynchronous one sends.
\<close>

section \<open>The adapter\<close>

definition sync_code_client :: "connection_config \<Rightarrow> sdk_endpoint \<Rightarrow> http_client" where
  "sync_code_client c ep =
     \<lparr>cl_base_url = cc_protocol c @ ''://'' @ se_endpoint ep,
      cl_headers = dict_update [(''User-Agent'', cc_user_agent c)] (cc_headers c),
      cl_transport = cc_transport c\<rparr>"

text \<open>A context is built from the fields of the response in the adapter itself.\<close>

definition sync_context_of :: "json \<Rightarrow> code_context res" where
  "sync_context_of v =
     bindR (jpop v ''language'') (\<lambda>l. bindR (jpop_unset v ''id'') (\<lambda>i.
     case i of
       None \<Rightarrow> bindR (field_str l) (\<lambda>lang.
         if strip lang \<noteq> [] then Inr \<lparr>ctx_id = None, ctx_language = lang\<rparr> else Inl ValueError)
     | Some j \<Rightarrow> bindR (optional (Some j) field_str) (\<lambda>cid. bindR (field_str l) (\<lambda>lang.
         if strip lang \<noteq> [] then Inr \<lparr>ctx_id = cid, ctx_language = lang\<rparr> else Inl ValueError))))"

definition sync_create_context ::
    "'w httpx_api \<Rightarrow> sdk_libs \<Rightarrow> connection_config \<Rightarrow> sdk_endpoint \<Rightarrow> string \<Rightarrow> ('w, code_context) io" where
  "sync_create_context hx lib c ep language =
     converting (lib_str lib)
       (call_parsed (create_code_context hx (sync_code_client c ep) (of_json sync_context_of) (JObj [(''language'', JStr language)])))"

definition sync_get_context ::
    "'w httpx_api \<Rightarrow> sdk_libs \<Rightarrow> connection_config \<Rightarrow> sdk_endpoint \<Rightarrow> string \<Rightarrow> ('w, code_context) io" where
  "sync_get_context hx lib c ep context_id =
     converting (lib_str lib) (call_parsed (api_get_context hx (sync_code_client c ep) (of_json sync_context_of) context_id))"

definition sync_list_contexts ::
    "'w httpx_api \<Rightarrow> sdk_libs \<Rightarrow> connection_config \<Rightarrow> sdk_endpoint \<Rightarrow> string \<Rightarrow> ('w, code_context list) io" where
  "sync_list_contexts hx lib c ep language =
     converting (lib_str lib)
       (call_parsed (api_list_contexts hx (sync_code_client c ep)
          (of_json (\<lambda>v. case v of JList xs \<Rightarrow> collect_each sync_context_of xs | _ \<Rightarrow> Inl TypeError)) language))"

definition sync_delete_context ::
    "'w httpx_api \<Rightarrow> sdk_libs \<Rightarrow> connection_config \<Rightarrow> sdk_endpoint \<Rightarrow> string \<Rightarrow> ('w, unit) io" where
  "sync_delete_context hx lib c ep context_id =
     converting (lib_str lib) (call_unit (api_delete_context hx (sync_code_client c ep) context_id))"

definition sync_delete_contexts ::
    "'w httpx_api \<Rightarrow> sdk_libs \<Rightarrow> connection_config \<Rightarrow> sdk_endpoint \<Rightarrow> string \<Rightarrow> ('w, unit) io" where
  "sync_delete_contexts hx lib c ep language =
     converting (lib_str lib) (call_unit (delete_contexts_by_language hx (sync_code_client c ep) language))"

definition sync_code_interrupt ::
    "'w httpx_api \<Rightarrow> sdk_libs \<Rightarrow> connection_config \<Rightarrow> sdk_endpoint \<Rightarrow> string \<Rightarrow> ('w, unit) io" where
  "sync_code_interrupt hx lib c ep execution_id =
     converting (lib_str lib) (call_unit (interrupt_code hx (sync_code_client c ep) execution_id))"

section \<open>Runs\<close>

definition sync_code_line :: "'w httpx_api \<Rightarrow> sdk_libs \<Rightarrow> 'w handlers \<Rightarrow> string \<Rightarrow> ('w \<times> execution, unit) io" where
  "sync_code_line hx lib h line =
     (if line = [] \<or> strip line = [] then retS ()
      else catchS
        (bindS (liftR (or_value_error (json_loads (sse_data line)))) (\<lambda>v.
         bindS (in_world (normalize_sse_event hx lib v)) (\<lambda>e.
         bindS (liftR (event_of (lib_times lib) e)) (dispatch h)))) (\<lambda>_. retS ()))"

text \<open>The body of the request is written out; the language of a context that is made here may not be blank.\<close>

definition sync_run_request :: "string \<Rightarrow> string option \<Rightarrow> code_context option \<Rightarrow> json res" where
  "sync_run_request src language context =
     bindR (if context \<noteq> None \<and> language \<noteq> None \<and> ctx_language (the context) \<noteq> the language
            then Inl (sdk_exception InvalidArgumentException) else Inr ()) (\<lambda>_.
     bindR (case context of
              Some x \<Rightarrow> Inr x
            | None \<Rightarrow> let l = str_or language SUPPORTED_PYTHON
                      in if strip l \<noteq> [] then Inr \<lparr>ctx_id = None, ctx_language = l\<rparr> else Inl ValueError) (\<lambda>x.
     Inr (JObj [(''code'', JStr src),
                (''context'', JObj ([(''language'', JStr (ctx_language x))] @ (if given (ctx_id x) then [(''id'', JStr (the (ctx_id x)))] else [])))])))"

definition sync_code_run ::
    "'w httpx_api \<Rightarrow> sdk_libs \<Rightarrow> connection_config \<Rightarrow> sdk_endpoint \<Rightarrow> string \<Rightarrow> string option \<Rightarrow> code_context option \<Rightarrow> 'w handlers
       \<Rightarrow> ('w, execution) io" where
  "sync_code_run hx lib c ep src language context h =
     (if strip src = [] then raiseS (sdk_exception InvalidArgumentException)
      else converting (lib_str lib)
        (bindS (liftR (sync_run_request src language context)) (\<lambda>api_request. \<lambda>w.
         case bindS (in_world (hx_stream hx (sse_client (sync_code_client c ep))
                (json_call ''POST'' (execd_path_url c ep ''/code'') api_request))) (\<lambda>st.
              if st_status st \<noteq> 200
              then raiseS (api_exception (Some (st_status st)) None (extract_request_id (st_headers st)))
              else bindS (for_eachS (sync_code_line hx lib h) (st_lines st)) (\<lambda>_.
                   case st_failure st of None \<Rightarrow> retS () | Some e \<Rightarrow> raiseS e)) (w, new_execution) of
           (Inl e, (w', x)) \<Rightarrow> (Inl e, w') | (Inr _, (w', x)) \<Rightarrow> (Inr x, w'))))"

section \<open>Comparison\<close>

abbreviation bare :: "sdk_endpoint \<Rightarrow> sdk_endpoint" where
  "bare ep \<equiv> ep\<lparr>se_headers := []\<rparr>"

lemma sync_code_client_bare: "sync_code_client c ep = endpoint_client c (bare ep)"
  by (simp add: sync_code_client_def endpoint_client_def dict_update_def)

lemma sync_context_of_same: "sync_context_of = from_api_code_context"
  unfolding sync_context_of_def from_api_code_context_def code_context_ok_def
  by (intro ext arg_cong2 [where f = bindR] refl) (auto simp: optional_def split: option.splits)

lemma sync_contexts_same:
  "sync_create_context hx lib c ep language = create_context hx lib c (bare ep) language"
  "sync_get_context hx lib c ep context_id = get_context hx lib c (bare ep) context_id"
  "sync_list_contexts hx lib c ep language = list_contexts hx lib c (bare ep) language"
  "sync_delete_context hx lib c ep context_id = delete_context hx lib c (bare ep) context_id"
  "sync_delete_contexts hx lib c ep language = delete_contexts hx lib c (bare ep) language"
  "sync_code_interrupt hx lib c ep execution_id = code_interrupt hx lib c (bare ep) execution_id"
  by (simp_all only: sync_create_context_def create_context_def sync_get_context_def get_context_def sync_list_contexts_def list_contexts_def
      sync_delete_context_def delete_context_def sync_delete_contexts_def delete_contexts_def sync_code_interrupt_def code_interrupt_def
      sync_code_client_bare sync_context_of_same)

lemma sync_code_line_same: "sync_code_line hx lib h = handle_code_line hx lib h"
  by (rule ext) (simp add: sync_code_line_def handle_code_line_def)

lemma sync_run_request_same:
  "sync_run_request src language context = bindR (run_context language context) (\<lambda>ctx. Inr (to_api_run_code_request src (Some ctx)))"
  by (cases "context") (auto simp: sync_run_request_def run_context_def to_api_run_code_request_def to_api_code_context_def
      code_context_ok_def field_def given_def Let_def split: option.splits)

lemma bindS_liftR_bindR: "bindS (liftR (bindR r (\<lambda>x. Inr (f x)))) g = bindS (liftR r) (\<lambda>x. g (f x))"
  by (rule ext, cases r) (simp_all add: bindS_def liftR_def)

lemma sync_code_run_same: "sync_code_run hx lib c ep src language context h = code_run hx lib c (bare ep) src language context h"
proof -
  have "execd_path_url c (bare ep) = execd_path_url c ep" by (rule ext) (simp add: execd_path_url_def)
  then show ?thesis
    unfolding sync_code_run_def code_run_def run_code_stream_def sync_code_line_same run_in_local_state sync_run_request_same
      bindS_liftR_bindR sync_code_client_bare by simp
qed

lemma endpoint_header_sent:
  assumes "map_of (se_headers ep) k = Some v" and "distinct (map fst (se_headers ep))"
  shows "map_of (cl_headers (endpoint_client c ep)) k = Some v"
  using assms by (simp add: endpoint_client_def map_of_dict_update map_of_rev_dict_ok dict_ok_def)

lemma ingress_header_announced:
  assumes "format_ingress_endpoint (Some i) sandbox_id port = Inr (Some e)" and "ep_headers e = Some hs"
  shows "hs = [(OPEN_SANDBOX_INGRESS_HEADER, sandbox_id @ ''-'' @ str_int port)]"
  using assms by (auto simp: format_ingress_endpoint_def Let_def split: option.splits if_splits)

text \<open>
  C24. The synchronous code interpreter does what the asynchronous one does on an end point without headers. So it does not reach a
  sandbox behind a gateway that routes by header: the server announces the header with the end point, the asynchronous
  interpreter sends it, and the synchronous one sends no such header, unless the caller configured it.
\<close>

theorem sync_interpreter_drops_endpoint_headers:
  assumes "format_ingress_endpoint (Some i) sandbox_id port = Inr (Some e)" and "ep_headers e = Some hs"
    and "map_of (cc_headers c) OPEN_SANDBOX_INGRESS_HEADER = None" and "ep = \<lparr>se_endpoint = ep_endpoint e, se_headers = hs\<rparr>"
  shows "sync_code_run hx lib c ep src language context h = code_run hx lib c (ep\<lparr>se_headers := []\<rparr>) src language context h
    \<and> sync_create_context hx lib c ep language' = create_context hx lib c (ep\<lparr>se_headers := []\<rparr>) language'
    \<and> sync_code_interrupt hx lib c ep execution_id = code_interrupt hx lib c (ep\<lparr>se_headers := []\<rparr>) execution_id
    \<and> map_of (cl_headers (endpoint_client c ep)) OPEN_SANDBOX_INGRESS_HEADER = Some (sandbox_id @ ''-'' @ str_int port)
    \<and> map_of (cl_headers (sync_code_client c ep)) OPEN_SANDBOX_INGRESS_HEADER = None"
proof -
  have "map_of (rev (cc_headers c)) OPEN_SANDBOX_INGRESS_HEADER = None" using assms(3) by (simp add: map_of_eq_None_iff)
  moreover have "OPEN_SANDBOX_INGRESS_HEADER \<noteq> ''User-Agent''" by (simp add: OPEN_SANDBOX_INGRESS_HEADER_def)
  ultimately have "map_of (cl_headers (sync_code_client c ep)) OPEN_SANDBOX_INGRESS_HEADER = None"
    by (simp add: sync_code_client_def map_of_dict_update map_add_def)
  moreover have "map_of (cl_headers (endpoint_client c ep)) OPEN_SANDBOX_INGRESS_HEADER = Some (sandbox_id @ ''-'' @ str_int port)"
    using ingress_header_announced [OF assms(1,2)] assms(4) by (intro endpoint_header_sent) simp_all
  ultimately show ?thesis using sync_code_run_same sync_contexts_same by auto
qed

definition header_gateway :: ingress_config where
  "header_gateway = sample_gateway\<lparr>ing_gateway := Some \<lparr>gw_address = ''gw.example'', gw_route_mode = GATEWAY_ROUTE_MODE_HEADER\<rparr>\<rparr>"

theorem sync_interpreter_drops_endpoint_headers_witness:
  "let ep = \<lparr>se_endpoint = ''gw.example'', se_headers = [(OPEN_SANDBOX_INGRESS_HEADER, ''sb-'' @ str_int 44772)]\<rparr> in
   map_of (cl_headers (endpoint_client web_config ep)) OPEN_SANDBOX_INGRESS_HEADER = Some (''sb-'' @ str_int 44772)
   \<and> map_of (cl_headers (sync_code_client web_config ep)) OPEN_SANDBOX_INGRESS_HEADER = None"
proof -
  let ?hs = "[(OPEN_SANDBOX_INGRESS_HEADER, ''sb-'' @ str_int 44772)]"
  have f: "format_ingress_endpoint (Some header_gateway) ''sb'' 44772 = Inr (Some \<lparr>ep_endpoint = ''gw.example'', ep_headers = Some ?hs\<rparr>)"
    by (simp add: format_ingress_endpoint_def header_gateway_def sample_gateway_def)
  have m: "map_of (cc_headers web_config) OPEN_SANDBOX_INGRESS_HEADER = None" by code_simp
  show ?thesis
    using sync_interpreter_drops_endpoint_headers [OF f _ m refl, where hs = ?hs, THEN conjunct2, THEN conjunct2, THEN conjunct2]
    by (simp add: Let_def)
qed

end
