(* ===== verification/Cli_Commands.thy ===== *)
theory Cli_Commands
  imports Cli_Config Code_Sync
begin

text \<open>
  The command line client, second part: the context that all commands share (\<open>client.py\<close>), the handler of exceptions
  (\<open>utils.py\<close>) and the commands (\<open>commands/sandbox.py\<close>, \<open>command.py\<close>), over the synchronous client. The
  state is the world and the context. A result \<open>None\<close> is a command that has not ended within the fuel.
\<close>

section \<open>The context\<close>

text \<open>
  What a command finds: the libraries, the machine, the resolved settings; the number of seconds in a float, the conversions
  of the model library, the codecs, and a creation whose entry point is not a list of texts, which the typed client does
  not describe.
\<close>

record 'w cli_env =
  ce_hx :: "'w httpx_api"
  ce_lib :: sdk_libs
  ce_fuel :: nat
  ce_os :: "'w local_os"
  ce_settings :: "(string, json) dict"
  ce_float :: "string \<Rightarrow> int res"
  ce_lax_int :: "string \<Rightarrow> int option"
  ce_lax :: "json \<Rightarrow> json option"
  ce_decode :: "string \<Rightarrow> string \<Rightarrow> string res"
  ce_untyped :: "json \<Rightarrow> create_args \<Rightarrow> ready_opts \<Rightarrow> ('w, 'w sandbox_client option) io"

record cli_context =
  cx_config :: "connection_config option"
  cx_manager :: "connection_config option"

definition timeout_arg :: "(string \<Rightarrow> int res) \<Rightarrow> json \<Rightarrow> int res" where
  "timeout_arg float v = (case v of
     JInt n \<Rightarrow> timedelta_seconds n
   | JBool b \<Rightarrow> timedelta_seconds (if b then 1 else 0)
   | JFloat r \<Rightarrow> float r
   | _ \<Rightarrow> Inl TypeError)"

definition text_field :: "json \<Rightarrow> string option res" where
  "text_field v = (case v of JNull \<Rightarrow> Inr None | JStr s \<Rightarrow> Inr (Some s) | _ \<Rightarrow> Inl ValueError)"

definition settings_config :: "(string \<Rightarrow> int res) \<Rightarrow> (string, json) dict \<Rightarrow> connection_config res" where
  "settings_config float cfg =
     bindR (timeout_arg float (case map_of cfg ''request_timeout'' of None \<Rightarrow> JInt 30 | Some v \<Rightarrow> v)) (\<lambda>t.
     bindR (text_field (jget cfg ''api_key'')) (\<lambda>api_key.
     bindR (text_field (jget cfg ''domain'')) (\<lambda>domain.
     bindR (text_field (case map_of cfg ''protocol'' of None \<Rightarrow> JStr ''http'' | Some v \<Rightarrow> v)) (\<lambda>protocol.
     if protocol = None \<or> t \<le> 0 then Inl ValueError
     else connection_config_init api_key domain (the protocol) [] None False))))"

definition cli_connection_config :: "'w cli_env \<Rightarrow> ('w \<times> cli_context, connection_config) io" where
  "cli_connection_config env =
     bindS (getS (\<lambda>(w, cx). cx_config cx)) (\<lambda>r.
     case r of
       Some c \<Rightarrow> retS c
     | None \<Rightarrow> bindS (liftR (settings_config (ce_float env) (ce_settings env))) (\<lambda>c.
               bindS (modifyS (\<lambda>(w, cx). (w, cx\<lparr>cx_config := Some c\<rparr>))) (\<lambda>_. retS c)))"

definition get_manager :: "'w cli_env \<Rightarrow> ('w \<times> cli_context, connection_config) io" where
  "get_manager env =
     bindS (getS (\<lambda>(w, cx). cx_manager cx)) (\<lambda>r.
     case r of
       Some m \<Rightarrow> retS m
     | None \<Rightarrow> bindS (cli_connection_config env) (\<lambda>c.
               bindS (in_world (manager_create (ce_hx env) c)) (\<lambda>m.
               bindS (modifyS (\<lambda>(w, cx). (w, cx\<lparr>cx_manager := Some m\<rparr>))) (\<lambda>_. retS m))))"

definition hex_digit :: "char \<Rightarrow> bool" where
  "hex_digit c \<longleftrightarrow> is_digit c \<or> c \<in> set ''abcdefABCDEF''"

definition UUID_RE :: re where
  "UUID_RE =
     (let hex = (\<lambda>n. RRep n (RCls hex_digit)); dash = RChar (CHR ''-'')
      in RSeq (hex 8) (RSeq dash (RSeq (hex 4) (RSeq dash (RSeq (hex 4) (RSeq dash (RSeq (hex 4) (RSeq dash (hex 12)))))))))"

definition page_filter :: "int \<Rightarrow> sdk_filter" where
  "page_filter page_no = \<lparr>sf_states = None, sf_metadata = None, sf_page_size = Some 100, sf_page = Some page_no\<rparr>"

fun resolve_loop :: "nat \<Rightarrow> 'w httpx_api \<Rightarrow> sdk_libs \<Rightarrow> connection_config \<Rightarrow> string \<Rightarrow> string list \<Rightarrow> int \<Rightarrow> ('w, string list option) io" where
  "resolve_loop 0 hx lib m id_prefix found page_no = retS None"
| "resolve_loop (Suc fuel) hx lib m id_prefix found page_no =
     bindS (sync_manager_list hx lib m (page_filter page_no)) (\<lambda>(infos, pg).
     let matches_ids = found @ filter (\<lambda>i. starts_with i id_prefix) (map si_id infos) in
     if 1 < length matches_ids then retS (Some matches_ids)
     else if \<not> pg_has_next pg then retS (Some matches_ids)
     else resolve_loop fuel hx lib m id_prefix matches_ids (page_no + 1))"

definition resolve_sandbox_id :: "'w cli_env \<Rightarrow> string \<Rightarrow> ('w \<times> cli_context, string option) io" where
  "resolve_sandbox_id env id_prefix =
     (if match_dollar UUID_RE id_prefix then retS (Some id_prefix)
      else bindS (get_manager env) (\<lambda>m.
           bind_opt (in_world (resolve_loop (ce_fuel env) (ce_hx env) (ce_lib env) m id_prefix [] 0)) (\<lambda>found.
           if length found = 1 then retS (Some (hd found)) else raiseS ClickException)))"

definition connect_sandbox :: "'w cli_env \<Rightarrow> string \<Rightarrow> ('w \<times> cli_context, 'w sandbox_client option) io" where
  "connect_sandbox env sandbox_id =
     bind_opt (resolve_sandbox_id env sandbox_id) (\<lambda>sid.
     bindS (cli_connection_config env) (\<lambda>c.
     in_world (sync_connect (ce_fuel env) (ce_hx env) (ce_lib env) c None (default_ready\<lparr>rd_skip := True\<rparr>) sid)))"

text \<open>\<open>ClientContext.close\<close>, called when the command line has been worked off.\<close>

definition cli_close :: "'w cli_env \<Rightarrow> ('w \<times> cli_context, unit) io" where
  "cli_close env =
     bindS (getS (\<lambda>(w, cx). cx_manager cx)) (\<lambda>r.
     bindS (case r of
              None \<Rightarrow> retS ()
            | Some m \<Rightarrow> bindS (in_world (manager_close (ce_hx env) m)) (\<lambda>_. modifyS (\<lambda>(w, cx). (w, cx\<lparr>cx_manager := None\<rparr>)))) (\<lambda>_.
     bindS (getS (\<lambda>(w, cx). cx_config cx)) (\<lambda>r'.
     case r' of
       None \<Rightarrow> retS ()
     | Some c \<Rightarrow> bindS (in_world (close_transport_if_owned (ce_hx env) c)) (\<lambda>_. modifyS (\<lambda>(w, cx). (w, cx\<lparr>cx_config := None\<rparr>))))))"

text \<open>\<open>handle_errors\<close>. The exceptions of click and \<open>sys.exit\<close> pass.\<close>

definition click_exn :: "exn \<Rightarrow> bool" where
  "click_exn e \<longleftrightarrow> e = ClickException \<or> e = BadParameter \<or> e = Exit_1"

definition handle_errors :: "'w cli_env \<Rightarrow> ('w \<times> cli_context, 'a) io \<Rightarrow> ('w \<times> cli_context, 'a) io" where
  "handle_errors env m =
     catchS m (\<lambda>e. if click_exn e then raiseS e
                   else bindS (in_world (os_show (ce_os env) (Shown_Error e))) (\<lambda>_. raiseS Exit_1))"

text \<open>A command that works on one sandbox: \<open>sandbox = obj.connect_sandbox(...); try: ... finally: sandbox.close()\<close>.\<close>

definition using_sandbox :: "'w cli_env \<Rightarrow> string \<Rightarrow> ('w sandbox_client \<Rightarrow> ('w, 'a) io) \<Rightarrow> ('w \<times> cli_context, 'a option) io" where
  "using_sandbox env sandbox_id f =
     bind_opt (connect_sandbox env sandbox_id) (\<lambda>sb.
     bindS (in_world (finallyS (f sb) (sandbox_close (ce_hx env) sb))) (\<lambda>x. retS (Some x)))"

abbreviation show_it :: "'w cli_env \<Rightarrow> shown \<Rightarrow> ('w, unit) io" where
  "show_it env s \<equiv> os_show (ce_os env) s"

section \<open>Sandboxes\<close>

text \<open>
  \<open>NetworkPolicy(**json.load(f))\<close>: the action under its alias or its name, \<open>deny\<close> by default, and rules of two texts.
\<close>

definition rule_of_json :: "json \<Rightarrow> network_rule res" where
  "rule_of_json v = (case v of
     JObj d \<Rightarrow> (case (map_of d ''action'', map_of d ''target'') of
        (Some (JStr a), Some (JStr t)) \<Rightarrow>
          let r = \<lparr>rule_action = a, rule_target = t\<rparr> in if sdk_rule_ok r then Inr r else Inl ValueError
      | _ \<Rightarrow> Inl ValueError)
   | _ \<Rightarrow> Inl ValueError)"

definition policy_of_json :: "json \<Rightarrow> sdk_policy res" where
  "policy_of_json v = (case v of
     JObj d \<Rightarrow>
       bindR (text_field (case map_of d ''defaultAction'' of
                            Some x \<Rightarrow> x
                          | None \<Rightarrow> (case map_of d ''default_action'' of Some x \<Rightarrow> x | None \<Rightarrow> JStr ''deny''))) (\<lambda>a.
       bindR (case jget d ''egress'' of
                JNull \<Rightarrow> Inr None
              | JList xs \<Rightarrow> bindR (collect_each rule_of_json xs) (\<lambda>rs. Inr (Some rs))
              | _ \<Rightarrow> Inl ValueError) (\<lambda>e.
       let p = \<lparr>sp_default_action = a, sp_egress = e\<rparr> in if sdk_policy_ok p then Inr p else Inl ValueError))
   | _ \<Rightarrow> Inl TypeError)"

record create_options =
  co_image :: string
  co_timeout :: "int option"
  co_envs :: "(string \<times> string) list"
  co_metadata :: "(string \<times> string) list"
  co_resources :: "(string \<times> string) list"
  co_entrypoint :: "string option"
  co_policy_file :: "string option"
  co_skip_health_check :: bool
  co_ready_timeout :: "int option"

text \<open>\<open>json.loads(entrypoint)\<close>, or a shell command when the text is no JSON.\<close>

definition entrypoint_arg :: "string \<Rightarrow> json" where
  "entrypoint_arg e = (case json_loads e of Some v \<Rightarrow> v | None \<Rightarrow> JList [JStr ''sh'', JStr ''-c'', JStr e])"

fun all_texts :: "json list \<Rightarrow> string list option" where
  "all_texts [] = Some []"
| "all_texts (JStr s # xs) = map_option ((#) s) (all_texts xs)"
| "all_texts (_ # xs) = None"

definition dict_or_none :: "(string \<times> string) list \<Rightarrow> (string, string) dict option" where
  "dict_or_none kvs = (if kvs = [] then None else Some (dict_update [] kvs))"

definition policy_of_file :: "'w cli_env \<Rightarrow> string option \<Rightarrow> ('w, sdk_policy option) io" where
  "policy_of_file env f =
     (if \<not> given f then retS None
      else bindS (os_read_text (ce_os env) (the f)) (\<lambda>t.
           bindS (liftR (bindR (or_value_error (json_loads t)) policy_of_json)) (\<lambda>p. retS (Some p))))"

definition create_with ::
    "'w cli_env \<Rightarrow> connection_config \<Rightarrow> ready_opts \<Rightarrow> create_args \<Rightarrow> json option \<Rightarrow> ('w, 'w sandbox_client option) io" where
  "create_with env c rd args entrypoint =
     (let create = sync_create (ce_fuel env) (ce_hx env) (ce_lib env) c None rd in
      case entrypoint of
        None \<Rightarrow> create args
      | Some v \<Rightarrow>
          if \<not> truthy v then create args
          else (case v of
                  JList xs \<Rightarrow> (case all_texts xs of
                                 Some ts \<Rightarrow> create (args\<lparr>ca_entrypoint := Some ts\<rparr>)
                               | None \<Rightarrow> ce_untyped env v args rd)
                | _ \<Rightarrow> ce_untyped env v args rd))"

definition cmd_sandbox_create :: "'w cli_env \<Rightarrow> create_options \<Rightarrow> ('w \<times> cli_context, unit option) io" where
  "cmd_sandbox_create env o1 = handle_errors env
     (bindS (cli_connection_config env) (\<lambda>c.
      bindS (in_world (policy_of_file env (co_policy_file o1))) (\<lambda>policy.
      let args = \<lparr>ca_image = Inl (co_image o1), ca_timeout = Some (case co_timeout o1 of None \<Rightarrow> 600000000 | Some t \<Rightarrow> t),
                  ca_env = dict_or_none (co_envs o1), ca_metadata = dict_or_none (co_metadata o1),
                  ca_resource = dict_or_none (co_resources o1), ca_policy = policy, ca_extensions = None,
                  ca_entrypoint = None, ca_volumes = None\<rparr>;
          rd = default_ready\<lparr>rd_timeout := (case co_ready_timeout o1 of None \<Rightarrow> 30000000 | Some t \<Rightarrow> t), rd_skip := co_skip_health_check o1\<rparr>;
          entry = (if given (co_entrypoint o1) then Some (entrypoint_arg (the (co_entrypoint o1))) else None)
      in bind_opt (in_world (create_with env c rd args entry)) (\<lambda>sb.
         bindS (in_world (show_it env (Shown_Created (sc_id sb) (co_image o1)))) (\<lambda>_. retS (Some ()))))))"

definition cmd_sandbox_list ::
    "'w cli_env \<Rightarrow> string list \<Rightarrow> (string \<times> string) list \<Rightarrow> int option \<Rightarrow> int option \<Rightarrow> ('w \<times> cli_context, unit) io" where
  "cmd_sandbox_list env states metadata_kv page_no size_no = handle_errors env
     (bindS (get_manager env) (\<lambda>m.
      let f = \<lparr>sf_states = (if states = [] then None else Some states), sf_metadata = dict_or_none metadata_kv,
               sf_page_size = size_no, sf_page = page_no\<rparr>
      in if \<not> sdk_filter_ok f then raiseS ValueError
         else bindS (in_world (sync_manager_list (ce_hx env) (ce_lib env) m f)) (\<lambda>(infos, pg). in_world (show_it env (Shown_Infos infos)))))"

text \<open>A command that asks the manager about one sandbox.\<close>

definition via_manager ::
    "'w cli_env \<Rightarrow> string \<Rightarrow> (connection_config \<Rightarrow> string \<Rightarrow> ('w, unit) io) \<Rightarrow> ('w \<times> cli_context, unit option) io" where
  "via_manager env sandbox_id f =
     bind_opt (resolve_sandbox_id env sandbox_id) (\<lambda>sid.
     bindS (get_manager env) (\<lambda>m. bindS (in_world (f m sid)) (\<lambda>_. retS (Some ()))))"

definition cmd_sandbox_get :: "'w cli_env \<Rightarrow> string \<Rightarrow> ('w \<times> cli_context, unit option) io" where
  "cmd_sandbox_get env sandbox_id = handle_errors env (via_manager env sandbox_id (\<lambda>m sid.
     bindS (manager_info (ce_hx env) (ce_lib env) m sid) (\<lambda>info. show_it env (Shown_Info info))))"

fun kill_each :: "'w cli_env \<Rightarrow> connection_config \<Rightarrow> string list \<Rightarrow> ('w \<times> cli_context, unit option) io" where
  "kill_each env m [] = retS (Some ())"
| "kill_each env m (sid # sids) =
     bind_opt (resolve_sandbox_id env sid) (\<lambda>resolved.
     bindS (in_world (manager_kill (ce_hx env) (ce_lib env) m resolved)) (\<lambda>_.
     bindS (in_world (show_it env (Shown_Done resolved))) (\<lambda>_. kill_each env m sids)))"

definition cmd_sandbox_kill :: "'w cli_env \<Rightarrow> string list \<Rightarrow> ('w \<times> cli_context, unit option) io" where
  "cmd_sandbox_kill env sandbox_ids = handle_errors env (bindS (get_manager env) (\<lambda>m. kill_each env m sandbox_ids))"

definition cmd_sandbox_pause :: "'w cli_env \<Rightarrow> string \<Rightarrow> ('w \<times> cli_context, unit option) io" where
  "cmd_sandbox_pause env sandbox_id = handle_errors env (via_manager env sandbox_id (\<lambda>m sid.
     bindS (manager_pause (ce_hx env) (ce_lib env) m sid) (\<lambda>_. show_it env (Shown_Done sid))))"

definition cmd_sandbox_resume :: "'w cli_env \<Rightarrow> string \<Rightarrow> ('w \<times> cli_context, unit option) io" where
  "cmd_sandbox_resume env sandbox_id = handle_errors env (via_manager env sandbox_id (\<lambda>m sid.
     bindS (manager_resume (ce_hx env) (ce_lib env) m sid) (\<lambda>_. show_it env (Shown_Done sid))))"

definition cmd_sandbox_renew :: "'w cli_env \<Rightarrow> string \<Rightarrow> int \<Rightarrow> ('w \<times> cli_context, unit option) io" where
  "cmd_sandbox_renew env sandbox_id timeout = handle_errors env (via_manager env sandbox_id (\<lambda>m sid.
     bindS (manager_renew (ce_hx env) (ce_lib env) m sid timeout) (\<lambda>t. show_it env (Shown_Renewed sid t))))"

definition cmd_sandbox_endpoint :: "'w cli_env \<Rightarrow> string \<Rightarrow> int \<Rightarrow> ('w \<times> cli_context, unit option) io" where
  "cmd_sandbox_endpoint env sandbox_id port = handle_errors env (using_sandbox env sandbox_id (\<lambda>sb.
     bindS (sandbox_get_endpoint (ce_hx env) (ce_lib env) sb port) (\<lambda>ep. show_it env (Shown_Endpoint ep))))"

definition cmd_sandbox_health :: "'w cli_env \<Rightarrow> string \<Rightarrow> ('w \<times> cli_context, unit option) io" where
  "cmd_sandbox_health env sandbox_id = handle_errors env (using_sandbox env sandbox_id (\<lambda>sb.
     bindS (sync_is_healthy (ce_hx env) sb) (\<lambda>b. show_it env (Shown_Health sandbox_id b))))"

definition cmd_sandbox_metrics :: "'w cli_env \<Rightarrow> string \<Rightarrow> ('w \<times> cli_context, unit option) io" where
  "cmd_sandbox_metrics env sandbox_id = handle_errors env (using_sandbox env sandbox_id (\<lambda>sb.
     bindS (sandbox_get_metrics (ce_hx env) (ce_lib env) (ce_lax env) sb) (\<lambda>m. show_it env (Shown_Metrics m))))"

section \<open>Commands in a sandbox\<close>

text \<open>
  A run in the foreground prints as the output arrives. The variable \<open>last_text\<close> of the function, which its handlers set,
  is the second part of the state of the run.
\<close>

definition lifted :: "'w httpx_api \<Rightarrow> ('w \<times> 'x) httpx_api" where
  "lifted hx =
     \<lparr>hx_send = (\<lambda>cl call. in_world (hx_send hx cl call)), hx_stream = (\<lambda>cl call. in_world (hx_stream hx cl call)),
      hx_new_transport = in_world (hx_new_transport hx), hx_close_transport = (\<lambda>t. in_world (hx_close_transport hx t)),
      hx_time = in_world (hx_time hx), hx_sleep = (\<lambda>d. in_world (hx_sleep hx d)), hx_getenv = hx_getenv hx\<rparr>"

definition print_handlers :: "'w local_os \<Rightarrow> ('w \<times> string) handlers" where
  "print_handlers os = no_handlers
     \<lparr>on_stdout := Some (\<lambda>msg. bindS (on_execution (\<lambda>_. om_text msg)) (\<lambda>_. in_world (os_stdout os (om_text msg)))),
      on_stderr := Some (\<lambda>msg. bindS (on_execution (\<lambda>_. om_text msg)) (\<lambda>_. in_world (os_stderr os (om_text msg))))\<rparr>"

definition exit_on_error :: "'w cli_env \<Rightarrow> execution \<Rightarrow> ('w, unit) io" where
  "exit_on_error env x =
     (case ex_error x of None \<Rightarrow> retS () | Some e \<Rightarrow> bindS (show_it env (Shown_Failure e)) (\<lambda>_. raiseS Exit_1))"

definition run_foreground :: "'w cli_env \<Rightarrow> 'w sandbox_client \<Rightarrow> string \<Rightarrow> run_opts \<Rightarrow> ('w, unit) io" where
  "run_foreground env sb cmd opts =
     bindS (\<lambda>w. case sync_command_run (lifted (ce_hx env)) (ce_lib env) (sc_config sb) (sc_execd sb) cmd (Some opts)
                       (print_handlers (ce_os env)) (w, []) of
              (Inl e, (w', last_text)) \<Rightarrow> (Inl e, w')
            | (Inr x, (w', last_text)) \<Rightarrow> (Inr (x, last_text), w')) (\<lambda>(x, last_text).
     bindS (whenS (last_text \<noteq> [] \<and> \<not> ends_with last_text [newline]) (os_stdout (ce_os env) [newline])) (\<lambda>_.
     exit_on_error env x))"

definition command_text :: "string list \<Rightarrow> string" where
  "command_text command = join_with (CHR '' '') (map shlex_quote command)"

definition run_command ::
    "'w cli_env \<Rightarrow> string \<Rightarrow> string list \<Rightarrow> bool \<Rightarrow> string option \<Rightarrow> int option \<Rightarrow> ('w \<times> cli_context, unit option) io" where
  "run_command env sandbox_id command background workdir timeout =
     using_sandbox env sandbox_id (\<lambda>sb.
       let opts = default_opts\<lparr>ro_background := background, ro_working_directory := workdir, ro_timeout := timeout\<rparr>
       in if background
          then bindS (sync_command_run (ce_hx env) (ce_lib env) (sc_config sb) (sc_execd sb) (command_text command) (Some opts) no_handlers)
                 (\<lambda>x. show_it env (Shown_Started (ex_id x) sandbox_id))
          else run_foreground env sb (command_text command) opts)"

definition cmd_command_run where
  "cmd_command_run env sandbox_id command background workdir timeout =
     handle_errors env (run_command env sandbox_id command background workdir timeout)"

definition cmd_exec where
  "cmd_exec env sandbox_id command background workdir timeout =
     handle_errors env (run_command env sandbox_id command background workdir timeout)"

definition cmd_command_status :: "'w cli_env \<Rightarrow> string \<Rightarrow> string \<Rightarrow> ('w \<times> cli_context, unit option) io" where
  "cmd_command_status env sandbox_id execution_id = handle_errors env (using_sandbox env sandbox_id (\<lambda>sb.
     bindS (cm_status (commands_adapter (ce_hx env) (ce_lib env) (sc_config sb) (sc_execd sb)) execution_id) (\<lambda>s.
     show_it env (Shown_Status s))))"

text \<open>In table mode the log text is printed as it is.\<close>

definition cmd_command_logs :: "'w cli_env \<Rightarrow> string \<Rightarrow> string \<Rightarrow> int option \<Rightarrow> ('w \<times> cli_context, unit option) io" where
  "cmd_command_logs env sandbox_id execution_id cursor = handle_errors env (using_sandbox env sandbox_id (\<lambda>sb.
     bindS (cm_logs (commands_adapter (ce_hx env) (ce_lib env) (sc_config sb) (sc_execd sb)) execution_id cursor) (\<lambda>l.
     if jget (ce_settings env) ''output_format'' \<in> {JStr ''json'', JStr ''yaml''} then show_it env (Shown_Logs l)
     else os_stdout (ce_os env) (fst l @ [newline]))))"

definition cmd_command_interrupt :: "'w cli_env \<Rightarrow> string \<Rightarrow> string \<Rightarrow> ('w \<times> cli_context, unit option) io" where
  "cmd_command_interrupt env sandbox_id execution_id = handle_errors env (using_sandbox env sandbox_id (\<lambda>sb.
     bindS (cm_interrupt (commands_adapter (ce_hx env) (ce_lib env) (sc_config sb) (sc_execd sb)) execution_id) (\<lambda>_.
     show_it env (Shown_Done execution_id))))"

end
