(* ===== verification/Cli_Files.thy ===== *)
theory Cli_Files
  imports Cli_Commands
begin

text \<open>
  The command line client, third part: the commands on files (\<open>commands/file.py\<close>), on code (\<open>commands/code.py\<close>) and the
  display of the settings.
\<close>

section \<open>Files\<close>

text \<open>The connection and the execd end point of a sandbox, where its files are.\<close>

abbreviation files_of :: "'w cli_env \<Rightarrow> 'w sandbox_client \<Rightarrow>
    ('w httpx_api \<Rightarrow> sdk_libs \<Rightarrow> connection_config \<Rightarrow> sdk_endpoint \<Rightarrow> 'a) \<Rightarrow> 'a" where
  "files_of env sb f \<equiv> f (ce_hx env) (ce_lib env) (sc_config sb) (sc_execd sb)"

definition cmd_file_cat :: "'w cli_env \<Rightarrow> string \<Rightarrow> string \<Rightarrow> string \<Rightarrow> ('w \<times> cli_context, unit option) io" where
  "cmd_file_cat env sandbox_id path encoding = handle_errors env (using_sandbox env sandbox_id (\<lambda>sb.
     bindS (files_of env sb read_file (ce_decode env encoding) path None) (\<lambda>content. os_stdout (ce_os env) content)))"

text \<open>A mode is a text, which the model of an entry converts; 755 is its default.\<close>

definition mode_arg :: "'w cli_env \<Rightarrow> string option \<Rightarrow> int res" where
  "mode_arg env mode = (case mode of None \<Rightarrow> Inr 755 | Some s \<Rightarrow> or_value_error (ce_lax_int env s))"

definition cmd_file_write ::
    "'w cli_env \<Rightarrow> string \<Rightarrow> string \<Rightarrow> string option \<Rightarrow> string \<Rightarrow> string option \<Rightarrow> string option \<Rightarrow> string option
       \<Rightarrow> ('w \<times> cli_context, unit option) io" where
  "cmd_file_write env sandbox_id path content encoding mode owner grp = handle_errors env
     (bindS (case content of Some t \<Rightarrow> retS t | None \<Rightarrow> in_world (os_stdin (ce_os env))) (\<lambda>t.
      using_sandbox env sandbox_id (\<lambda>sb.
      bindS (liftR (mode_arg env mode)) (\<lambda>m.
      bindS (files_of env sb write_file
        \<lparr>we_path = path, we_data = Data_Str t, we_mode = m, we_owner = owner, we_group = grp, we_encoding = encoding\<rparr>) (\<lambda>_.
      show_it env (Shown_Done path))))))"

definition cmd_file_upload :: "'w cli_env \<Rightarrow> string \<Rightarrow> string \<Rightarrow> string \<Rightarrow> ('w \<times> cli_context, unit option) io" where
  "cmd_file_upload env sandbox_id local_path remote_path = handle_errors env
     (bindS (in_world (os_read_bytes (ce_os env) local_path)) (\<lambda>data.
      using_sandbox env sandbox_id (\<lambda>sb.
      bindS (files_of env sb write_file
        \<lparr>we_path = remote_path, we_data = Data_Bytes data, we_mode = 755, we_owner = None, we_group = None, we_encoding = ''utf-8''\<rparr>) (\<lambda>_.
      show_it env (Shown_Done remote_path)))))"

definition cmd_file_download :: "'w cli_env \<Rightarrow> string \<Rightarrow> string \<Rightarrow> string \<Rightarrow> ('w \<times> cli_context, unit option) io" where
  "cmd_file_download env sandbox_id remote_path local_path = handle_errors env (using_sandbox env sandbox_id (\<lambda>sb.
     bindS (files_of env sb read_bytes remote_path None) (\<lambda>content.
     bindS (os_write_bytes (ce_os env) local_path content) (\<lambda>_. show_it env (Shown_Done remote_path)))))"

definition show_each :: "'w cli_env \<Rightarrow> string list \<Rightarrow> ('w, unit) io" where
  "show_each env paths = for_eachS (\<lambda>p. show_it env (Shown_Done p)) paths"

definition cmd_file_rm :: "'w cli_env \<Rightarrow> string \<Rightarrow> string list \<Rightarrow> ('w \<times> cli_context, unit option) io" where
  "cmd_file_rm env sandbox_id paths = handle_errors env (using_sandbox env sandbox_id (\<lambda>sb.
     bindS (files_of env sb delete_files paths) (\<lambda>_. show_each env paths)))"

definition cmd_file_mv :: "'w cli_env \<Rightarrow> string \<Rightarrow> string \<Rightarrow> string \<Rightarrow> ('w \<times> cli_context, unit option) io" where
  "cmd_file_mv env sandbox_id source destination = handle_errors env (using_sandbox env sandbox_id (\<lambda>sb.
     if \<not> move_entry_ok (source, destination) then raiseS ValueError
     else bindS (files_of env sb move_files [(source, destination)]) (\<lambda>_. show_it env (Shown_Done source))))"

text \<open>The entries are made one after the other before the request.\<close>

definition mkdir_entry :: "'w cli_env \<Rightarrow> string option \<Rightarrow> string option \<Rightarrow> string option \<Rightarrow> string \<Rightarrow> write_entry res" where
  "mkdir_entry env mode owner grp path =
     bindR (mode_arg env mode) (\<lambda>m.
     let e = \<lparr>we_path = path, we_data = Data_None, we_mode = m, we_owner = owner, we_group = grp, we_encoding = ''utf-8''\<rparr>
     in if write_entry_ok e then Inr e else Inl ValueError)"

definition cmd_file_mkdir ::
    "'w cli_env \<Rightarrow> string \<Rightarrow> string list \<Rightarrow> string option \<Rightarrow> string option \<Rightarrow> string option \<Rightarrow> ('w \<times> cli_context, unit option) io" where
  "cmd_file_mkdir env sandbox_id paths mode owner grp = handle_errors env (using_sandbox env sandbox_id (\<lambda>sb.
     bindS (liftR (collect_each (mkdir_entry env mode owner grp) paths)) (\<lambda>entries.
     bindS (files_of env sb create_directories entries) (\<lambda>_. show_each env paths))))"

definition cmd_file_rmdir :: "'w cli_env \<Rightarrow> string \<Rightarrow> string list \<Rightarrow> ('w \<times> cli_context, unit option) io" where
  "cmd_file_rmdir env sandbox_id paths = handle_errors env (using_sandbox env sandbox_id (\<lambda>sb.
     bindS (files_of env sb delete_directories paths) (\<lambda>_. show_each env paths)))"

definition cmd_file_search :: "'w cli_env \<Rightarrow> string \<Rightarrow> string \<Rightarrow> string \<Rightarrow> ('w \<times> cli_context, unit option) io" where
  "cmd_file_search env sandbox_id path pattern = handle_errors env (using_sandbox env sandbox_id (\<lambda>sb.
     if \<not> search_entry_ok (path, pattern) then raiseS ValueError
     else bindS (files_of env sb file_search (path, pattern)) (\<lambda>found. show_it env (Shown_Files found))))"

definition cmd_file_info :: "'w cli_env \<Rightarrow> string \<Rightarrow> string list \<Rightarrow> ('w \<times> cli_context, unit option) io" where
  "cmd_file_info env sandbox_id paths = handle_errors env (using_sandbox env sandbox_id (\<lambda>sb.
     bindS (files_of env sb get_file_info paths) (\<lambda>info_map.
     for_eachS (\<lambda>(path, entry). show_it env (Shown_File path entry)) info_map)))"

definition cmd_file_chmod ::
    "'w cli_env \<Rightarrow> string \<Rightarrow> string \<Rightarrow> string \<Rightarrow> string option \<Rightarrow> string option \<Rightarrow> ('w \<times> cli_context, unit option) io" where
  "cmd_file_chmod env sandbox_id path mode owner grp = handle_errors env (using_sandbox env sandbox_id (\<lambda>sb.
     bindS (liftR (or_value_error (ce_lax_int env mode))) (\<lambda>m.
     let e = \<lparr>pe_path = path, pe_owner = owner, pe_group = grp, pe_mode = m\<rparr>
     in if \<not> permission_entry_ok e then raiseS ValueError
        else bindS (files_of env sb set_permissions [e]) (\<lambda>_. show_it env (Shown_Done path)))))"

definition cmd_file_replace ::
    "'w cli_env \<Rightarrow> string \<Rightarrow> string \<Rightarrow> string \<Rightarrow> string \<Rightarrow> ('w \<times> cli_context, unit option) io" where
  "cmd_file_replace env sandbox_id path old_text new_text = handle_errors env (using_sandbox env sandbox_id (\<lambda>sb.
     let e = \<lparr>re_path = path, re_old = old_text, re_new = new_text\<rparr>
     in if \<not> replace_entry_ok e then raiseS ValueError
        else bindS (files_of env sb replace_contents [e]) (\<lambda>_. show_it env (Shown_Done path))))"

section \<open>Code\<close>

text \<open>\<open>CodeInterpreterSync.create(sandbox)\<close> and a call of its service.\<close>

definition with_interpreter :: "'w cli_env \<Rightarrow> string \<Rightarrow> ('w sandbox_client \<Rightarrow> sdk_endpoint \<Rightarrow> ('w, unit) io) \<Rightarrow> ('w \<times> cli_context, unit option) io" where
  "with_interpreter env sandbox_id f = using_sandbox env sandbox_id (\<lambda>sb.
     bindS (code_interpreter_create (ce_hx env) (ce_lib env) (Some sb)) (\<lambda>ci. f sb (ci_endpoint ci)))"

definition stream_handlers :: "'w local_os \<Rightarrow> 'w handlers" where
  "stream_handlers os = no_handlers
     \<lparr>on_stdout := Some (\<lambda>msg. os_stdout os (om_text msg)), on_stderr := Some (\<lambda>msg. os_stderr os (om_text msg))\<rparr>"

definition cmd_code_run ::
    "'w cli_env \<Rightarrow> string \<Rightarrow> string \<Rightarrow> string option \<Rightarrow> string option \<Rightarrow> ('w \<times> cli_context, unit option) io" where
  "cmd_code_run env sandbox_id language src context_id = handle_errors env
     (bindS (case src of Some t \<Rightarrow> retS t | None \<Rightarrow> in_world (os_stdin (ce_os env))) (\<lambda>t.
      with_interpreter env sandbox_id (\<lambda>sb ep.
      bindS (if given context_id
             then bindS (sync_get_context (ce_hx env) (ce_lib env) (sc_config sb) ep (the context_id)) (\<lambda>x. retS (Some x))
             else retS None) (\<lambda>ctx.
      bindS (sync_code_run (ce_hx env) (ce_lib env) (sc_config sb) ep t (Some language) ctx (stream_handlers (ce_os env)))
        (exit_on_error env)))))"

definition cmd_context_create :: "'w cli_env \<Rightarrow> string \<Rightarrow> string \<Rightarrow> ('w \<times> cli_context, unit option) io" where
  "cmd_context_create env sandbox_id language = handle_errors env (with_interpreter env sandbox_id (\<lambda>sb ep.
     bindS (sync_create_context (ce_hx env) (ce_lib env) (sc_config sb) ep language) (\<lambda>ctx.
     show_it env (Shown_Context (ctx_id ctx) language))))"

definition cmd_context_list :: "'w cli_env \<Rightarrow> string \<Rightarrow> string \<Rightarrow> ('w \<times> cli_context, unit option) io" where
  "cmd_context_list env sandbox_id language = handle_errors env (with_interpreter env sandbox_id (\<lambda>sb ep.
     bindS (sync_list_contexts (ce_hx env) (ce_lib env) (sc_config sb) ep language) (\<lambda>ctxs.
     for_eachS (\<lambda>ctx. os_stdout (ce_os env) ((case ctx_id ctx of None \<Rightarrow> ''None'' | Some i \<Rightarrow> i) @ [newline])) ctxs)))"

definition cmd_context_delete :: "'w cli_env \<Rightarrow> string \<Rightarrow> string \<Rightarrow> ('w \<times> cli_context, unit option) io" where
  "cmd_context_delete env sandbox_id context_id = handle_errors env (with_interpreter env sandbox_id (\<lambda>sb ep.
     bindS (sync_delete_context (ce_hx env) (ce_lib env) (sc_config sb) ep context_id) (\<lambda>_. show_it env (Shown_Done context_id))))"

definition cmd_context_delete_all :: "'w cli_env \<Rightarrow> string \<Rightarrow> string \<Rightarrow> ('w \<times> cli_context, unit option) io" where
  "cmd_context_delete_all env sandbox_id language = handle_errors env (with_interpreter env sandbox_id (\<lambda>sb ep.
     bindS (sync_delete_contexts (ce_hx env) (ce_lib env) (sc_config sb) ep language) (\<lambda>_. show_it env (Shown_Done language))))"

text \<open>The interruption of code goes to the service of commands.\<close>

definition cmd_code_interrupt :: "'w cli_env \<Rightarrow> string \<Rightarrow> string \<Rightarrow> ('w \<times> cli_context, unit option) io" where
  "cmd_code_interrupt env sandbox_id execution_id = handle_errors env (using_sandbox env sandbox_id (\<lambda>sb.
     bindS (cm_interrupt (commands_adapter (ce_hx env) (ce_lib env) (sc_config sb) (sc_execd sb)) execution_id) (\<lambda>_.
     show_it env (Shown_Done execution_id))))"

section \<open>Settings\<close>

definition cmd_config_show :: "'w cli_env \<Rightarrow> ('w \<times> cli_context, unit) io" where
  "cmd_config_show env = handle_errors env (in_world (show_it env (Shown_Settings (ce_settings env))))"

end
