(* ===== verification/Cli_Safety.thy ===== *)
theory Cli_Safety
  imports Cli_Files K8s_Names
begin

text \<open>
  What the command line client guarantees: which sandbox a prefix names, that the transports of a command are closed, what a
  duration means, and how the shell in the sandbox reads a command.
\<close>

section \<open>Prefixes\<close>

text \<open>
  A listing is a sequence of pages, numbered from zero, that stay the same: in every world where \<open>unchanged\<close> holds, which a call keeps,
  page \<open>i\<close> is answered and announces a next page exactly if there is one.
\<close>

definition paged_listing ::
    "'w httpx_api \<Rightarrow> sdk_libs \<Rightarrow> connection_config \<Rightarrow> ('w \<Rightarrow> bool) \<Rightarrow> sdk_info list list \<Rightarrow> bool" where
  "paged_listing hx lib m unchanged pages \<longleftrightarrow> pages \<noteq> [] \<and>
     (\<forall>w i. unchanged w \<and> i < length pages \<longrightarrow>
        (\<exists>pg w'. sync_manager_list hx lib m (page_filter (int i)) w = (Inr (pages ! i, pg), w') \<and> unchanged w'
           \<and> (pg_has_next pg \<longleftrightarrow> Suc i < length pages)))"

definition ids_with :: "string \<Rightarrow> sdk_info list \<Rightarrow> string list" where
  "ids_with p infos = filter (\<lambda>i. starts_with i p) (map si_id infos)"

lemma ids_with_append [simp]: "ids_with p (xs @ ys) = ids_with p xs @ ids_with p ys"
  by (simp add: ids_with_def)

lemma resolve_loop_exact:
  assumes "paged_listing hx lib m unchanged pages"
  shows "unchanged w \<Longrightarrow> i < length pages \<Longrightarrow> length pages \<le> fuel + i \<Longrightarrow> length found \<le> 1 \<Longrightarrow>
    \<exists>r w'. resolve_loop fuel hx lib m p found (int i) w = (Inr (Some r), w') \<and> unchanged w'
      \<and> (r = found @ ids_with p (concat (drop i pages)) \<or> (1 < length r \<and> 1 < length (found @ ids_with p (concat (drop i pages)))))"
proof (induction fuel arbitrary: i found w)
  case (Suc fuel)
  obtain pg w1 where l: "sync_manager_list hx lib m (page_filter (int i)) w = (Inr (pages ! i, pg), w1)" "unchanged w1"
    "pg_has_next pg \<longleftrightarrow> Suc i < length pages"
    using assms Suc.prems(1,2) unfolding paged_listing_def by blast
  let ?found = "found @ ids_with p (pages ! i)"
  have d: "drop i pages = pages ! i # drop (Suc i) pages" using Suc.prems(2) by (simp add: Cons_nth_drop_Suc)
  have step: "resolve_loop (Suc fuel) hx lib m p found (int i) w =
      (if 1 < length ?found \<or> \<not> Suc i < length pages then (Inr (Some ?found), w1)
       else resolve_loop fuel hx lib m p ?found (int (Suc i)) w1)"
    using l by (simp add: bindS_def retS_def ids_with_def Let_def add.commute)
  show ?case
  proof (cases "1 < length ?found \<or> \<not> Suc i < length pages")
    case True
    then show ?thesis using step l(2) d by (cases "Suc i < length pages") auto
  next
    case False
    then show ?thesis using Suc.IH [of w1 "Suc i" ?found] Suc.prems(3) l(2) step d by auto
  qed
qed simp


definition sim_info :: "string \<Rightarrow> json" where
  "sim_info sid = JObj [(''id'', JStr sid), (''image'', JObj [(''uri'', JStr ''i'')]), (''status'', JObj [(''state'', JStr ''Running'')]),
     (''entrypoint'', JList [JStr ''sh'']), (''createdAt'', JStr ''t'')]"

definition two_pages :: "unit httpx_api" where
  "two_pages = erring\<lparr>hx_send := (\<lambda>_ call w.
     let first = (''page'', ''0'') \<in> set (hc_params call) in
     (Inr (web_answer 200 (JObj [(''items'', JList (map sim_info (if first then [''ab1'', ''c''] else [''ab2'']))),
        (''pagination'', JObj [(''page'', JInt 0), (''pageSize'', JInt 2), (''totalItems'', JInt 3), (''totalPages'', JInt 2), (''hasNextPage'', JBool first)])])), w))\<rparr>"

definition cli_sim :: "unit cli_env" where
  "cli_sim = \<lparr>ce_hx = two_pages, ce_lib = web_libs, ce_fuel = 2,
     ce_os = \<lparr>os_exists = \<lambda>_. retS False, os_toml = \<lambda>_. retS [], os_read_text = \<lambda>_. retS [], os_write_text = \<lambda>_ _. retS (),
       os_read_bytes = \<lambda>_. retS [], os_write_bytes = \<lambda>_ _. retS (), os_make_parent = \<lambda>_. retS (), os_stdin = retS [],
       os_stdout = \<lambda>_. retS (), os_stderr = \<lambda>_. retS (), os_show = \<lambda>_. retS (), os_getenv = \<lambda>_. None, os_home = []\<rparr>,
     ce_settings = [], ce_float = \<lambda>_. Inl ValueError, ce_lax_int = \<lambda>_. None, ce_lax = \<lambda>_. None, ce_decode = \<lambda>_. Inr,
     ce_untyped = \<lambda>_ _ _. raiseS TypeError\<rparr>"

definition sim_sandbox :: "string \<Rightarrow> sdk_info" where
  "sim_sandbox sid =
     \<lparr>si_id = sid, si_status = \<lparr>ss_state = ''Running'', ss_reason = None, ss_message = None, ss_last_transition_at = None\<rparr>,
      si_entrypoint = [''sh''], si_expires_at = None, si_created_at = Aware 0 0,
      si_image = \<lparr>image_uri = ''i'', image_auth_of = None\<rparr>, si_metadata = []\<rparr>"

lemma two_pages_answers:
  "sync_manager_list two_pages web_libs web_config (page_filter 0) () = (Inr ([sim_sandbox ''ab1'', sim_sandbox ''c''],
     \<lparr>pg_page = 1, pg_page_size = 2, pg_total_items = 3, pg_total_pages = 2, pg_has_next = True\<rparr>), ())"
  "sync_manager_list two_pages web_libs web_config (page_filter 1) () = (Inr ([sim_sandbox ''ab2''],
     \<lparr>pg_page = 1, pg_page_size = 2, pg_total_items = 3, pg_total_pages = 2, pg_has_next = False\<rparr>), ())"
  by code_simp+

lemma two_pages_listing:
  "paged_listing two_pages web_libs web_config (\<lambda>_. True) [[sim_sandbox ''ab1'', sim_sandbox ''c''], [sim_sandbox ''ab2'']]"
proof -
  have "\<exists>pg. sync_manager_list two_pages web_libs web_config (page_filter (int i)) w =
      (Inr ([[sim_sandbox ''ab1'', sim_sandbox ''c''], [sim_sandbox ''ab2'']] ! i, pg), ()) \<and> (pg_has_next pg \<longleftrightarrow> Suc i < 2)"
    if "i < 2" for i and w :: unit
  proof (cases "i = 0")
    case True
    then show ?thesis using two_pages_answers(1) by simp
  next
    case False
    then have "i = 1" using that by simp
    then show ?thesis using two_pages_answers(2) by simp
  qed
  then show ?thesis by (fastforce simp: paged_listing_def numeral_2_eq_2)
qed


section \<open>Transports\<close>

text \<open>The configuration of the context has no transport of its own: every manager and every sandbox makes one.\<close>

definition bare_context :: "cli_context \<Rightarrow> bool" where
  "bare_context cx \<longleftrightarrow> (\<forall>c. cx_config cx = Some c \<longrightarrow> cc_transport c = None)"

lemma settings_config_bare: "settings_config float cfg = Inr c \<Longrightarrow> cc_transport c = None"
  by (auto simp: settings_config_def connection_config_init_def bindR_eq_Inr split: if_splits)

lemma cli_config_bare:
  assumes "cli_connection_config env (w, cx) = (r, (w', cx'))" and "bare_context cx"
  shows "w' = w \<and> bare_context cx' \<and> (\<forall>c. r = Inr c \<longrightarrow> cc_transport c = None)"
  using assms settings_config_bare [of "ce_float env" "ce_settings env"]
  by (auto simp: cli_connection_config_def bare_context_def bindS_def getS_def liftR_def modifyS_def retS_def
      split: option.splits sum.splits)

lemma get_manager_bare:
  assumes "get_manager env (w, cx) = (r, (w', cx'))" and "bare_context cx"
  shows "bare_context cx'"
proof (cases "cx_manager cx")
  case None
  obtain rc w1 cx1 where c: "cli_connection_config env (w, cx) = (rc, (w1, cx1))" by (rule prod_cases3)
  have "bare_context cx1" using cli_config_bare [OF c assms(2)] by blast
  with assms(1) c None show ?thesis
    by (auto simp: get_manager_def bare_context_def bindS_def getS_def modifyS_def retS_def in_world_def split: sum.splits prod.splits)
next
  case (Some m)
  then show ?thesis using assms by (simp add: get_manager_def bindS_def getS_def retS_def)
qed

lemma resolve_bare:
  assumes "resolve_sandbox_id env p (w, cx) = (r, (w', cx'))" and "bare_context cx"
  shows "bare_context cx'"
proof (cases "match_dollar UUID_RE p")
  case False
  obtain rm w1 cx1 where m: "get_manager env (w, cx) = (rm, (w1, cx1))" by (rule prod_cases3)
  have "bare_context cx1" by (rule get_manager_bare [OF m assms(2)])
  then show ?thesis using assms(1) m False
    by (auto simp: resolve_sandbox_id_def bind_opt_def bindS_def retS_def raiseS_def in_world_def
        split: sum.splits prod.splits option.splits if_splits)
qed (use assms in \<open>simp add: resolve_sandbox_id_def retS_def\<close>)

lemma attached_config: "attach fuel hx lib config health rd sid s = (Inr (Some sb), s') \<Longrightarrow> sc_config sb = config"
  by (auto simp: attach_def bindS_def retS_def Let_def split: prod.splits sum.splits option.splits if_splits)

lemma connect_owns:
  assumes "sync_connect fuel hx lib c None rd sid s = (Inr (Some sb), s')" and "cc_transport c = None"
  shows "\<exists>t. cc_transport (sc_config sb) = Some t \<and> cc_owns_transport (sc_config sb)"
  using assms unfolding sync_connect_same sandbox_connect_def
  by (auto simp: with_transport_if_missing_def bindS_def catchS_def retS_def raiseS_def fail_with_def
      dest!: attached_config split: if_splits prod.splits sum.splits)

text \<open>
  A command on a sandbox closes the transport of its connection, whatever the work on the sandbox does: it is the last thing
  that happens on the network, also when the work raises.
\<close>

theorem sandbox_commands_close_transport:
  assumes "ce_hx env = traced hx" and "bare_context cx"
    and "connect_sandbox env sid (s, cx) = (Inr (Some sb), s1)"
    and "using_sandbox env sid work (s, cx) = (r, ((w', trace), cx'))"
  shows "\<exists>t before. cc_transport (sc_config sb) = Some t \<and> trace = before @ [Closed t]"
proof -
  obtain r0 w0 cx0 where r0: "resolve_sandbox_id env sid (s, cx) = (r0, (w0, cx0))" by (rule prod_cases3)
  then obtain full where full: "r0 = Inr (Some full)"
    using assms(3) by (auto simp: connect_sandbox_def bind_opt_def bindS_def retS_def split: sum.splits option.splits)
  obtain rc w2 cx2 where c2: "cli_connection_config env (w0, cx0) = (rc, (w2, cx2))" by (rule prod_cases3)
  have bare: "\<forall>c. rc = Inr c \<longrightarrow> cc_transport c = None"
    using cli_config_bare [OF c2 resolve_bare [OF r0 assms(2)]] by blast
  obtain c s2 where c: "rc = Inr c"
    and conn: "sync_connect (ce_fuel env) (ce_hx env) (ce_lib env) c None (default_ready\<lparr>rd_skip := True\<rparr>) full w2 = (Inr (Some sb), s2)"
    using assms(3) r0 full c2
    by (auto simp: connect_sandbox_def bind_opt_def bindS_def in_world_def split: sum.splits prod.splits)
  obtain t where t: "cc_transport (sc_config sb) = Some t" "cc_owns_transport (sc_config sb)"
    using connect_owns [OF conn] bare c by auto
  obtain rw w3 l3 where "work sb (fst s1) = (rw, (w3, l3))" by (rule prod_cases3)
  then show ?thesis
    using assms(1,3,4) t close_traced [of hx "sc_config sb" w3 l3]
    by (cases s1) (auto simp: using_sandbox_def bind_opt_def bindS_def in_world_def finallyS_def sandbox_close_def catchS_def retS_def
        closing_def split: sum.splits prod.splits)
qed

section \<open>Durations\<close>

text \<open>A duration as it is written: hours, minutes and seconds, each a number with its unit or left out.\<close>

definition group_text :: "char \<Rightarrow> string option \<Rightarrow> string" where
  "group_text u ds = (case ds of None \<Rightarrow> [] | Some n \<Rightarrow> n @ [u])"

definition group_value :: "string option \<Rightarrow> int" where
  "group_value ds = (case ds of None \<Rightarrow> 0 | Some n \<Rightarrow> int (digits_val n))"

definition number :: "string option \<Rightarrow> bool" where
  "number ds = (case ds of None \<Rightarrow> True | Some n \<Rightarrow> n \<noteq> [] \<and> list_all is_digit n)"

lemma units_no_digits [simp]: "\<not> is_digit (CHR ''h'')" "\<not> is_digit (CHR ''m'')" "\<not> is_digit (CHR ''s'')"
  by (simp_all add: is_digit_def code_def)

lemma digits_prefix:
  "list_all is_digit n \<Longrightarrow> \<not> is_digit u \<Longrightarrow> takeWhile is_digit (n @ u # r) = n \<and> dropWhile is_digit (n @ u # r) = u # r"
  by (induction n) simp_all

lemma duration_group_read:
  "number ds \<Longrightarrow> \<not> is_digit u \<Longrightarrow> (ds = None \<longrightarrow> duration_group u r = (0, r)) \<Longrightarrow>
   duration_group u (group_text u ds @ r) = (group_value ds, r)"
  by (cases ds) (auto simp: duration_group_def group_text_def group_value_def number_def Let_def digits_prefix)

lemma duration_group_other:
  "number ds \<Longrightarrow> ds \<noteq> None \<Longrightarrow> \<not> is_digit v \<Longrightarrow> u \<noteq> v \<Longrightarrow> duration_group u (group_text v ds @ r) = (0, group_text v ds @ r)"
  by (cases ds) (auto simp: duration_group_def group_text_def number_def Let_def digits_prefix)

lemma duration_group_end: "duration_group u [] = (0, [])"
  by (simp add: duration_group_def)

lemma duration_group_cases:
  assumes "duration_group u s = (n, r)" and "\<not> is_digit u"
  shows "\<exists>ds. number ds \<and> s = group_text u ds @ r \<and> n = group_value ds"
proof (cases "takeWhile is_digit s \<noteq> [] \<and> dropWhile is_digit s \<noteq> [] \<and> hd (dropWhile is_digit s) = u")
  case True
  then have n: "n = int (digits_val (takeWhile is_digit s))" and r: "r = tl (dropWhile is_digit s)"
    using assms(1) by (simp_all add: duration_group_def Let_def)
  have "dropWhile is_digit s = u # r" unfolding r using True by (metis list.collapse)
  moreover define ds where "ds = takeWhile is_digit s"
  ultimately have s: "s = ds @ u # r" by (metis takeWhile_dropWhile_id)
  have "number (Some ds)" using True by (auto simp: number_def ds_def list_all_iff dest: set_takeWhileD)
  moreover have "s = group_text u (Some ds) @ r" unfolding group_text_def using s by simp
  moreover have "n = group_value (Some ds)" unfolding group_value_def ds_def using n by simp
  ultimately show ?thesis by blast
next
  case False
  then have "n = 0 \<and> r = s" using assms by (auto simp: duration_group_def Let_def split: if_splits)
  then show ?thesis by (intro exI [of _ None]) (simp add: number_def group_text_def group_value_def)
qed

text \<open>
  A duration is accepted exactly if it consists of hours, minutes and seconds in this order, each optional but not all left out,
  and its length fits a \<open>timedelta\<close>; its value is their sum. A text of digits alone is a number of seconds.
\<close>

theorem parse_duration_iff:
  assumes "\<not> py_isdigit (strip v)"
  shows "parse_duration v = Inr t \<longleftrightarrow>
    (\<exists>h m s. number h \<and> number m \<and> number s \<and> strip v \<noteq> []
       \<and> strip v = group_text (CHR ''h'') h @ group_text (CHR ''m'') m @ group_text (CHR ''s'') s
       \<and> timedelta_seconds (3600 * group_value h + 60 * group_value m + group_value s) = Inr t)"
    (is "?accepted \<longleftrightarrow> ?written")
proof
  assume a: ?accepted
  obtain h r1 where h: "duration_group (CHR ''h'') (strip v) = (h, r1)" by (rule prod.exhaust)
  obtain m r2 where m: "duration_group (CHR ''m'') r1 = (m, r2)" by (rule prod.exhaust)
  obtain s r3 where s: "duration_group (CHR ''s'') r2 = (s, r3)" by (rule prod.exhaust)
  have "strip v \<noteq> []" "r3 = []" "timedelta_seconds (3600 * h + 60 * m + s) = Inr t"
    using a assms h m s by (auto simp: parse_duration_def Let_def split: if_splits)
  then show ?written
    using duration_group_cases [OF h] duration_group_cases [OF m] duration_group_cases [OF s] by fastforce
next
  assume ?written
  then obtain h m s where g: "number h" "number m" "number s" "strip v \<noteq> []"
    "strip v = group_text (CHR ''h'') h @ group_text (CHR ''m'') m @ group_text (CHR ''s'') s"
    "timedelta_seconds (3600 * group_value h + 60 * group_value m + group_value s) = Inr t" by blast
  have empty: "group_text u None = []" for u by (simp add: group_text_def)
  have s: "duration_group (CHR ''s'') (group_text (CHR ''s'') s @ []) = (group_value s, [])"
    using g(3) by (intro duration_group_read) (simp_all add: duration_group_end)
  have other: "duration_group u (group_text (CHR ''s'') s) = (0, group_text (CHR ''s'') s)" if "u \<noteq> CHR ''s''" for u
    using duration_group_other [OF g(3), of "CHR ''s''" u "[]"] that by (cases s) (simp_all add: empty duration_group_end)
  have m: "duration_group (CHR ''m'') (group_text (CHR ''m'') m @ group_text (CHR ''s'') s) = (group_value m, group_text (CHR ''s'') s)"
    using g(2) other by (intro duration_group_read) simp_all
  have other': "duration_group (CHR ''h'') (group_text (CHR ''m'') m @ group_text (CHR ''s'') s) =
      (0, group_text (CHR ''m'') m @ group_text (CHR ''s'') s)"
    using duration_group_other [OF g(2), of "CHR ''m''" "CHR ''h''"] other by (cases m) (simp_all add: empty)
  have "duration_group (CHR ''h'') (strip v) = (group_value h, group_text (CHR ''m'') m @ group_text (CHR ''s'') s)"
    unfolding g(5) using g(1) other' by (intro duration_group_read) simp_all
  with m s g assms show ?accepted by (simp add: parse_duration_def Let_def)
qed

theorem parse_duration_iff_witness: "parse_duration ''1h30m'' = Inr 5400000000"
proof -
  have w: "strip ''1h30m'' = ''1h30m''" "\<not> py_isdigit (strip ''1h30m'')" "number (Some ''1'')" "number (Some ''30'')" "number None"
    "group_value (Some ''1'') = 1" "group_value (Some ''30'') = 30" "group_value None = 0" by code_simp+
  show ?thesis
    unfolding parse_duration_iff [OF w(2)]
    by (rule exI [of _ "Some ''1''"], rule exI [of _ "Some ''30''"], rule exI [of _ None])
      (simp add: w group_text_def timedelta_seconds_def)
qed

section \<open>Commands\<close>

lemma sh_read_command: "as \<noteq> [] \<Longrightarrow> sh_read Bare None (join_with (CHR '' '') (map shlex_quote as)) = Some (as, False)"
proof (induction as)
  case (Cons a as)
  have "sh_read Bare None (shlex_quote a @ []) = Some ([a], False)" unfolding sh_read_quote by simp
  then show ?case using Cons by (cases as) (simp_all add: sh_read_quote)
qed simp

text \<open>The shell in the sandbox reads the command line of \<open>osb exec\<close> as exactly the arguments that were typed.\<close>

theorem command_text_roundtrip: "command \<noteq> [] \<Longrightarrow> sh_read Bare None (command_text command) = Some (command, False)"
  unfolding command_text_def by (rule sh_read_command)

end
