(* ===== verification/Spec2Isabelle.thy ===== *)
theory Spec2Isabelle
  imports Docker_Creation Rate_Limiter K8s_Creation K8s_Outcomes Http_Safety Sdk_Filter Mcp_Safety Cli_Safety
begin

text \<open>
  OpenSandbox: the lifecycle server (\<open>src/server/src\<close>) and its Python clients (\<open>src/sdks\<close>, \<open>src/cli\<close>)
  ==============================================================================

  The server creates sandboxes, containers in which untrusted code runs, and manages their life:
  listing, pausing, renewing, deleting, expiring, proxying requests to them, running tasks in them. A
  request passes the key check (\<open>middleware/auth.py\<close>), the schema (\<open>api/schema.py\<close>) and a handler
  (\<open>api/lifecycle.py\<close>), and reaches, with the checks of \<open>services/validators.py\<close>, one of two services, chosen
  by the configuration (\<open>config.py\<close>, \<open>services/factory.py\<close>): \<open>DockerSandboxService\<close> (\<open>services/docker.py\<close>), which drives a Docker daemon, keeps
  expiration timers and pending creations in memory and shares OSS buckets mounted on the host
  (\<open>services/ossfs_mixin.py\<close>), or \<open>KubernetesSandboxService\<close> (\<open>services/k8s/kubernetes_service.py\<close>), which
  stores sandboxes as custom resources through one of two workload providers
  (\<open>batchsandbox_provider.py\<close>, \<open>agent_sandbox_provider.py\<close>) and a client (\<open>client.py\<close>) with a cache kept by
  a watch thread (\<open>informer.py\<close>) behind a rate limiter (\<open>rate_limiter.py\<close>).

  The Python client (\<open>sdks/sandbox/python/src/opensandbox\<close>) asks the server for sandboxes and then talks to the
  daemon execd inside of a sandbox and to its egress side car. A \<open>Sandbox\<close> or \<open>SandboxManager\<close> (\<open>sandbox.py\<close>,
  \<open>manager.py\<close>) calls adapters (\<open>adapters/\<close>), which convert the models (\<open>models/\<close>) to and from those of the generated calls
  (\<open>api/\<close>), send them over the HTTP library and convert every exception. There is an asynchronous and a synchronous
  text of it (\<open>sync/\<close>). The code interpreter (\<open>sdks/code-interpreter/python\<close>) runs code in a sandbox in the same way,
  and the MCP server (\<open>sdks/mcp/sandbox/python\<close>) offers the client's operations as tools over a registry of sandboxes.
  The command line client (\<open>cli/src/opensandbox_cli\<close>) works with the synchronous client.

  How the code is modelled
  ------------------------
  \<^item> \<open>Prelude\<close>, \<open>Py_String\<close>, \<open>Py_Path\<close>, \<open>Py_Regex\<close>, \<open>Json\<close>, \<open>Json_Text\<close> are the Python the sources use:
    exceptions as values, statements as functions from a state to a result and a state, dictionaries
    as association lists in insertion order, strings, \<open>posixpath\<close>, regular expressions, JSON.
  \<^item> \<open>Sandbox_Schema\<close>, \<open>Validators\<close>, \<open>Config\<close> (with \<open>runtime_resolver.py\<close>) and \<open>Helpers\<close> (with
    \<open>endpoint_auth.py\<close>) follow the files of these names, one definition per function.
  \<^item> \<open>Ossfs\<close> is \<open>ossfs_mixin.py\<close>: the operations on the mounts and their reference counts.
  \<^item> \<open>Docker_Model\<close> (state, labels, host configuration), \<open>Docker_Service\<close> (operations on existing
    sandboxes) and \<open>Docker_Provision\<close> (creation) are \<open>docker.py\<close>. The state of the service is the
    record \<open>service\<close>; the daemon, the host and the clock are the record \<open>docker_api\<close> of functions over
    an arbitrary world.
  \<^item> \<open>Informer\<close> and \<open>Rate_Limiter\<close> are the files of these names; the watch thread and the callers of the
    other threads are a step relation.
  \<^item> \<open>K8s_Manifest\<close> holds \<open>template_manager.py\<close>, \<open>egress_helper.py\<close>, \<open>volume_helper.py\<close>,
    \<open>image_pull_secret_helper.py\<close> and \<open>resource_utils.py\<close>; \<open>K8s_Client\<close> is \<open>client.py\<close>; \<open>K8s_Workload\<close> is the
    interface of \<open>workload_provider.py\<close>, as a record of operations, and the code both providers share;
    \<open>Batch_Provider\<close> and \<open>Agent_Provider\<close> (with \<open>provider_factory.py\<close>) are the providers; \<open>K8s_Service\<close> is
    the service. The cluster is the record \<open>kube_api\<close> over an arbitrary world, next to which the state
    \<open>kstate\<close> has the informer of the client. \<open>K8s_Tasks\<close> adds the task and terminal operations and the scripts
    that the client runs in a pod to reach execd; running a command in a pod is a parameter.
  \<^item> \<open>Http_Auth\<close> holds \<open>auth.py\<close>, \<open>request_id.py\<close>, \<open>terminal_auth.py\<close> and the pure functions of \<open>main.py\<close>;
    \<open>Lifecycle\<close> the handlers of \<open>lifecycle.py\<close> over the record \<open>sandbox_ops\<close>, the interface of
    \<open>sandbox_service.py\<close>, which both services fill (\<open>docker_ops\<close>, \<open>k8s_ops\<close>), and the way of a request
    through key check and routing (\<open>serve\<close>). Routing, the token library and the HTTP client are parameters.
  \<^item> \<open>Schema_Wire\<close> is how the schema reads a request from JSON, by field names and aliases.
  \<^item> \<open>Sdk_Http\<close> holds the HTTP library as the record \<open>httpx_api\<close> over an arbitrary world, the client objects and responses of
    the generated code, the exceptions of \<open>exceptions/\<close> and their conversion; \<open>Sdk_Models\<close> the models of
    \<open>models/sandboxes.py\<close> and their converter; \<open>Sdk_Api\<close> the generated calls, one definition per file; \<open>Sdk_Client\<close> the connection
    configuration and the adapters of life cycle, health, metrics and egress; \<open>Sdk_Commands\<close> the events of a stream, their
    dispatcher and the command adapter; \<open>Sdk_Files\<close> the file adapter; \<open>Sdk_Sandbox\<close> \<open>sandbox.py\<close> and \<open>manager.py\<close>;
    \<open>Sdk_Sync\<close> the operations the synchronous client writes differently.
  \<^item> \<open>Mcp_Server\<close> is \<open>server.py\<close> of the MCP server, one definition per tool; \<open>Code_Interpreter\<close> is the code interpreter and
    \<open>Code_Sync\<close> its synchronous text. Their parameters are those of the client.
  \<^item> \<open>Cli_Config\<close> holds \<open>config.py\<close>, \<open>utils.py\<close> and the commands on settings of the command line client; \<open>Cli_Commands\<close> its shared
    context (\<open>client.py\<close>) and the commands on sandboxes and on commands; \<open>Cli_Files\<close> those on files and code. One definition is one
    command, over the record \<open>cli_env\<close> of the HTTP library, the file system and the terminal.
  Names are those of the source, without leading underscores; where both services have an operation of
  one name, that of the Kubernetes service has the suffix \<open>_k8s\<close>, and where both providers have one, it has
  the prefix \<open>batch_\<close> or \<open>agent_\<close>. A lock makes its block one step. Human-readable messages and log lines
  are left out, except where the code looks into a message.

  What is proved
  --------------
  \<^item> \<open>Validators\<close>, \<open>Config\<close>, \<open>Helpers\<close>, \<open>Py_Regex\<close>, \<open>Py_Path\<close>: the checks accept exactly the requests a
    declarative description calls valid; a validated configuration resolves to a runtime.
  \<^item> \<open>Ossfs\<close>: the contract of the reference counts (locale \<open>ref_registry\<close>), all-or-nothing preparation,
    containment of paths, the command lines.
  \<^item> \<open>Docker_Safety\<close>, \<open>Docker_Creation\<close>: frames, the invariant of the timers over all sequences of
    operations and timer callbacks, expiry, renewal, recovery after a restart, roll-back of failed
    creations, hardening of every container, the background worker. \<open>Docker_Sim\<close> is a concrete host on
    which hypotheses about the daemon hold.
  \<^item> \<open>Informer\<close>: invariants of the watch thread, refinement of the API server's store, termination after
    a stop. \<open>Rate_Limiter\<close>: the bound on admitted calls, the blocking call returns.
  \<^item> \<open>Wp\<close> is a weakest-precondition calculus for the statements. \<open>K8s_Cluster\<close> states what the server
    relies on of a cluster (locale \<open>crd_store\<close>), \<open>K8s_Contract\<close> what the service relies on of a provider
    (locale \<open>workload_provider\<close>), proves the service's operations in it, and shows that both providers
    meet it on every lawful cluster (two sublocales). \<open>K8s_Sim\<close> is a concrete cluster, an interpretation
    of \<open>crd_store\<close>.
  \<^item> \<open>K8s_Safety\<close>: deletion, renewal, pause and resume, the end of the wait loop (locale \<open>ticking\<close>).
    \<open>K8s_Creation\<close>: what a creation adds and that its pod is hardened. \<open>K8s_Names\<close>: resource names and the
    command line of pooled sandboxes. \<open>K8s_Outcomes\<close>: the exceptions and values a caller sees, updates of
    the pod template.
  \<^item> \<open>K8s_Tasks\<close>: the scripts contain a caller's text as data. \<open>Http_Safety\<close>: which requests reach a
    service, what a terminal token opens, which headers a sandbox sees, which secrets are hidden.
  \<^item> \<open>Json_Round\<close>: the JSON a program prints is the JSON that is read. \<open>Sdk_Wire\<close>: the server reads from a request of the client
    what the caller asked for. \<open>Sdk_Outcomes\<close>: clean-up of failed creations, the execution a stream of events stands for,
    the end of the wait for readiness (locale \<open>sdk_clock\<close>). \<open>Sdk_Server\<close>: client and server together, errors and paths.
    \<open>Sdk_Sync\<close>: the synchronous client is the same function. \<open>Mcp_Safety\<close>: the registry in every sequence of tool calls.
    \<open>Code_Interpreter\<close>: errors of execd are reported. \<open>Code_Sync\<close>: what the synchronous code interpreter does differently.
    \<open>Sdk_Filter\<close>: how the server reads a metadata filter of either client. \<open>Cli_Safety\<close>: the sandbox a prefix names, the
    transports of a command, durations, the command a shell reads. \<open>Sdk_Sim\<close> is a concrete HTTP world for witnesses.
  \<^item> This theory: properties that span components.

  Bounds
  ------
  Loops over data are structural recursions. Five loops depend on the outside and have fuel: the search
  for free ports and the blocking acquire are retried as often as the argument says; the wait for a
  workload and the client's wait for readiness end when the clock passes their deadlines, so \<open>create_sandbox_k8s_ends\<close> and
  \<open>check_ready_ends\<close> show that on a clock that advances during sleeps a number of polls computed from the time-out is
  enough; the search of the command line client for a prefix ends after as many requests as there are pages
  (\<open>resolve_sandbox_id_exact\<close>).

  Not modelled
  ------------
  Logging; reading configuration and template files; floating-point rounding (\<open>parse_nano_cpus\<close>, the
  arithmetic of the rate limiter and of quantities is exact here); characters above 255; the routing of the web
  framework, the byte streams of terminal sessions and of followed logs, and the start-up of the server
  (\<open>main.py\<close>, \<open>cli.py\<close>); of the clients the time-outs of single requests, the adapters of the synchronous client that repeat
  the asynchronous text, the generated calls and models that no adapter uses, the MCP
  protocol library, the layout of the command line client's output (\<open>output.py\<close>) and its declarations of options (\<open>main.py\<close>),
  which are calls of the libraries for terminals; the example programs and the script that generates the client code; and the programs in other languages (execd, ingress, egress, the Kubernetes
  controller, the clients in other languages).
\<close>

section \<open>From the configuration to the containers\<close>

text \<open>
  C1. A server whose configuration asks for a secure runtime runs no user code without one: with a
  validated Docker configuration, a creation behaves the same on a daemon that refuses every container
  started through the bootstrap script that names no runtime.
\<close>

theorem secure_config_reaches_containers:
  assumes "validate_app_config c0 = Inr c" and "secure_enabled c" and "cfg_runtime_type c = ''docker''"
  shows "provision_sandbox fuel c (refuse (\<lambda>spec. cs_entrypoint spec = [BOOTSTRAP_PATH] \<longrightarrow>
           given (hc_runtime (cs_host_config spec))) dk) sid r created expires cache =
         provision_sandbox fuel c dk sid r created expires cache"
proof (rule provision_refuse_weaker)
  have "given (get_docker_runtime c)" using secure_runtime_never_dropped_aux [OF assms(1,2)] assms(3) by simp
  then show "cs_entrypoint spec = [BOOTSTRAP_PATH] \<longrightarrow> given (hc_runtime (cs_host_config spec))"
    if "hardened c r spec" for spec
    using that by (auto simp: hardened_def Let_def)
qed

theorem secure_config_reaches_containers_witness:
  "provision_sandbox 1 sample_config (refuse (\<lambda>spec. cs_entrypoint spec = [BOOTSTRAP_PATH] \<longrightarrow>
       given (hc_runtime (cs_host_config spec))) sim_docker) ''s1'' sample_request 7 (Some 100) [] =
   provision_sandbox 1 sample_config sim_docker ''s1'' sample_request 7 (Some 100) []"
  by (rule secure_config_reaches_containers [OF sample_config_valid sample_config_secure])
     (simp add: sample_config_def)

section \<open>What an accepted request is\<close>

text \<open>
  C3. A creation request that passes the checks of \<open>create_sandbox\<close> (the same for the background path)
  is sound: it has a command, no metadata key in the reserved name space, valid and distinctly named
  volumes within the allow-list, a lifetime within the configured maximum and a representable expiry
  instant; and a network policy is accepted only where a sidecar can enforce it.
\<close>

theorem accepted_request_sound:
  assumes "check_create_request c dk r s = (Inr (cache, sid, created, expires), s')"
  shows "req_entrypoint r \<noteq> [] \<and>
    (\<forall>m k v. req_metadata r = Some m \<and> (k, v) \<in> set m \<longrightarrow> \<not> starts_with k RESERVED_LABEL_PREFIX) \<and>
    (\<forall>vs. req_volumes r = Some vs \<longrightarrow> distinct (map vol_name vs) \<and> list_all (volume_valid (allowed_prefixes_of c)) vs) \<and>
    expires = map_option (\<lambda>t. created + t * 1000000) (req_timeout r) \<and>
    (\<forall>t m. req_timeout r = Some t \<and> srv_max_timeout (cfg_server c) = Some m \<longrightarrow> t \<le> m) \<and>
    (\<forall>e. expires = Some e \<longrightarrow> in_range e) \<and>
    (req_network_policy r \<noteq> None \<longrightarrow> network_mode c \<noteq> HOST_NETWORK_MODE \<and> \<not> is_user_defined_network c
       \<and> (\<exists>img. cfg_egress c = Some (Some img) \<and> img \<noteq> []))"
proof -
  from assms obtain now s1 s2 where st:
    "ensure_entrypoint (req_entrypoint r) = ok" "ensure_metadata_labels (req_metadata r) = ok"
    "ensure_timeout_within_limit now (req_timeout r) (srv_max_timeout (cfg_server c)) = ok"
    "ensure_network_policy_support c r = ok"
    "validate_volumes c dk r s1 = (Inr cache, s2)"
    "prepare_creation_context dk r s2 = (Inr (sid, created, expires), s')"
    by (auto simp: check_create_request_def liftR_def retS_def elim!: bindS_InrE)
  have "expires = map_option (\<lambda>t. created + t * 1000000) (req_timeout r) \<and> (\<forall>e. expires = Some e \<longrightarrow> in_range e)"
    using st(6)
    by (auto simp: prepare_creation_context_def liftR_def retS_def calculate_expiration_or_raise_def Let_def
        split: option.splits if_splits elim!: bindS_InrE)
  moreover have "distinct (map vol_name vs) \<and> list_all (volume_valid (allowed_prefixes_of c)) vs"
    if "req_volumes r = Some vs" for vs
    using st(5) that
    by (cases "vs = []") (auto simp: validate_volumes_def liftR_def ensure_volumes_valid_def
        ensure_volumes_loop_iff elim!: bindS_InrE)
  moreover have "t \<le> m" if "req_timeout r = Some t" "srv_max_timeout (cfg_server c) = Some m" for t m
    using st(3) that by (auto simp: ensure_timeout_within_limit_def res_simps)
  moreover have "network_mode c \<noteq> HOST_NETWORK_MODE \<and> \<not> is_user_defined_network c
       \<and> (\<exists>img. cfg_egress c = Some (Some img) \<and> img \<noteq> [])" if "req_network_policy r \<noteq> None"
    using st(4) that
    by (auto simp: ensure_network_policy_support_def ensure_egress_configured_def given_def res_simps
        split: option.splits if_splits)
  moreover have "\<not> starts_with k RESERVED_LABEL_PREFIX" if "req_metadata r = Some m" "(k, v) \<in> set m" for m k v
    using ensure_metadata_labels_keys(1) [of m k v] st(2) that by auto
  moreover have "req_entrypoint r \<noteq> []" using st(1) by (auto simp: ensure_entrypoint_def res_simps)
  ultimately show ?thesis by blast
qed

definition guarded_request :: create_request where
  "guarded_request = sample_request\<lparr>req_network_policy := Some \<lparr>default_action = Some ''deny'', egress_rules = []\<rparr>,
     req_volumes := Some [host_volume]\<rparr>"

theorem accepted_request_sound_witness:
  "\<not> starts_with ''team'' RESERVED_LABEL_PREFIX \<and>
   list_all (volume_valid (Some [''/data''])) [host_volume] \<and>
   in_range 600000007 \<and>
   network_mode sample_config \<noteq> HOST_NETWORK_MODE \<and> \<not> is_user_defined_network sample_config"
proof -
  have "check_create_request sample_config sim_docker guarded_request (sim_service [] [] 7) =
      (Inr ([], ''sb-new'', 7, Some 600000007), sim_service [] [] 7)" by code_simp
  note a = accepted_request_sound [OF this]
  have g: "req_metadata guarded_request = Some [(''team'', ''a'')]" "req_volumes guarded_request = Some [host_volume]"
      "req_network_policy guarded_request \<noteq> None" "allowed_prefixes_of sample_config = Some [''/data'']"
    by (simp_all add: guarded_request_def sample_request_def allowed_prefixes_of_def sample_config_def)
  show ?thesis using a g by auto
qed

section \<open>One listing, two runtimes\<close>

text \<open>
  The Kubernetes service cuts a listing into pages exactly as the Docker service does: for every page
  and page size the request schema admits, both return the same items in the same order and the same
  page information.
\<close>

theorem paginate_k8s_equivalent:
  assumes "1 \<le> page p" and "1 \<le> page_size p"
  shows "paginate_k8s (Some p) sandboxes = Inr (paginate (Some p) sandboxes)"
proof -
  let ?start = "(page p - 1) * page_size p"
  have "0 \<le> ?start" using assms by simp
  then have "nat (?start + page_size p) - nat ?start = nat (page_size p)" using assms by linarith
  then have "drop (nat ?start) (take (nat (?start + page_size p)) l) = take (nat (page_size p)) (drop (nat ?start) l)"
    for l :: "sandbox list"
    by (simp add: drop_take)
  moreover have "(0 + page_size p - 1) div page_size p = 0" using assms by simp
  ultimately show ?thesis using assms by (simp add: paginate_k8s_def paginate_def Let_def)
qed

theorem paginate_k8s_equivalent_witness:
  "paginate_k8s (Some \<lparr>page = 2, page_size = 20\<rparr>) [] = Inr (paginate (Some \<lparr>page = 2, page_size = 20\<rparr>) [])"
  by (rule paginate_k8s_equivalent) simp_all

end
